(* ===== verification/Prelude.thy ===== *)
theory Prelude
  imports Main "HOL-Library.Word"
begin

unbundle bit_operations_syntax

text \<open>
  The vocabulary every component shares: the machine integers of the C code, memory as a
  total map from addresses to bytes, the loads and byte-order functions the decoder is
  built on, C strings, fixed-size character buffers, and the number printing that
  \<open>IP_to_a\<close>, \<open>printHex\<close> and their kin rely on.

  The host is little-endian (the tool is built for x86), so \<open>*(uint32_t *)p\<close> is a
  little-endian load and \<open>ntohl\<close>/\<open>ntohs\<close> swap the bytes.
\<close>

section \<open>Collections of facts\<close>

named_theorems contract_intro \<open>rules that push a contract through the statements of a reader\<close>
named_theorems takes_intro \<open>rules that compute how many bytes a reader consumes\<close>

section \<open>Machine integers and memory\<close>

type_synonym u8 = "8 word"
type_synonym u16 = "16 word"
type_synonym u32 = "32 word"
type_synonym u64 = "64 word"
type_synonym addr = int
type_synonym memory = "addr \<Rightarrow> u8"

definition le16 :: "u8 \<Rightarrow> u8 \<Rightarrow> u16" where
  "le16 b0 b1 = ucast b0 OR push_bit 8 (ucast b1)"

definition le32 :: "u8 \<Rightarrow> u8 \<Rightarrow> u8 \<Rightarrow> u8 \<Rightarrow> u32" where
  "le32 b0 b1 b2 b3 =
     ucast b0 OR push_bit 8 (ucast b1) OR push_bit 16 (ucast b2) OR push_bit 24 (ucast b3)"

definition be16 :: "u8 \<Rightarrow> u8 \<Rightarrow> u16" where
  "be16 b0 b1 = le16 b1 b0"

definition be32 :: "u8 \<Rightarrow> u8 \<Rightarrow> u8 \<Rightarrow> u8 \<Rightarrow> u32" where
  "be32 b0 b1 b2 b3 = le32 b3 b2 b1 b0"

definition load8 :: "memory \<Rightarrow> addr \<Rightarrow> u8" where
  "load8 m p = m p"

definition load16 :: "memory \<Rightarrow> addr \<Rightarrow> u16" where
  "load16 m p = le16 (m p) (m (p + 1))"

definition load32 :: "memory \<Rightarrow> addr \<Rightarrow> u32" where
  "load32 m p = le32 (m p) (m (p + 1)) (m (p + 2)) (m (p + 3))"

text \<open>\<open>memcpy\<close> out of memory: the \<open>n\<close> bytes from \<open>p\<close> on.\<close>

definition load_bytes :: "memory \<Rightarrow> addr \<Rightarrow> nat \<Rightarrow> u8 list" where
  "load_bytes m p n = map (\<lambda>i. m (p + int i)) [0..<n]"

lemma length_load_bytes [simp]: "length (load_bytes m p n) = n"
  by (simp add: load_bytes_def)

lemma nth_load_bytes [simp]: "i < n \<Longrightarrow> load_bytes m p n ! i = m (p + int i)"
  by (simp add: load_bytes_def)

lemma take_load_bytes [simp]: "take k (load_bytes m p n) = load_bytes m p (min k n)"
  by (rule nth_equalityI) simp_all

text \<open>Storing the bytes of a list, as received in a buffer, at address 0.\<close>

definition mem_of :: "u8 list \<Rightarrow> memory" where
  "mem_of bs = (\<lambda>a. if 0 \<le> a \<and> a < int (length bs) then bs ! nat a else 0)"

section \<open>Byte order\<close>

text \<open>\<open>MyByteSwap32\<close> and \<open>MyByteSwap16\<close> of the source, and the library's byte-order
  functions, which on this host are the same swap.\<close>

definition MyByteSwap32 :: "u32 \<Rightarrow> u32" where
  "MyByteSwap32 n =
     push_bit 24 (n AND 0x000000FF) + push_bit 8 (n AND 0x0000FF00) +
     drop_bit 8 (n AND 0x00FF0000) + drop_bit 24 (n AND 0xFF000000)"

definition MyByteSwap16 :: "u16 \<Rightarrow> u16" where
  "MyByteSwap16 n = drop_bit 8 n OR push_bit 8 n"

definition ntohl :: "u32 \<Rightarrow> u32" where
  "ntohl w = le32 (ucast (drop_bit 24 w)) (ucast (drop_bit 16 w)) (ucast (drop_bit 8 w)) (ucast w)"

definition ntohs :: "u16 \<Rightarrow> u16" where
  "ntohs w = le16 (ucast (drop_bit 8 w)) (ucast w)"

abbreviation htonl :: "u32 \<Rightarrow> u32" where "htonl \<equiv> ntohl"
abbreviation htons :: "u16 \<Rightarrow> u16" where "htons \<equiv> ntohs"

text \<open>The bytes of a word in memory order (what \<open>memcpy\<close> from the word sees).\<close>

definition bytes_of_u32 :: "u32 \<Rightarrow> u8 list" where
  "bytes_of_u32 w = [ucast w, ucast (drop_bit 8 w), ucast (drop_bit 16 w), ucast (drop_bit 24 w)]"

definition bytes_of_u16 :: "u16 \<Rightarrow> u8 list" where
  "bytes_of_u16 w = [ucast w, ucast (drop_bit 8 w)]"

lemma length_bytes_of_u32 [simp]: "length (bytes_of_u32 w) = 4"
  by (simp add: bytes_of_u32_def)

lemma length_bytes_of_u16 [simp]: "length (bytes_of_u16 w) = 2"
  by (simp add: bytes_of_u16_def)

text \<open>Two words are equal when they agree on each of their bits, taken one by one.\<close>

lemma upt_0_32: "[0..<32] = [0, 1, 2, 3, 4, 5, 6, 7, 8, 9, 10, 11, 12, 13, 14, 15,
     16, 17, 18, 19, 20, 21, 22, 23, 24, 25, 26, 27, 28, 29, 30, 31]"
  by code_simp

lemma upt_0_16: "[0..<16] = [0, 1, 2, 3, 4, 5, 6, 7, 8, 9, 10, 11, 12, 13, 14, 15]"
  by code_simp

lemma u32_eqI: "list_all (\<lambda>n. bit a n = bit b n) [0..<32] \<Longrightarrow> a = (b :: u32)"
  by (rule bit_word_eqI) (simp add: list_all_iff)

lemma u16_eqI: "list_all (\<lambda>n. bit a n = bit b n) [0..<16] \<Longrightarrow> a = (b :: u16)"
  by (rule bit_word_eqI) (simp add: list_all_iff)

lemma bit_u8_lt: "bit (b :: u8) n \<Longrightarrow> n < 8"
  using bit_imp_le_length [of b n] by simp

lemma le32_extract [simp]:
  "ucast (le32 b0 b1 b2 b3) = b0"
  "ucast (drop_bit 8 (le32 b0 b1 b2 b3)) = b1"
  "ucast (drop_bit 16 (le32 b0 b1 b2 b3)) = b2"
  "ucast (drop_bit 24 (le32 b0 b1 b2 b3)) = b3"
  unfolding le32_def
  by (rule bit_word_eqI; auto simp: bit_simps dest: bit_u8_lt)+

lemma le16_extract [simp]:
  "ucast (le16 b0 b1) = b0"
  "ucast (drop_bit 8 (le16 b0 b1)) = b1"
  unfolding le16_def
  by (rule bit_word_eqI; auto simp: bit_simps dest: bit_u8_lt)+

lemma le32_of_bytes [simp]:
  "le32 (ucast w) (ucast (drop_bit 8 w)) (ucast (drop_bit 16 w)) (ucast (drop_bit 24 w)) = w"
  unfolding le32_def
  by (rule u32_eqI) (simp add: bit_simps upt_0_32)

lemma le16_of_bytes [simp]: "le16 (ucast w) (ucast (drop_bit 8 w)) = w"
  unfolding le16_def
  by (rule bit_word_eqI) (auto simp: bit_simps)

lemma ntohl_le32 [simp]: "ntohl (le32 b0 b1 b2 b3) = be32 b0 b1 b2 b3"
  by (simp add: ntohl_def be32_def)

lemma ntohs_le16 [simp]: "ntohs (le16 b0 b1) = be16 b0 b1"
  by (simp add: ntohs_def be16_def)

lemma ntohl_ntohl [simp]: "ntohl (ntohl w) = w"
  by (simp add: ntohl_def)

lemma ntohs_ntohs [simp]: "ntohs (ntohs w) = w"
  by (simp add: ntohs_def)

lemma MyByteSwap32_or:
  "MyByteSwap32 w = ((push_bit 24 (w AND 0x000000FF) OR push_bit 8 (w AND 0x0000FF00)) OR
     drop_bit 8 (w AND 0x00FF0000)) OR drop_bit 24 (w AND 0xFF000000)"
proof -
  define a b c d where "a = push_bit 24 (w AND 0x000000FF)" and "b = push_bit 8 (w AND 0x0000FF00)"
    and "c = drop_bit 8 (w AND 0x00FF0000)" and "d = drop_bit 24 (w AND 0xFF000000)"
  note defs = a_def b_def c_def d_def
  have "a AND b = 0"
    unfolding defs by (rule u32_eqI) (simp add: bit_simps upt_0_32)
  then have ab: "a + b = a OR b"
    by (rule disjunctive_add_eq_or)
  have "(a OR b) AND c = 0"
    unfolding defs by (rule u32_eqI) (simp add: bit_simps upt_0_32)
  then have abc: "(a OR b) + c = (a OR b) OR c"
    by (rule disjunctive_add_eq_or)
  have "((a OR b) OR c) AND d = 0"
    unfolding defs by (rule u32_eqI) (simp add: bit_simps upt_0_32)
  then have "((a OR b) OR c) + d = ((a OR b) OR c) OR d"
    by (rule disjunctive_add_eq_or)
  then show ?thesis
    by (simp only: MyByteSwap32_def ab abc flip: defs)
qed

lemma MyByteSwap32_ntohl: "MyByteSwap32 w = ntohl w"
  unfolding MyByteSwap32_or ntohl_def le32_def
  by (rule u32_eqI) (simp add: bit_simps upt_0_32)

lemma MyByteSwap16_ntohs: "MyByteSwap16 w = ntohs w"
  unfolding MyByteSwap16_def ntohs_def le16_def
  by (rule u16_eqI) (auto simp: bit_simps upt_0_16 dest: bit_imp_le_length)

section \<open>Strings and character buffers\<close>

text \<open>
  A C character array is a list of bytes of fixed length; \<open>memcpy\<close> into it overwrites a
  prefix (a longer source would make the list longer, which is how an overflow shows up).
  The string it holds ends at the first zero byte.
\<close>

definition chars :: "u8 list \<Rightarrow> string" where
  "chars bs = map (\<lambda>b. char_of (unat b)) bs"

definition cstr :: "u8 list \<Rightarrow> string" where
  "cstr buf = chars (takeWhile (\<lambda>b. b \<noteq> 0) buf)"

definition overwrite :: "u8 list \<Rightarrow> u8 list \<Rightarrow> u8 list" where
  "overwrite buf bs = bs @ drop (length bs) buf"

lemma length_overwrite [simp]:
  "length bs \<le> length buf \<Longrightarrow> length (overwrite buf bs) = length buf"
  by (simp add: overwrite_def)

text \<open>\<open>%u\<close> of a number, \<open>%02x\<close> of a byte.\<close>

fun show_dec :: "nat \<Rightarrow> string" where
  "show_dec n = (if n < 10 then [char_of (48 + n)]
                 else show_dec (n div 10) @ [char_of (48 + n mod 10)])"

declare show_dec.simps [simp del]

definition hex_digit :: "nat \<Rightarrow> char" where
  "hex_digit n = char_of (if n < 10 then 48 + n else 87 + n)"

definition show_hex2 :: "u8 \<Rightarrow> string" where
  "show_hex2 b = [hex_digit (unat b div 16), hex_digit (unat b mod 16)]"

section \<open>Dispatch\<close>

text \<open>A C \<open>switch\<close> whose cases each end in \<open>break\<close>.\<close>

fun switch :: "'k \<Rightarrow> ('k \<times> 'm) list \<Rightarrow> 'm \<Rightarrow> 'm" where
  "switch k [] d = d"
| "switch k ((c, m) # cs) d = (if k = c then m else switch k cs d)"

text \<open>A property of the bodies of all cases.\<close>

fun all_cases :: "('m \<Rightarrow> bool) \<Rightarrow> ('k \<times> 'm) list \<Rightarrow> bool" where
  "all_cases P [] = True"
| "all_cases P ((c, m) # cs) = (P m \<and> all_cases P cs)"

lemma all_cases_append: "all_cases P (xs @ ys) \<longleftrightarrow> all_cases P xs \<and> all_cases P ys"
  by (induction P xs rule: all_cases.induct) auto

lemma switch_default: "k \<notin> fst ` set cs \<Longrightarrow> switch k cs d = d"
  by (induction k cs d rule: switch.induct) auto

lemma switch_case:
  "distinct (map fst cs) \<Longrightarrow> (k, m) \<in> set cs \<Longrightarrow> switch k cs d = m"
  by (induction k cs d rule: switch.induct) (auto simp: rev_image_eqI)

lemma switch_cases: "switch k cs d = d \<or> switch k cs d \<in> snd ` set cs"
  by (induction k cs d rule: switch.induct) auto

end
