(* ===== verification/Machine.thy ===== *)
theory Machine
  imports Prelude
begin

text \<open>
  The state of the decoder and the language its readers are written in.

  \<open>state\<close> holds the decode cursor of \<open>SFSample\<close> (the raw datagram, its length, \<open>datap\<close> and
  \<open>endp\<close>), the rest of \<open>SFSample\<close> as the record \<open>SFSample\<close>, the globals \<open>sfConfig\<close>,
  \<open>sfCLF\<close> and \<open>NFFlowSequenceNo\<close>, the wall clock, and everything the program has emitted.
  Pointers into the datagram are offsets from \<open>rawSample\<close>.

  A reader takes the state and gives a result and the next state. The result is a value,
  a \<open>longjmp\<close> to the exception context (\<open>SFABORT\<close>), a call of \<open>custom_exit\<close>, or
  \<open>Undef\<close>: an access outside a C array, after which nothing is known. State and output
  survive an abort, as they do in C.
\<close>

section \<open>Data\<close>

subsection \<open>Addresses\<close>

text \<open>\<open>SFLAddress\<close>: a type tag and the union of an IPv4 word and sixteen IPv6 bytes; the
  union is its sixteen bytes, and \<open>ip_v4\<close> is the word over the first four.\<close>

record SFLAddress =
  addr_type :: u32
  addr_bytes :: "u8 list"

abbreviation SFLADDRESSTYPE_UNDEFINED :: u32 where "SFLADDRESSTYPE_UNDEFINED \<equiv> 0"
abbreviation SFLADDRESSTYPE_IP_V4 :: u32 where "SFLADDRESSTYPE_IP_V4 \<equiv> 1"
abbreviation SFLADDRESSTYPE_IP_V6 :: u32 where "SFLADDRESSTYPE_IP_V6 \<equiv> 2"

definition zero_address :: SFLAddress where
  "zero_address = \<lparr>addr_type = 0, addr_bytes = replicate 16 0\<rparr>"

definition ip_v4 :: "SFLAddress \<Rightarrow> u32" where
  "ip_v4 a = le32 (addr_bytes a ! 0) (addr_bytes a ! 1) (addr_bytes a ! 2) (addr_bytes a ! 3)"

definition set_ip_v4 :: "u32 \<Rightarrow> SFLAddress \<Rightarrow> SFLAddress" where
  "set_ip_v4 w a = a\<lparr>addr_bytes := overwrite (addr_bytes a) (bytes_of_u32 w)\<rparr>"

definition set_ip_v6 :: "u8 list \<Rightarrow> SFLAddress \<Rightarrow> SFLAddress" where
  "set_ip_v6 bs a = a\<lparr>addr_bytes := overwrite (addr_bytes a) bs\<rparr>"

lemma ip_v4_set [simp]: "ip_v4 (set_ip_v4 w a) = w"
  by (simp add: ip_v4_def set_ip_v4_def overwrite_def bytes_of_u32_def)

subsection \<open>Interface counters\<close>

record SFLIf_counters =
  ifIndex :: u32
  ifType :: u32
  ifSpeed :: u64
  ifDirection :: u32
  ifStatus :: u32
  ifInOctets :: u64
  ifInUcastPkts :: u32
  ifInMulticastPkts :: u32
  ifInBroadcastPkts :: u32
  ifInDiscards :: u32
  ifInErrors :: u32
  ifInUnknownProtos :: u32
  ifOutOctets :: u64
  ifOutUcastPkts :: u32
  ifOutMulticastPkts :: u32
  ifOutBroadcastPkts :: u32
  ifOutDiscards :: u32
  ifOutErrors :: u32
  ifPromiscuousMode :: u32

subsection \<open>The sample\<close>

text \<open>
  \<open>SFSample\<close> without its cursor. The fields come in the groups the struct's comments
  name; C \<open>int\<close> flags are booleans, C \<open>int\<close> offsets and lengths are 32-bit words read
  as signed where the code compares or adds them, and pointers into the datagram are
  offsets. \<open>struct sflow_ddos_counters\<close>, a struct of some two thousand numbers in nested
  structs, is a function from the C path of a number (\<open>''l4_tcp.tcp_syn_rcvd''\<close>) to its value,
  widened to 64 bits; its address fields are kept as bytes.
\<close>

record SFSample_stream =
  sourceIP :: SFLAddress
  agent_addr :: SFLAddress
  agentSubId :: u32
  pcapTimestamp :: u32
  datagramVersion :: u32
  sampleType :: u32
  ds_class :: u32
  ds_index :: u32
  ifCounters :: SFLIf_counters
  sysUpTime :: u32
  sequenceNo :: u32
  sampledPacketSize :: u32
  samplesGenerated :: u32
  meanSkipCount :: u32
  samplePool :: u32
  dropEvents :: u32

record SFSample_header = SFSample_stream +
  packet_data_tag :: u32
  headerProtocol :: u32
  header :: addr
  headerLen :: u32
  stripped :: u32
  gotIPV4 :: bool
  gotIPV4Struct :: bool
  offsetToIPV4 :: u32
  gotIPV6 :: bool
  gotIPV6Struct :: bool
  offsetToIPV6 :: u32
  offsetToPayload :: u32
  ipsrc :: SFLAddress
  ipdst :: SFLAddress
  dcd_ipProtocol :: u32
  dcd_ipTos :: u32
  dcd_ipTTL :: u32
  dcd_sport :: u32
  dcd_dport :: u32
  dcd_tcpFlags :: u32
  ip_fragmentOffset :: u32
  udp_pduLen :: u32

record SFSample_ports = SFSample_header +
  inputPortFormat :: u32
  outputPortFormat :: u32
  inputPort :: u32
  outputPort :: u32
  eth_type :: u32
  eth_len :: u32
  eth_src :: "u8 list"
  eth_dst :: "u8 list"
  in_vlan :: u32
  in_priority :: u32
  internalPriority :: u32
  out_vlan :: u32
  out_priority :: u32

record SFSample_extended = SFSample_ports +
  num_extended :: u32
  extended_data_tag :: u32
  nextHop :: SFLAddress
  srcMask :: u32
  dstMask :: u32
  bgp_nextHop :: SFLAddress
  my_as :: u32
  src_as :: u32
  src_peer_as :: u32
  dst_as_path_len :: u32
  dst_as_path :: addr
  dst_peer_as :: u32
  dst_as :: u32
  communities_len :: u32
  communities :: addr
  localpref :: u32

record SFSample = SFSample_extended +
  src_user_charset :: u32
  src_user_len :: u32
  src_user :: "u8 list"
  dst_user_charset :: u32
  dst_user_len :: u32
  dst_user :: "u8 list"
  url_direction :: u32
  url_len :: u32
  url :: "u8 list"
  host_len :: u32
  host :: "u8 list"
  mpls_nextHop :: SFLAddress
  nat_src :: SFLAddress
  nat_dst :: SFLAddress
  statsSamplingInterval :: u32
  counterBlockVersion :: u32
  current_context_length :: u32
  sfl_ddos_desc :: "u8 list"
  ddos :: "string \<Rightarrow> u64"
  ddos_addr :: "string \<Rightarrow> u8 list"

subsection \<open>Configuration and the other globals\<close>

datatype EnumSFLFormat =
  SFLFMT_FULL | SFLFMT_PCAP | SFLFMT_LINE | SFLFMT_NETFLOW | SFLFMT_FWD | SFLFMT_CLF | SFLFMT_TSD

record pcap_file_header =
  pcap_magic :: u32
  version_major :: u16
  version_minor :: u16
  thiszone :: u32
  sigfigs :: u32
  snaplen :: u32
  linktype :: u32

text \<open>\<open>SFForwardingTarget\<close>: the resolved host, the port, and the socket it is sent on.\<close>

record SFForwardingTarget =
  target_host :: u32
  target_port :: u32
  target_sock :: int

text \<open>\<open>SFConfig\<close>, except \<open>ipid\<close> and \<open>sendPkt\<close>: those two change while decoding and stand
  in the state (\<open>spoof\<close>).  \<open>vlanFilter\<close> is the array of \<open>FILTER_MAX_VLAN + 1\<close> flags.\<close>

abbreviation FILTER_MAX_VLAN :: nat where "FILTER_MAX_VLAN \<equiv> 4096"

record SFConfig =
  sFlowInputPort :: u16
  netFlowOutputPort :: u16
  netFlowOutputIP :: u32
  netFlowOutputSocket :: int
  netFlowPeerAS :: bool
  disableNetFlowScale :: bool
  readPcapFileName :: "string option"
  readPcapHdr :: pcap_file_header
  outputFormat :: EnumSFLFormat
  tcpdumpHdrPad :: u32
  zeroPad :: "u8 list"
  pcapSwap :: bool
  spoofSource :: bool
  forwardingTargets :: "SFForwardingTarget list"
  gotVlanFilter :: bool
  vlanFilter :: "bool list"
  removeContent :: bool
  listen4 :: bool
  listen6 :: bool
  listenControlled :: bool

record SFCommonLogFormat =
  clf_valid :: bool
  clf_client :: string
  clf_http_log :: "(string \<times> u32 \<times> string \<times> string \<times> u32 \<times> u32 \<times> u32 \<times> u64 \<times> string \<times> string) option"

text \<open>The headers of the packet template used when NetFlow is sent from a spoofed source;
  the fields hold what is in memory, so multi-byte fields are in network order.\<close>

record myiphdr =
  version_and_headerLen :: u8
  tos :: u8
  tot_len :: u16
  ip_id :: u16
  frag_off :: u16
  ttl :: u8
  protocol :: u8
  check :: u16
  saddr :: u32
  daddr :: u32

record myudphdr =
  uh_sport :: u16
  uh_dport :: u16
  uh_ulen :: u16
  uh_sum :: u16

record spoof_state =
  ipid :: u16
  send_ip :: myiphdr
  send_udp :: myudphdr
  send_data :: "u8 list"

subsection \<open>Output\<close>

text \<open>
  Everything the program emits, in order: formatted text as the format string with its
  operands (so a line is known before \<open>printf\<close> renders it), and the packets it writes
  or sends. \<open>APercent h\<close> is the operand \<open>(float)h / 100.0\<close>, \<open>AFloat w\<close> the single
  precision number with bit pattern \<open>w\<close>, and \<open>APtr p\<close> the bytes at \<open>p\<close> up to the first zero.
\<close>

datatype arg = A32 u32 | A64 u64 | AStr string | APercent u32 | AFloat u32 | APtr addr

abbreviation A8 :: "u8 \<Rightarrow> arg" where "A8 b \<equiv> A32 (ucast b)"

datatype event =
    Out string "arg list"
  | Err string "arg list"
  | PcapWrite "u8 list"
  | Send int "u8 list"
  | SendTo int u32 "u8 list"
  | Forward SFForwardingTarget "u8 list"
  | DbPut string string "(string \<times> u64) list"
  | DbPutObject string string int string
  | Tsdb "(string \<times> arg list) list"

text \<open>The packets of the NetFlow exporter, which it numbers.\<close>

fun is_export :: "event \<Rightarrow> bool" where
  "is_export (Send sock bs) = True"
| "is_export (SendTo sock dest bs) = True"
| "is_export e = False"

subsection \<open>The machine state\<close>

text \<open>\<open>totals\<close> holds the file's static 64-bit sums (\<open>packet_anomaly_dropped\<close> and the like) by name.\<close>

record state =
  rawSample :: memory
  rawSampleLen :: u32
  endp :: addr
  datap :: addr
  smp :: SFSample
  cfg :: SFConfig
  clf :: SFCommonLogFormat
  spoof :: spoof_state
  NFFlowSequenceNo :: u32
  clock :: u32
  totals :: "string \<Rightarrow> u64"
  out :: "event list"

text \<open>
  Static storage and \<open>memset\<close> start everything at zero: the sample \<open>readPacket\<close> clears before
  it decodes, the global configuration and common-log record before \<open>main\<close>, and the state
  in which a datagram has just been received.
\<close>

definition zero_sample :: SFSample where
  "zero_sample = \<lparr>
     sourceIP = zero_address, agent_addr = zero_address, agentSubId = 0, pcapTimestamp = 0,
     datagramVersion = 0, sampleType = 0, ds_class = 0, ds_index = 0,
     ifCounters = \<lparr>ifIndex = 0, ifType = 0, ifSpeed = 0, ifDirection = 0, ifStatus = 0,
       ifInOctets = 0, ifInUcastPkts = 0, ifInMulticastPkts = 0, ifInBroadcastPkts = 0,
       ifInDiscards = 0, ifInErrors = 0, ifInUnknownProtos = 0, ifOutOctets = 0,
       ifOutUcastPkts = 0, ifOutMulticastPkts = 0, ifOutBroadcastPkts = 0, ifOutDiscards = 0,
       ifOutErrors = 0, ifPromiscuousMode = 0\<rparr>,
     sysUpTime = 0, sequenceNo = 0, sampledPacketSize = 0, samplesGenerated = 0,
     meanSkipCount = 0, samplePool = 0, dropEvents = 0,
     packet_data_tag = 0, headerProtocol = 0, header = 0, headerLen = 0, stripped = 0,
     gotIPV4 = False, gotIPV4Struct = False, offsetToIPV4 = 0, gotIPV6 = False,
     gotIPV6Struct = False, offsetToIPV6 = 0, offsetToPayload = 0, ipsrc = zero_address,
     ipdst = zero_address, dcd_ipProtocol = 0, dcd_ipTos = 0, dcd_ipTTL = 0, dcd_sport = 0,
     dcd_dport = 0, dcd_tcpFlags = 0, ip_fragmentOffset = 0, udp_pduLen = 0,
     inputPortFormat = 0, outputPortFormat = 0, inputPort = 0, outputPort = 0, eth_type = 0,
     eth_len = 0, eth_src = replicate 8 0, eth_dst = replicate 8 0, in_vlan = 0,
     in_priority = 0, internalPriority = 0, out_vlan = 0, out_priority = 0,
     num_extended = 0, extended_data_tag = 0, nextHop = zero_address, srcMask = 0, dstMask = 0,
     bgp_nextHop = zero_address, my_as = 0, src_as = 0, src_peer_as = 0, dst_as_path_len = 0,
     dst_as_path = 0, dst_peer_as = 0, dst_as = 0, communities_len = 0, communities = 0,
     localpref = 0,
     src_user_charset = 0, src_user_len = 0, src_user = replicate 201 0, dst_user_charset = 0,
     dst_user_len = 0, dst_user = replicate 201 0, url_direction = 0, url_len = 0,
     url = replicate 201 0, host_len = 0, host = replicate 201 0, mpls_nextHop = zero_address,
     nat_src = zero_address, nat_dst = zero_address, statsSamplingInterval = 0,
     counterBlockVersion = 0, current_context_length = 0, sfl_ddos_desc = replicate 64 0,
     ddos = (\<lambda>_. 0), ddos_addr = (\<lambda>_. replicate 16 0)\<rparr>"

definition zero_config :: SFConfig where
  "zero_config = \<lparr>
     sFlowInputPort = 0, netFlowOutputPort = 0, netFlowOutputIP = 0, netFlowOutputSocket = 0,
     netFlowPeerAS = False, disableNetFlowScale = False, readPcapFileName = None,
     readPcapHdr = \<lparr>pcap_magic = 0, version_major = 0, version_minor = 0, thiszone = 0,
       sigfigs = 0, snaplen = 0, linktype = 0\<rparr>,
     outputFormat = SFLFMT_FULL, tcpdumpHdrPad = 0, zeroPad = replicate 100 0, pcapSwap = False,
     spoofSource = False, forwardingTargets = [], gotVlanFilter = False,
     vlanFilter = replicate 4097 False, removeContent = False, listen4 = False, listen6 = False,
     listenControlled = False\<rparr>"

definition zero_state :: "memory \<Rightarrow> u32 \<Rightarrow> state" where
  "zero_state m n = \<lparr>
     rawSample = m, rawSampleLen = n, endp = uint n, datap = 0, smp = zero_sample,
     cfg = zero_config, clf = \<lparr>clf_valid = False, clf_client = '''', clf_http_log = None\<rparr>,
     spoof = \<lparr>ipid = 0,
       send_ip = \<lparr>version_and_headerLen = 0, tos = 0, tot_len = 0, ip_id = 0, frag_off = 0,
         ttl = 0, protocol = 0, check = 0, saddr = 0, daddr = 0\<rparr>,
       send_udp = \<lparr>uh_sport = 0, uh_dport = 0, uh_ulen = 0, uh_sum = 0\<rparr>,
       send_data = replicate 2000 0\<rparr>,
     NFFlowSequenceNo = 0, clock = 0, totals = (\<lambda>_. 0), out = []\<rparr>"

text \<open>The datagram \<open>bs\<close>, just received.\<close>

abbreviation received :: "u8 list \<Rightarrow> state" where
  "received bs \<equiv> zero_state (mem_of bs) (of_nat (length bs))"

lemma zero_state_simps [simp]:
  "rawSample (zero_state m n) = m" "rawSampleLen (zero_state m n) = n"
  "endp (zero_state m n) = uint n" "datap (zero_state m n) = 0"
  "smp (zero_state m n) = zero_sample" "cfg (zero_state m n) = zero_config"
  "out (zero_state m n) = []" "clock (zero_state m n) = 0"
  "NFFlowSequenceNo (zero_state m n) = 0"
  by (simp_all add: zero_state_def)

section \<open>Readers\<close>

datatype abort_code = SF_ABORT_EOS | SF_ABORT_DECODE_ERROR | SF_ABORT_LENGTH_ERROR

datatype fault = Abort abort_code | Exit int | Undef

type_synonym 'a dec = "state \<Rightarrow> (fault + 'a) \<times> state"

definition ret :: "'a \<Rightarrow> 'a dec" where
  "ret v = (\<lambda>s. (Inr v, s))"

definition bnd :: "'a dec \<Rightarrow> ('a \<Rightarrow> 'b dec) \<Rightarrow> 'b dec" where
  "bnd m f = (\<lambda>s. case m s of (Inl e, t) \<Rightarrow> (Inl e, t) | (Inr v, t) \<Rightarrow> f v t)"

definition gets :: "(state \<Rightarrow> 'a) \<Rightarrow> 'a dec" where
  "gets f = (\<lambda>s. (Inr (f s), s))"

definition fail :: "fault \<Rightarrow> 'a dec" where
  "fail e = (\<lambda>s. (Inl e, s))"

abbreviation SFABORT :: "abort_code \<Rightarrow> 'a dec" where "SFABORT c \<equiv> fail (Abort c)"
abbreviation custom_exit :: "int \<Rightarrow> 'a dec" where "custom_exit n \<equiv> fail (Exit n)"

text \<open>The statements of a C block, one after the other.\<close>

fun block :: "unit dec list \<Rightarrow> unit dec" where
  "block [] = ret ()"
| "block (m # ms) = bnd m (\<lambda>_. block ms)"

definition only_if :: "bool \<Rightarrow> unit dec \<Rightarrow> unit dec" where
  "only_if b m = (if b then m else ret ())"

text \<open>Reading a field of the sample, writing one (\<open>put f_update v\<close> is \<open>sample->f = v\<close>),
  and storing the result of a reader in one.\<close>

definition fetch :: "(SFSample \<Rightarrow> 'a) \<Rightarrow> 'a dec" where
  "fetch f = gets (\<lambda>s. f (smp s))"

definition put :: "(('a \<Rightarrow> 'a) \<Rightarrow> SFSample \<Rightarrow> SFSample) \<Rightarrow> 'a \<Rightarrow> unit dec" where
  "put upd v = (\<lambda>s. (Inr (), s\<lparr>smp := upd (\<lambda>_. v) (smp s)\<rparr>))"

definition alter :: "(SFSample \<Rightarrow> SFSample) \<Rightarrow> unit dec" where
  "alter f = (\<lambda>s. (Inr (), s\<lparr>smp := f (smp s)\<rparr>))"

text \<open>\<open>memcpy\<close> to the start of a field that holds an array.\<close>

abbreviation copy_into :: "((u8 list \<Rightarrow> u8 list) \<Rightarrow> SFSample \<Rightarrow> SFSample) \<Rightarrow> u8 list \<Rightarrow> unit dec" where
  "copy_into upd bs \<equiv> alter (upd (\<lambda>old. overwrite old bs))"

definition store :: "(('a \<Rightarrow> 'a) \<Rightarrow> SFSample \<Rightarrow> SFSample) \<Rightarrow> 'a dec \<Rightarrow> unit dec" where
  "store upd m = bnd m (put upd)"

definition drop_value :: "'a dec \<Rightarrow> unit dec" where
  "drop_value m = bnd m (\<lambda>_. ret ())"

text \<open>\<open>for (i = 0; i < n; i++) body(i)\<close> over a 32-bit counter.\<close>

fun for_from :: "nat \<Rightarrow> nat \<Rightarrow> (nat \<Rightarrow> unit dec) \<Rightarrow> unit dec" where
  "for_from i 0 body = ret ()"
| "for_from i (Suc n) body = bnd (body i) (\<lambda>_. for_from (Suc i) n body)"

definition for_u32 :: "u32 \<Rightarrow> (u32 \<Rightarrow> unit dec) \<Rightarrow> unit dec" where
  "for_u32 n body = for_from 0 (unat n) (\<lambda>i. body (of_nat i))"

text \<open>Indexing a constant table.\<close>

definition index_table :: "'a list \<Rightarrow> u32 \<Rightarrow> 'a dec" where
  "index_table xs i = (if unat i < length xs then ret (xs ! unat i) else fail Undef)"

definition emit :: "event list \<Rightarrow> unit dec" where
  "emit es = (\<lambda>s. (Inr (), s\<lparr>out := out s @ es\<rparr>))"

text \<open>\<open>printf\<close>, \<open>fprintf(stderr)\<close>, and \<open>sf_log\<close>, which prints only in full-detail mode.\<close>

definition printf :: "string \<Rightarrow> arg list \<Rightarrow> unit dec" where
  "printf fmt args = emit [Out fmt args]"

definition eprintf :: "string \<Rightarrow> arg list \<Rightarrow> unit dec" where
  "eprintf fmt args = emit [Err fmt args]"

definition sf_log :: "string \<Rightarrow> arg list \<Rightarrow> unit dec" where
  "sf_log fmt args =
     bnd (gets (\<lambda>s. outputFormat (cfg s))) (\<lambda>f. only_if (f = SFLFMT_FULL) (printf fmt args))"

lemmas dec_defs = ret_def bnd_def gets_def fail_def only_if_def fetch_def put_def alter_def
  store_def drop_value_def emit_def printf_def eprintf_def sf_log_def

text \<open>The monad laws.\<close>

lemma bnd_ret [simp]: "bnd m ret = m"
  by (rule ext) (simp add: bnd_def ret_def split: prod.split sum.split)

lemma ret_bnd [simp]: "bnd (ret v) f = f v"
  by (rule ext) (simp add: bnd_def ret_def)

lemma bnd_assoc: "bnd (bnd m f) g = bnd m (\<lambda>v. bnd (f v) g)"
  by (rule ext) (simp add: bnd_def split: prod.split sum.split)

lemma bnd_gets [simp]: "bnd (gets g) f s = f (g s) s"
  by (simp add: bnd_def gets_def)

text \<open>Two statements that both returned, one after the other.\<close>

lemma bnd_InrE:
  assumes "bnd m f s = (Inr v, u)"
  obtains a t where "m s = (Inr a, t)" "f a t = (Inr v, u)"
  using assms by (auto simp: bnd_def split: prod.splits sum.splits)

section \<open>Contracts\<close>

text \<open>
  A contract relates the state before a reader, how it ended (\<open>None\<close> for a value) and the
  state after. Every contract that holds of doing nothing and composes along successful
  statements holds of a block, a branch, a loop or a dispatch of readers that satisfy it;
  this is proved once, here, for all contracts.
\<close>

type_synonym contract = "state \<Rightarrow> fault option \<Rightarrow> state \<Rightarrow> bool"

definition ending :: "fault + 'a \<Rightarrow> fault option" where
  "ending r = (case r of Inl e \<Rightarrow> Some e | Inr _ \<Rightarrow> None)"

lemma ending_simps [simp]: "ending (Inl e) = Some e" "ending (Inr v) = None"
  by (simp_all add: ending_def)

definition sat :: "contract \<Rightarrow> 'a dec \<Rightarrow> bool" where
  "sat R m \<longleftrightarrow> (\<forall>s. R s (ending (fst (m s))) (snd (m s)))"

lemma satI: "(\<And>s r t. m s = (r, t) \<Longrightarrow> R s (ending r) t) \<Longrightarrow> sat R m"
  by (simp add: sat_def)

lemma satD: "sat R m \<Longrightarrow> m s = (r, t) \<Longrightarrow> R s (ending r) t"
  by (drule sat_def [THEN iffD1], drule spec [of _ s]) simp

locale contract_law =
  fixes R :: contract
  assumes stutter: "R s None s"
    and compose: "R s None t \<Longrightarrow> R t r u \<Longrightarrow> R s r u"
begin

lemma sat_ret [contract_intro]: "sat R (ret v)"
  by (simp add: sat_def ret_def stutter)

lemma sat_gets [contract_intro]: "sat R (gets f)"
  by (simp add: sat_def gets_def stutter)

lemma sat_fetch [contract_intro]: "sat R (fetch f)"
  unfolding fetch_def by (rule sat_gets)

lemma sat_bnd [contract_intro]:
  assumes "sat R m" and "\<And>v. sat R (f v)"
  shows "sat R (bnd m f)"
proof (rule satI)
  fix s r u assume run: "bnd m f s = (r, u)"
  obtain q t where m: "m s = (q, t)" by (cases "m s")
  with assms(1) have R1: "R s (ending q) t" by (rule satD)
  show "R s (ending r) u"
  proof (cases q)
    case (Inl e)
    with run m R1 show ?thesis by (auto simp: bnd_def)
  next
    case (Inr v)
    with run m have "f v t = (r, u)" by (simp add: bnd_def)
    with assms(2) have "R t (ending r) u" by (rule satD)
    moreover from R1 Inr have "R s None t" by simp
    ultimately show ?thesis by (blast intro: compose)
  qed
qed

lemma sat_block [contract_intro]: "list_all (sat R) ms \<Longrightarrow> sat R (block ms)"
  by (induction ms) (auto intro: sat_ret sat_bnd)

lemma sat_only_if [contract_intro]: "sat R m \<Longrightarrow> sat R (only_if b m)"
  by (simp add: only_if_def sat_ret)

lemma sat_drop_value [contract_intro]: "sat R m \<Longrightarrow> sat R (drop_value m)"
  unfolding drop_value_def by (intro sat_bnd sat_ret)

lemma sat_if [contract_intro]: "sat R a \<Longrightarrow> sat R b \<Longrightarrow> sat R (if c then a else b)"
  by simp

lemma sat_prod [contract_intro]: "(\<And>a b. sat R (f a b)) \<Longrightarrow> sat R (case p of (a, b) \<Rightarrow> f a b)"
  by (cases p) simp

lemma sat_option [contract_intro]:
  "sat R a \<Longrightarrow> (\<And>v. sat R (f v)) \<Longrightarrow> sat R (case x of None \<Rightarrow> a | Some v \<Rightarrow> f v)"
  by (cases x) simp_all

lemma sat_for_from: "(\<And>i. sat R (body i)) \<Longrightarrow> sat R (for_from i n body)"
  by (induction n arbitrary: i) (auto intro: sat_ret sat_bnd)

lemma sat_for_u32 [contract_intro]: "(\<And>i. sat R (body i)) \<Longrightarrow> sat R (for_u32 n body)"
  unfolding for_u32_def by (rule sat_for_from)

lemma sat_switch [contract_intro]:
  "all_cases (sat R) cs \<Longrightarrow> sat R d \<Longrightarrow> sat R (switch k cs d)"
  by (induction k cs d rule: switch.induct) auto

end

end
