(* ===== verification/Cursor.thy ===== *)
theory Cursor
  imports Machine
begin

text \<open>
  The reading primitives of \<open>sflowtool.c\<close>: the cursor moves and their bounds checks
  (\<open>getData32\<close> ... \<open>getAddress\<close>), the logging readers (\<open>sf_log_next32\<close> ...), the
  length check on a TLV block, the error report with its hex dump, the URL encoder, the
  address printer and the VLAN filter test. At the end, the contract a reader built from
  these primitives inherits from them, and the contracts the development uses.
\<close>

section \<open>Reading the datagram\<close>

definition advance :: "int \<Rightarrow> unit dec" where
  "advance n = (\<lambda>s. (Inr (), s\<lparr>datap := datap s + n\<rparr>))"

definition check_end :: "unit dec" where
  "check_end = bnd (gets (\<lambda>s. datap s > endp s)) (\<lambda>over. only_if over (SFABORT SF_ABORT_EOS))"

definition getData32_nobswap :: "u32 dec" where
  "getData32_nobswap =
     bnd (gets (\<lambda>s. load32 (rawSample s) (datap s))) (\<lambda>ans.
     bnd (block [advance 4, check_end]) (\<lambda>_. ret ans))"

definition getData32 :: "u32 dec" where
  "getData32 = bnd getData32_nobswap (\<lambda>w. ret (ntohl w))"

text \<open>The bit pattern of a single precision number.\<close>

definition getFloat :: "u32 dec" where
  "getFloat = bnd getData32 (\<lambda>reg. ret reg)"

definition getData64 :: "u64 dec" where
  "getData64 =
     bnd getData32 (\<lambda>tmpHi.
     bnd getData32 (\<lambda>tmpLo. ret (push_bit 32 (ucast tmpHi) + ucast tmpLo)))"

definition skipBytes :: "u32 \<Rightarrow> unit dec" where
  "skipBytes skip =
     (let quads = sint ((skip + 3) div 4) in
      block [
        advance (4 * quads),
        bnd (gets (\<lambda>s. skip > rawSampleLen s \<or> datap s > endp s)) (\<lambda>bad.
          only_if bad (SFABORT SF_ABORT_EOS))])"

definition getData16 :: "u16 dec" where
  "getData16 =
     bnd (gets (\<lambda>s. load16 (rawSample s) (datap s))) (\<lambda>ans.
     bnd (block [advance 2, check_end]) (\<lambda>_. ret (ntohs ans)))"

definition getData_u8 :: "u8 dec" where
  "getData_u8 =
     bnd (gets (\<lambda>s. load8 (rawSample s) (datap s))) (\<lambda>ans.
     bnd (block [advance 1, check_end]) (\<lambda>_. ret ans))"

text \<open>\<open>strncpy\<close> of \<open>n\<close> bytes: up to the first zero, then zeros.\<close>

definition strncpy :: "memory \<Rightarrow> addr \<Rightarrow> nat \<Rightarrow> u8 list" where
  "strncpy m p n =
     (let t = takeWhile (\<lambda>b. b \<noteq> 0) (load_bytes m p n) in t @ replicate (n - length t) 0)"

definition getData8 :: "nat \<Rightarrow> u8 list dec" where
  "getData8 len =
     bnd (gets (\<lambda>s. (strncpy (rawSample s) (datap s) len)[len - 1 := 0])) (\<lambda>buffer.
     bnd (block [advance (int len), check_end]) (\<lambda>_. ret buffer))"

text \<open>
  \<open>getString(sample, buf, bufLen)\<close>: the buffer on entry, how it is written back (\<open>put\<close> of
  a field, or nothing for a local array), and the length it returns with the buffer.
\<close>

definition string_into :: "u8 list \<Rightarrow> u8 list \<Rightarrow> u8 list" where
  "string_into buf bs = (overwrite buf bs)[length bs := 0]"

definition getString :: "u8 list \<Rightarrow> (u8 list \<Rightarrow> unit dec) \<Rightarrow> u32 \<Rightarrow> (u32 \<times> u8 list) dec" where
  "getString buf write bufLen =
     bnd getData32 (\<lambda>len.
     let read_len = (if len \<ge> bufLen then bufLen - 1 else len) in
     bnd (gets (\<lambda>s. string_into buf (load_bytes (rawSample s) (datap s) (unat read_len)))) (\<lambda>buf'.
     bnd (block [write buf', skipBytes len]) (\<lambda>_. ret (len, buf'))))"

text \<open>A local array of \<open>n\<close> bytes; its contents on entry are irrelevant, since
  \<open>getString\<close> always ends it.\<close>

definition getString_local :: "nat \<Rightarrow> u32 \<Rightarrow> (u32 \<times> u8 list) dec" where
  "getString_local n bufLen = getString (replicate n 0) (\<lambda>_. ret ()) bufLen"

definition getString_field ::
  "(SFSample \<Rightarrow> u8 list) \<Rightarrow> ((u8 list \<Rightarrow> u8 list) \<Rightarrow> SFSample \<Rightarrow> SFSample) \<Rightarrow> u32 \<Rightarrow> u32 dec" where
  "getString_field sel upd bufLen =
     bnd (fetch sel) (\<lambda>buf. bnd (getString buf (put upd) bufLen) (\<lambda>r. ret (fst r)))"

text \<open>\<open>if (getString(sample, buf, n) > 0) sf_log(fmt, buf)\<close> on a local array, the shape most
  text fields are read in; the buffer is returned for the callers that go on to use it.\<close>

definition log_string :: "nat \<Rightarrow> u32 \<Rightarrow> string \<Rightarrow> u8 list dec" where
  "log_string n bufLen fmt =
     bnd (getString_local n bufLen) (\<lambda>r.
     bnd (only_if (fst r > 0) (sf_log fmt [AStr (cstr (snd r))])) (\<lambda>_. ret (snd r)))"

definition getAddress :: "SFLAddress \<Rightarrow> (SFLAddress \<Rightarrow> unit dec) \<Rightarrow> SFLAddress dec" where
  "getAddress a write =
     bnd getData32 (\<lambda>ty.
     let a1 = a\<lparr>addr_type := ty\<rparr> in
     bnd (write a1) (\<lambda>_.
     if ty = SFLADDRESSTYPE_IP_V4 then
       bnd getData32_nobswap (\<lambda>w.
       let a2 = set_ip_v4 w a1 in bnd (write a2) (\<lambda>_. ret a2))
     else
       bnd (gets (\<lambda>s. load_bytes (rawSample s) (datap s) 16)) (\<lambda>bs.
       let a2 = set_ip_v6 bs a1 in
       bnd (block [write a2, skipBytes 16]) (\<lambda>_. ret a2))))"

definition getAddress_field ::
  "(SFSample \<Rightarrow> SFLAddress) \<Rightarrow> ((SFLAddress \<Rightarrow> SFLAddress) \<Rightarrow> SFSample \<Rightarrow> SFSample) \<Rightarrow> unit dec" where
  "getAddress_field sel upd = bnd (fetch sel) (\<lambda>a. drop_value (getAddress a (put upd)))"

section \<open>Printing\<close>

definition bin2hex :: "int \<Rightarrow> u8" where
  "bin2hex nib = (if nib < 10 then word_of_int (48 + nib) else word_of_int (55 + nib))"

text \<open>\<open>printHex\<close>: the characters written to \<open>buf\<close> before the terminating zero.\<close>

fun printHex_loop :: "int \<Rightarrow> int \<Rightarrow> int \<Rightarrow> int \<Rightarrow> int \<Rightarrow> u8 list \<Rightarrow> u8 list \<Rightarrow> u8 list" where
  "printHex_loop len bufLen marker bytesPerOutputLine i [] buf = buf"
| "printHex_loop len bufLen marker bytesPerOutputLine i (byte # a) buf =
     (if int (length buf) > bufLen - 10 then buf
      else
        let buf1 = (if marker > 0 \<and> i = marker then buf @ [60, 42, 62, 45] else buf);
            buf2 = buf1 @ [bin2hex (uint (drop_bit 4 byte)), bin2hex (uint (byte AND 0x0f))];
            buf3 = (if i > 0 \<and> i mod bytesPerOutputLine = 0 then buf2 @ [10]
                    else if i < len - 1 then buf2 @ [45] else buf2)
        in printHex_loop len bufLen marker bytesPerOutputLine (i + 1) a buf3)"

definition printHex :: "u8 list \<Rightarrow> int \<Rightarrow> int \<Rightarrow> int \<Rightarrow> u8 list" where
  "printHex a bufLen marker bytesPerOutputLine =
     printHex_loop (int (length a)) bufLen marker bytesPerOutputLine 0 a []"

text \<open>\<open>URLEncode\<close> on the bytes before the terminating zero; \<open>char\<close> is signed, so the
  upper nibble of a byte from 128 on is negative.\<close>

definition is_alnum :: "u8 \<Rightarrow> bool" where
  "is_alnum c \<longleftrightarrow> (48 \<le> c \<and> c \<le> 57) \<or> (65 \<le> c \<and> c \<le> 90) \<or> (97 \<le> c \<and> c \<le> 122)"

definition is_space :: "u8 \<Rightarrow> bool" where
  "is_space c \<longleftrightarrow> c = 32 \<or> (9 \<le> c \<and> c \<le> 13)"

definition encode_char :: "u8 \<Rightarrow> u8 list" where
  "encode_char c =
     (if is_alnum c then [c]
      else if is_space c then [43]
      else [37, bin2hex (sint (signed_drop_bit 4 c)), bin2hex (uint (c AND 0x0f))])"

definition URLEncode :: "u8 list \<Rightarrow> int \<Rightarrow> u8 list option" where
  "URLEncode inp outlen =
     (let maxlen = int (length inp) * 3 + 1 in
      if outlen < maxlen then None else Some (concat (map encode_char inp)))"

definition IP_to_a :: "u32 \<Rightarrow> string" where
  "IP_to_a ipaddr =
     (let ip = bytes_of_u32 ipaddr in
      show_dec (unat (ip ! 0)) @ ''.'' @ show_dec (unat (ip ! 1)) @ ''.'' @
      show_dec (unat (ip ! 2)) @ ''.'' @ show_dec (unat (ip ! 3)))"

fun hex_groups :: "u8 list \<Rightarrow> string" where
  "hex_groups [] = []"
| "hex_groups [b] = show_hex2 b"
| "hex_groups [b, c] = show_hex2 b @ show_hex2 c"
| "hex_groups (b # c # bs) = show_hex2 b @ show_hex2 c @ '':'' @ hex_groups bs"

definition printAddress :: "SFLAddress \<Rightarrow> string" where
  "printAddress a =
     (if addr_type a = SFLADDRESSTYPE_IP_V4 then IP_to_a (ip_v4 a)
      else hex_groups (take 16 (addr_bytes a)))"

definition printAddress_no_conversion :: "SFLAddress \<Rightarrow> string" where
  "printAddress_no_conversion a =
     (if addr_type a = SFLADDRESSTYPE_IP_V4 then
        let ip = bytes_of_u32 (ip_v4 a) in
        show_dec (unat (ip ! 3)) @ ''.'' @ show_dec (unat (ip ! 2)) @ ''.'' @
        show_dec (unat (ip ! 1)) @ ''.'' @ show_dec (unat (ip ! 0))
      else hex_groups (take 16 (addr_bytes a)))"

definition printTag :: "u32 \<Rightarrow> string" where
  "printTag tag = show_dec (unat (drop_bit 12 tag)) @ '':'' @ show_dec (unat (tag AND 0x00000FFF))"

section \<open>Logging readers\<close>

definition sf_log_string :: "string \<Rightarrow> unit dec" where
  "sf_log_string buffer = sf_log ''%s'' [AStr buffer]"

definition sf_log_u32 :: "u32 \<Rightarrow> string \<Rightarrow> unit dec" where
  "sf_log_u32 val fieldName = sf_log ''%-35s %-20u\<newline>'' [AStr fieldName, A32 val]"

definition sf_log_u64 :: "u64 \<Rightarrow> string \<Rightarrow> unit dec" where
  "sf_log_u64 val fieldName = sf_log ''%-35s %-20u\<newline>'' [AStr fieldName, A64 val]"

definition sf_log_next8 :: "string \<Rightarrow> nat \<Rightarrow> u8 list dec" where
  "sf_log_next8 fieldName len =
     bnd (getData8 len) (\<lambda>buffer.
     bnd (sf_log ''%-35s %-20s\<newline>'' [AStr fieldName, AStr (cstr buffer)]) (\<lambda>_. ret buffer))"

definition sf_log_next16 :: "string \<Rightarrow> u16 dec" where
  "sf_log_next16 fieldName =
     bnd getData16 (\<lambda>val.
     bnd (sf_log ''%-35s %-20u\<newline>'' [AStr fieldName, A32 (ucast val)]) (\<lambda>_. ret val))"

definition sf_log_next32_skip_print_if_null :: "string \<Rightarrow> u32 dec" where
  "sf_log_next32_skip_print_if_null fieldName =
     bnd getData32 (\<lambda>val.
     bnd (only_if (val \<noteq> 0) (sf_log ''%-35s %-20u\<newline>'' [AStr fieldName, A32 val])) (\<lambda>_. ret val))"

definition sf_log_next32 :: "string \<Rightarrow> u32 dec" where
  "sf_log_next32 fieldName =
     bnd getData32 (\<lambda>val.
     bnd (sf_log ''%-35s %-20u\<newline>'' [AStr fieldName, A32 val]) (\<lambda>_. ret val))"

definition sf_log_next64_skip_print_if_null :: "string \<Rightarrow> u64 dec" where
  "sf_log_next64_skip_print_if_null fieldName =
     bnd getData64 (\<lambda>val64.
     bnd (only_if (val64 \<noteq> 0) (sf_log ''%-35s %-20lu\<newline>'' [AStr fieldName, A64 val64])) (\<lambda>_. ret val64))"

definition sf_log_next64_skip_print :: "string \<Rightarrow> u64 dec" where
  "sf_log_next64_skip_print fieldName = bnd getData64 (\<lambda>val64. ret 0)"

definition sf_log_next64 :: "string \<Rightarrow> u64 dec" where
  "sf_log_next64 fieldName =
     bnd getData64 (\<lambda>val64.
     bnd (sf_log ''%-35s %-20lu\<newline>'' [AStr fieldName, A64 val64]) (\<lambda>_. ret val64))"

definition sf_log_percentage :: "string \<Rightarrow> unit dec" where
  "sf_log_percentage fieldName =
     bnd getData32 (\<lambda>hundredths.
     if hundredths = -1 then sf_log ''%s unknown\<newline>'' [AStr fieldName]
     else sf_log ''%s %.2f\<newline>'' [AStr fieldName, APercent hundredths])"

definition sf_log_nextFloat :: "string \<Rightarrow> u32 dec" where
  "sf_log_nextFloat fieldName =
     bnd getFloat (\<lambda>val.
     bnd (sf_log ''%s %.3f\<newline>'' [AStr fieldName, AFloat val]) (\<lambda>_. ret val))"

text \<open>The six bytes at the cursor, as \<open>%02x\<close> operands.\<close>

definition peek_bytes :: "nat \<Rightarrow> u8 list dec" where
  "peek_bytes n = gets (\<lambda>s. load_bytes (rawSample s) (datap s) n)"

definition sf_log_nextMAC :: "string \<Rightarrow> unit dec" where
  "sf_log_nextMAC fieldName =
     bnd (peek_bytes 6) (\<lambda>mac. block [
       sf_log ''%s %02x%02x%02x%02x%02x%02x\<newline>'' (AStr fieldName # map A8 mac),
       skipBytes 6])"

definition skipTLVRecord :: "u32 \<Rightarrow> u32 \<Rightarrow> string \<Rightarrow> unit dec" where
  "skipTLVRecord tag len description = block [
     sf_log ''skipping unknown %s: %s len=%d\<newline>'' [AStr description, AStr (printTag tag), A32 len],
     skipBytes len]"

text \<open>\<open>sf_log(fmt, sample->f)\<close>, for a number and for an address.\<close>

definition log_field :: "string \<Rightarrow> (SFSample \<Rightarrow> u32) \<Rightarrow> unit dec" where
  "log_field fmt f = bnd (fetch f) (\<lambda>v. sf_log fmt [A32 v])"

definition log_address :: "string \<Rightarrow> (SFSample \<Rightarrow> SFLAddress) \<Rightarrow> unit dec" where
  "log_address fmt f = bnd (fetch f) (\<lambda>a. sf_log fmt [AStr (printAddress a)])"

section \<open>Errors\<close>

definition dumpSample :: "unit dec" where
  "dumpSample =
     bnd (gets (\<lambda>s. printHex (load_bytes (rawSample s) 0 (nat (sint (rawSampleLen s)))) 6000
                      (sint (word_of_int (datap s) :: u32)) 16)) (\<lambda>hex.
     printf ''dumpSample:\<newline>%s\<newline>'' [AStr (chars hex)])"

definition receiveError :: "string \<Rightarrow> bool \<Rightarrow> unit dec" where
  "receiveError errm hexdump =
     bnd (gets (\<lambda>s. if hexdump
            then printHex (load_bytes (rawSample s) 0 (nat (sint (rawSampleLen s)))) 6000
                   (sint (word_of_int (datap s) :: u32)) 16
            else [])) (\<lambda>hex.
     bnd (fetch sourceIP) (\<lambda>ip. block [
       eprintf ''%s (source IP = %s) %s\<newline>'' [AStr errm, AStr (printAddress ip), AStr (chars hex)],
       SFABORT SF_ABORT_DECODE_ERROR]))"

text \<open>\<open>lengthCheck\<close>: both lengths rounded up to quads; \<open>len\<close> is an \<open>int\<close> there, so it is
  shifted arithmetically.\<close>

definition lengthCheck :: "string \<Rightarrow> addr \<Rightarrow> u32 \<Rightarrow> unit dec" where
  "lengthCheck description start len =
     bnd (gets (\<lambda>s. word_of_int (datap s - start) :: u32)) (\<lambda>n.
     let actualLen = push_bit 2 (drop_bit 2 (n + 3));
         adjustedLen = push_bit 2 (signed_drop_bit 2 (len + 3))
     in only_if (actualLen \<noteq> adjustedLen) (block [
          eprintf ''%s length error (expected %d, found %d)\<newline>''
            [AStr description, A32 len, A32 actualLen],
          SFABORT SF_ABORT_LENGTH_ERROR]))"

section \<open>The VLAN filter\<close>

definition vlan_flag :: "u32 \<Rightarrow> bool dec" where
  "vlan_flag v = bnd (gets (\<lambda>s. vlanFilter (cfg s))) (\<lambda>tab. index_table tab v)"

definition sampleFilterOK :: "bool dec" where
  "sampleFilterOK =
     bnd (gets (\<lambda>s. gotVlanFilter (cfg s))) (\<lambda>got.
     if \<not> got then ret True
     else bnd (fetch in_vlan) (\<lambda>inv. bnd (vlan_flag inv) (\<lambda>a.
          if a then ret True
          else bnd (fetch out_vlan) (\<lambda>outv. vlan_flag outv))))"

end
