(* ===== verification/Contracts.thy ===== *)
theory Contracts
  imports Cursor
begin

text \<open>
  What a reader inherits from the primitives it is built from. \<open>checked_reader\<close> is the
  interface: a contract that composes, allows every write to the sample's other fields,
  to the common-log record and to the output, allows the cursor moves that were checked
  against \<open>endp\<close> and the moves that abort, and allows the failures the readers raise. Each
  reader of the program is shown, once, to satisfy every such contract (here for the
  primitives; each component adds its readers in a \<open>context\<close> block). The contracts
  themselves are instances: what stays fixed while a datagram is decoded, that the cursor
  only moves forward and stays within the datagram, that output is only appended, and the
  faults that can occur.

  \<open>unchecked_reader\<close> extends the interface by the cursor moves that no check follows and the
  static totals, which only the vendor's counter tables use.
\<close>

lemma is_export_intro [contract_intro]:
  "\<not> is_export (Out fmt args)" "\<not> is_export (Err fmt args)" "\<not> is_export (PcapWrite bs)"
  "\<not> is_export (Tsdb ps)" "\<not> is_export (DbPut k d vs)" "\<not> is_export (DbPutObject k d n u)"
  "\<not> is_export (Forward tgt bs)"
  by simp_all

locale checked_reader = contract_law +
  assumes payload: "R s None (s\<lparr>smp := x\<rparr>)"
    and common_log: "R s None (s\<lparr>clf := c\<rparr>)"
    and printed: "list_all (\<lambda>e. \<not> is_export e) es \<Longrightarrow> R s None (s\<lparr>out := out s @ es\<rparr>)"
    and moved: "datap s \<le> p \<Longrightarrow> p \<le> endp s \<Longrightarrow> R s None (s\<lparr>datap := p\<rparr>)"
    and overrun: "datap s \<le> p \<Longrightarrow> R s (Some (Abort SF_ABORT_EOS)) (s\<lparr>datap := p\<rparr>)"
    and aborted: "R s (Some (Abort a)) s"
    and undefined: "R s (Some Undef) s"
    and bad_protocol: "R s (Some (Exit (-12))) s"
begin

lemma sat_abort [contract_intro]: "sat R (SFABORT c)"
  by (simp add: sat_def fail_def aborted)

lemma sat_undef [contract_intro]: "sat R (fail Undef)"
  by (simp add: sat_def fail_def undefined)

lemma sat_exit12 [contract_intro]: "sat R (custom_exit (-12))"
  by (simp add: sat_def fail_def bad_protocol)

lemma sat_put [contract_intro]: "sat R (put upd v)"
  by (simp add: sat_def put_def payload)

lemma sat_alter [contract_intro]: "sat R (alter f)"
  by (simp add: sat_def alter_def payload)

lemma sat_store [contract_intro]: "sat R m \<Longrightarrow> sat R (store upd m)"
  unfolding store_def by (intro sat_bnd sat_put)

lemma sat_emit [contract_intro]: "list_all (\<lambda>e. \<not> is_export e) es \<Longrightarrow> sat R (emit es)"
  by (simp add: sat_def emit_def printed)

lemma sat_printf [contract_intro]: "sat R (printf fmt args)"
  unfolding printf_def by (rule sat_emit) simp

lemma sat_eprintf [contract_intro]: "sat R (eprintf fmt args)"
  unfolding eprintf_def by (rule sat_emit) simp

lemma sat_sf_log [contract_intro]: "sat R (sf_log fmt args)"
  unfolding sf_log_def by (intro sat_bnd sat_gets sat_only_if sat_printf)

lemma sat_index_table [contract_intro]: "sat R (index_table xs i)"
  by (simp add: index_table_def sat_ret sat_undef)

text \<open>A move of the cursor and its check, as one step.\<close>

lemma sat_checked_move:
  assumes "0 \<le> n" and "\<And>s. ok s \<Longrightarrow> datap s + n \<le> endp s"
  shows "sat R (\<lambda>s. if ok s then (Inr v, s\<lparr>datap := datap s + n\<rparr>)
                    else (Inl (Abort SF_ABORT_EOS), s\<lparr>datap := datap s + n\<rparr>))"
  using assms by (auto simp: sat_def intro!: moved overrun)

end

text \<open>The checked moves in closed form.\<close>

lemma getData32_nobswap_eq:
  "getData32_nobswap =
     (\<lambda>s. if datap s + 4 \<le> endp s
          then (Inr (load32 (rawSample s) (datap s)), s\<lparr>datap := datap s + 4\<rparr>)
          else (Inl (Abort SF_ABORT_EOS), s\<lparr>datap := datap s + 4\<rparr>))"
  by (rule ext) (simp add: getData32_nobswap_def advance_def check_end_def dec_defs)

lemma getData16_eq:
  "getData16 =
     (\<lambda>s. if datap s + 2 \<le> endp s
          then (Inr (ntohs (load16 (rawSample s) (datap s))), s\<lparr>datap := datap s + 2\<rparr>)
          else (Inl (Abort SF_ABORT_EOS), s\<lparr>datap := datap s + 2\<rparr>))"
  by (rule ext) (simp add: getData16_def advance_def check_end_def dec_defs)

lemma getData_u8_eq:
  "getData_u8 =
     (\<lambda>s. if datap s + 1 \<le> endp s
          then (Inr (load8 (rawSample s) (datap s)), s\<lparr>datap := datap s + 1\<rparr>)
          else (Inl (Abort SF_ABORT_EOS), s\<lparr>datap := datap s + 1\<rparr>))"
  by (rule ext) (simp add: getData_u8_def advance_def check_end_def dec_defs)

lemma getData8_eq:
  "getData8 n =
     (\<lambda>s. if datap s + int n \<le> endp s
          then (Inr ((strncpy (rawSample s) (datap s) n)[n - 1 := 0]), s\<lparr>datap := datap s + int n\<rparr>)
          else (Inl (Abort SF_ABORT_EOS), s\<lparr>datap := datap s + int n\<rparr>))"
  by (rule ext) (simp add: getData8_def advance_def check_end_def dec_defs)

lemma skipBytes_eq:
  "skipBytes n =
     (\<lambda>s. if n \<le> rawSampleLen s \<and> datap s + 4 * sint ((n + 3) div 4) \<le> endp s
          then (Inr (), s\<lparr>datap := datap s + 4 * sint ((n + 3) div 4)\<rparr>)
          else (Inl (Abort SF_ABORT_EOS), s\<lparr>datap := datap s + 4 * sint ((n + 3) div 4)\<rparr>))"
  by (rule ext) (auto simp: skipBytes_def advance_def dec_defs Let_def not_less)

text \<open>The quad count of \<open>skipBytes\<close> is never negative: it is a quarter of a 32-bit number.\<close>

lemma quads_unat: "sint ((n + 3 :: u32) div 4) = int (unat (n + 3) div 4)"
proof -
  have "unat (n + 3) < 2 ^ 32"
    using unsigned_less [of "n + 3", where ?'a = nat] by simp
  then have "unat (n + 3) div 4 < 2 ^ 31" by simp
  then have "sint (word_of_nat (unat (n + 3) div 4) :: u32) = int (unat (n + 3) div 4)"
    by (simp add: signed_of_nat signed_take_bit_int_eq_self)
  moreover have "(n + 3) div 4 = word_of_nat (unat (n + 3) div 4)"
    by (simp add: word_arith_nat_div)
  ultimately show ?thesis by simp
qed

lemma quads_nonneg [simp]: "0 \<le> sint ((n + 3 :: u32) div 4)"
  by (simp add: quads_unat)

context checked_reader
begin

lemma sat_getData32_nobswap [contract_intro]: "sat R getData32_nobswap"
  unfolding getData32_nobswap_eq by (auto simp: sat_def intro!: moved overrun)

lemma sat_getData32 [contract_intro]: "sat R getData32"
  unfolding getData32_def by (intro contract_intro)

lemma sat_getFloat [contract_intro]: "sat R getFloat"
  unfolding getFloat_def by (intro contract_intro)

lemma sat_getData64 [contract_intro]: "sat R getData64"
  unfolding getData64_def by (intro contract_intro)

lemma sat_getData16 [contract_intro]: "sat R getData16"
  unfolding getData16_eq by (auto simp: sat_def intro!: moved overrun)

lemma sat_getData_u8 [contract_intro]: "sat R getData_u8"
  unfolding getData_u8_eq by (auto simp: sat_def intro!: moved overrun)

lemma sat_getData8 [contract_intro]: "sat R (getData8 n)"
  unfolding getData8_eq by (auto simp: sat_def intro!: moved overrun)

lemma sat_skipBytes [contract_intro]: "sat R (skipBytes n)"
  unfolding skipBytes_eq by (auto simp: sat_def intro!: moved overrun)

end

lemma list_all_nil [contract_intro]: "list_all P []"
  by simp

lemma list_all_step [contract_intro]: "P x \<Longrightarrow> list_all P xs \<Longrightarrow> list_all P (x # xs)"
  by simp

lemma all_cases_nil [contract_intro]: "all_cases P []"
  by simp

lemma all_cases_step [contract_intro]: "P b \<Longrightarrow> all_cases P xs \<Longrightarrow> all_cases P ((a, b) # xs)"
  by simp

context checked_reader
begin

lemma sat_getString [contract_intro]:
  "(\<And>b. sat R (write b)) \<Longrightarrow> sat R (getString buf write bufLen)"
  unfolding getString_def Let_def by (intro contract_intro)

lemma sat_getString_local [contract_intro]: "sat R (getString_local n bufLen)"
  unfolding getString_local_def by (intro contract_intro)

lemma sat_getString_field [contract_intro]: "sat R (getString_field sel upd bufLen)"
  unfolding getString_field_def by (intro contract_intro)

lemma sat_log_string [contract_intro]: "sat R (log_string n bufLen fmt)"
  unfolding log_string_def by (intro contract_intro)

lemma sat_getAddress [contract_intro]:
  "(\<And>b. sat R (write b)) \<Longrightarrow> sat R (getAddress a write)"
  unfolding getAddress_def Let_def by (intro contract_intro)

lemma sat_getAddress_field [contract_intro]: "sat R (getAddress_field sel upd)"
  unfolding getAddress_field_def by (intro contract_intro)

lemma sat_sf_log_string [contract_intro]: "sat R (sf_log_string b)"
  unfolding sf_log_string_def by (intro contract_intro)

lemma sat_sf_log_u32 [contract_intro]: "sat R (sf_log_u32 v name)"
  unfolding sf_log_u32_def by (intro contract_intro)

lemma sat_sf_log_u64 [contract_intro]: "sat R (sf_log_u64 w name)"
  unfolding sf_log_u64_def by (intro contract_intro)

lemma sat_sf_log_next8 [contract_intro]: "sat R (sf_log_next8 name n)"
  unfolding sf_log_next8_def by (intro contract_intro)

lemma sat_sf_log_next16 [contract_intro]: "sat R (sf_log_next16 name)"
  unfolding sf_log_next16_def by (intro contract_intro)

lemma sat_sf_log_next32_skip [contract_intro]: "sat R (sf_log_next32_skip_print_if_null name)"
  unfolding sf_log_next32_skip_print_if_null_def by (intro contract_intro)

lemma sat_sf_log_next32 [contract_intro]: "sat R (sf_log_next32 name)"
  unfolding sf_log_next32_def by (intro contract_intro)

lemma sat_sf_log_next64_skip [contract_intro]: "sat R (sf_log_next64_skip_print_if_null name)"
  unfolding sf_log_next64_skip_print_if_null_def by (intro contract_intro)

lemma sat_sf_log_next64_skip_print [contract_intro]: "sat R (sf_log_next64_skip_print name)"
  unfolding sf_log_next64_skip_print_def by (intro contract_intro)

lemma sat_sf_log_next64 [contract_intro]: "sat R (sf_log_next64 name)"
  unfolding sf_log_next64_def by (intro contract_intro)

lemma sat_sf_log_percentage [contract_intro]: "sat R (sf_log_percentage name)"
  unfolding sf_log_percentage_def by (intro contract_intro)

lemma sat_sf_log_nextFloat [contract_intro]: "sat R (sf_log_nextFloat name)"
  unfolding sf_log_nextFloat_def by (intro contract_intro)

lemma sat_peek_bytes [contract_intro]: "sat R (peek_bytes n)"
  unfolding peek_bytes_def by (intro contract_intro)

lemma sat_sf_log_nextMAC [contract_intro]: "sat R (sf_log_nextMAC name)"
  unfolding sf_log_nextMAC_def by (intro contract_intro)

lemma sat_skipTLVRecord [contract_intro]: "sat R (skipTLVRecord tag n d)"
  unfolding skipTLVRecord_def by (intro contract_intro)

lemma sat_log_field [contract_intro]: "sat R (log_field fmt f)"
  unfolding log_field_def by (intro contract_intro)

lemma sat_log_address [contract_intro]: "sat R (log_address fmt f)"
  unfolding log_address_def by (intro contract_intro)

lemma sat_receiveError [contract_intro]: "sat R (receiveError e h)"
  unfolding receiveError_def by (intro contract_intro)

lemma sat_lengthCheck [contract_intro]: "sat R (lengthCheck d start n)"
  unfolding lengthCheck_def Let_def by (intro contract_intro)

lemma sat_vlan_flag [contract_intro]: "sat R (vlan_flag v)"
  unfolding vlan_flag_def by (intro contract_intro)

lemma sat_sampleFilterOK [contract_intro]: "sat R sampleFilterOK"
  unfolding sampleFilterOK_def by (intro contract_intro)

end

locale unchecked_reader = checked_reader +
  assumes jumped: "datap s \<le> p \<Longrightarrow> R s None (s\<lparr>datap := p\<rparr>)"
    and totalled: "R s None (s\<lparr>totals := g\<rparr>)"

section \<open>The contracts of the development\<close>

text \<open>What decoding never changes: the datagram and its bounds, the configuration, the clock.\<close>

definition frame_rel :: contract where
  "frame_rel s r t \<longleftrightarrow>
     rawSample t = rawSample s \<and> rawSampleLen t = rawSampleLen s \<and> endp t = endp s \<and>
     cfg t = cfg s \<and> clock t = clock s"

text \<open>The cursor never moves back.\<close>

definition forward_rel :: contract where
  "forward_rel s r t \<longleftrightarrow> datap s \<le> datap t"

text \<open>A reader that returns leaves the cursor within the datagram.\<close>

definition within_rel :: contract where
  "within_rel s r t \<longleftrightarrow>
     endp t = endp s \<and> (r = None \<longrightarrow> datap s \<le> endp s \<longrightarrow> datap t \<le> endp t)"

text \<open>Output is appended, never rewritten.\<close>

definition append_rel :: contract where
  "append_rel s r t \<longleftrightarrow> (\<exists>es. out t = out s @ es)"

text \<open>The only exit code a reader can end the program with.\<close>

definition exits_rel :: contract where
  "exits_rel s r t \<longleftrightarrow> (\<forall>n. r = Some (Exit n) \<longrightarrow> n = -12)"

text \<open>
  NetFlow packets are numbered: each carries the sequence number, and the number moves by the
  packets sent. A packet's number is in the header at byte 16, behind 28 bytes of IP and UDP header
  when the packet is built with a spoofed source.
\<close>

definition be32_nth :: "u8 list \<Rightarrow> nat \<Rightarrow> u32" where
  "be32_nth bs n = be32 (bs ! n) (bs ! (n + 1)) (bs ! (n + 2)) (bs ! (n + 3))"

fun sequence_of :: "event \<Rightarrow> u32" where
  "sequence_of (Send sock bs) = be32_nth bs 16"
| "sequence_of (SendTo sock dest bs) = be32_nth bs 44"
| "sequence_of e = 0"

definition consecutive :: "u32 \<Rightarrow> nat \<Rightarrow> u32 list" where
  "consecutive q n = map (\<lambda>i. q + of_nat i) [0..<n]"

lemma consecutive_simps [simp]: "consecutive q 0 = []" "consecutive q (Suc 0) = [q]"
  by (simp_all add: consecutive_def)

lemma consecutive_append: "consecutive q m @ consecutive (q + of_nat m) n = consecutive q (m + n)"
  by (rule nth_equalityI) (auto simp: consecutive_def nth_append)

definition numbered :: "u32 \<Rightarrow> u32 \<Rightarrow> event list \<Rightarrow> bool" where
  "numbered q q' es \<longleftrightarrow>
     map sequence_of (filter is_export es) = consecutive q (length (filter is_export es)) \<and>
     q' = q + of_nat (length (filter is_export es))"

lemma numbered_append: "numbered q q' xs \<Longrightarrow> numbered q' q'' ys \<Longrightarrow> numbered q q'' (xs @ ys)"
  using consecutive_append [of q "length (filter is_export xs)" "length (filter is_export ys)"]
  by (simp add: numbered_def add.assoc)

definition numbered_rel :: contract where
  "numbered_rel s r t \<longleftrightarrow>
     (\<exists>es. out t = out s @ es \<and> numbered (NFFlowSequenceNo s) (NFFlowSequenceNo t) es)"

lemma quiet_filter: "list_all (\<lambda>e. \<not> is_export e) es \<Longrightarrow> filter is_export es = []"
  by (induction es) auto

interpretation frame: unchecked_reader frame_rel
  by unfold_locales (auto simp: frame_rel_def)

interpretation forward: unchecked_reader forward_rel
  by unfold_locales (auto simp: forward_rel_def)

interpretation within: checked_reader within_rel
  by unfold_locales (auto simp: within_rel_def)

interpretation append: unchecked_reader append_rel
  by unfold_locales (auto simp: append_rel_def)

interpretation exits: unchecked_reader exits_rel
  by unfold_locales (auto simp: exits_rel_def)

lemma numbered_quiet: "list_all (\<lambda>e. \<not> is_export e) es \<Longrightarrow> numbered q q es"
  by (simp add: numbered_def quiet_filter)

lemma numbered_nil: "numbered q q []"
  by (simp add: numbered_def)

lemma numbered_refl: "numbered_rel s r s"
  unfolding numbered_rel_def by (rule exI [of _ "[]"]) (simp add: numbered_def)

lemma numbered_trans: "numbered_rel s None t \<Longrightarrow> numbered_rel t r u \<Longrightarrow> numbered_rel s r u"
  by (auto simp: numbered_rel_def intro: numbered_append)

interpretation seqno: unchecked_reader numbered_rel
proof
  show "numbered_rel s None s" for s by (rule numbered_refl)
  show "numbered_rel s r u" if "numbered_rel s None t" "numbered_rel t r u" for s t r u
    using that by (rule numbered_trans)
qed (auto simp: numbered_rel_def numbered_quiet numbered_nil)

end
