(* ===== verification/Wp.thy ===== *)
theory Wp
  imports Contracts
begin

text \<open>
  Partial-correctness reasoning about single readers: \<open>wp m Q s\<close> says that if \<open>m\<close> returns from
  \<open>s\<close>, its value and final state satisfy \<open>Q\<close>. The equations in \<open>wp_simps\<close> push \<open>Q\<close> back over the
  statements without splitting cases, so a functional property of a decoder is one
  simplification with them and its definition.
\<close>

definition wp :: "'a dec \<Rightarrow> ('a \<Rightarrow> state \<Rightarrow> bool) \<Rightarrow> state \<Rightarrow> bool" where
  "wp m Q s \<longleftrightarrow> (case m s of (Inl e, t) \<Rightarrow> True | (Inr v, t) \<Rightarrow> Q v t)"

lemma wpI: "(\<And>v t. m s = (Inr v, t) \<Longrightarrow> Q v t) \<Longrightarrow> wp m Q s"
  by (auto simp: wp_def split: prod.split sum.split)

lemma wpD: "wp m Q s \<Longrightarrow> m s = (Inr v, t) \<Longrightarrow> Q v t"
  by (simp add: wp_def)

lemma wp_mono: "wp m P s \<Longrightarrow> (\<And>v t. P v t \<Longrightarrow> Q v t) \<Longrightarrow> wp m Q s"
  by (auto simp: wp_def split: prod.splits sum.splits)

text \<open>A 32-bit offset that is known to be small.\<close>

lemma uint_small: "0 \<le> d \<Longrightarrow> d < 2 ^ 32 \<Longrightarrow> uint (word_of_int d :: u32) = d"
  by (simp add: unsigned_of_int take_bit_int_eq_self)

text \<open>What a full-detail line adds to the output.\<close>

definition logged :: "state \<Rightarrow> string \<Rightarrow> arg list \<Rightarrow> event list" where
  "logged s fmt args = (if outputFormat (cfg s) = SFLFMT_FULL then [Out fmt args] else [])"

lemma sf_log_run: "sf_log fmt args s = (Inr (), s\<lparr>out := out s @ logged s fmt args\<rparr>)"
  by (simp add: sf_log_def logged_def dec_defs)

named_theorems wp_simps \<open>equations for the weakest precondition of a statement\<close>

lemma wp_ret [wp_simps]: "wp (ret v) Q s = Q v s"
  by (simp add: wp_def ret_def)

lemma wp_bnd [wp_simps]: "wp (bnd m f) Q s = wp m (\<lambda>v. wp (f v) Q) s"
  by (simp add: wp_def bnd_def split: prod.split sum.split)

lemma wp_gets [wp_simps]: "wp (gets f) Q s = Q (f s) s"
  by (simp add: wp_def gets_def)

lemma wp_fetch [wp_simps]: "wp (fetch f) Q s = Q (f (smp s)) s"
  by (simp add: wp_def fetch_def gets_def)

lemma wp_fail [wp_simps]: "wp (fail e) Q s"
  by (simp add: wp_def fail_def)

lemma wp_put [wp_simps]: "wp (put upd v) Q s = Q () (s\<lparr>smp := upd (\<lambda>_. v) (smp s)\<rparr>)"
  by (simp add: wp_def put_def)

lemma wp_alter [wp_simps]: "wp (alter f) Q s = Q () (s\<lparr>smp := f (smp s)\<rparr>)"
  by (simp add: wp_def alter_def)

lemma wp_store [wp_simps]: "wp (store upd m) Q s = wp m (\<lambda>v t. Q () (t\<lparr>smp := upd (\<lambda>_. v) (smp t)\<rparr>)) s"
  by (simp add: store_def wp_def bnd_def put_def split: prod.split sum.split)

lemma wp_drop_value [wp_simps]: "wp (drop_value m) Q s = wp m (\<lambda>_. Q ()) s"
  by (simp add: drop_value_def wp_def bnd_def ret_def split: prod.split sum.split)

lemma wp_emit [wp_simps]: "wp (emit es) Q s = Q () (s\<lparr>out := out s @ es\<rparr>)"
  by (simp add: wp_def emit_def)

lemma wp_printf [wp_simps]: "wp (printf fmt args) Q s = Q () (s\<lparr>out := out s @ [Out fmt args]\<rparr>)"
  by (simp add: printf_def wp_simps)

lemma wp_eprintf [wp_simps]: "wp (eprintf fmt args) Q s = Q () (s\<lparr>out := out s @ [Err fmt args]\<rparr>)"
  by (simp add: eprintf_def wp_simps)

lemma wp_sf_log [wp_simps]:
  "wp (sf_log fmt args) Q s = Q () (s\<lparr>out := out s @ logged s fmt args\<rparr>)"
  by (simp add: sf_log_def logged_def only_if_def wp_simps)

lemma wp_block_nil [wp_simps]: "wp (block []) Q s = Q () s"
  by (simp add: wp_simps)

lemma wp_block [wp_simps]: "wp (block (m # ms)) Q s = wp m (\<lambda>_. wp (block ms) Q) s"
  by (simp add: wp_simps)

lemma wp_if [wp_simps]: "wp (if b then m else n) Q s = (if b then wp m Q s else wp n Q s)"
  by simp

lemma wp_only_if [wp_simps]: "wp (only_if b m) Q s = (if b then wp m Q s else Q () s)"
  by (simp add: only_if_def wp_simps)

lemma wp_case_option [wp_simps]:
  "wp (case x of None \<Rightarrow> m | Some v \<Rightarrow> f v) Q s =
     (case x of None \<Rightarrow> wp m Q s | Some v \<Rightarrow> wp (f v) Q s)"
  by (cases x) simp_all

lemma wp_case_prod [wp_simps]:
  "wp (case p of (a, b) \<Rightarrow> f a b) Q s = (case p of (a, b) \<Rightarrow> wp (f a b) Q s)"
  by (cases p) simp

lemma wp_log_field [wp_simps]:
  "wp (log_field fmt f) Q s = Q () (s\<lparr>out := out s @ logged s fmt [A32 (f (smp s))]\<rparr>)"
  by (simp add: log_field_def wp_simps)

lemma wp_log_address [wp_simps]:
  "wp (log_address fmt f) Q s = Q () (s\<lparr>out := out s @ logged s fmt [AStr (printAddress (f (smp s)))]\<rparr>)"
  by (simp add: log_address_def wp_simps)

lemma wp_switch [wp_simps]:
  "wp (switch k [] d) Q s = wp d Q s"
  "wp (switch k ((c, m) # cs) d) Q s = (if k = c then wp m Q s else wp (switch k cs d) Q s)"
  by simp_all

text \<open>A contract on the final state, as a postcondition.\<close>

lemma wp_sat: "sat R m \<Longrightarrow> wp m (\<lambda>_ t. R s None t) s"
  by (rule wpI) (auto dest: satD)

text \<open>\<open>decodeLinkLayer\<close> and its kin never fail; a total reader is known by its final state.\<close>

definition returns :: "'a dec \<Rightarrow> state \<Rightarrow> bool" where
  "returns m s \<longleftrightarrow> (\<exists>v t. m s = (Inr v, t))"

end
