(* ===== verification/HeaderDecode.thy ===== *)
theory HeaderDecode
  imports Contracts
begin

text \<open>
  The packet header decoders: \<open>decodeLinkLayer\<close>, \<open>decode80211MAC\<close>, \<open>decodeIPLayer4\<close>,
  \<open>decodeIPV4\<close> and \<open>decodeIPV6\<close> of \<open>sflowtool.c\<close>. They read the sampled header through a
  pointer of their own, not through the cursor, so their reads are plain loads from the
  datagram's memory and nothing checks them but the decoders' own tests.
\<close>

section \<open>Headers\<close>

abbreviation NFT_ETHHDR_SIZ :: u32 where "NFT_ETHHDR_SIZ \<equiv> 14"
abbreviation NFT_MAX_8023_LEN :: u16 where "NFT_MAX_8023_LEN \<equiv> 1500"
abbreviation NFT_MIN_SIZ :: u32 where "NFT_MIN_SIZ \<equiv> 34"
abbreviation WIFI_MIN_HDR_SIZ :: u32 where "WIFI_MIN_HDR_SIZ \<equiv> 24"

text \<open>\<open>(p[0] << 8) + p[1]\<close>.\<close>

definition be16_at :: "memory \<Rightarrow> addr \<Rightarrow> u16" where
  "be16_at m p = be16 (m p) (m (p + 1))"

definition log_mac :: "string \<Rightarrow> memory \<Rightarrow> addr \<Rightarrow> unit dec" where
  "log_mac fmt m p = sf_log fmt (map A8 (load_bytes m p 6))"

definition load_iphdr :: "memory \<Rightarrow> addr \<Rightarrow> myiphdr" where
  "load_iphdr m p = \<lparr>
     version_and_headerLen = m p, tos = m (p + 1), tot_len = load16 m (p + 2),
     ip_id = load16 m (p + 4), frag_off = load16 m (p + 6), ttl = m (p + 8),
     protocol = m (p + 9), check = load16 m (p + 10),
     saddr = load32 m (p + 12), daddr = load32 m (p + 16)\<rparr>"

section \<open>Ethernet\<close>

text \<open>The tail of \<open>decodeLinkLayer\<close>, once \<open>type_len\<close> is an ethernet type: \<open>end - ptr\<close> is
  compared with a \<open>size_t\<close>, so as an unsigned 64-bit number.\<close>

definition decode_ethertype :: "memory \<Rightarrow> addr \<Rightarrow> addr \<Rightarrow> addr \<Rightarrow> u16 \<Rightarrow> unit dec" where
  "decode_ethertype m start hend ptr type_len = block [
     put eth_type_update (ucast type_len),
     if type_len = 0x0800 then
       (if (hend - ptr) mod 2 ^ 64 < 20 then ret ()
        else if drop_bit 4 (m ptr) \<noteq> 4 then ret ()
        else if m ptr AND 15 < 5 then ret ()
        else block [put gotIPV4_update True, put offsetToIPV4_update (word_of_int (ptr - start))])
     else if type_len = 0x86DD then
       (if drop_bit 4 (m ptr) \<noteq> 6 then ret ()
        else block [put gotIPV6_update True, put offsetToIPV6_update (word_of_int (ptr - start))])
     else ret ()]"

definition is_ipx :: "memory \<Rightarrow> addr \<Rightarrow> u16 \<Rightarrow> bool" where
  "is_ipx m ptr type_len \<longleftrightarrow>
     (type_len = 0x0200 \<or> type_len = 0x0201 \<or> type_len = 0x0600) \<and>
     (m ptr = 0xff \<and> m (ptr + 1) = 0xff) \<and>
     30 \<le> be16_at m (ptr + 2) \<and> be16_at m (ptr + 2) \<le> 30 + 546"

definition decode_8023 :: "memory \<Rightarrow> addr \<Rightarrow> addr \<Rightarrow> addr \<Rightarrow> u16 \<Rightarrow> unit dec" where
  "decode_8023 m start hend ptr type_len =
     (if is_ipx m ptr type_len then ret ()
      else if type_len \<le> NFT_MAX_8023_LEN then
        (if m ptr = 0xAA \<and> m (ptr + 1) = 0xAA \<and> m (ptr + 2) = 0x03 then
           (let p = ptr + 3 in
            if m p \<noteq> 0 \<or> m (p + 1) \<noteq> 0 \<or> m (p + 2) \<noteq> 0
            then sf_log ''VSNAP_OUI %02X-%02X-%02X\<newline>'' (map A8 (load_bytes m p 3))
            else decode_ethertype m start hend (p + 5) (be16_at m (p + 3)))
         else if m ptr = 0x06 \<and> m (ptr + 1) = 0x06 \<and> m (ptr + 2) AND 0x01 \<noteq> 0
         then decode_ethertype m start hend (ptr + 3) 0x0800
         else ret ())
      else decode_ethertype m start hend ptr type_len)"

definition decodeLinkLayer :: "unit dec" where
  "decodeLinkLayer =
     bnd (gets rawSample) (\<lambda>m.
     bnd (fetch header) (\<lambda>start.
     bnd (fetch headerLen) (\<lambda>hlen.
     let hend = start + uint hlen in
     block [
       put gotIPV4_update False,
       put gotIPV6_update False,
       if hlen < NFT_ETHHDR_SIZ then ret ()
       else block [
         log_mac ''dstMAC %02x%02x%02x%02x%02x%02x\<newline>'' m start,
         copy_into eth_dst_update (load_bytes m start 6),
         log_mac ''srcMAC %02x%02x%02x%02x%02x%02x\<newline>'' m (start + 6),
         copy_into eth_src_update (load_bytes m (start + 6) 6),
         (let type_len = be16_at m (start + 12); ptr = start + 14 in
          if type_len = 0x8100 then
            (let vlanData = be16_at m ptr; vlan = vlanData AND 0x0fff in block [
               sf_log ''decodedVLAN %u\<newline>'' [A32 (ucast vlan)],
               sf_log ''decodedPriority %u\<newline>'' [A32 (ucast (drop_bit 13 vlanData))],
               put in_vlan_update (ucast vlan),
               if hlen < NFT_MIN_SIZ then ret ()
               else decode_8023 m start hend (ptr + 4) (be16_at m (ptr + 2))])
          else if hlen < NFT_MIN_SIZ then ret ()
          else decode_8023 m start hend ptr type_len)]])))"

section \<open>802.11\<close>

definition decode80211MAC :: "unit dec" where
  "decode80211MAC =
     bnd (gets rawSample) (\<lambda>m.
     bnd (fetch header) (\<lambda>start.
     bnd (fetch headerLen) (\<lambda>hlen.
     block [
       put gotIPV4_update False,
       put gotIPV6_update False,
       if hlen < WIFI_MIN_HDR_SIZ then ret ()
       else
         (let fc = be16 (m (start + 1)) (m start);
              control = drop_bit 2 fc AND 3;
              toDS = drop_bit 8 fc AND 1;
              fromDS = drop_bit 9 fc AND 1
          in if control = 2 then
            (let macAddr1 = start + 4; macAddr2 = start + 10; macAddr3 = start + 16;
                 ptr = start + 24;
                 dstMAC = (if toDS \<noteq> 0 then macAddr3 else macAddr1);
                 srcMAC = (if toDS \<noteq> 0 then (if fromDS \<noteq> 0 then ptr else macAddr2)
                           else (if fromDS \<noteq> 0 then macAddr3 else macAddr2))
             in block [
               log_mac ''srcMAC %02x%02x%02x%02x%02x%02x\<newline>'' m srcMAC,
               copy_into eth_src_update (load_bytes m srcMAC 6),
               log_mac ''dstMAC %02x%02x%02x%02x%02x%02x\<newline>'' m dstMAC,
               copy_into eth_dst_update (load_bytes m srcMAC 6),
               log_mac ''txMAC %02x%02x%02x%02x%02x%02x\<newline>'' m macAddr2,
               log_mac ''rxMAC %02x%02x%02x%02x%02x%02x\<newline>'' m macAddr1])
          else ret ())])))"

section \<open>The transport layer\<close>

definition decode_icmp :: "memory \<Rightarrow> addr \<Rightarrow> addr \<Rightarrow> unit dec" where
  "decode_icmp m hdr ptr = block [
     sf_log ''ICMPType %u\<newline>'' [A8 (m ptr)],
     sf_log ''ICMPCode %u\<newline>'' [A8 (m (ptr + 1))],
     put dcd_sport_update (ucast (m ptr)),
     put dcd_dport_update (ucast (m (ptr + 1))),
     put offsetToPayload_update (word_of_int (ptr + 2 - hdr))]"

definition decode_tcp :: "memory \<Rightarrow> addr \<Rightarrow> addr \<Rightarrow> unit dec" where
  "decode_tcp m hdr ptr = block [
     put dcd_sport_update (ucast (ntohs (load16 m ptr))),
     put dcd_dport_update (ucast (ntohs (load16 m (ptr + 2)))),
     put dcd_tcpFlags_update (ucast (m (ptr + 13))),
     log_field ''TCPSrcPort %u\<newline>'' dcd_sport,
     log_field ''TCPDstPort %u\<newline>'' dcd_dport,
     log_field ''TCPFlags %u\<newline>'' dcd_tcpFlags,
     put offsetToPayload_update (word_of_int (ptr + uint (drop_bit 4 (m (ptr + 12))) * 4 - hdr))]"

definition decode_udp :: "memory \<Rightarrow> addr \<Rightarrow> addr \<Rightarrow> unit dec" where
  "decode_udp m hdr ptr = block [
     put dcd_sport_update (ucast (ntohs (load16 m ptr))),
     put dcd_dport_update (ucast (ntohs (load16 m (ptr + 2)))),
     put udp_pduLen_update (ucast (ntohs (load16 m (ptr + 4)))),
     log_field ''UDPSrcPort %u\<newline>'' dcd_sport,
     log_field ''UDPDstPort %u\<newline>'' dcd_dport,
     log_field ''UDPBytes %u\<newline>'' udp_pduLen,
     put offsetToPayload_update (word_of_int (ptr + 8 - hdr))]"

definition decodeIPLayer4 :: "addr \<Rightarrow> unit dec" where
  "decodeIPLayer4 ptr =
     bnd (gets rawSample) (\<lambda>m.
     bnd (fetch header) (\<lambda>hdr.
     bnd (fetch headerLen) (\<lambda>hlen.
     let hend = hdr + uint hlen in
     if ptr > hend - 8 then ret ()
     else bnd (fetch dcd_ipProtocol) (\<lambda>proto.
       switch proto [
         (1, decode_icmp m hdr ptr),
         (6, decode_tcp m hdr ptr),
         (17, decode_udp m hdr ptr)]
         (put offsetToPayload_update (word_of_int (ptr - hdr)))))))"

section \<open>IPv4\<close>

definition set_v4 :: "u32 \<Rightarrow> SFLAddress \<Rightarrow> SFLAddress" where
  "set_v4 w a = set_ip_v4 w (a\<lparr>addr_type := SFLADDRESSTYPE_IP_V4\<rparr>)"

definition decodeIPV4 :: "unit dec" where
  "decodeIPV4 =
     bnd (fetch gotIPV4) (\<lambda>got. only_if got (
     bnd (gets rawSample) (\<lambda>m.
     bnd (fetch header) (\<lambda>hdr.
     bnd (fetch offsetToIPV4) (\<lambda>off.
     let ptr = hdr + sint off; ip = load_iphdr m ptr in
     block [
       alter (ipsrc_update (set_v4 (saddr ip))),
       alter (ipdst_update (set_v4 (daddr ip))),
       put dcd_ipProtocol_update (ucast (protocol ip)),
       put dcd_ipTos_update (ucast (tos ip)),
       put dcd_ipTTL_update (ucast (ttl ip)),
       sf_log ''ip.tot_len %d\<newline>'' [A32 (ucast (ntohs (tot_len ip)))],
       log_address ''srcIP %s\<newline>'' ipsrc,
       log_address ''dstIP %s\<newline>'' ipdst,
       log_field ''IPProtocol %u\<newline>'' dcd_ipProtocol,
       log_field ''IPTOS %u\<newline>'' dcd_ipTos,
       log_field ''IPTTL %u\<newline>'' dcd_ipTTL,
       put ip_fragmentOffset_update (ucast (ntohs (frag_off ip) AND 0x1FFF)),
       bnd (fetch ip_fragmentOffset) (\<lambda>frag.
         if frag > 0 then log_field ''IPFragmentOffset %u\<newline>'' ip_fragmentOffset
         else decodeIPLayer4 (ptr + uint (version_and_headerLen ip AND 0x0f) * 4))])))))"

section \<open>IPv6\<close>

definition is_extension :: "u32 \<Rightarrow> bool" where
  "is_extension nh \<longleftrightarrow> nh = 0 \<or> nh = 43 \<or> nh = 44 \<or> nh = 51 \<or> nh = 60"

text \<open>The loop over the extension headers: \<open>None\<close> when it runs off the end of the header.\<close>

definition extension_skip :: "memory \<Rightarrow> addr \<Rightarrow> u32" where
  "extension_skip m ptr = 8 * (ucast (m (ptr + 1)) + 1) - 2"

lemma extension_skip_value: "unat (extension_skip m ptr) = 8 * (unat (m (ptr + 1)) + 1) - 2"
proof -
  let ?b = "unat (m (ptr + 1))"
  have b: "?b < 256" using unsigned_less [of "m (ptr + 1)", where ?'a = nat] by simp
  then have u: "unat (ucast (m (ptr + 1)) :: u32) = ?b"
    by (simp add: unsigned_ucast_eq take_bit_nat_eq_self)
  define w :: u32 where "w = 8 * (ucast (m (ptr + 1)) + 1)"
  have e: "unat w = 8 * (?b + 1)"
    using b by (simp add: w_def unat_word_ariths u)
  then have "2 \<le> w" by (simp add: word_le_nat_alt)
  then have "unat (w - 2) = unat w - 2" using unat_sub [of 2 w] by simp
  moreover have "extension_skip m ptr = w - 2" by (simp only: extension_skip_def w_def)
  ultimately show ?thesis using e by simp
qed

lemma extension_skip_ge: "6 \<le> uint (extension_skip m ptr)"
proof -
  have "6 \<le> unat (extension_skip m ptr)" by (simp add: extension_skip_value)
  then show ?thesis by (simp only: uint_nat)
qed

function skip_extensions :: "memory \<Rightarrow> addr \<Rightarrow> u32 \<Rightarrow> addr \<Rightarrow> (u32 \<times> addr) option dec" where
  "skip_extensions m hend nextHeader ptr =
     (if is_extension nextHeader then
        bnd (sf_log ''IP6HeaderExtension: %d\<newline>'' [A32 nextHeader]) (\<lambda>_.
          let ptr' = ptr + uint (extension_skip m ptr) in
          if ptr' > hend then ret None
          else skip_extensions m hend (ucast (m ptr)) ptr')
      else ret (Some (nextHeader, ptr)))"
  by auto

termination
proof (relation "measure (\<lambda>(m, hend, nh, ptr). nat (hend - ptr + 1))")
  fix m hend nextHeader ptr and u :: unit and ptr'
  assume "ptr' = ptr + uint (extension_skip m ptr)" "\<not> hend < ptr'"
  then show "((m, hend, ucast (m ptr), ptr'), m, hend, nextHeader, ptr)
      \<in> measure (\<lambda>(m, hend, nh, ptr). nat (hend - ptr + 1))"
    using extension_skip_ge [of m ptr] by simp
qed simp

declare skip_extensions.simps [simp del]

definition ipv6_label :: "memory \<Rightarrow> addr \<Rightarrow> u32" where
  "ipv6_label m p =
     push_bit 8 (push_bit 8 (ucast (m p)) + ucast (m (p + 1))) + ucast (m (p + 2))"

definition set_v6 :: "u8 list \<Rightarrow> SFLAddress \<Rightarrow> SFLAddress" where
  "set_v6 bs a = set_ip_v6 bs (a\<lparr>addr_type := SFLADDRESSTYPE_IP_V6\<rparr>)"

definition decodeIPV6 :: "unit dec" where
  "decodeIPV6 =
     bnd (fetch gotIPV6) (\<lambda>got. only_if got (
     bnd (gets rawSample) (\<lambda>m.
     bnd (fetch header) (\<lambda>hdr.
     bnd (fetch headerLen) (\<lambda>hlen.
     bnd (fetch offsetToIPV6) (\<lambda>off.
     let hend = hdr + uint hlen; ptr = hdr + sint off; ipVersion = drop_bit 4 (m ptr);
         payloadLen = be16_at m (ptr + 4)
     in if ipVersion \<noteq> 6
        then sf_log ''header decode error: unexpected IP version: %d\<newline>'' [A8 ipVersion]
        else block [
          put dcd_ipTos_update (ucast (m ptr AND 15)),
          log_field ''IPTOS %u\<newline>'' dcd_ipTos,
          sf_log ''IP6_label 0x%lx\<newline>'' [A32 (ipv6_label m (ptr + 1))],
          if payloadLen = 0 then sf_log ''IPV6_payloadLen <jumbo>\<newline>'' []
          else sf_log ''IPV6_payloadLen %u\<newline>'' [A32 (ucast payloadLen)],
          put dcd_ipTTL_update (ucast (m (ptr + 7))),
          log_field ''IPTTL %u\<newline>'' dcd_ipTTL,
          alter (ipsrc_update (set_v6 (load_bytes m (ptr + 8) 16))),
          log_address ''srcIP6 %s\<newline>'' ipsrc,
          alter (ipdst_update (set_v6 (load_bytes m (ptr + 24) 16))),
          log_address ''dstIP6 %s\<newline>'' ipdst,
          bnd (skip_extensions m hend (ucast (m (ptr + 6))) (ptr + 40)) (\<lambda>r.
            case r of
              None \<Rightarrow> ret ()
            | Some (nextHeader, ptr') \<Rightarrow> block [
                put dcd_ipProtocol_update nextHeader,
                log_field ''IPProtocol %u\<newline>'' dcd_ipProtocol,
                decodeIPLayer4 ptr'])]))))))"

section \<open>Contracts\<close>

context checked_reader
begin

lemma sat_log_mac [contract_intro]: "sat R (log_mac fmt m p)"
  unfolding log_mac_def by (intro contract_intro)

lemma sat_decode_ethertype [contract_intro]: "sat R (decode_ethertype m start hend ptr ty)"
  unfolding decode_ethertype_def by (intro contract_intro)

lemma sat_decode_8023 [contract_intro]: "sat R (decode_8023 m start hend ptr ty)"
  unfolding decode_8023_def Let_def by (intro contract_intro)

lemma sat_decodeLinkLayer [contract_intro]: "sat R decodeLinkLayer"
  unfolding decodeLinkLayer_def Let_def by (intro contract_intro)

lemma sat_decode80211MAC [contract_intro]: "sat R decode80211MAC"
  unfolding decode80211MAC_def Let_def by (intro contract_intro)

lemma sat_decodeIPLayer4 [contract_intro]: "sat R (decodeIPLayer4 ptr)"
  unfolding decodeIPLayer4_def decode_icmp_def decode_tcp_def decode_udp_def Let_def
  by (intro contract_intro)

lemma sat_decodeIPV4 [contract_intro]: "sat R decodeIPV4"
  unfolding decodeIPV4_def Let_def by (intro contract_intro)

lemma sat_skip_extensions [contract_intro]: "sat R (skip_extensions m hend nh ptr)"
proof (induction m hend nh ptr rule: skip_extensions.induct)
  case (1 m hend nh ptr)
  show ?case
    unfolding skip_extensions.simps [of m hend nh ptr] Let_def
    by (auto intro!: sat_if sat_bnd sat_sf_log sat_ret 1 simp: not_less)
qed

lemma sat_decodeIPV6 [contract_intro]: "sat R decodeIPV6"
  unfolding decodeIPV6_def Let_def by (intro contract_intro)

end

end
