(* ===== verification/HeaderSpec.thy ===== *)
theory HeaderSpec
  imports Wp HeaderDecode
begin

text \<open>
  What the packet header decoders guarantee: where an IPv4 header found in an Ethernet frame
  lies, what \<open>decodeIPV4\<close> records of it, how far the walk over IPv6 extension headers goes; and
  where they read beyond the sampled header or record the wrong field.
\<close>

section \<open>The decoders return\<close>

text \<open>The contract of a statement that neither aborts nor exits nor leaves an array.\<close>

definition fine_rel :: contract where
  "fine_rel s r t \<longleftrightarrow> r = None"

interpretation fine: contract_law fine_rel
  by unfold_locales (auto simp: fine_rel_def)

lemma fine_updates [contract_intro]: "sat fine_rel (put upd v)" "sat fine_rel (alter f)"
  by (simp_all add: sat_def fine_rel_def put_def alter_def)

lemma fine_logs [contract_intro]:
  "sat fine_rel (sf_log fmt args)" "sat fine_rel (log_field fmt f)" "sat fine_rel (log_address fmt g)"
  "sat fine_rel (log_mac fmt m p)"
  by (simp_all add: sat_def fine_rel_def sf_log_def log_field_def log_address_def log_mac_def dec_defs)

lemma fine_result: "sat fine_rel m \<Longrightarrow> fst (m s) = Inr (() :: unit)"
  by (cases "fst (m s)") (auto simp: sat_def fine_rel_def ending_def dest!: spec [of _ s])

lemma fine_decodeIPLayer4 [contract_intro]: "sat fine_rel (decodeIPLayer4 ptr)"
  unfolding decodeIPLayer4_def decode_icmp_def decode_tcp_def decode_udp_def Let_def
  by (intro contract_intro)

lemma fine_skip_extensions [contract_intro]: "sat fine_rel (skip_extensions m hend nh ptr)"
proof (induction m hend nh ptr rule: skip_extensions.induct)
  case (1 m hend nh ptr)
  show ?case
    unfolding skip_extensions.simps [of m hend nh ptr] Let_def
    by (auto intro!: fine.sat_if fine.sat_bnd fine_logs fine.sat_ret 1 simp: not_less)
qed

lemma fine_decoders:
  "sat fine_rel decodeLinkLayer" "sat fine_rel decode80211MAC" "sat fine_rel decodeIPV4"
  "sat fine_rel decodeIPV6"
  unfolding decodeLinkLayer_def decode80211MAC_def decodeIPV4_def decodeIPV6_def
    decode_8023_def decode_ethertype_def Let_def
  by (intro contract_intro)+


section \<open>Ethernet\<close>

definition ipv4_in_frame :: "memory \<Rightarrow> SFSample \<Rightarrow> bool" where
  "ipv4_in_frame m x \<longleftrightarrow>
     (let off = uint (offsetToIPV4 x) in
      14 \<le> off \<and> off + 20 \<le> uint (headerLen x) \<and>
      drop_bit 4 (m (header x + off)) = 4 \<and> 5 \<le> m (header x + off) AND 15)"

lemma wp_decode_ethertype:
  assumes "14 \<le> ptr - start" "ptr - start \<le> 26" "hend = start + uint hl" "34 \<le> uint hl"
    and "\<not> gotIPV4 (smp s)" "header (smp s) = start" "headerLen (smp s) = hl"
  shows "wp (decode_ethertype m start hend ptr ty) (\<lambda>_ t. gotIPV4 (smp t) \<longrightarrow> ipv4_in_frame m (smp t)) s"
proof -
  have u: "uint (word_of_int (ptr - start) :: u32) = ptr - start"
    using assms(1,2) by (intro uint_small) auto
  have "uint hl < 2 ^ 32" using unsigned_less [of hl, where ?'a = int] by simp
  then have "(hend - ptr) mod 2 ^ 64 = hend - ptr"
    using assms(1-4) by (intro mod_pos_pos_trivial) auto
  then show ?thesis
    using assms u
    by (simp add: decode_ethertype_def wp_simps ipv4_in_frame_def Let_def not_less)
qed


lemma wp_decode_8023:
  assumes "14 \<le> ptr - start" "ptr - start \<le> 18" "hend = start + uint hl" "34 \<le> uint hl"
    and "\<not> gotIPV4 (smp s)" "header (smp s) = start" "headerLen (smp s) = hl"
  shows "wp (decode_8023 m start hend ptr ty) (\<lambda>_ t. gotIPV4 (smp t) \<longrightarrow> ipv4_in_frame m (smp t)) s"
  using assms
  by (auto simp: decode_8023_def wp_simps Let_def intro!: wp_decode_ethertype)

lemma wp_log_mac [wp_simps]:
  "wp (log_mac fmt m p) Q s = Q () (s\<lparr>out := out s @ logged s fmt (map A8 (load_bytes m p 6))\<rparr>)"
  by (simp add: log_mac_def wp_simps)

text \<open>
  C25. Whenever the Ethernet decoder reports an IPv4 packet, the packet starts behind the
  Ethernet header, its fixed header lies within the sampled bytes, its version is 4 and its
  header length at least five quads, whatever VLAN, SNAP or 802.2 encapsulation led there.
\<close>

theorem decodeLinkLayer_ipv4_in_frame:
  assumes "decodeLinkLayer s = (Inr (), t)" "gotIPV4 (smp t)"
  shows "ipv4_in_frame (rawSample s) (smp t)"
proof -
  have "wp decodeLinkLayer (\<lambda>_ t. gotIPV4 (smp t) \<longrightarrow> ipv4_in_frame (rawSample s) (smp t)) s"
    unfolding decodeLinkLayer_def Let_def
    by (auto simp: wp_simps word_le_def not_less intro!: wp_decode_8023)
  with assms show ?thesis by (auto dest: wpD)
qed


text \<open>A frame of 34 bytes: Ethernet, then an IPv4 header for UDP.\<close>

definition udp_frame :: "u8 list" where
  "udp_frame =
     [1, 2, 3, 4, 5, 6, 7, 8, 9, 10, 11, 12, 8, 0,
      0x45, 0, 0, 60, 0, 1, 0, 0, 64, 17, 0, 0, 10, 0, 0, 1, 10, 0, 0, 2]"

definition sampled :: "u8 list \<Rightarrow> state" where
  "sampled bs = (received bs)\<lparr>smp := zero_sample\<lparr>header := 0, headerLen := of_nat (length bs)\<rparr>\<rparr>"

theorem decodeLinkLayer_ipv4_in_frame_witness:
  "ipv4_in_frame (mem_of udp_frame) (smp (snd (decodeLinkLayer (sampled udp_frame))))"
proof -
  have "fst (decodeLinkLayer (sampled udp_frame)) = Inr ()" by code_simp
  then have run: "decodeLinkLayer (sampled udp_frame) = (Inr (), snd (decodeLinkLayer (sampled udp_frame)))"
    by (simp add: prod_eq_iff)
  have got: "gotIPV4 (smp (snd (decodeLinkLayer (sampled udp_frame))))" by code_simp
  have "rawSample (sampled udp_frame) = mem_of udp_frame" by (simp add: sampled_def)
  with decodeLinkLayer_ipv4_in_frame [OF run got] show ?thesis by simp
qed

section \<open>802.11\<close>

text \<open>
  A data frame's destination address is lost: the decoder prints the destination it found
  but stores the source address in both \<open>eth_src\<close> and \<open>eth_dst\<close>.
\<close>

theorem decode80211MAC_stores_source_twice:
  assumes "decode80211MAC s = (Inr (), t)" "WIFI_MIN_HDR_SIZ \<le> headerLen (smp s)"
    and "drop_bit 2 (be16 (rawSample s (header (smp s) + 1)) (rawSample s (header (smp s)))) AND 3 = 2"
  shows "take 6 (eth_dst (smp t)) = take 6 (eth_src (smp t))"
proof -
  have "\<not> headerLen (smp s) < WIFI_MIN_HDR_SIZ" using assms(2) by simp
  then have "wp decode80211MAC (\<lambda>_ t. take 6 (eth_dst (smp t)) = take 6 (eth_src (smp t))) s"
    using assms(3) by (simp add: decode80211MAC_def wp_simps Let_def overwrite_def)
  with assms(1) show ?thesis by (auto dest: wpD)
qed

text \<open>A data frame from an access point: receiver 1, transmitter 2, source 3 (repeated bytes).\<close>

definition wifi_frame :: "u8 list" where
  "wifi_frame = [0x08, 0x02, 0, 0] @ replicate 6 1 @ replicate 6 2 @ replicate 6 3 @ [0, 0]"

theorem decode80211MAC_stores_source_twice_witness:
  "take 6 (eth_dst (smp (snd (decode80211MAC (sampled wifi_frame))))) =
   take 6 (eth_src (smp (snd (decode80211MAC (sampled wifi_frame)))))"
proof -
  have "fst (decode80211MAC (sampled wifi_frame)) = Inr ()" by code_simp
  then have run: "decode80211MAC (sampled wifi_frame) = (Inr (), snd (decode80211MAC (sampled wifi_frame)))"
    by (simp add: prod_eq_iff)
  show ?thesis
    by (rule decode80211MAC_stores_source_twice [OF run]) code_simp+
qed

section \<open>IPv4\<close>

lemma addr_type_set_ip_v4 [simp]: "addr_type (set_ip_v4 w a) = addr_type a"
  by (simp add: set_ip_v4_def)

text \<open>The transport decoder writes only the ports, the flags, the UDP length and the payload
  offset.\<close>

definition only_transport :: "SFSample \<Rightarrow> SFSample \<Rightarrow> bool" where
  "only_transport x y \<longleftrightarrow>
     y = x\<lparr>dcd_sport := dcd_sport y, dcd_dport := dcd_dport y, dcd_tcpFlags := dcd_tcpFlags y,
           udp_pduLen := udp_pduLen y, offsetToPayload := offsetToPayload y\<rparr>"

lemma wp_decodeIPLayer4: "wp (decodeIPLayer4 ptr) (\<lambda>_ t. only_transport (smp s) (smp t)) s"
  by (simp add: decodeIPLayer4_def decode_icmp_def decode_tcp_def decode_udp_def wp_simps Let_def
      only_transport_def)

lemma only_transportD:
  assumes "only_transport x y"
  shows "ipsrc y = ipsrc x" "ipdst y = ipdst x" "dcd_ipProtocol y = dcd_ipProtocol x"
    "dcd_ipTos y = dcd_ipTos x" "dcd_ipTTL y = dcd_ipTTL x"
    "ip_fragmentOffset y = ip_fragmentOffset x"
proof -
  note eq = assms [unfolded only_transport_def]
  show "ipsrc y = ipsrc x" by (subst eq) simp
  show "ipdst y = ipdst x" by (subst eq) simp
  show "dcd_ipProtocol y = dcd_ipProtocol x" by (subst eq) simp
  show "dcd_ipTos y = dcd_ipTos x" by (subst eq) simp
  show "dcd_ipTTL y = dcd_ipTTL x" by (subst eq) simp
  show "ip_fragmentOffset y = ip_fragmentOffset x" by (subst eq) simp
qed

definition ipv4_recorded :: "memory \<Rightarrow> addr \<Rightarrow> SFSample \<Rightarrow> bool" where
  "ipv4_recorded m p x \<longleftrightarrow>
     addr_type (ipsrc x) = SFLADDRESSTYPE_IP_V4 \<and> ip_v4 (ipsrc x) = load32 m (p + 12) \<and>
     addr_type (ipdst x) = SFLADDRESSTYPE_IP_V4 \<and> ip_v4 (ipdst x) = load32 m (p + 16) \<and>
     dcd_ipProtocol x = ucast (m (p + 9)) \<and> dcd_ipTos x = ucast (m (p + 1)) \<and>
     dcd_ipTTL x = ucast (m (p + 8)) \<and>
     ip_fragmentOffset x = ucast (be16_at m (p + 6) AND 0x1FFF)"

lemma wp_decodeIPV4:
  assumes "gotIPV4 (smp s)" and mp: "m = rawSample s" "p = header (smp s) + sint (offsetToIPV4 (smp s))"
    and fragment: "\<And>u. ipv4_recorded m p (smp u) \<Longrightarrow> ip_fragmentOffset (smp u) \<noteq> 0 \<Longrightarrow>
      dcd_sport (smp u) = dcd_sport (smp s) \<Longrightarrow> dcd_dport (smp u) = dcd_dport (smp s) \<Longrightarrow> Q () u"
    and transport: "\<And>ptr u. ipv4_recorded m p (smp u) \<Longrightarrow> ip_fragmentOffset (smp u) = 0 \<Longrightarrow>
      wp (decodeIPLayer4 ptr) Q u"
  shows "wp decodeIPV4 Q s"
  using assms(1)
  by (auto simp: decodeIPV4_def wp_simps Let_def load_iphdr_def load16_def be16_at_def set_v4_def
      ipv4_recorded_def word_gt_0 mp intro!: fragment transport)

text \<open>
  C26. \<open>decodeIPV4\<close> records the packet's addresses (in network order), protocol, type of service,
  time to live and fragment offset, and a fragment's ports are not decoded: for an offset
  above zero the port fields keep their values.
\<close>

theorem decodeIPV4_records:
  assumes "decodeIPV4 s = (Inr (), t)" "gotIPV4 (smp s)"
  shows "ipv4_recorded (rawSample s) (header (smp s) + sint (offsetToIPV4 (smp s))) (smp t) \<and>
    (ip_fragmentOffset (smp t) > 0 \<longrightarrow> dcd_sport (smp t) = dcd_sport (smp s) \<and> dcd_dport (smp t) = dcd_dport (smp s))"
proof -
  let ?m = "rawSample s" and ?p = "header (smp s) + sint (offsetToIPV4 (smp s))"
  let ?Q = "\<lambda>t. ipv4_recorded ?m ?p (smp t) \<and>
     (ip_fragmentOffset (smp t) > 0 \<longrightarrow> dcd_sport (smp t) = dcd_sport (smp s) \<and> dcd_dport (smp t) = dcd_dport (smp s))"
  have "wp decodeIPV4 (\<lambda>_. ?Q) s"
    by (rule wp_decodeIPV4 [OF assms(2) refl refl])
      (auto simp: only_transportD ipv4_recorded_def intro!: wp_mono [OF wp_decodeIPLayer4])
  with assms(1) show ?thesis by (auto dest: wpD)
qed


text \<open>The state in which \<open>decodeIPV4\<close> meets the frame above.\<close>

definition found_ipv4 :: state where
  "found_ipv4 = (sampled udp_frame)\<lparr>smp :=
     (smp (sampled udp_frame))\<lparr>gotIPV4 := True, offsetToIPV4 := 14\<rparr>\<rparr>"

theorem decodeIPV4_records_witness:
  "ip_v4 (ipsrc (smp (snd (decodeIPV4 found_ipv4)))) = load32 (mem_of udp_frame) 26"
proof -
  have "fst (decodeIPV4 found_ipv4) = Inr ()" by (rule fine_result) (rule fine_decoders)
  then have run: "decodeIPV4 found_ipv4 = (Inr (), snd (decodeIPV4 found_ipv4))"
    by (simp add: prod_eq_iff)
  have "gotIPV4 (smp found_ipv4)" by code_simp
  from decodeIPV4_records [OF run this]
  show ?thesis by (simp add: ipv4_recorded_def found_ipv4_def sampled_def)
qed

text \<open>\<open>decodeIPLayer4\<close> asks for eight bytes and copies a TCP header of twenty: with the ports as
  the last eight bytes of the sample, the flags come from beyond it.\<close>

lemma decodeIPLayer4_reads_past_header:
  "dcd_tcpFlags (smp (snd (decodeIPLayer4 0 ((zero_state (\<lambda>a. 0) 8)
     \<lparr>smp := zero_sample\<lparr>header := 0, headerLen := 8, dcd_ipProtocol := 6\<rparr>\<rparr>)))) = 0 \<and>
   dcd_tcpFlags (smp (snd (decodeIPLayer4 0 ((zero_state (\<lambda>a. if a < 8 then 0 else 7) 8)
     \<lparr>smp := zero_sample\<lparr>header := 0, headerLen := 8, dcd_ipProtocol := 6\<rparr>\<rparr>)))) = 7"
  by code_simp

section \<open>IPv6\<close>

lemma wp_skip_extensions:
  "wp (skip_extensions m hend nh ptr)
     (\<lambda>r t. case r of None \<Rightarrow> True
        | Some (nh', p) \<Rightarrow> \<not> is_extension nh' \<and> ptr \<le> p \<and> (p = ptr \<or> p \<le> hend)) s"
proof (induction m hend nh ptr arbitrary: s rule: skip_extensions.induct)
  case (1 m hend nh ptr)
  let ?ptr' = "ptr + uint (extension_skip m ptr)"
  have fwd: "ptr < ?ptr'" using extension_skip_ge [of m ptr] by simp
  show ?case
  proof (cases "is_extension nh \<and> ?ptr' \<le> hend")
    case True
    then have "wp (skip_extensions m hend (ucast (m ptr)) ?ptr')
        (\<lambda>r t. case r of None \<Rightarrow> True
          | Some (nh', p) \<Rightarrow> \<not> is_extension nh' \<and> ?ptr' \<le> p \<and> (p = ?ptr' \<or> p \<le> hend)) u" for u
      using 1 by (simp add: not_less)
    then have "wp (skip_extensions m hend (ucast (m ptr)) ?ptr')
        (\<lambda>r t. case r of None \<Rightarrow> True
          | Some (nh', p) \<Rightarrow> \<not> is_extension nh' \<and> ptr \<le> p \<and> (p = ptr \<or> p \<le> hend)) u" for u
      by (rule wp_mono) (use True fwd in \<open>auto split: option.splits\<close>)
    then show ?thesis
      using True by (simp add: skip_extensions.simps [of m hend nh ptr] wp_simps Let_def not_less)
  next
    case False
    then show ?thesis
      by (auto simp: skip_extensions.simps [of m hend nh ptr] wp_simps Let_def)
  qed
qed

text \<open>
  C27. The walk over the IPv6 extension headers ends (it is a total function, each step moves at
  least six bytes), and what it returns is a protocol that is no extension, at a position that
  never moved back and, if it moved at all, is not beyond the sampled header.
\<close>

theorem skip_extensions_in_header:
  assumes "skip_extensions m hend nh ptr s = (Inr (Some (nh', p)), t)"
  shows "\<not> is_extension nh' \<and> ptr \<le> p \<and> (p = ptr \<or> p \<le> hend)"
  using wpD [OF wp_skip_extensions assms] by simp

theorem skip_extensions_in_header_witness:
  "\<not> is_extension 6 \<and> (0 :: int) \<le> 6 \<and> ((6 :: int) = 0 \<or> (6 :: int) \<le> 40)"
proof -
  let ?run = "skip_extensions (mem_of [6, 0]) 40 0 0 (received [])"
  have "fst ?run = Inr (Some (6, 6))" by code_simp
  then have "?run = (Inr (Some (6, 6)), snd ?run)" by (simp add: prod_eq_iff)
  from skip_extensions_in_header [OF this] show ?thesis .
qed

text \<open>
  Each extension header is left two bytes early: for a length byte \<open>n\<close> the header occupies
  \<open>8 * (n + 1)\<close> bytes, and the walk advances by two less, since the two bytes it has read were
  not skipped before they are subtracted.
\<close>

theorem extension_skip_two_short:
  "unat (extension_skip m ptr) + 2 = 8 * (unat (m (ptr + 1)) + 1)"
  by (simp add: extension_skip_value)

end
