(* ===== verification/Output.thy ===== *)
theory Output
  imports HeaderDecode
begin

text \<open>
  What the tool writes for a sample when it is not printing it in full: the line formats
  (\<open>writeFlowLine\<close>, \<open>writeCountersLine\<close>), the pcap writer and the NetFlow version 5
  exporter with its spoofed-source variant. A failing \<open>printf\<close>, \<open>fwrite\<close> or \<open>sendto\<close> is
  not modelled: output always succeeds.
\<close>

section \<open>Lines\<close>

definition writeFlowLine :: "unit dec" where
  "writeFlowLine =
     bnd (gets smp) (\<lambda>x. block [
       printf ''FLOW,%s,%d,%d,'' [AStr (printAddress (agent_addr x)), A32 (inputPort x), A32 (outputPort x)],
       printf ''%02x%02x%02x%02x%02x%02x,%02x%02x%02x%02x%02x%02x,0x%04x,%d,%d''
         (map A8 (take 6 (eth_src x)) @ map A8 (take 6 (eth_dst x)) @
          [A32 (eth_type x), A32 (in_vlan x), A32 (out_vlan x)]),
       printf '',%s,%s,%d,0x%02x,%d,%d,%d,0x%02x''
         [AStr (printAddress (ipsrc x)), AStr (printAddress (ipdst x)), A32 (dcd_ipProtocol x),
          A32 (dcd_ipTos x), A32 (dcd_ipTTL x), A32 (dcd_sport x), A32 (dcd_dport x),
          A32 (dcd_tcpFlags x)],
       printf '',%d,%d,%d\<newline>''
         [A32 (sampledPacketSize x), A32 (sampledPacketSize x - stripped x - offsetToIPV4 x),
          A32 (meanSkipCount x)]])"

definition writeCountersLine :: "unit dec" where
  "writeCountersLine =
     bnd (gets smp) (\<lambda>x. let c = ifCounters x in block [
       printf ''CNTR,%s,'' [AStr (printAddress (agent_addr x))],
       printf ''%u,%u,%lu,%u,%u,%lu,%u,%u,%u,%u,%u,%u,%lu,%u,%u,%u,%u,%u,%u\<newline>''
         [A32 (ifIndex c), A32 (ifType c), A64 (ifSpeed c), A32 (ifDirection c), A32 (ifStatus c),
          A64 (ifInOctets c), A32 (ifInUcastPkts c), A32 (ifInMulticastPkts c),
          A32 (ifInBroadcastPkts c), A32 (ifInDiscards c), A32 (ifInErrors c),
          A32 (ifInUnknownProtos c), A64 (ifOutOctets c), A32 (ifOutUcastPkts c),
          A32 (ifOutMulticastPkts c), A32 (ifOutBroadcastPkts c), A32 (ifOutDiscards c),
          A32 (ifOutErrors c), A32 (ifPromiscuousMode c)]])"

section \<open>Writing pcap\<close>

abbreviation TCPDUMP_MAGIC :: u32 where "TCPDUMP_MAGIC \<equiv> 0xa1b2c3d4"

text \<open>The structs as they stand in memory, host byte order.\<close>

definition bytes_of_file_header :: "pcap_file_header \<Rightarrow> u8 list" where
  "bytes_of_file_header h =
     bytes_of_u32 (pcap_magic h) @ bytes_of_u16 (version_major h) @ bytes_of_u16 (version_minor h) @
     bytes_of_u32 (thiszone h) @ bytes_of_u32 (sigfigs h) @ bytes_of_u32 (snaplen h) @
     bytes_of_u32 (linktype h)"

definition pcap_header_written :: pcap_file_header where
  "pcap_header_written =
     \<lparr>pcap_magic = TCPDUMP_MAGIC, version_major = 2, version_minor = 4, thiszone = 0,
      sigfigs = 0, snaplen = 128, linktype = 1\<rparr>"

definition writePcapHeader :: "unit dec" where
  "writePcapHeader = emit [PcapWrite (bytes_of_file_header pcap_header_written)]"

record pcap_pkthdr =
  ts_sec :: u32
  ts_usec :: u32
  caplen :: u32
  pkt_len :: u32

definition bytes_of_pkthdr :: "pcap_pkthdr \<Rightarrow> u8 list" where
  "bytes_of_pkthdr h =
     bytes_of_u32 (ts_sec h) @ bytes_of_u32 (ts_usec h) @ bytes_of_u32 (caplen h) @
     bytes_of_u32 (pkt_len h)"

text \<open>The packet is assembled in a buffer of 2048 bytes; the padding is copied out of an array
  of 100. Copying more than either holds is undefined.\<close>

definition writePcapPacket :: "unit dec" where
  "writePcapPacket =
     bnd (gets id) (\<lambda>s.
     let x = smp s; c = cfg s;
         hdr = \<lparr>ts_sec = clock s, ts_usec = 0,
                caplen = (if removeContent c \<and> offsetToPayload x \<noteq> 0 then offsetToPayload x
                          else headerLen x),
                pkt_len = sampledPacketSize x\<rparr>;
         pad = unat (tcpdumpHdrPad c); n = unat (caplen hdr)
     in if pad > length (zeroPad c) \<or> 16 + pad + n > 2048 then fail Undef
        else emit [PcapWrite (bytes_of_pkthdr hdr @ take pad (zeroPad c) @
                              load_bytes (rawSample s) (header x) n)])"

section \<open>NetFlow version 5\<close>

record NFFlow5 =
  srcIP :: u32
  dstIP :: u32
  nf_nextHop :: u32
  if_in :: u16
  if_out :: u16
  frames :: u32
  nf_bytes :: u32
  firstTime :: u32
  lastTime :: u32
  srcPort :: u16
  dstPort :: u16
  tcpFlags :: u8
  ipProto :: u8
  ipTos :: u8
  srcAS :: u16
  dstAS :: u16
  nf_srcMask :: u8
  nf_dstMask :: u8

record NFFlowHdr5 =
  nf_version :: u16
  count :: u16
  nf_sysUpTime :: u32
  unixSeconds :: u32
  unixNanoSeconds :: u32
  flowSequence :: u32
  engineType :: u8
  engineId :: u8
  sampling_interval :: u16

record NFFlowPkt5 =
  nf_hdr :: NFFlowHdr5
  nf_flow :: NFFlow5

definition bytes_of_flow :: "NFFlow5 \<Rightarrow> u8 list" where
  "bytes_of_flow f =
     bytes_of_u32 (srcIP f) @ bytes_of_u32 (dstIP f) @ bytes_of_u32 (nf_nextHop f) @
     bytes_of_u16 (if_in f) @ bytes_of_u16 (if_out f) @
     bytes_of_u32 (frames f) @ bytes_of_u32 (nf_bytes f) @
     bytes_of_u32 (firstTime f) @ bytes_of_u32 (lastTime f) @
     bytes_of_u16 (srcPort f) @ bytes_of_u16 (dstPort f) @
     [0, tcpFlags f, ipProto f, ipTos f] @
     bytes_of_u16 (srcAS f) @ bytes_of_u16 (dstAS f) @ [nf_srcMask f, nf_dstMask f, 0, 0]"

definition bytes_of_hdr :: "NFFlowHdr5 \<Rightarrow> u8 list" where
  "bytes_of_hdr h =
     bytes_of_u16 (nf_version h) @ bytes_of_u16 (count h) @ bytes_of_u32 (nf_sysUpTime h) @
     bytes_of_u32 (unixSeconds h) @ bytes_of_u32 (unixNanoSeconds h) @
     bytes_of_u32 (flowSequence h) @ [engineType h, engineId h] @ bytes_of_u16 (sampling_interval h)"

definition bytes_of_pkt :: "NFFlowPkt5 \<Rightarrow> u8 list" where
  "bytes_of_pkt p = bytes_of_hdr (nf_hdr p) @ bytes_of_flow (nf_flow p)"

lemma length_bytes_of_pkt [simp]: "length (bytes_of_pkt p) = 72"
  by (simp add: bytes_of_pkt_def bytes_of_hdr_def bytes_of_flow_def)

subsection \<open>The packet\<close>

definition flow_byte_count :: "SFSample \<Rightarrow> u32" where
  "flow_byte_count x =
     (if udp_pduLen x > 0 then udp_pduLen x
      else sampledPacketSize x - stripped x - offsetToIPV4 x)"

definition netflow_packet :: "SFConfig \<Rightarrow> u32 \<Rightarrow> u32 \<Rightarrow> SFSample \<Rightarrow> NFFlowPkt5" where
  "netflow_packet c now seq x =
     (let bytes = flow_byte_count x;
          uptime = htonl (now mod (3600 * 24)) * 1000;
          scale = \<not> disableNetFlowScale c;
          samp_ival = (ucast (meanSkipCount x) :: u16)
      in \<lparr>nf_hdr =
            \<lparr>nf_version = htons 5, count = htons 1, nf_sysUpTime = uptime,
             unixSeconds = htonl now, unixNanoSeconds = 0, flowSequence = htonl seq,
             engineType = 0, engineId = 0,
             sampling_interval = (if scale then 0 else htons (samp_ival AND 0x4000))\<rparr>,
          nf_flow =
            \<lparr>srcIP = ip_v4 (ipsrc x), dstIP = ip_v4 (ipdst x), nf_nextHop = ip_v4 (nextHop x),
             if_in = htons (ucast (inputPort x)), if_out = htons (ucast (outputPort x)),
             frames = (if scale then htonl (meanSkipCount x) else htonl 1),
             nf_bytes = (if scale then htonl (meanSkipCount x * bytes) else htonl bytes),
             firstTime = uptime, lastTime = uptime,
             srcPort = htons (ucast (dcd_sport x)), dstPort = htons (ucast (dcd_dport x)),
             tcpFlags = ucast (dcd_tcpFlags x), ipProto = ucast (dcd_ipProtocol x),
             ipTos = ucast (dcd_ipTos x),
             srcAS = htons (ucast (if netFlowPeerAS c then src_peer_as x else src_as x)),
             dstAS = htons (ucast (if netFlowPeerAS c then dst_peer_as x else dst_as x)),
             nf_srcMask = ucast (srcMask x), nf_dstMask = ucast (dstMask x)\<rparr>\<rparr>)"

subsection \<open>Spoofing the source\<close>

text \<open>\<open>in_checksum\<close> over a run of bytes: 16-bit words as they stand in memory, an odd last byte
  alone, and two folds of the carries into an \<open>int\<close> sum.\<close>

fun checksum_words :: "u8 list \<Rightarrow> nat" where
  "checksum_words [] = 0"
| "checksum_words [b] = unat b"
| "checksum_words (b0 # b1 # bs) = unat (le16 b0 b1) + checksum_words bs"

definition fold_carries :: "nat \<Rightarrow> u16" where
  "fold_carries n =
     (let a = n div 65536 + n mod 65536; b = a + a div 65536 in word_of_nat b)"

definition in_checksum :: "u8 list \<Rightarrow> u16" where
  "in_checksum bs = NOT (fold_carries (checksum_words bs))"

definition bytes_of_ip :: "myiphdr \<Rightarrow> u8 list" where
  "bytes_of_ip h =
     [version_and_headerLen h, tos h] @ bytes_of_u16 (tot_len h) @ bytes_of_u16 (ip_id h) @
     bytes_of_u16 (frag_off h) @ [ttl h, protocol h] @ bytes_of_u16 (check h) @
     bytes_of_u32 (saddr h) @ bytes_of_u32 (daddr h)"

definition bytes_of_udp :: "myudphdr \<Rightarrow> u8 list" where
  "bytes_of_udp h =
     bytes_of_u16 (uh_sport h) @ bytes_of_u16 (uh_dport h) @ bytes_of_u16 (uh_ulen h) @
     bytes_of_u16 (uh_sum h)"

text \<open>The twelve bytes put in front of the UDP header while its checksum is taken.\<close>

definition udpmagichdr :: "myiphdr \<Rightarrow> myudphdr \<Rightarrow> u8 list" where
  "udpmagichdr ip udp =
     bytes_of_u32 (saddr ip) @ bytes_of_u32 (daddr ip) @ [0, 17] @ bytes_of_u16 (uh_ulen udp)"

text \<open>\<open>openNetFlowSocket_spoof\<close>: the packet template, once the socket is open.\<close>

definition spoof_template :: "SFConfig \<Rightarrow> spoof_state" where
  "spoof_template c =
     \<lparr>ipid = 12000,
      send_ip = \<lparr>version_and_headerLen = 0x45, tos = 0, tot_len = 0, ip_id = 0, frag_off = 0,
                 ttl = 64, protocol = 17, check = 0, saddr = 0, daddr = netFlowOutputIP c\<rparr>,
      send_udp = \<lparr>uh_sport = htons (netFlowOutputPort c), uh_dport = htons (netFlowOutputPort c),
                  uh_ulen = 0, uh_sum = 0\<rparr>,
      send_data = replicate 2000 0\<rparr>"

definition nonzero_sum :: "u16 \<Rightarrow> u16" where
  "nonzero_sum w = (if w = 0 then 0xffff else w)"

definition spoof_packet :: "SFSample \<Rightarrow> u8 list \<Rightarrow> spoof_state \<Rightarrow> spoof_state" where
  "spoof_packet x pkt sp =
     (let packetLen = (100 :: u16);
          data = overwrite (send_data sp) pkt;
          ident = ipid sp + 1;
          ip1 = (send_ip sp)\<lparr>ip_id := htons ident, tot_len := htons packetLen,
                             saddr := ip_v4 (agent_addr x)\<rparr>;
          ip2 = ip1\<lparr>check := nonzero_sum (in_checksum (bytes_of_ip ip1))\<rparr>;
          udp1 = (send_udp sp)\<lparr>uh_ulen := htons (packetLen - 20), uh_sum := 0\<rparr>;
          covered = take (unat (ntohs (uh_ulen udp1)) + 12)
                      (udpmagichdr ip2 udp1 @ bytes_of_udp udp1 @ data);
          udp2 = udp1\<lparr>uh_sum := nonzero_sum (in_checksum covered)\<rparr>
      in \<lparr>ipid = ident, send_ip = ip2, send_udp = udp2, send_data = data\<rparr>)"

definition sendNetFlowDatagram_spoof :: "NFFlowPkt5 \<Rightarrow> unit dec" where
  "sendNetFlowDatagram_spoof pkt = (\<lambda>s.
     let sp = spoof_packet (smp s) (bytes_of_pkt pkt) (spoof s);
         packet = take 100 (bytes_of_ip (send_ip sp) @ bytes_of_udp (send_udp sp) @ send_data sp)
     in (Inr (), s\<lparr>spoof := sp,
                   out := out s @ [SendTo (netFlowOutputSocket (cfg s)) (daddr (send_ip sp)) packet]\<rparr>))"

text \<open>\<open>NFFlowSequenceNo++\<close> in the middle of the packet's construction.\<close>

definition next_sequence :: "u32 dec" where
  "next_sequence = (\<lambda>s. (Inr (NFFlowSequenceNo s), s\<lparr>NFFlowSequenceNo := NFFlowSequenceNo s + 1\<rparr>))"

definition sendNetFlowDatagram :: "unit dec" where
  "sendNetFlowDatagram =
     bnd (fetch ip_fragmentOffset) (\<lambda>frag.
     if frag > 0 then ret ()
     else bnd next_sequence (\<lambda>seq.
          bnd (gets (\<lambda>s. netflow_packet (cfg s) (clock s) seq (smp s))) (\<lambda>pkt.
          bnd (gets cfg) (\<lambda>c.
          if spoofSource c then sendNetFlowDatagram_spoof pkt
          else emit [Send (netFlowOutputSocket c) (bytes_of_pkt pkt)]))))"

section \<open>Contracts\<close>

text \<open>Either kind of packet carries the sequence number it was built with.\<close>

lemma length_bytes_of_hdr [simp]: "length (bytes_of_hdr h) = 24"
  by (simp add: bytes_of_hdr_def)

lemma sequence_of_send:
  "sequence_of (Send sock (bytes_of_pkt (netflow_packet c now q x))) = q"
  by (simp add: be32_nth_def bytes_of_pkt_def bytes_of_hdr_def netflow_packet_def Let_def
      bytes_of_u32_def bytes_of_u16_def nth_append flip: ntohl_le32)

lemma length_bytes_of_ip [simp]: "length (bytes_of_ip h) = 20"
  by (simp add: bytes_of_ip_def)

lemma length_bytes_of_udp [simp]: "length (bytes_of_udp h) = 8"
  by (simp add: bytes_of_udp_def)

lemma sequence_of_sendto:
  "sequence_of (SendTo sock dest (take 100 (bytes_of_ip h @ bytes_of_udp u @ overwrite d
     (bytes_of_pkt (netflow_packet c now q x))))) = q"
  by (simp add: be32_nth_def overwrite_def nth_append bytes_of_pkt_def bytes_of_hdr_def
      netflow_packet_def Let_def bytes_of_u32_def bytes_of_u16_def flip: ntohl_le32)

text \<open>What a run of the exporter amounts to.\<close>

lemma sendNetFlowDatagram_step:
  assumes "sendNetFlowDatagram s = (r, t)"
  shows "r = Inr () \<and> (t = s \<or> (\<exists>p e. is_export e \<and> sequence_of e = NFFlowSequenceNo s \<and>
      t = s\<lparr>NFFlowSequenceNo := NFFlowSequenceNo s + 1, spoof := p, out := out s @ [e]\<rparr>))"
proof -
  let ?pkt = "bytes_of_pkt (netflow_packet (cfg s) (clock s) (NFFlowSequenceNo s) (smp s))"
  let ?sp = "spoof_packet (smp s) ?pkt (spoof s)"
  consider "ip_fragmentOffset (smp s) > 0" | "ip_fragmentOffset (smp s) = 0" "spoofSource (cfg s)"
    | "ip_fragmentOffset (smp s) = 0" "\<not> spoofSource (cfg s)"
    by (cases "ip_fragmentOffset (smp s) = 0") (auto simp: word_neq_0_conv)
  then show ?thesis
  proof cases
    case 1
    then show ?thesis using assms by (simp add: sendNetFlowDatagram_def dec_defs)
  next
    case 2
    let ?e = "SendTo (netFlowOutputSocket (cfg s)) (daddr (send_ip ?sp))
        (take 100 (bytes_of_ip (send_ip ?sp) @ bytes_of_udp (send_udp ?sp) @ send_data ?sp))"
    have "t = s\<lparr>NFFlowSequenceNo := NFFlowSequenceNo s + 1, spoof := ?sp, out := out s @ [?e]\<rparr>"
      and "r = Inr ()"
      using 2 assms
      by (simp_all add: sendNetFlowDatagram_def sendNetFlowDatagram_spoof_def next_sequence_def
          dec_defs Let_def)
    moreover have "send_data ?sp = overwrite (send_data (spoof s)) ?pkt"
      by (simp add: spoof_packet_def Let_def)
    then have "sequence_of ?e = NFFlowSequenceNo s"
      by (simp only: sequence_of_sendto)
    moreover have "is_export ?e" by simp
    ultimately show ?thesis by blast
  next
    case 3
    let ?e = "Send (netFlowOutputSocket (cfg s)) ?pkt"
    have "t = s\<lparr>NFFlowSequenceNo := NFFlowSequenceNo s + 1, spoof := spoof s, out := out s @ [?e]\<rparr>"
      and "r = Inr ()"
      using 3 assms by (simp_all add: sendNetFlowDatagram_def next_sequence_def dec_defs)
    moreover have "is_export ?e" "sequence_of ?e = NFFlowSequenceNo s"
      by (simp_all only: is_export.simps sequence_of_send)
    ultimately show ?thesis by blast
  qed
qed

text \<open>The exporter sends one packet, numbers it, and may rewrite the packet template: a contract
  that allows this step is satisfied by every writer.\<close>

locale flow_writer = checked_reader +
  assumes exported: "is_export e \<Longrightarrow> sequence_of e = NFFlowSequenceNo s \<Longrightarrow>
    R s None (s\<lparr>NFFlowSequenceNo := NFFlowSequenceNo s + 1, spoof := p, out := out s @ [e]\<rparr>)"
begin

lemma sat_writeFlowLine [contract_intro]: "sat R writeFlowLine"
  unfolding writeFlowLine_def by (intro contract_intro)

lemma sat_writePcapPacket [contract_intro]: "sat R writePcapPacket"
  unfolding writePcapPacket_def Let_def by (intro contract_intro)

lemma sat_sendNetFlowDatagram [contract_intro]: "sat R sendNetFlowDatagram"
proof (rule satI)
  fix s r t assume "sendNetFlowDatagram s = (r, t)"
  then show "R s (ending r) t"
    using exported stutter by (auto dest!: sendNetFlowDatagram_step)
qed

end

context checked_reader
begin

lemma sat_writeCountersLine [contract_intro]: "sat R writeCountersLine"
  unfolding writeCountersLine_def Let_def by (intro contract_intro)

end

interpretation frame: flow_writer frame_rel
  by unfold_locales (auto simp: frame_rel_def)

interpretation forward: flow_writer forward_rel
  by unfold_locales (auto simp: forward_rel_def)

interpretation within: flow_writer within_rel
  by unfold_locales (auto simp: within_rel_def)

interpretation append: flow_writer append_rel
  by unfold_locales (auto simp: append_rel_def)

interpretation exits: flow_writer exits_rel
  by unfold_locales (auto simp: exits_rel_def)

interpretation seqno: flow_writer numbered_rel
  by unfold_locales (auto simp: numbered_rel_def numbered_def)

end
