(* ===== verification/Wire.thy ===== *)
theory Wire
  imports Contracts
begin

text \<open>
  The abstract specification of the reading primitives: parsers of the XDR wire format
  over the list of bytes that are left in the datagram. \<open>refines m p\<close> says that the
  reader \<open>m\<close>, run on a valid cursor, returns what the parser \<open>p\<close> returns on the remaining
  bytes and leaves the rest, and aborts with \<open>SF_ABORT_EOS\<close> exactly when \<open>p\<close> fails. A
  reader that refines a parser never looks at a byte outside the datagram: its result is
  a function of the remaining bytes. \<open>takes n m\<close> is the special case of a reader that
  consumes \<open>n\<close> bytes whatever they hold.
\<close>

section \<open>Parsers\<close>

type_synonym 'a parser = "u8 list \<Rightarrow> ('a \<times> u8 list) option"

definition p_ret :: "'a \<Rightarrow> 'a parser" where
  "p_ret v = (\<lambda>bs. Some (v, bs))"

definition p_bnd :: "'a parser \<Rightarrow> ('a \<Rightarrow> 'b parser) \<Rightarrow> 'b parser" where
  "p_bnd p q = (\<lambda>bs. case p bs of None \<Rightarrow> None | Some (v, rest) \<Rightarrow> q v rest)"

definition p_bytes :: "nat \<Rightarrow> u8 list parser" where
  "p_bytes n = (\<lambda>bs. if n \<le> length bs then Some (take n bs, drop n bs) else None)"

definition xdr_u8 :: "u8 parser" where
  "xdr_u8 = p_bnd (p_bytes 1) (\<lambda>b. p_ret (b ! 0))"

definition xdr_u16 :: "u16 parser" where
  "xdr_u16 = p_bnd (p_bytes 2) (\<lambda>b. p_ret (be16 (b ! 0) (b ! 1)))"

definition xdr_u32 :: "u32 parser" where
  "xdr_u32 = p_bnd (p_bytes 4) (\<lambda>b. p_ret (be32 (b ! 0) (b ! 1) (b ! 2) (b ! 3)))"

definition xdr_raw32 :: "u32 parser" where
  "xdr_raw32 = p_bnd (p_bytes 4) (\<lambda>b. p_ret (le32 (b ! 0) (b ! 1) (b ! 2) (b ! 3)))"

definition xdr_u64 :: "u64 parser" where
  "xdr_u64 = p_bnd xdr_u32 (\<lambda>hi. p_bnd xdr_u32 (\<lambda>lo. p_ret (push_bit 32 (ucast hi) + ucast lo)))"

text \<open>XDR opaque data is padded to a multiple of four.\<close>

definition pad4 :: "nat \<Rightarrow> nat" where
  "pad4 n = 4 * ((n + 3) div 4)"

definition xdr_opaque :: "nat \<Rightarrow> u8 list parser" where
  "xdr_opaque n = p_bnd (p_bytes (pad4 n)) (\<lambda>b. p_ret (take n b))"

text \<open>A counted string; what is kept of it is cut to what the caller's buffer holds.\<close>

definition xdr_string :: "u8 list \<Rightarrow> u32 \<Rightarrow> (u32 \<times> u8 list) parser" where
  "xdr_string buf bufLen =
     p_bnd xdr_u32 (\<lambda>len. p_bnd (xdr_opaque (unat len)) (\<lambda>text.
       p_ret (len, string_into buf (take (unat (if len \<ge> bufLen then bufLen - 1 else len)) text))))"

definition xdr_address :: "SFLAddress \<Rightarrow> SFLAddress parser" where
  "xdr_address a =
     p_bnd xdr_u32 (\<lambda>ty.
       if ty = SFLADDRESSTYPE_IP_V4
       then p_bnd xdr_raw32 (\<lambda>w. p_ret (set_ip_v4 w (a\<lparr>addr_type := ty\<rparr>)))
       else p_bnd (xdr_opaque 16) (\<lambda>bs. p_ret (set_ip_v6 bs (a\<lparr>addr_type := ty\<rparr>))))"

lemma pad4_ge: "n \<le> pad4 n"
  unfolding pad4_def by linarith

lemma pad4_mult [simp]: "pad4 (4 * n) = 4 * n"
proof -
  have "(4 * n + 3) div 4 = n" by presburger
  then show ?thesis by (simp add: pad4_def)
qed

lemma pad4_16 [simp]: "pad4 16 = 16"
  by (simp add: pad4_def)

section \<open>The cursor as a view of the remaining bytes\<close>

definition valid :: "state \<Rightarrow> bool" where
  "valid s \<longleftrightarrow> 0 \<le> datap s \<and> datap s \<le> endp s \<and> endp s = uint (rawSampleLen s) \<and>
     rawSampleLen s \<le> 65536"

definition remaining :: "state \<Rightarrow> u8 list" where
  "remaining s = load_bytes (rawSample s) (datap s) (nat (endp s - datap s))"

lemma length_remaining: "valid s \<Longrightarrow> int (length (remaining s)) = endp s - datap s"
  by (simp add: valid_def remaining_def)

lemma valid_len: "valid s \<Longrightarrow> length (remaining s) \<le> unat (rawSampleLen s)"
proof -
  assume v: "valid s"
  then have "int (length (remaining s)) \<le> uint (rawSampleLen s)"
    using length_remaining [OF v] by (simp add: valid_def)
  then show ?thesis by (metis nat_le_iff unat_eq_nat_uint uint_nat of_nat_le_iff)
qed

lemma valid_small: "valid s \<Longrightarrow> unat (rawSampleLen s) \<le> 65536"
  by (simp add: valid_def word_le_nat_alt)

lemma nth_remaining:
  "i < length (remaining s) \<Longrightarrow> remaining s ! i = rawSample s (datap s + int i)"
  by (simp add: remaining_def)

lemma take_remaining:
  "n \<le> length (remaining s) \<Longrightarrow> take n (remaining s) = load_bytes (rawSample s) (datap s) n"
  by (rule nth_equalityI) (auto simp: nth_remaining)

lemma drop_remaining:
  assumes "n \<le> length (remaining s)"
  shows "remaining (s\<lparr>datap := datap s + int n\<rparr>) = drop n (remaining s)"
  using assms
  by (intro nth_equalityI) (auto simp: remaining_def nat_diff_distrib algebra_simps)

lemma valid_move:
  "valid s \<Longrightarrow> n \<le> length (remaining s) \<Longrightarrow> valid (s\<lparr>datap := datap s + int n\<rparr>)"
  using length_remaining [of s] by (auto simp: valid_def)

lemma fits_remaining: "valid s \<Longrightarrow> datap s + int n \<le> endp s \<longleftrightarrow> n \<le> length (remaining s)"
  using length_remaining [of s] by auto

section \<open>Refinement\<close>

definition refines :: "'a dec \<Rightarrow> 'a parser \<Rightarrow> bool" where
  "refines m p \<longleftrightarrow>
     (\<forall>s. valid s \<longrightarrow>
       (case p (remaining s) of
          None \<Rightarrow> fst (m s) = Inl (Abort SF_ABORT_EOS)
        | Some (v, rest) \<Rightarrow> fst (m s) = Inr v \<and> remaining (snd (m s)) = rest \<and>
            valid (snd (m s)) \<and> frame_rel s None (snd (m s))))"

lemma refinesI:
  assumes "\<And>s. valid s \<Longrightarrow> p (remaining s) = None \<Longrightarrow> fst (m s) = Inl (Abort SF_ABORT_EOS)"
    and "\<And>s v rest. valid s \<Longrightarrow> p (remaining s) = Some (v, rest) \<Longrightarrow>
       fst (m s) = Inr v \<and> remaining (snd (m s)) = rest \<and> valid (snd (m s)) \<and>
       frame_rel s None (snd (m s))"
  shows "refines m p"
  using assms unfolding refines_def by (auto split: option.split)

lemma refinesE_None:
  "refines m p \<Longrightarrow> valid s \<Longrightarrow> p (remaining s) = None \<Longrightarrow> fst (m s) = Inl (Abort SF_ABORT_EOS)"
  unfolding refines_def by force

lemma refinesE_Some:
  assumes "refines m p" "valid s" "p (remaining s) = Some (v, rest)"
  obtains t where "m s = (Inr v, t)" "remaining t = rest" "valid t" "frame_rel s None t"
  using assms unfolding refines_def by (cases "m s") force

text \<open>The result of a refined reader is a function of the bytes left in the datagram.\<close>

lemma refines_local:
  assumes "refines m p" "valid s" "valid t" "remaining s = remaining t"
  shows "fst (m s) = fst (m t)"
proof (cases "p (remaining t)")
  case None
  then show ?thesis
    using refinesE_None [OF assms(1,2)] refinesE_None [OF assms(1,3)] assms(4) by simp
next
  case (Some r)
  obtain v rest where "r = (v, rest)" by (cases r)
  with Some assms(4) have "p (remaining s) = Some (v, rest)" "p (remaining t) = Some (v, rest)"
    by simp_all
  then show ?thesis
    by (metis assms(1,2,3) refinesE_Some fst_conv)
qed

lemma refines_ret: "refines (ret v) (p_ret v)"
  by (rule refinesI) (auto simp: ret_def p_ret_def frame_rel_def)

lemma refines_bnd:
  assumes m: "refines m p" and f: "\<And>v. refines (f v) (q v)"
  shows "refines (bnd m f) (p_bnd p q)"
proof (rule refinesI)
  fix s assume s: "valid s" "p_bnd p q (remaining s) = None"
  show "fst (bnd m f s) = Inl (Abort SF_ABORT_EOS)"
  proof (cases "p (remaining s)")
    case None
    with m s(1) have "fst (m s) = Inl (Abort SF_ABORT_EOS)" by (rule refinesE_None)
    then show ?thesis by (cases "m s") (simp add: bnd_def)
  next
    case (Some r)
    obtain v rest where r: "r = (v, rest)" by (cases r)
    with m s(1) Some obtain t where t: "m s = (Inr v, t)" "remaining t = rest" "valid t"
      by (auto elim: refinesE_Some)
    with s(2) Some r have "q v (remaining t) = None" by (simp add: p_bnd_def)
    with f t(3) have "fst (f v t) = Inl (Abort SF_ABORT_EOS)" by (rule refinesE_None)
    with t show ?thesis by (simp add: bnd_def)
  qed
next
  fix s w rest' assume s: "valid s" "p_bnd p q (remaining s) = Some (w, rest')"
  then obtain v rest where p: "p (remaining s) = Some (v, rest)" and q: "q v rest = Some (w, rest')"
    by (auto simp: p_bnd_def split: option.splits)
  from m s(1) p obtain t where t: "m s = (Inr v, t)" "remaining t = rest" "valid t" "frame_rel s None t"
    by (rule refinesE_Some)
  with q have "q v (remaining t) = Some (w, rest')" by simp
  with f t(3) obtain u where u: "f v t = (Inr w, u)" "remaining u = rest'" "valid u" "frame_rel t None u"
    by (rule refinesE_Some)
  from t(4) u(4) have "frame_rel s None u" by (rule frame.compose)
  with t u show "fst (bnd m f s) = Inr w \<and> remaining (snd (bnd m f s)) = rest' \<and>
      valid (snd (bnd m f s)) \<and> frame_rel s None (snd (bnd m f s))"
    by (simp add: bnd_def)
qed

lemma refines_gets:
  assumes "\<And>a. refines (f a) p"
  shows "refines (bnd (gets g) f) p"
proof (rule refinesI)
  fix s assume "valid s" "p (remaining s) = None"
  with assms have "fst (f (g s) s) = Inl (Abort SF_ABORT_EOS)" by (rule refinesE_None)
  then show "fst (bnd (gets g) f s) = Inl (Abort SF_ABORT_EOS)" by simp
next
  fix s v rest assume "valid s" "p (remaining s) = Some (v, rest)"
  with assms obtain t where "f (g s) s = (Inr v, t)" "remaining t = rest" "valid t" "frame_rel s None t"
    by (rule refinesE_Some)
  then show "fst (bnd (gets g) f s) = Inr v \<and> remaining (snd (bnd (gets g) f s)) = rest \<and>
      valid (snd (bnd (gets g) f s)) \<and> frame_rel s None (snd (bnd (gets g) f s))"
    by simp
qed

lemma refines_fetch: "(\<And>a. refines (f a) p) \<Longrightarrow> refines (bnd (fetch g) f) p"
  unfolding fetch_def by (rule refines_gets)

lemma remaining_cong:
  "datap t = datap s \<Longrightarrow> endp t = endp s \<Longrightarrow> rawSample t = rawSample s \<Longrightarrow> remaining t = remaining s"
  by (simp add: remaining_def)

text \<open>Statements that leave the cursor alone refine the parser that reads nothing.\<close>

lemma refines_silent:
  assumes "\<And>s. \<exists>t. m s = (Inr (), t) \<and> datap t = datap s \<and> frame_rel s None t
                   \<and> rawSampleLen t = rawSampleLen s"
  shows "refines m (p_ret ())"
proof (rule refinesI)
  fix s v rest assume s: "valid s" "p_ret () (remaining s) = Some (v, rest)"
  obtain t where t: "m s = (Inr (), t)" "datap t = datap s" "frame_rel s None t"
    using assms by blast
  then have "remaining t = remaining s" by (auto intro: remaining_cong simp: frame_rel_def)
  with t s show "fst (m s) = Inr v \<and> remaining (snd (m s)) = rest \<and> valid (snd (m s)) \<and>
      frame_rel s None (snd (m s))"
    by (auto simp: p_ret_def valid_def frame_rel_def)
qed (simp add: p_ret_def)

lemma refines_put: "refines (put upd v) (p_ret ())"
  by (rule refines_silent) (simp add: put_def frame_rel_def)

lemma refines_alter: "refines (alter f) (p_ret ())"
  by (rule refines_silent) (simp add: alter_def frame_rel_def)

lemma refines_emit: "refines (emit es) (p_ret ())"
  by (rule refines_silent) (simp add: emit_def frame_rel_def)

lemma refines_printf: "refines (printf fmt args) (p_ret ())"
  unfolding printf_def by (rule refines_emit)

lemma refines_only_if: "refines m (p_ret ()) \<Longrightarrow> refines (only_if b m) (p_ret ())"
  by (simp add: only_if_def refines_ret)

lemma refines_sf_log: "refines (sf_log fmt args) (p_ret ())"
  unfolding sf_log_def by (intro refines_gets refines_only_if refines_printf)


section \<open>The primitives implement their parsers\<close>

lemma p_ret_bnd [simp]: "p_bnd (p_ret v) f = f v"
  by (simp add: p_bnd_def p_ret_def)

lemma p_bnd_ret [simp]: "p_bnd p p_ret = p"
  by (rule ext) (auto simp: p_bnd_def p_ret_def split: option.split)

lemma p_bnd_assoc [simp]: "p_bnd (p_bnd p f) g = p_bnd p (\<lambda>v. p_bnd (f v) g)"
  by (rule ext) (auto simp: p_bnd_def split: option.split)

lemma refines_checked_read:
  assumes "\<And>s. f s = g (load_bytes (rawSample s) (datap s) n)"
  shows "refines (\<lambda>s. if datap s + int n \<le> endp s then (Inr (f s), s\<lparr>datap := datap s + int n\<rparr>)
                       else (Inl (Abort SF_ABORT_EOS), s\<lparr>datap := datap s + int n\<rparr>))
     (p_bnd (p_bytes n) (\<lambda>b. p_ret (g b)))"
  by (rule refinesI)
    (auto simp: p_bnd_def p_bytes_def p_ret_def fits_remaining assms take_remaining drop_remaining
      valid_move frame_rel_def split: if_splits)

lemma refines_getData32_nobswap: "refines getData32_nobswap xdr_raw32"
  using refines_checked_read [where n = 4 and f = "\<lambda>s. load32 (rawSample s) (datap s)"
      and g = "\<lambda>b. le32 (b ! 0) (b ! 1) (b ! 2) (b ! 3)", unfolded of_nat_numeral of_nat_1]
  by (simp add: getData32_nobswap_eq xdr_raw32_def load32_def)

lemma refines_getData16: "refines getData16 xdr_u16"
  using refines_checked_read [where n = 2 and f = "\<lambda>s. ntohs (load16 (rawSample s) (datap s))"
      and g = "\<lambda>b. be16 (b ! 0) (b ! 1)", unfolded of_nat_numeral of_nat_1]
  by (simp add: getData16_eq xdr_u16_def load16_def)

lemma refines_getData_u8: "refines getData_u8 xdr_u8"
  using refines_checked_read [where n = 1 and f = "\<lambda>s. load8 (rawSample s) (datap s)"
      and g = "\<lambda>b. b ! 0", unfolded of_nat_numeral of_nat_1]
  by (simp add: getData_u8_eq xdr_u8_def load8_def)

lemma refines_getData8:
  "refines (getData8 n) (p_bnd (p_bytes n) (\<lambda>b.
     p_ret ((let t = takeWhile (\<lambda>b. b \<noteq> 0) b in t @ replicate (n - length t) 0)[n - 1 := 0])))"
  unfolding getData8_eq by (rule refines_checked_read) (simp add: strncpy_def)

lemma refines_getData32: "refines getData32 xdr_u32"
proof -
  have "xdr_u32 = p_bnd xdr_raw32 (\<lambda>w. p_ret (ntohl w))"
    by (simp add: xdr_u32_def xdr_raw32_def)
  moreover have "refines getData32 (p_bnd xdr_raw32 (\<lambda>w. p_ret (ntohl w)))"
    unfolding getData32_def by (intro refines_bnd refines_getData32_nobswap refines_ret)
  ultimately show ?thesis by metis
qed

lemma refines_getData64: "refines getData64 xdr_u64"
  unfolding getData64_def xdr_u64_def by (intro refines_bnd refines_getData32 refines_ret)

lemma pad4_le_cancel: "n \<le> m \<Longrightarrow> n \<le> pad4 m"
  using pad4_ge [of m] by simp

lemma quads_pad4:
  assumes "n \<le> m" "unat m \<le> 65536"
  shows "4 * sint ((n + 3 :: u32) div 4) = int (pad4 (unat n))"
proof -
  from assms have "unat n \<le> 65536" by (simp add: word_le_nat_alt)
  then have "unat (n + 3) = unat n + 3" by (simp add: unat_word_ariths)
  then show ?thesis by (simp add: quads_unat pad4_def)
qed

text \<open>The two tests of \<open>skipBytes\<close> together are the parser's one: a count above the
  datagram's length is refused before its quad count, which may have wrapped, matters.\<close>

lemma refines_skipBytes: "refines (skipBytes n) (p_bnd (p_bytes (pad4 (unat n))) (\<lambda>_. p_ret ()))"
proof (rule refinesI)
  fix s assume v: "valid s" and none: "p_bnd (p_bytes (pad4 (unat n))) (\<lambda>_. p_ret ()) (remaining s) = None"
  then have short: "length (remaining s) < pad4 (unat n)"
    by (auto simp: p_bnd_def p_bytes_def p_ret_def split: if_splits)
  show "fst (skipBytes n s) = Inl (Abort SF_ABORT_EOS)"
  proof (cases "n \<le> rawSampleLen s")
    case True
    then have "4 * sint ((n + 3) div 4) = int (pad4 (unat n))"
      by (rule quads_pad4) (rule valid_small [OF v])
    then show ?thesis using short fits_remaining [OF v] by (simp add: skipBytes_eq)
  qed (simp add: skipBytes_eq)
next
  fix s w rest
  assume v: "valid s" and some: "p_bnd (p_bytes (pad4 (unat n))) (\<lambda>_. p_ret ()) (remaining s) = Some (w, rest)"
  then have fits: "pad4 (unat n) \<le> length (remaining s)" and rest: "rest = drop (pad4 (unat n)) (remaining s)"
    by (auto simp: p_bnd_def p_bytes_def p_ret_def split: if_splits)
  have n: "n \<le> rawSampleLen s"
    using pad4_ge [of "unat n"] fits valid_len [OF v] by (simp add: word_le_nat_alt)
  then have "4 * sint ((n + 3) div 4) = int (pad4 (unat n))"
    by (rule quads_pad4) (rule valid_small [OF v])
  then show "fst (skipBytes n s) = Inr w \<and> remaining (snd (skipBytes n s)) = rest \<and>
      valid (snd (skipBytes n s)) \<and> frame_rel s None (snd (skipBytes n s))"
    using n fits rest fits_remaining [OF v, of "pad4 (unat n)"] valid_move [OF v fits]
    by (simp add: skipBytes_eq drop_remaining frame_rel_def)
qed

text \<open>Copying bytes from the cursor and then skipping over them, as \<open>getString\<close> and
  \<open>getAddress\<close> do: the copy is made before the check, and used only after it.\<close>

lemma refines_peek_skip:
  assumes k: "k \<le> unat n" and w: "\<And>x. refines (w x) (p_ret ())" and r: "\<And>x. refines (r x) (q x)"
  shows "refines
     (bnd (gets (\<lambda>s. f (load_bytes (rawSample s) (datap s) k)))
        (\<lambda>x. bnd (block [w x, skipBytes n]) (\<lambda>_. r x)))
     (p_bnd (xdr_opaque (unat n)) (\<lambda>b. q (f (take k b))))"
proof -
  let ?m = "\<lambda>x. bnd (block [w x, skipBytes n]) (\<lambda>_. r x)"
  let ?p = "p_bnd (xdr_opaque (unat n)) (\<lambda>b. q (f (take k b)))"
  have m: "refines (?m x) (p_bnd (p_bytes (pad4 (unat n))) (\<lambda>_. q x))" for x
    using refines_bnd [OF refines_bnd [OF w [of x] refines_bnd [OF refines_skipBytes [of n] refines_ret [of "()"]]] r]
    by simp
  show ?thesis
  proof (rule refinesI)
    fix s :: state let ?x = "f (load_bytes (rawSample s) (datap s) k)"
    assume v: "valid s" and none: "?p (remaining s) = None"
    have "p_bnd (p_bytes (pad4 (unat n))) (\<lambda>_. q ?x) (remaining s) = None"
      using none k pad4_ge [of "unat n"]
      by (auto simp: p_bnd_def p_bytes_def xdr_opaque_def p_ret_def take_remaining min_def split: if_splits)
    with m v have "fst (?m ?x s) = Inl (Abort SF_ABORT_EOS)"
      by (rule refinesE_None)
    then show "fst (bnd (gets (\<lambda>s. f (load_bytes (rawSample s) (datap s) k))) ?m s) = Inl (Abort SF_ABORT_EOS)"
      by (simp only: bnd_gets)
  next
    fix s :: state and u rest let ?x = "f (load_bytes (rawSample s) (datap s) k)"
    let ?run = "bnd (gets (\<lambda>s. f (load_bytes (rawSample s) (datap s) k))) ?m s"
    assume v: "valid s" and some: "?p (remaining s) = Some (u, rest)"
    have "p_bnd (p_bytes (pad4 (unat n))) (\<lambda>_. q ?x) (remaining s) = Some (u, rest)"
      using some k pad4_ge [of "unat n"]
      by (auto simp: p_bnd_def p_bytes_def xdr_opaque_def p_ret_def take_remaining min_def split: if_splits)
    with m v obtain t where "?m ?x s = (Inr u, t)" "remaining t = rest" "valid t" "frame_rel s None t"
      by (rule refinesE_Some)
    then show "fst ?run = Inr u \<and> remaining (snd ?run) = rest \<and> valid (snd ?run) \<and> frame_rel s None (snd ?run)"
      by (simp only: bnd_gets fst_conv snd_conv simp_thms)
  qed
qed


text \<open>What \<open>getString\<close> copies never exceeds what it skips, given a buffer of some size.\<close>

lemma read_len_le:
  assumes "0 < bufLen"
  shows "unat (if len \<ge> bufLen then bufLen - 1 else len) \<le> unat (len :: u32)"
proof -
  from assms have "bufLen \<noteq> 0" by (simp add: word_gt_0)
  then have "unat (bufLen - 1) = unat bufLen - 1" by (rule unat_minus_one)
  then show ?thesis by (auto simp: word_le_nat_alt)
qed

lemma refines_getString:
  assumes "0 < bufLen" and w: "\<And>b. refines (write b) (p_ret ())"
  shows "refines (getString buf write bufLen) (xdr_string buf bufLen)"
  unfolding getString_def xdr_string_def Let_def
  by (intro refines_bnd refines_getData32 refines_peek_skip read_len_le assms refines_ret)

lemma refines_getAddress:
  assumes w: "\<And>b. refines (write b) (p_ret ())"
  shows "refines (getAddress a write) (xdr_address a)"
proof -
  have v4: "refines (bnd getData32_nobswap (\<lambda>x. bnd (write (set_ip_v4 x a1)) (\<lambda>_. ret (set_ip_v4 x a1))))
      (p_bnd xdr_raw32 (\<lambda>x. p_ret (set_ip_v4 x a1)))" for a1
    using refines_bnd [OF refines_getData32_nobswap refines_bnd [OF w refines_ret]] by simp
  have v6: "refines (bnd (gets (\<lambda>s. load_bytes (rawSample s) (datap s) 16)) (\<lambda>bs.
        bnd (block [write (set_ip_v6 bs a1), skipBytes 16]) (\<lambda>_. ret (set_ip_v6 bs a1))))
      (p_bnd (xdr_opaque 16) (\<lambda>bs. p_ret (set_ip_v6 bs a1)))" for a1
    using refines_peek_skip [where k = 16 and n = 16 and f = "\<lambda>bs. bs"
        and w = "\<lambda>bs. write (set_ip_v6 bs a1)" and r = "\<lambda>bs. ret (set_ip_v6 bs a1)"
        and q = "\<lambda>bs. p_ret (set_ip_v6 bs a1)", OF _ w refines_ret]
    by (simp add: xdr_opaque_def)
  have "refines (getAddress a write) (p_bnd xdr_u32 (\<lambda>ty. p_bnd (p_ret ()) (\<lambda>_.
       if ty = SFLADDRESSTYPE_IP_V4
       then p_bnd xdr_raw32 (\<lambda>x. p_ret (set_ip_v4 x (a\<lparr>addr_type := ty\<rparr>)))
       else p_bnd (xdr_opaque 16) (\<lambda>bs. p_ret (set_ip_v6 bs (a\<lparr>addr_type := ty\<rparr>))))))"
    unfolding getAddress_def Let_def
    by (intro refines_bnd refines_getData32 w) (simp only: v4 v6 split: if_split, simp add: v4 v6)
  then show ?thesis by (simp add: xdr_address_def)
qed


section \<open>Readers of fixed width\<close>

text \<open>
  \<open>takes n m\<close>: on a valid cursor \<open>m\<close> consumes exactly \<open>n\<close> bytes, or aborts with
  \<open>SF_ABORT_EOS\<close> when fewer are left. \<open>takes_intro\<close> computes \<open>n\<close> along the statements.
\<close>

definition takes_rel :: "nat \<Rightarrow> contract" where
  "takes_rel n s r t \<longleftrightarrow>
     valid s \<longrightarrow>
       (if n \<le> length (remaining s)
        then r = None \<and> remaining t = drop n (remaining s) \<and> valid t \<and> frame_rel s None t
        else r = Some (Abort SF_ABORT_EOS))"

definition takes :: "nat \<Rightarrow> 'a dec \<Rightarrow> bool" where
  "takes n m \<longleftrightarrow> sat (takes_rel n) m"

definition width :: "nat \<Rightarrow> 'a parser \<Rightarrow> bool" where
  "width n p \<longleftrightarrow>
     (\<forall>bs. (n \<le> length bs \<longrightarrow> (\<exists>v. p bs = Some (v, drop n bs))) \<and> (length bs < n \<longrightarrow> p bs = None))"

lemma width_long: "width n p \<Longrightarrow> n \<le> length bs \<Longrightarrow> \<exists>v. p bs = Some (v, drop n bs)"
  by (simp add: width_def)

lemma width_short: "width n p \<Longrightarrow> length bs < n \<Longrightarrow> p bs = None"
  by (simp add: width_def)

lemma takes_refines:
  assumes "refines m p" "width n p"
  shows "takes n m"
  unfolding takes_def
proof (rule satI)
  fix s r t assume run: "m s = (r, t)"
  show "takes_rel n s (ending r) t"
  proof (cases "valid s")
    case v: True
    show ?thesis
    proof (cases "n \<le> length (remaining s)")
      case True
      with assms(2) obtain w where "p (remaining s) = Some (w, drop n (remaining s))"
        using width_long by blast
      with assms(1) v obtain u where "m s = (Inr w, u)" "remaining u = drop n (remaining s)"
          "valid u" "frame_rel s None u"
        by (rule refinesE_Some)
      with run True show ?thesis by (auto simp: takes_rel_def)
    next
      case False
      with assms(2) have "p (remaining s) = None" by (simp add: width_short)
      with assms(1) v have "fst (m s) = Inl (Abort SF_ABORT_EOS)" by (rule refinesE_None)
      with run False show ?thesis by (simp add: takes_rel_def)
    qed
  qed (simp add: takes_rel_def)
qed

lemma width_bytes: "width n (p_bytes n)"
  by (simp add: width_def p_bytes_def)

lemma width_bnd:
  assumes "width n p" "\<And>v. width k (q v)"
  shows "width (n + k) (p_bnd p q)"
proof -
  have "p_bnd p q bs = None" if "length bs < n + k" for bs
  proof (cases "n \<le> length bs")
    case True
    with assms(1) obtain v where "p bs = Some (v, drop n bs)" using width_long by blast
    moreover have "q v (drop n bs) = None"
      by (rule width_short [OF assms(2)]) (use that True in simp)
    ultimately show ?thesis by (simp add: p_bnd_def)
  next
    case False
    with assms(1) show ?thesis by (simp add: p_bnd_def width_short)
  qed
  moreover have "\<exists>v. p_bnd p q bs = Some (v, drop (n + k) bs)" if "n + k \<le> length bs" for bs
  proof -
    from that assms(1) obtain v where v: "p bs = Some (v, drop n bs)" using width_long [of n p bs] by auto
    moreover from that have "k \<le> length (drop n bs)" by simp
    then obtain w where "q v (drop n bs) = Some (w, drop k (drop n bs))"
      using width_long [OF assms(2)] by blast
    ultimately show ?thesis by (simp add: p_bnd_def add.commute)
  qed
  ultimately show ?thesis unfolding width_def by blast
qed

lemma width_ret: "width 0 (p_ret v)"
  by (simp add: width_def p_ret_def)

lemma takes_bnd [takes_intro]:
  assumes "takes n m" "\<And>v. takes k (f v)"
  shows "takes (n + k) (bnd m f)"
  unfolding takes_def
proof (rule satI)
  fix s r u assume run: "bnd m f s = (r, u)"
  obtain q t where m: "m s = (q, t)" by (cases "m s")
  have 1: "takes_rel n s (ending q) t" using assms(1) m by (auto simp: takes_def dest: satD)
  show "takes_rel (n + k) s (ending r) u"
  proof (cases "valid s \<and> n \<le> length (remaining s)")
    case True
    with 1 have t: "ending q = None" "remaining t = drop n (remaining s)" "valid t" "frame_rel s None t"
      by (simp_all add: takes_rel_def)
    then obtain v where "q = Inr v" by (cases q) auto
    with m run have "f v t = (r, u)" by (simp add: bnd_def)
    with assms(2) have "takes_rel k t (ending r) u" by (auto simp: takes_def dest: satD)
    with t True show ?thesis
      by (auto simp: takes_rel_def add.commute intro: frame.compose split: if_splits)
  next
    case False
    then show ?thesis
    proof (cases "valid s")
      case True
      with False 1 have "ending q = Some (Abort SF_ABORT_EOS)" by (simp add: takes_rel_def)
      with m run False True show ?thesis
        by (cases q) (auto simp: takes_rel_def bnd_def)
    qed (simp add: takes_rel_def)
  qed
qed


lemma takes_gets_bnd [takes_intro]:
  "(\<And>a. takes k (f a)) \<Longrightarrow> takes k (bnd (gets g) f)"
  unfolding takes_def sat_def by simp

lemma takes_fetch_bnd [takes_intro]:
  "(\<And>a. takes k (f a)) \<Longrightarrow> takes k (bnd (fetch g) f)"
  unfolding fetch_def by (rule takes_gets_bnd)

lemma takes_ret [takes_intro]: "takes 0 (ret v)"
  by (rule takes_refines [OF refines_ret width_ret])

lemma takes_block_nil [takes_intro]: "takes 0 (block [])"
  by (simp add: takes_ret)

lemma takes_block [takes_intro]:
  "takes n m \<Longrightarrow> takes k (block ms) \<Longrightarrow> takes (n + k) (block (m # ms))"
  by (simp add: takes_bnd)

lemma takes_silent: "refines m (p_ret ()) \<Longrightarrow> takes 0 m"
  by (rule takes_refines [OF _ width_ret])

lemmas takes_silent_rules [takes_intro] =
  refines_put [THEN takes_silent] refines_alter [THEN takes_silent]
  refines_printf [THEN takes_silent] refines_sf_log [THEN takes_silent]

lemma takes_only_if [takes_intro]: "takes 0 m \<Longrightarrow> takes 0 (only_if b m)"
  by (simp add: only_if_def takes_ret)

lemma takes_if [takes_intro]: "takes n a \<Longrightarrow> takes n b \<Longrightarrow> takes n (if c then a else b)"
  by simp

lemma takes_drop_value [takes_intro]: "takes n m \<Longrightarrow> takes n (drop_value m)"
  using takes_bnd [OF _ takes_ret] by (simp add: drop_value_def)

lemma takes_store [takes_intro]: "takes n m \<Longrightarrow> takes n (store upd m)"
  using takes_bnd [OF _ takes_silent [OF refines_put]] by (simp add: store_def)

lemma takes_skip [takes_intro]: "takes (pad4 (unat n)) (skipBytes n)"
  using takes_refines [OF refines_skipBytes width_bnd [OF width_bytes width_ret]] by simp

lemma takes_getData32_nobswap [takes_intro]: "takes 4 getData32_nobswap"
proof (rule takes_refines [OF refines_getData32_nobswap])
  show "width 4 xdr_raw32"
    using width_bnd [OF width_bytes [of 4] width_ret] by (simp add: xdr_raw32_def)
qed

lemma takes_getData32 [takes_intro]: "takes 4 getData32"
  using takes_bnd [OF takes_getData32_nobswap takes_ret] by (simp add: getData32_def)

lemma takes_getFloat [takes_intro]: "takes 4 getFloat"
  by (simp add: getFloat_def takes_getData32)

lemma takes_getData64 [takes_intro]: "takes 8 getData64"
  using takes_bnd [OF takes_getData32 takes_bnd [OF takes_getData32 takes_ret]]
  by (simp add: getData64_def)

lemma takes_logged [takes_intro]:
  assumes "takes n m"
  shows "takes n (bnd m (\<lambda>v. bnd (sf_log (fmt v) (args v)) (\<lambda>_. ret (res v))))"
    and "takes n (bnd m (\<lambda>v. bnd (only_if (c v) (sf_log (fmt v) (args v))) (\<lambda>_. ret (res v))))"
    and "takes n (bnd m (\<lambda>v. sf_log (fmt v) (args v)))"
proof -
  note log = refines_sf_log [THEN takes_silent]
  show "takes n (bnd m (\<lambda>v. bnd (sf_log (fmt v) (args v)) (\<lambda>_. ret (res v))))"
    using takes_bnd [OF assms takes_bnd [OF log takes_ret]] by simp
  show "takes n (bnd m (\<lambda>v. bnd (only_if (c v) (sf_log (fmt v) (args v))) (\<lambda>_. ret (res v))))"
    using takes_bnd [OF assms takes_bnd [OF takes_only_if [OF log] takes_ret]] by simp
  show "takes n (bnd m (\<lambda>v. sf_log (fmt v) (args v)))"
    using takes_bnd [OF assms log] by simp
qed

lemma takes_sf_log_next [takes_intro]:
  "takes 4 (sf_log_next32 name)" "takes 8 (sf_log_next64 name)"
  "takes 4 (sf_log_next32_skip_print_if_null name)" "takes 8 (sf_log_next64_skip_print_if_null name)"
  "takes 4 (sf_log_nextFloat name)"
  unfolding sf_log_next32_def sf_log_next64_def sf_log_next32_skip_print_if_null_def
    sf_log_next64_skip_print_if_null_def sf_log_nextFloat_def
  by (intro takes_logged takes_getData32 takes_getData64 takes_getFloat)+

lemma takes_sf_log_percentage [takes_intro]: "takes 4 (sf_log_percentage name)"
proof -
  note log = refines_sf_log [THEN takes_silent]
  show ?thesis
    unfolding sf_log_percentage_def
    using takes_bnd [OF takes_getData32 takes_if [OF log log]] by simp
qed

lemma takes_sf_log_nextMAC [takes_intro]: "takes 8 (sf_log_nextMAC name)"
proof -
  have "takes (0 + (8 + 0)) (block [sf_log ''%s %02x%02x%02x%02x%02x%02x\<newline>''
          (AStr name # map A8 mac), skipBytes 6])" for mac
    using takes_skip [of 6]
    by (intro takes_block takes_block_nil takes_silent_rules) (simp add: pad4_def)
  then show ?thesis
    unfolding sf_log_nextMAC_def peek_bytes_def by (intro takes_gets_bnd) simp
qed

lemma takes_eq: "takes k m \<Longrightarrow> k = n \<Longrightarrow> takes n m"
  by simp

end
