(* ===== verification/WireFields.thy ===== *)
theory WireFields
  imports Wire
begin

text \<open>
  Structures read field by field. A counter structure is specified by its table of fields,
  in wire order; \<open>logs fs m\<close> says that the reader \<open>m\<close> consumes exactly the bytes of the
  table and, in full-detail mode, prints one line per field with the big-endian number the
  datagram holds at the field's offset, and that it aborts when the structure is cut short.
\<close>

datatype wire_field =
    Num32 string | Num64 string | Percent string | Float32 string | Silent nat

fun field_width :: "wire_field \<Rightarrow> nat" where
  "field_width (Num32 _) = 4"
| "field_width (Num64 _) = 8"
| "field_width (Percent _) = 4"
| "field_width (Float32 _) = 4"
| "field_width (Silent n) = n"

definition fields_width :: "wire_field list \<Rightarrow> nat" where
  "fields_width fs = sum_list (map field_width fs)"

definition num32_at :: "u8 list \<Rightarrow> u32" where
  "num32_at bs = be32 (bs ! 0) (bs ! 1) (bs ! 2) (bs ! 3)"

definition num64_at :: "u8 list \<Rightarrow> u64" where
  "num64_at bs = push_bit 32 (ucast (num32_at bs)) + ucast (num32_at (drop 4 bs))"

fun field_lines :: "wire_field \<Rightarrow> u8 list \<Rightarrow> event list" where
  "field_lines (Num32 name) bs = [Out ''%-35s %-20u\<newline>'' [AStr name, A32 (num32_at bs)]]"
| "field_lines (Num64 name) bs = [Out ''%-35s %-20lu\<newline>'' [AStr name, A64 (num64_at bs)]]"
| "field_lines (Percent name) bs =
     (if num32_at bs = -1 then [Out ''%s unknown\<newline>'' [AStr name]]
      else [Out ''%s %.2f\<newline>'' [AStr name, APercent (num32_at bs)]])"
| "field_lines (Float32 name) bs = [Out ''%s %.3f\<newline>'' [AStr name, AFloat (num32_at bs)]]"
| "field_lines (Silent n) bs = []"

fun fields_lines :: "wire_field list \<Rightarrow> u8 list \<Rightarrow> event list" where
  "fields_lines [] bs = []"
| "fields_lines (f # fs) bs = field_lines f bs @ fields_lines fs (drop (field_width f) bs)"

lemma fields_width_simps [simp]:
  "fields_width [] = 0"
  "fields_width (f # fs) = field_width f + fields_width fs"
  "fields_width (fs @ gs) = fields_width fs + fields_width gs"
  by (simp_all add: fields_width_def)

lemma fields_lines_append:
  "fields_lines (fs @ gs) bs = fields_lines fs bs @ fields_lines gs (drop (fields_width fs) bs)"
  by (induction fs arbitrary: bs) (simp_all add: add.commute)

definition logs_rel :: "wire_field list \<Rightarrow> contract" where
  "logs_rel fs s r t \<longleftrightarrow>
     valid s \<longrightarrow>
       (if fields_width fs \<le> length (remaining s)
        then r = None \<and> remaining t = drop (fields_width fs) (remaining s) \<and> valid t \<and>
          frame_rel s None t \<and>
          out t = out s @ (if outputFormat (cfg s) = SFLFMT_FULL
                           then fields_lines fs (remaining s) else [])
        else r = Some (Abort SF_ABORT_EOS))"

definition logs :: "wire_field list \<Rightarrow> 'a dec \<Rightarrow> bool" where
  "logs fs m \<longleftrightarrow> sat (logs_rel fs) m"

lemma logs_takes: "logs fs m \<Longrightarrow> takes (fields_width fs) m"
  by (auto simp: logs_def takes_def sat_def logs_rel_def takes_rel_def)

named_theorems logs_intro \<open>rules that compute the field table of a reader\<close>

lemma logs_bnd:
  assumes "logs fs m" "\<And>v. logs gs (f v)"
  shows "logs (fs @ gs) (bnd m f)"
  unfolding logs_def
proof (rule satI)
  fix s r u assume run: "bnd m f s = (r, u)"
  obtain q t where m: "m s = (q, t)" by (cases "m s")
  have 1: "logs_rel fs s (ending q) t" using assms(1) m by (auto simp: logs_def dest: satD)
  show "logs_rel (fs @ gs) s (ending r) u"
  proof (cases "valid s \<and> fields_width fs \<le> length (remaining s)")
    case True
    with 1 have t: "ending q = None" "remaining t = drop (fields_width fs) (remaining s)" "valid t"
        "frame_rel s None t"
        "out t = out s @ (if outputFormat (cfg s) = SFLFMT_FULL then fields_lines fs (remaining s) else [])"
      by (simp_all add: logs_rel_def)
    then obtain v where "q = Inr v" by (cases q) auto
    with m run have "f v t = (r, u)" by (simp add: bnd_def)
    with assms(2) have 2: "logs_rel gs t (ending r) u" by (auto simp: logs_def dest: satD)
    have c: "cfg t = cfg s" using t(4) by (simp add: frame_rel_def)
    show ?thesis
      using t True 2 c
      by (auto simp: logs_rel_def fields_lines_append add.commute intro: frame.compose split: if_splits)
  next
    case False
    then show ?thesis
    proof (cases "valid s")
      case True
      with False 1 have "ending q = Some (Abort SF_ABORT_EOS)" by (simp add: logs_rel_def)
      with m run False True show ?thesis
        by (cases q) (auto simp: logs_rel_def bnd_def)
    qed (simp add: logs_rel_def)
  qed
qed

lemma logs_ret: "logs [] (ret v)"
  by (simp add: logs_def sat_def logs_rel_def ret_def frame_rel_def)

lemma logs_block_nil [logs_intro]: "logs [] (block [])"
  by (simp add: logs_ret)

lemma logs_block [logs_intro]:
  "logs [f] m \<Longrightarrow> logs fs (block ms) \<Longrightarrow> logs (f # fs) (block (m # ms))"
  using logs_bnd [of "[f]" m fs "\<lambda>_. block ms"] by simp

lemma logs_block_silent:
  "logs [] m \<Longrightarrow> logs fs (block ms) \<Longrightarrow> logs fs (block (m # ms))"
  using logs_bnd [of "[]" m fs "\<lambda>_. block ms"] by simp

lemma logs_drop_value [logs_intro]: "logs fs m \<Longrightarrow> logs fs (drop_value m)"
  using logs_bnd [of fs m "[]" "\<lambda>_. ret ()"] by (simp add: drop_value_def logs_ret)

lemma logs_put: "logs [] (put upd v)"
  by (simp add: logs_def sat_def logs_rel_def put_def frame_rel_def valid_def remaining_def)

lemma logs_store [logs_intro]: "logs fs m \<Longrightarrow> logs fs (store upd m)"
  using logs_bnd [of fs m "[]" "put upd"] by (simp add: store_def logs_put)

text \<open>Reading a number and printing it, for any reader that refines a parser.\<close>

lemma logs_read:
  assumes r: "refines m p" and w: "width (field_width f) p"
    and val: "\<And>bs v. field_width f \<le> length bs \<Longrightarrow> p bs = Some (v, drop (field_width f) bs) \<Longrightarrow>
        (\<forall>s. snd (k v s) = s\<lparr>out := out s @ (if outputFormat (cfg s) = SFLFMT_FULL then field_lines f bs else [])\<rparr>
           \<and> ending (fst (k v s)) = None)"
    and q: "\<And>s. out (snd (m s)) = out s"
  shows "logs [f] (bnd m k)"
  unfolding logs_def
proof (rule satI)
  fix s r' u assume run: "bnd m k s = (r', u)"
  show "logs_rel [f] s (ending r') u"
  proof (cases "valid s")
    case v: True
    show ?thesis
    proof (cases "field_width f \<le> length (remaining s)")
      case True
      with w obtain x where p: "p (remaining s) = Some (x, drop (field_width f) (remaining s))"
        using width_long by blast
      with r v obtain t where t: "m s = (Inr x, t)" "remaining t = drop (field_width f) (remaining s)"
          "valid t" "frame_rel s None t"
        by (rule refinesE_Some)
      have o: "out t = out s" using q [of s] t(1) by simp
      have c: "cfg t = cfg s" using t(4) by (simp add: frame_rel_def)
      have "k x t = (r', u)" using run t(1) by (simp add: bnd_def)
      then have u: "u = t\<lparr>out := out t @ (if outputFormat (cfg t) = SFLFMT_FULL
            then field_lines f (remaining s) else [])\<rparr>" "ending r' = None"
        using val [OF True p] by (metis fst_conv snd_conv)+
      show ?thesis
        using True t u o c
        by (auto simp: logs_rel_def valid_def remaining_def frame_rel_def)
    next
      case False
      with w have "p (remaining s) = None" by (simp add: width_short)
      with r v have "fst (m s) = Inl (Abort SF_ABORT_EOS)" by (rule refinesE_None)
      with run False show ?thesis
        by (cases "m s") (auto simp: logs_rel_def bnd_def)
    qed
  qed (simp add: logs_rel_def)
qed

lemma quiet_getData32: "out (snd (getData32 s)) = out s"
  by (simp add: getData32_def getData32_nobswap_eq bnd_def ret_def)

lemma quiet_getData64: "out (snd (getData64 s)) = out s"
  by (simp add: getData64_def getData32_def getData32_nobswap_eq bnd_def ret_def)

lemma xdr_u32_at: "4 \<le> length bs \<Longrightarrow> xdr_u32 bs = Some (num32_at bs, drop 4 bs)"
  by (simp add: xdr_u32_def p_bnd_def p_bytes_def p_ret_def num32_at_def)

lemma xdr_u64_at: "8 \<le> length bs \<Longrightarrow> xdr_u64 bs = Some (num64_at bs, drop 8 bs)"
  by (simp add: xdr_u64_def p_bnd_def p_ret_def num64_at_def xdr_u32_at)

lemma width_u32: "width 4 xdr_u32"
  using width_bnd [OF width_bytes [of 4] width_ret] by (simp add: xdr_u32_def)

lemma width_u64: "width 8 xdr_u64"
  using width_bnd [OF width_u32 width_bnd [OF width_u32 width_ret]] by (simp add: xdr_u64_def)

lemma logs_next32 [logs_intro]: "logs [Num32 name] (sf_log_next32 name)"
  unfolding sf_log_next32_def
  by (rule logs_read [OF refines_getData32])
    (auto simp: width_u32 xdr_u32_at quiet_getData32 dec_defs)

lemma logs_next64 [logs_intro]: "logs [Num64 name] (sf_log_next64 name)"
  unfolding sf_log_next64_def
  by (rule logs_read [OF refines_getData64])
    (auto simp: width_u64 xdr_u64_at quiet_getData64 dec_defs)

lemma logs_percentage [logs_intro]: "logs [Percent name] (sf_log_percentage name)"
  unfolding sf_log_percentage_def
  by (rule logs_read [OF refines_getData32])
    (auto simp: width_u32 xdr_u32_at quiet_getData32 dec_defs)

lemma logs_nextFloat [logs_intro]: "logs [Float32 name] (sf_log_nextFloat name)"
  unfolding sf_log_nextFloat_def getFloat_def bnd_ret
  by (rule logs_read [OF refines_getData32])
    (auto simp: width_u32 xdr_u32_at quiet_getData32 dec_defs)

lemma logs_quiet32: "logs [Silent 4] getData32"
  using logs_read [OF refines_getData32, where f = "Silent 4" and k = ret]
  by (simp add: width_u32 xdr_u32_at quiet_getData32) (simp add: ret_def)

lemma logs_quiet64: "logs [Silent 8] getData64"
  using logs_read [OF refines_getData64, where f = "Silent 8" and k = ret]
  by (simp add: width_u64 xdr_u64_at quiet_getData64) (simp add: ret_def)

end
