(* ===== verification/Extended.thy ===== *)
theory Extended
  imports HeaderDecode
begin

text \<open>
  The readers of the extended data structures (\<open>readExtended...\<close> of \<open>sflowtool.c\<close>):
  switch, router, gateway, user, URL, MPLS, NAT, VLAN tunnel, 802.11, socket and tunnel
  information. Arrays inside the datagram (an AS path, a community list, a label stack) are
  remembered as their offset and printed after the cursor has skipped them.
\<close>

abbreviation SASAMPLE_EXTENDED_DATA_SWITCH :: u32 where "SASAMPLE_EXTENDED_DATA_SWITCH \<equiv> 1"
abbreviation SASAMPLE_EXTENDED_DATA_ROUTER :: u32 where "SASAMPLE_EXTENDED_DATA_ROUTER \<equiv> 4"
abbreviation SASAMPLE_EXTENDED_DATA_GATEWAY :: u32 where "SASAMPLE_EXTENDED_DATA_GATEWAY \<equiv> 8"
abbreviation SASAMPLE_EXTENDED_DATA_USER :: u32 where "SASAMPLE_EXTENDED_DATA_USER \<equiv> 16"
abbreviation SASAMPLE_EXTENDED_DATA_URL :: u32 where "SASAMPLE_EXTENDED_DATA_URL \<equiv> 32"
abbreviation SASAMPLE_EXTENDED_DATA_MPLS :: u32 where "SASAMPLE_EXTENDED_DATA_MPLS \<equiv> 64"
abbreviation SASAMPLE_EXTENDED_DATA_NAT :: u32 where "SASAMPLE_EXTENDED_DATA_NAT \<equiv> 128"
abbreviation SASAMPLE_EXTENDED_DATA_MPLS_TUNNEL :: u32 where "SASAMPLE_EXTENDED_DATA_MPLS_TUNNEL \<equiv> 256"
abbreviation SASAMPLE_EXTENDED_DATA_MPLS_VC :: u32 where "SASAMPLE_EXTENDED_DATA_MPLS_VC \<equiv> 512"
abbreviation SASAMPLE_EXTENDED_DATA_MPLS_FTN :: u32 where "SASAMPLE_EXTENDED_DATA_MPLS_FTN \<equiv> 1024"
abbreviation SASAMPLE_EXTENDED_DATA_MPLS_LDP_FEC :: u32 where "SASAMPLE_EXTENDED_DATA_MPLS_LDP_FEC \<equiv> 2048"
abbreviation SASAMPLE_EXTENDED_DATA_VLAN_TUNNEL :: u32 where "SASAMPLE_EXTENDED_DATA_VLAN_TUNNEL \<equiv> 4096"
abbreviation SA_MAX_EXTENDED_USER_LEN :: u32 where "SA_MAX_EXTENDED_USER_LEN \<equiv> 200"
abbreviation SA_MAX_EXTENDED_URL_LEN :: u32 where "SA_MAX_EXTENDED_URL_LEN \<equiv> 200"
abbreviation SA_MAX_EXTENDED_HOST_LEN :: u32 where "SA_MAX_EXTENDED_HOST_LEN \<equiv> 200"
abbreviation SFLEXTENDED_AS_SET :: u32 where "SFLEXTENDED_AS_SET \<equiv> 1"
abbreviation SFL_MAX_SSID_LEN :: u32 where "SFL_MAX_SSID_LEN \<equiv> 256"

text \<open>\<open>sample->extended_data_tag |= bit\<close>, and the word \<open>i\<close> of an array in the datagram.\<close>

definition tag_extended :: "u32 \<Rightarrow> unit dec" where
  "tag_extended b = alter (extended_data_tag_update (\<lambda>t. t OR b))"

definition word_at :: "addr \<Rightarrow> u32 \<Rightarrow> u32 dec" where
  "word_at base i = gets (\<lambda>s. ntohl (load32 (rawSample s) (base + 4 * uint i)))"

section \<open>Switching and routing\<close>

definition readExtendedSwitch :: "unit dec" where
  "readExtendedSwitch = block [
     sf_log ''extendedType SWITCH\<newline>'' [],
     store in_vlan_update getData32,
     store in_priority_update getData32,
     store out_vlan_update getData32,
     store out_priority_update getData32,
     tag_extended SASAMPLE_EXTENDED_DATA_SWITCH,
     log_field ''in_vlan %u\<newline>'' in_vlan,
     log_field ''in_priority %u\<newline>'' in_priority,
     log_field ''out_vlan %u\<newline>'' out_vlan,
     log_field ''out_priority %u\<newline>'' out_priority]"

definition readExtendedRouter :: "unit dec" where
  "readExtendedRouter = block [
     sf_log ''extendedType ROUTER\<newline>'' [],
     getAddress_field nextHop nextHop_update,
     store srcMask_update getData32,
     store dstMask_update getData32,
     tag_extended SASAMPLE_EXTENDED_DATA_ROUTER,
     log_address ''nextHop %s\<newline>'' nextHop,
     log_field ''srcSubnetMask %u\<newline>'' srcMask,
     log_field ''dstSubnetMask %u\<newline>'' dstMask]"

text \<open>The words of an array, separated by dashes after a title.\<close>

definition log_words :: "string \<Rightarrow> u32 \<Rightarrow> addr \<Rightarrow> unit dec" where
  "log_words title n base = only_if (n > 0) (block [
     for_u32 n (\<lambda>i. block [
       if i = 0 then sf_log title [] else sf_log ''-'' [],
       bnd (word_at base i) (\<lambda>w. sf_log ''%u'' [A32 w])]),
     sf_log ''\<newline>'' []])"

definition readExtendedGateway_v2 :: "unit dec" where
  "readExtendedGateway_v2 = block [
     sf_log ''extendedType GATEWAY\<newline>'' [],
     store my_as_update getData32,
     store src_as_update getData32,
     store src_peer_as_update getData32,
     put dst_peer_as_update 0,
     put dst_as_update 0,
     store dst_as_path_len_update getData32,
     bnd (fetch dst_as_path_len) (\<lambda>n. only_if (n > 0) (
       bnd (gets datap) (\<lambda>path. block [
         put dst_as_path_update path,
         skipBytes (n * 4),
         store dst_peer_as_update (word_at path 0),
         store dst_as_update (word_at path (n - 1))]))),
     tag_extended SASAMPLE_EXTENDED_DATA_GATEWAY,
     log_field ''my_as %u\<newline>'' my_as,
     log_field ''src_as %u\<newline>'' src_as,
     log_field ''src_peer_as %u\<newline>'' src_peer_as,
     log_field ''dst_as %u\<newline>'' dst_as,
     log_field ''dst_peer_as %u\<newline>'' dst_peer_as,
     log_field ''dst_as_path_len %u\<newline>'' dst_as_path_len,
     bnd (fetch dst_as_path_len) (\<lambda>n. bnd (fetch dst_as_path) (log_words ''dst_as_path '' n))]"

text \<open>One AS number of a segment, and one segment, of the AS path.\<close>

definition read_as_number :: "u32 \<Rightarrow> u32 \<Rightarrow> u32 \<Rightarrow> u32 \<Rightarrow> u32 \<Rightarrow> unit dec" where
  "read_as_number segments seg seg_type seg_len i =
     bnd getData32 (\<lambda>asNumber. block [
       if i = 0 \<and> seg = 0 then put dst_peer_as_update asNumber else sf_log ''-'' [],
       only_if (i = 0 \<and> seg_type = SFLEXTENDED_AS_SET) (sf_log ''('' []),
       sf_log ''%u'' [A32 asNumber],
       only_if (seg = segments - 1 \<and> i = seg_len - 1) (put dst_as_update asNumber)])"

definition read_as_segment :: "u32 \<Rightarrow> u32 \<Rightarrow> unit dec" where
  "read_as_segment segments seg =
     bnd getData32 (\<lambda>seg_type.
     bnd getData32 (\<lambda>seg_len. block [
       for_u32 seg_len (read_as_number segments seg seg_type seg_len),
       only_if (seg_type = SFLEXTENDED_AS_SET) (sf_log '')'' [])]))"

definition readExtendedGateway :: "unit dec" where
  "readExtendedGateway = block [
     sf_log ''extendedType GATEWAY\<newline>'' [],
     bnd (fetch datagramVersion) (\<lambda>v. only_if (v \<ge> 5) (block [
       getAddress_field bgp_nextHop bgp_nextHop_update,
       log_address ''bgp_nexthop %s\<newline>'' bgp_nextHop])),
     store my_as_update getData32,
     store src_as_update getData32,
     store src_peer_as_update getData32,
     log_field ''my_as %u\<newline>'' my_as,
     log_field ''src_as %u\<newline>'' src_as,
     log_field ''src_peer_as %u\<newline>'' src_peer_as,
     bnd getData32 (\<lambda>segments. block [
       put dst_peer_as_update 0,
       put dst_as_update 0,
       only_if (segments > 0) (block [
         sf_log ''dst_as_path '' [],
         for_u32 segments (read_as_segment segments),
         sf_log ''\<newline>'' []])]),
     log_field ''dst_as %u\<newline>'' dst_as,
     log_field ''dst_peer_as %u\<newline>'' dst_peer_as,
     store communities_len_update getData32,
     bnd (fetch communities_len) (\<lambda>n. block [
       only_if (n > 0) (store communities_update (gets datap)),
       skipBytes (n * 4),
       tag_extended SASAMPLE_EXTENDED_DATA_GATEWAY,
       bnd (fetch communities) (log_words ''BGP_communities '' n)]),
     store localpref_update getData32,
     log_field ''BGP_localpref %u\<newline>'' localpref]"

section \<open>User and URL\<close>

definition log_text :: "string \<Rightarrow> (SFSample \<Rightarrow> u8 list) \<Rightarrow> unit dec" where
  "log_text fmt f = bnd (fetch f) (\<lambda>t. sf_log fmt [AStr (cstr t)])"

definition readExtendedUser :: "unit dec" where
  "readExtendedUser =
     bnd (fetch datagramVersion) (\<lambda>v. block [
       sf_log ''extendedType USER\<newline>'' [],
       only_if (v \<ge> 5) (block [
         store src_user_charset_update getData32,
         log_field ''src_user_charset %d\<newline>'' src_user_charset]),
       store src_user_len_update (getString_field src_user src_user_update SA_MAX_EXTENDED_USER_LEN),
       only_if (v \<ge> 5) (block [
         store dst_user_charset_update getData32,
         log_field ''dst_user_charset %d\<newline>'' dst_user_charset]),
       store dst_user_len_update (getString_field dst_user dst_user_update SA_MAX_EXTENDED_USER_LEN),
       tag_extended SASAMPLE_EXTENDED_DATA_USER,
       log_text ''src_user %s\<newline>'' src_user,
       log_text ''dst_user %s\<newline>'' dst_user])"

definition readExtendedUrl :: "unit dec" where
  "readExtendedUrl = block [
     sf_log ''extendedType URL\<newline>'' [],
     store url_direction_update getData32,
     log_field ''url_direction %u\<newline>'' url_direction,
     store url_len_update (getString_field url url_update SA_MAX_EXTENDED_URL_LEN),
     log_text ''url %s\<newline>'' url,
     bnd (fetch datagramVersion) (\<lambda>v. only_if (v \<ge> 5) (block [
       store host_len_update (getString_field host host_update SA_MAX_EXTENDED_HOST_LEN),
       log_text ''host %s\<newline>'' host])),
     tag_extended SASAMPLE_EXTENDED_DATA_URL]"

section \<open>Label stacks, MPLS and NAT\<close>

text \<open>\<open>SFLLabelStack\<close> as both of its readers treat it: the depth, the offset of the labels,
  the skip over \<open>depth * 4\<close> bytes (a 32-bit product), and one line of labels.\<close>

definition read_stack :: "string \<Rightarrow> arg list \<Rightarrow> (u32 \<Rightarrow> unit dec) \<Rightarrow> unit dec" where
  "read_stack title args log_label =
     bnd getData32 (\<lambda>depth.
     bnd (gets datap) (\<lambda>stack. block [
       skipBytes (depth * 4),
       only_if (depth > 0) (block [
         for_u32 depth (\<lambda>j. block [
           if j = 0 then sf_log title args else sf_log ''-'' [],
           bnd (word_at stack j) log_label]),
         sf_log ''\<newline>'' []])]))"

definition mplsLabelStack :: "string \<Rightarrow> unit dec" where
  "mplsLabelStack fieldName = read_stack ''%s '' [AStr fieldName] (\<lambda>lab.
     sf_log ''%u.%u.%u.%u''
       [A32 (drop_bit 12 lab), A32 (drop_bit 9 lab AND 7), A32 (drop_bit 8 lab AND 1),
        A32 (lab AND 255)])"

definition readExtendedMpls :: "unit dec" where
  "readExtendedMpls = block [
     sf_log ''extendedType MPLS\<newline>'' [],
     getAddress_field mpls_nextHop mpls_nextHop_update,
     log_address ''mpls_nexthop %s\<newline>'' mpls_nextHop,
     mplsLabelStack ''mpls_input_stack'',
     mplsLabelStack ''mpls_output_stack'',
     tag_extended SASAMPLE_EXTENDED_DATA_MPLS]"

definition readExtendedNat :: "unit dec" where
  "readExtendedNat = block [
     sf_log ''extendedType NAT\<newline>'' [],
     getAddress_field nat_src nat_src_update,
     log_address ''nat_src %s\<newline>'' nat_src,
     getAddress_field nat_dst nat_dst_update,
     log_address ''nat_dst %s\<newline>'' nat_dst,
     tag_extended SASAMPLE_EXTENDED_DATA_NAT]"

definition readExtendedNatPort :: "unit dec" where
  "readExtendedNatPort = block [
     sf_log ''extendedType NAT PORT\<newline>'' [],
     drop_value (sf_log_next32 ''nat_src_port''),
     drop_value (sf_log_next32 ''nat_dst_port'')]"

definition readExtendedMplsTunnel :: "unit dec" where
  "readExtendedMplsTunnel = block [
     drop_value (log_string 101 100 ''mpls_tunnel_lsp_name %s\<newline>''),
     bnd getData32 (\<lambda>tunnel_id. sf_log ''mpls_tunnel_id %u\<newline>'' [A32 tunnel_id]),
     bnd getData32 (\<lambda>tunnel_cos. sf_log ''mpls_tunnel_cos %u\<newline>'' [A32 tunnel_cos]),
     tag_extended SASAMPLE_EXTENDED_DATA_MPLS_TUNNEL]"

definition readExtendedMplsVC :: "unit dec" where
  "readExtendedMplsVC = block [
     drop_value (log_string 101 100 ''mpls_vc_name %s\<newline>''),
     bnd getData32 (\<lambda>vll_vc_id. sf_log ''mpls_vll_vc_id %u\<newline>'' [A32 vll_vc_id]),
     bnd getData32 (\<lambda>vc_cos. sf_log ''mpls_vc_cos %u\<newline>'' [A32 vc_cos]),
     tag_extended SASAMPLE_EXTENDED_DATA_MPLS_VC]"

definition readExtendedMplsFTN :: "unit dec" where
  "readExtendedMplsFTN = block [
     drop_value (log_string 101 100 ''mpls_ftn_descr %s\<newline>''),
     bnd getData32 (\<lambda>ftn_mask. sf_log ''mpls_ftn_mask %u\<newline>'' [A32 ftn_mask]),
     tag_extended SASAMPLE_EXTENDED_DATA_MPLS_FTN]"

definition readExtendedMplsLDP_FEC :: "unit dec" where
  "readExtendedMplsLDP_FEC = block [
     bnd getData32 (\<lambda>n. sf_log ''mpls_fec_addr_prefix_len %u\<newline>'' [A32 n]),
     tag_extended SASAMPLE_EXTENDED_DATA_MPLS_LDP_FEC]"

definition readExtendedVlanTunnel :: "unit dec" where
  "readExtendedVlanTunnel = block [
     read_stack ''vlan_tunnel '' [] (\<lambda>lab.
       sf_log ''0x%04x.%u.%u.%u''
         [A32 (drop_bit 16 lab), A32 (drop_bit 13 lab AND 7), A32 (drop_bit 12 lab AND 1),
          A32 (lab AND 4095)]),
     tag_extended SASAMPLE_EXTENDED_DATA_VLAN_TUNNEL]"

section \<open>802.11\<close>

definition log_bssid :: "string \<Rightarrow> unit dec" where
  "log_bssid title =
     bnd (peek_bytes 6) (\<lambda>bssid. block [
       sf_log title [],
       for_u32 6 (\<lambda>i. sf_log ''%02x'' [A8 (bssid ! unat i)]),
       sf_log ''\<newline>'' [],
       skipBytes 6])"

definition readExtendedWifiRx :: "unit dec" where
  "readExtendedWifiRx = block [
     drop_value (log_string 257 SFL_MAX_SSID_LEN ''rx_SSID %s\<newline>''),
     log_bssid ''rx_BSSID '',
     drop_value (sf_log_next32 ''rx_version''),
     drop_value (sf_log_next32 ''rx_channel''),
     drop_value (sf_log_next64 ''rx_speed''),
     drop_value (sf_log_next32 ''rx_rsni''),
     drop_value (sf_log_next32 ''rx_rcpi''),
     drop_value (sf_log_next32 ''rx_packet_uS'')]"

definition readExtendedWifiTx :: "unit dec" where
  "readExtendedWifiTx = block [
     drop_value (log_string 257 SFL_MAX_SSID_LEN ''tx_SSID %s\<newline>''),
     log_bssid ''tx_BSSID '',
     drop_value (sf_log_next32 ''tx_version''),
     drop_value (sf_log_next32 ''tx_transmissions''),
     drop_value (sf_log_next32 ''tx_packet_uS''),
     drop_value (sf_log_next32 ''tx_retrans_uS''),
     drop_value (sf_log_next32 ''tx_channel''),
     drop_value (sf_log_next64 ''tx_speed''),
     drop_value (sf_log_next32 ''tx_power_mW'')]"

section \<open>Sockets and tunnels\<close>

text \<open>In common-log mode the client is the remote address that was just printed.\<close>

definition set_client :: "string \<Rightarrow> unit dec" where
  "set_client c = (\<lambda>s. (Inr (), if outputFormat (cfg s) = SFLFMT_CLF
                              then s\<lparr>clf := (clf s)\<lparr>clf_client := c\<rparr>\<rparr> else s))"

definition readExtendedSocket4 :: "unit dec" where
  "readExtendedSocket4 = block [
     sf_log ''extendedType socket4\<newline>'' [],
     drop_value (sf_log_next32 ''socket4_ip_protocol''),
     alter (ipsrc_update (addr_type_update (\<lambda>_. SFLADDRESSTYPE_IP_V4))),
     bnd getData32_nobswap (\<lambda>w. alter (ipsrc_update (set_ip_v4 w))),
     alter (ipdst_update (addr_type_update (\<lambda>_. SFLADDRESSTYPE_IP_V4))),
     bnd getData32_nobswap (\<lambda>w. alter (ipdst_update (set_ip_v4 w))),
     log_address ''socket4_local_ip %s\<newline>'' ipsrc,
     log_address ''socket4_remote_ip %s\<newline>'' ipdst,
     drop_value (sf_log_next32 ''socket4_local_port''),
     drop_value (sf_log_next32 ''socket4_remote_port''),
     bnd (fetch ipdst) (\<lambda>a. set_client (printAddress a))]"

definition readExtendedProxySocket4 :: "unit dec" where
  "readExtendedProxySocket4 = block [
     sf_log ''extendedType proxy_socket4\<newline>'' [],
     drop_value (sf_log_next32 ''proxy_socket4_ip_protocol''),
     bnd getData32_nobswap (\<lambda>src. bnd getData32_nobswap (\<lambda>dst. block [
       sf_log ''proxy_socket4_local_ip %s\<newline>'' [AStr (IP_to_a src)],
       sf_log ''proxy_socket4_remote_ip %s\<newline>'' [AStr (IP_to_a dst)]])),
     drop_value (sf_log_next32 ''proxy_socket4_local_port''),
     drop_value (sf_log_next32 ''proxy_socket4_remote_port'')]"

text \<open>Sixteen bytes copied from the cursor, then skipped.\<close>

definition getIPv6 :: "(u8 list \<Rightarrow> unit dec) \<Rightarrow> u8 list dec" where
  "getIPv6 write =
     bnd (peek_bytes 16) (\<lambda>bs. bnd (block [write bs, skipBytes 16]) (\<lambda>_. ret bs))"

definition readExtendedSocket6 :: "unit dec" where
  "readExtendedSocket6 = block [
     sf_log ''extendedType socket6\<newline>'' [],
     drop_value (sf_log_next32 ''socket6_ip_protocol''),
     alter (ipsrc_update (addr_type_update (\<lambda>_. SFLADDRESSTYPE_IP_V6))),
     drop_value (getIPv6 (\<lambda>bs. alter (ipsrc_update (set_ip_v6 bs)))),
     alter (ipdst_update (addr_type_update (\<lambda>_. SFLADDRESSTYPE_IP_V6))),
     drop_value (getIPv6 (\<lambda>bs. alter (ipdst_update (set_ip_v6 bs)))),
     log_address ''socket6_local_ip %s\<newline>'' ipsrc,
     log_address ''socket6_remote_ip %s\<newline>'' ipdst,
     drop_value (sf_log_next32 ''socket6_local_port''),
     drop_value (sf_log_next32 ''socket6_remote_port''),
     bnd (fetch ipdst) (\<lambda>a. set_client (printAddress a))]"

definition readExtendedProxySocket6 :: "unit dec" where
  "readExtendedProxySocket6 = block [
     sf_log ''extendedType proxy_socket6\<newline>'' [],
     drop_value (sf_log_next32 ''proxy_socket6_ip_protocol''),
     bnd (getIPv6 (\<lambda>_. ret ())) (\<lambda>src. bnd (getIPv6 (\<lambda>_. ret ())) (\<lambda>dst. block [
       sf_log ''proxy_socket6_local_ip %s\<newline>'' [AStr (hex_groups src)],
       sf_log ''proxy_socket6_remote_ip %s\<newline>'' [AStr (hex_groups dst)]])),
     drop_value (sf_log_next32 ''proxy_socket6_local_port''),
     drop_value (sf_log_next32 ''proxy_socket6_remote_port'')]"

definition readExtendedDecap :: "string \<Rightarrow> unit dec" where
  "readExtendedDecap prefix =
     bnd getData32 (\<lambda>offset. block [
       sf_log ''extendedType %sdecap\<newline>'' [AStr prefix],
       sf_log ''%sdecap_inner_header_offset %u\<newline>'' [AStr prefix, A32 offset]])"

definition readExtendedVNI :: "string \<Rightarrow> unit dec" where
  "readExtendedVNI prefix =
     bnd getData32 (\<lambda>vni. block [
       sf_log ''extendedType %sVNI\<newline>'' [AStr prefix],
       sf_log ''%sVNI %u\<newline>'' [AStr prefix, A32 vni]])"

section \<open>Contracts\<close>

context checked_reader
begin

lemma sat_tag_extended [contract_intro]: "sat R (tag_extended b)"
  unfolding tag_extended_def by (intro contract_intro)

lemma sat_word_at [contract_intro]: "sat R (word_at base i)"
  unfolding word_at_def by (intro contract_intro)

lemma sat_log_words [contract_intro]: "sat R (log_words title n base)"
  unfolding log_words_def by (intro contract_intro)

lemma sat_log_text [contract_intro]: "sat R (log_text fmt f)"
  unfolding log_text_def by (intro contract_intro)

lemma sat_read_stack [contract_intro]:
  "(\<And>lab. sat R (log_label lab)) \<Longrightarrow> sat R (read_stack title args log_label)"
  unfolding read_stack_def by (intro contract_intro)

lemma sat_mplsLabelStack [contract_intro]: "sat R (mplsLabelStack name)"
  unfolding mplsLabelStack_def by (intro contract_intro)

lemma sat_log_bssid [contract_intro]: "sat R (log_bssid title)"
  unfolding log_bssid_def by (intro contract_intro)

lemma sat_set_client [contract_intro]: "sat R (set_client c)"
  by (simp add: sat_def set_client_def stutter common_log)

lemma sat_getIPv6 [contract_intro]: "(\<And>bs. sat R (write bs)) \<Longrightarrow> sat R (getIPv6 write)"
  unfolding getIPv6_def by (intro contract_intro)

lemma sat_read_as_number [contract_intro]: "sat R (read_as_number segments seg seg_type seg_len i)"
  unfolding read_as_number_def by (intro contract_intro)

lemma sat_read_as_segment [contract_intro]: "sat R (read_as_segment segments seg)"
  unfolding read_as_segment_def by (intro contract_intro)

lemma sat_readExtended [contract_intro]:
  "sat R readExtendedSwitch" "sat R readExtendedRouter" "sat R readExtendedGateway_v2"
  "sat R readExtendedGateway" "sat R readExtendedUser" "sat R readExtendedUrl"
  "sat R readExtendedMpls" "sat R readExtendedNat" "sat R readExtendedNatPort"
  "sat R readExtendedMplsTunnel" "sat R readExtendedMplsVC" "sat R readExtendedMplsFTN"
  "sat R readExtendedMplsLDP_FEC" "sat R readExtendedVlanTunnel" "sat R readExtendedWifiRx"
  "sat R readExtendedWifiTx" "sat R readExtendedSocket4" "sat R readExtendedProxySocket4"
  "sat R readExtendedSocket6" "sat R readExtendedProxySocket6"
  "sat R (readExtendedDecap prefix)" "sat R (readExtendedVNI prefix)"
  unfolding readExtendedSwitch_def readExtendedRouter_def readExtendedGateway_v2_def
    readExtendedGateway_def readExtendedUser_def readExtendedUrl_def readExtendedMpls_def
    readExtendedNat_def readExtendedNatPort_def readExtendedMplsTunnel_def
    readExtendedMplsVC_def readExtendedMplsFTN_def readExtendedMplsLDP_FEC_def
    readExtendedVlanTunnel_def readExtendedWifiRx_def readExtendedWifiTx_def
    readExtendedSocket4_def readExtendedProxySocket4_def readExtendedSocket6_def
    readExtendedProxySocket6_def readExtendedDecap_def readExtendedVNI_def
  by (intro contract_intro)+

end

end
