(* ===== verification/Counters.thy ===== *)
theory Counters
  imports Output WireFields Extended
begin

text \<open>
  The readers of the standard counter structures, \<open>readCounters_...\<close> of \<open>sflowtool.c\<close>, the
  version 2 and 4 counters sample, and the structures themselves as \<open>sflow.h\<close> declares them
  (the names and widths of their fields). The readers are shown to consume exactly the
  declared structures, field by field.
\<close>

section \<open>The structures of sflow.h\<close>

type_synonym struct_layout = "(string \<times> nat) list"

definition SFLIf_counters_layout :: struct_layout where
  "SFLIf_counters_layout = [
     (''ifIndex'', 4), (''ifType'', 4), (''ifSpeed'', 8), (''ifDirection'', 4), (''ifStatus'', 4),
     (''ifInOctets'', 8), (''ifInUcastPkts'', 4), (''ifInMulticastPkts'', 4),
     (''ifInBroadcastPkts'', 4), (''ifInDiscards'', 4), (''ifInErrors'', 4),
     (''ifInUnknownProtos'', 4), (''ifOutOctets'', 8), (''ifOutUcastPkts'', 4),
     (''ifOutMulticastPkts'', 4), (''ifOutBroadcastPkts'', 4), (''ifOutDiscards'', 4),
     (''ifOutErrors'', 4), (''ifPromiscuousMode'', 4)]"

definition SFLEthernet_counters_layout :: struct_layout where
  "SFLEthernet_counters_layout = [
     (''dot3StatsAlignmentErrors'', 4), (''dot3StatsFCSErrors'', 4),
     (''dot3StatsSingleCollisionFrames'', 4), (''dot3StatsMultipleCollisionFrames'', 4),
     (''dot3StatsSQETestErrors'', 4), (''dot3StatsDeferredTransmissions'', 4),
     (''dot3StatsLateCollisions'', 4), (''dot3StatsExcessiveCollisions'', 4),
     (''dot3StatsInternalMacTransmitErrors'', 4), (''dot3StatsCarrierSenseErrors'', 4),
     (''dot3StatsFrameTooLongs'', 4), (''dot3StatsInternalMacReceiveErrors'', 4),
     (''dot3StatsSymbolErrors'', 4)]"

definition SFLTokenring_counters_layout :: struct_layout where
  "SFLTokenring_counters_layout = [
     (''dot5StatsLineErrors'', 4), (''dot5StatsBurstErrors'', 4), (''dot5StatsACErrors'', 4),
     (''dot5StatsAbortTransErrors'', 4), (''dot5StatsInternalErrors'', 4),
     (''dot5StatsLostFrameErrors'', 4), (''dot5StatsReceiveCongestions'', 4),
     (''dot5StatsFrameCopiedErrors'', 4), (''dot5StatsTokenErrors'', 4),
     (''dot5StatsSoftErrors'', 4), (''dot5StatsHardErrors'', 4), (''dot5StatsSignalLoss'', 4),
     (''dot5StatsTransmitBeacons'', 4), (''dot5StatsRecoverys'', 4), (''dot5StatsLobeWires'', 4),
     (''dot5StatsRemoves'', 4), (''dot5StatsSingles'', 4), (''dot5StatsFreqErrors'', 4)]"

definition SFLVg_counters_layout :: struct_layout where
  "SFLVg_counters_layout = [
     (''dot12InHighPriorityFrames'', 4), (''dot12InHighPriorityOctets'', 8),
     (''dot12InNormPriorityFrames'', 4), (''dot12InNormPriorityOctets'', 8),
     (''dot12InIPMErrors'', 4), (''dot12InOversizeFrameErrors'', 4), (''dot12InDataErrors'', 4),
     (''dot12InNullAddressedFrames'', 4), (''dot12OutHighPriorityFrames'', 4),
     (''dot12OutHighPriorityOctets'', 8), (''dot12TransitionIntoTrainings'', 4),
     (''dot12HCInHighPriorityOctets'', 8), (''dot12HCInNormPriorityOctets'', 8),
     (''dot12HCOutHighPriorityOctets'', 8)]"

definition SFLWifi_counters_layout :: struct_layout where
  "SFLWifi_counters_layout = [
     (''dot11TransmittedFragmentCount'', 4), (''dot11MulticastTransmittedFrameCount'', 4),
     (''dot11FailedCount'', 4), (''dot11RetryCount'', 4), (''dot11MultipleRetryCount'', 4),
     (''dot11FrameDuplicateCount'', 4), (''dot11RTSSuccessCount'', 4),
     (''dot11RTSFailureCount'', 4), (''dot11ACKFailureCount'', 4),
     (''dot11ReceivedFragmentCount'', 4), (''dot11MulticastReceivedFrameCount'', 4),
     (''dot11FCSErrorCount'', 4), (''dot11TransmittedFrameCount'', 4),
     (''dot11WEPUndecryptableCount'', 4), (''dot11QoSDiscardedFragmentCount'', 4),
     (''dot11AssociatedStationCount'', 4), (''dot11QoSCFPollsReceivedCount'', 4),
     (''dot11QoSCFPollsUnusedCount'', 4), (''dot11QoSCFPollsUnusableCount'', 4),
     (''dot11QoSCFPollsLostCount'', 4)]"

definition SFLProcessor_counters_layout :: struct_layout where
  "SFLProcessor_counters_layout = [
     (''five_sec_cpu'', 4), (''one_min_cpu'', 4), (''five_min_cpu'', 4), (''total_memory'', 8),
     (''free_memory'', 8)]"

definition SFLRadio_counters_layout :: struct_layout where
  "SFLRadio_counters_layout = [
     (''elapsed_time'', 4), (''on_channel_time'', 4), (''on_channel_busy_time'', 4)]"

definition SFLHost_parent_layout :: struct_layout where
  "SFLHost_parent_layout = [
     (''dsClass'', 4), (''dsIndex'', 4)]"

definition SFLHost_cpu_counters_layout :: struct_layout where
  "SFLHost_cpu_counters_layout = [
     (''load_one'', 4), (''load_five'', 4), (''load_fifteen'', 4), (''proc_run'', 4),
     (''proc_total'', 4), (''cpu_num'', 4), (''cpu_speed'', 4), (''uptime'', 4),
     (''cpu_user'', 4), (''cpu_nice'', 4), (''cpu_system'', 4), (''cpu_idle'', 4),
     (''cpu_wio'', 4), (''cpu_intr'', 4), (''cpu_sintr'', 4), (''interrupts'', 4),
     (''contexts'', 4)]"

definition SFLHost_mem_counters_layout :: struct_layout where
  "SFLHost_mem_counters_layout = [
     (''mem_total'', 8), (''mem_free'', 8), (''mem_shared'', 8), (''mem_buffers'', 8),
     (''mem_cached'', 8), (''swap_total'', 8), (''swap_free'', 8), (''page_in'', 4),
     (''page_out'', 4), (''swap_in'', 4), (''swap_out'', 4)]"

definition SFLHost_dsk_counters_layout :: struct_layout where
  "SFLHost_dsk_counters_layout = [
     (''disk_total'', 8), (''disk_free'', 8), (''part_max_used'', 4), (''reads'', 4),
     (''bytes_read'', 8), (''read_time'', 4), (''writes'', 4), (''bytes_written'', 8),
     (''write_time'', 4)]"

definition SFLHost_nio_counters_layout :: struct_layout where
  "SFLHost_nio_counters_layout = [
     (''bytes_in'', 8), (''pkts_in'', 4), (''errs_in'', 4), (''drops_in'', 4), (''bytes_out'', 8),
     (''pkts_out'', 4), (''errs_out'', 4), (''drops_out'', 4)]"

definition SFLHost_vrt_node_counters_layout :: struct_layout where
  "SFLHost_vrt_node_counters_layout = [
     (''mhz'', 4), (''cpus'', 4), (''memory'', 8), (''memory_free'', 8), (''num_domains'', 4)]"

definition SFLHost_vrt_cpu_counters_layout :: struct_layout where
  "SFLHost_vrt_cpu_counters_layout = [
     (''state'', 4), (''cpuTime'', 4), (''cpuCount'', 4)]"

definition SFLHost_vrt_mem_counters_layout :: struct_layout where
  "SFLHost_vrt_mem_counters_layout = [
     (''memory'', 8), (''maxMemory'', 8)]"

definition SFLHost_vrt_dsk_counters_layout :: struct_layout where
  "SFLHost_vrt_dsk_counters_layout = [
     (''capacity'', 8), (''allocation'', 8), (''available'', 8), (''rd_req'', 4),
     (''rd_bytes'', 8), (''wr_req'', 4), (''wr_bytes'', 8), (''errs'', 4)]"

definition SFLHost_vrt_nio_counters_layout :: struct_layout where
  "SFLHost_vrt_nio_counters_layout = [
     (''bytes_in'', 8), (''pkts_in'', 4), (''errs_in'', 4), (''drops_in'', 4), (''bytes_out'', 8),
     (''pkts_out'', 4), (''errs_out'', 4), (''drops_out'', 4)]"

definition SFLHost_gpu_nvml_layout :: struct_layout where
  "SFLHost_gpu_nvml_layout = [
     (''device_count'', 4), (''processes'', 4), (''gpu_time'', 4), (''mem_time'', 4),
     (''mem_total'', 8), (''mem_free'', 8), (''ecc_errors'', 4), (''energy'', 4),
     (''temperature'', 4), (''fan_speed'', 4)]"

definition SFLHTTP_counters_layout :: struct_layout where
  "SFLHTTP_counters_layout = [
     (''method_option_count'', 4), (''method_get_count'', 4), (''method_head_count'', 4),
     (''method_post_count'', 4), (''method_put_count'', 4), (''method_delete_count'', 4),
     (''method_trace_count'', 4), (''methd_connect_count'', 4), (''method_other_count'', 4),
     (''status_1XX_count'', 4), (''status_2XX_count'', 4), (''status_3XX_count'', 4),
     (''status_4XX_count'', 4), (''status_5XX_count'', 4), (''status_other_count'', 4)]"

definition SFLAPP_resources_layout :: struct_layout where
  "SFLAPP_resources_layout = [
     (''user_time'', 4), (''system_time'', 4), (''mem_used'', 8), (''mem_max'', 8),
     (''fd_open'', 4), (''fd_max'', 4), (''conn_open'', 4), (''conn_max'', 4)]"

definition SFLAPP_workers_layout :: struct_layout where
  "SFLAPP_workers_layout = [
     (''workers_active'', 4), (''workers_idle'', 4), (''workers_max'', 4), (''req_delayed'', 4),
     (''req_dropped'', 4)]"

definition SFLVdi_counters_layout :: struct_layout where
  "SFLVdi_counters_layout = [
     (''sessions_current'', 4), (''sessions_total'', 4), (''sessions_duration'', 4),
     (''rx_bytes'', 4), (''tx_bytes'', 4), (''rx_packets'', 4), (''tx_packets'', 4),
     (''rx_packets_lost'', 4), (''tx_packets_lost'', 4), (''rtt_min_ms'', 4), (''rtt_max_ms'', 4),
     (''rtt_avg_ms'', 4), (''audio_rx_bytes'', 4), (''audio_tx_bytes'', 4),
     (''audio_tx_limit'', 4), (''img_rx_bytes'', 4), (''img_tx_bytes'', 4), (''img_frames'', 4),
     (''img_qual_min'', 4), (''img_qual_max'', 4), (''img_qual_avg'', 4), (''usb_rx_bytes'', 4),
     (''usb_tx_bytes'', 4)]"

definition SFLVlan_counters_layout :: struct_layout where
  "SFLVlan_counters_layout = [
     (''vlan_id'', 4), (''octets'', 8), (''ucastPkts'', 4), (''multicastPkts'', 4),
     (''broadcastPkts'', 4), (''discards'', 4)]"

definition SFLJMX_counters_layout :: struct_layout where
  "SFLJMX_counters_layout = [
     (''hmem_initial'', 8), (''hmem_used'', 8), (''hmem_committed'', 8), (''hmem_max'', 8),
     (''nhmem_initial'', 8), (''nhmem_used'', 8), (''nhmem_committed'', 8), (''nhmem_max'', 8),
     (''gc_count'', 4), (''gc_ms'', 4), (''cls_loaded'', 4), (''cls_total'', 4),
     (''cls_unloaded'', 4), (''comp_ms'', 4), (''thread_live'', 4), (''thread_daemon'', 4),
     (''thread_started'', 4), (''fds_open'', 4), (''fds_max'', 4)]"

text \<open>The fields of the struct that format 2204 has.\<close>

definition SFLMemcache_counters_layout :: struct_layout where
  "SFLMemcache_counters_layout = [
     (''cmd_set'', 4), (''cmd_touch'', 4), (''cmd_flush'', 4), (''get_hits'', 4),
     (''get_misses'', 4), (''delete_hits'', 4), (''delete_misses'', 4), (''incr_hits'', 4),
     (''incr_misses'', 4), (''decr_hits'', 4), (''decr_misses'', 4), (''cas_hits'', 4),
     (''cas_misses'', 4), (''cas_badval'', 4), (''auth_cmds'', 4), (''auth_errors'', 4),
     (''threads'', 4), (''conn_yields'', 4), (''listen_disabled_num'', 4),
     (''curr_connections'', 4), (''rejected_connections'', 4), (''total_connections'', 4),
     (''connection_structures'', 4), (''evictions'', 4), (''reclaimed'', 4), (''curr_items'', 4),
     (''total_items'', 4), (''bytes_read'', 8), (''bytes_written'', 8), (''bytes'', 8),
     (''limit_maxbytes'', 8)]"

section \<open>The readers\<close>

definition if_counter ::
  "(('v \<Rightarrow> 'v) \<Rightarrow> SFLIf_counters \<Rightarrow> SFLIf_counters) \<Rightarrow> ('v \<Rightarrow> 'v) \<Rightarrow> SFSample \<Rightarrow> SFSample" where
  "if_counter upd f = ifCounters_update (upd f)"

definition readCounters_generic :: "unit dec" where
  "readCounters_generic = block [
     store (if_counter ifIndex_update) (sf_log_next32 ''ifIndex''),
     store (if_counter ifType_update) (sf_log_next32 ''networkType''),
     store (if_counter ifSpeed_update) (sf_log_next64 ''ifSpeed''),
     store (if_counter ifDirection_update) (sf_log_next32 ''ifDirection''),
     store (if_counter ifStatus_update) (sf_log_next32 ''ifStatus''),
     store (if_counter ifInOctets_update) (sf_log_next64 ''ifInOctets''),
     store (if_counter ifInUcastPkts_update) (sf_log_next32 ''ifInUcastPkts''),
     store (if_counter ifInMulticastPkts_update) (sf_log_next32 ''ifInMulticastPkts''),
     store (if_counter ifInBroadcastPkts_update) (sf_log_next32 ''ifInBroadcastPkts''),
     store (if_counter ifInDiscards_update) (sf_log_next32 ''ifInDiscards''),
     store (if_counter ifInErrors_update) (sf_log_next32 ''ifInErrors''),
     store (if_counter ifInUnknownProtos_update) (sf_log_next32 ''ifInUnknownProtos''),
     store (if_counter ifOutOctets_update) (sf_log_next64 ''ifOutOctets''),
     store (if_counter ifOutUcastPkts_update) (sf_log_next32 ''ifOutUcastPkts''),
     store (if_counter ifOutMulticastPkts_update) (sf_log_next32 ''ifOutMulticastPkts''),
     store (if_counter ifOutBroadcastPkts_update) (sf_log_next32 ''ifOutBroadcastPkts''),
     store (if_counter ifOutDiscards_update) (sf_log_next32 ''ifOutDiscards''),
     store (if_counter ifOutErrors_update) (sf_log_next32 ''ifOutErrors''),
     store (if_counter ifPromiscuousMode_update) (sf_log_next32 ''ifPromiscuousMode'')]"

definition readCounters_ethernet :: "unit dec" where
  "readCounters_ethernet = block [
     drop_value (sf_log_next32 ''dot3StatsAlignmentErrors''),
     drop_value (sf_log_next32 ''dot3StatsFCSErrors''),
     drop_value (sf_log_next32 ''dot3StatsSingleCollisionFrames''),
     drop_value (sf_log_next32 ''dot3StatsMultipleCollisionFrames''),
     drop_value (sf_log_next32 ''dot3StatsSQETestErrors''),
     drop_value (sf_log_next32 ''dot3StatsDeferredTransmissions''),
     drop_value (sf_log_next32 ''dot3StatsLateCollisions''),
     drop_value (sf_log_next32 ''dot3StatsExcessiveCollisions''),
     drop_value (sf_log_next32 ''dot3StatsInternalMacTransmitErrors''),
     drop_value (sf_log_next32 ''dot3StatsCarrierSenseErrors''),
     drop_value (sf_log_next32 ''dot3StatsFrameTooLongs''),
     drop_value (sf_log_next32 ''dot3StatsInternalMacReceiveErrors''),
     drop_value (sf_log_next32 ''dot3StatsSymbolErrors'')]"

definition readCounters_tokenring :: "unit dec" where
  "readCounters_tokenring = block [
     drop_value (sf_log_next32 ''dot5StatsLineErrors''),
     drop_value (sf_log_next32 ''dot5StatsBurstErrors''),
     drop_value (sf_log_next32 ''dot5StatsACErrors''),
     drop_value (sf_log_next32 ''dot5StatsAbortTransErrors''),
     drop_value (sf_log_next32 ''dot5StatsInternalErrors''),
     drop_value (sf_log_next32 ''dot5StatsLostFrameErrors''),
     drop_value (sf_log_next32 ''dot5StatsReceiveCongestions''),
     drop_value (sf_log_next32 ''dot5StatsFrameCopiedErrors''),
     drop_value (sf_log_next32 ''dot5StatsTokenErrors''),
     drop_value (sf_log_next32 ''dot5StatsSoftErrors''),
     drop_value (sf_log_next32 ''dot5StatsHardErrors''),
     drop_value (sf_log_next32 ''dot5StatsSignalLoss''),
     drop_value (sf_log_next32 ''dot5StatsTransmitBeacons''),
     drop_value (sf_log_next32 ''dot5StatsRecoverys''),
     drop_value (sf_log_next32 ''dot5StatsLobeWires''),
     drop_value (sf_log_next32 ''dot5StatsRemoves''),
     drop_value (sf_log_next32 ''dot5StatsSingles''),
     drop_value (sf_log_next32 ''dot5StatsFreqErrors'')]"

definition readCounters_vg :: "unit dec" where
  "readCounters_vg = block [
     drop_value (sf_log_next32 ''dot12InHighPriorityFrames''),
     drop_value (sf_log_next64 ''dot12InHighPriorityOctets''),
     drop_value (sf_log_next32 ''dot12InNormPriorityFrames''),
     drop_value (sf_log_next64 ''dot12InNormPriorityOctets''),
     drop_value (sf_log_next32 ''dot12InIPMErrors''),
     drop_value (sf_log_next32 ''dot12InOversizeFrameErrors''),
     drop_value (sf_log_next32 ''dot12InDataErrors''),
     drop_value (sf_log_next32 ''dot12InNullAddressedFrames''),
     drop_value (sf_log_next32 ''dot12OutHighPriorityFrames''),
     drop_value (sf_log_next64 ''dot12OutHighPriorityOctets''),
     drop_value (sf_log_next32 ''dot12TransitionIntoTrainings''),
     drop_value (sf_log_next64 ''dot12HCInHighPriorityOctets''),
     drop_value (sf_log_next64 ''dot12HCInNormPriorityOctets''),
     drop_value (sf_log_next64 ''dot12HCOutHighPriorityOctets'')]"

definition readCounters_80211 :: "unit dec" where
  "readCounters_80211 = block [
     drop_value (sf_log_next32 ''dot11TransmittedFragmentCount''),
     drop_value (sf_log_next32 ''dot11MulticastTransmittedFrameCount''),
     drop_value (sf_log_next32 ''dot11FailedCount''),
     drop_value (sf_log_next32 ''dot11RetryCount''),
     drop_value (sf_log_next32 ''dot11MultipleRetryCount''),
     drop_value (sf_log_next32 ''dot11FrameDuplicateCount''),
     drop_value (sf_log_next32 ''dot11RTSSuccessCount''),
     drop_value (sf_log_next32 ''dot11RTSFailureCount''),
     drop_value (sf_log_next32 ''dot11ACKFailureCount''),
     drop_value (sf_log_next32 ''dot11ReceivedFragmentCount''),
     drop_value (sf_log_next32 ''dot11MulticastReceivedFrameCount''),
     drop_value (sf_log_next32 ''dot11FCSErrorCount''),
     drop_value (sf_log_next32 ''dot11TransmittedFrameCount''),
     drop_value (sf_log_next32 ''dot11WEPUndecryptableCount''),
     drop_value (sf_log_next32 ''dot11QoSDiscardedFragmentCount''),
     drop_value (sf_log_next32 ''dot11AssociatedStationCount''),
     drop_value (sf_log_next32 ''dot11QoSCFPollsReceivedCount''),
     drop_value (sf_log_next32 ''dot11QoSCFPollsUnusedCount''),
     drop_value (sf_log_next32 ''dot11QoSCFPollsUnusableCount''),
     drop_value (sf_log_next32 ''dot11QoSCFPollsLostCount'')]"

definition readCounters_processor :: "unit dec" where
  "readCounters_processor = block [
     sf_log_percentage ''5s_cpu'',
     sf_log_percentage ''1m_cpu'',
     sf_log_percentage ''5m_cpu'',
     drop_value (sf_log_next64 ''total_memory_bytes''),
     drop_value (sf_log_next64 ''free_memory_bytes'')]"

definition readCounters_radio :: "unit dec" where
  "readCounters_radio = block [
     drop_value (sf_log_next32 ''radio_elapsed_time''),
     drop_value (sf_log_next32 ''radio_on_channel_time''),
     drop_value (sf_log_next32 ''radio_on_channel_busy_time'')]"

definition readCounters_host_parent :: "unit dec" where
  "readCounters_host_parent = block [
     drop_value (sf_log_next32 ''parent_dsClass''),
     drop_value (sf_log_next32 ''parent_dsIndex'')]"

definition readCounters_host_cpu :: "unit dec" where
  "readCounters_host_cpu = block [
     drop_value (sf_log_nextFloat ''cpu_load_one''),
     drop_value (sf_log_nextFloat ''cpu_load_five''),
     drop_value (sf_log_nextFloat ''cpu_load_fifteen''),
     drop_value (sf_log_next32 ''cpu_proc_run''),
     drop_value (sf_log_next32 ''cpu_proc_total''),
     drop_value (sf_log_next32 ''cpu_num''),
     drop_value (sf_log_next32 ''cpu_speed''),
     drop_value (sf_log_next32 ''cpu_uptime''),
     drop_value (sf_log_next32 ''cpu_user''),
     drop_value (sf_log_next32 ''cpu_nice''),
     drop_value (sf_log_next32 ''cpu_system''),
     drop_value (sf_log_next32 ''cpu_idle''),
     drop_value (sf_log_next32 ''cpu_wio''),
     drop_value (sf_log_next32 ''cpuintr''),
     drop_value (sf_log_next32 ''cpu_sintr''),
     drop_value (sf_log_next32 ''cpuinterrupts''),
     drop_value (sf_log_next32 ''cpu_contexts'')]"

definition readCounters_host_mem :: "unit dec" where
  "readCounters_host_mem = block [
     drop_value (sf_log_next64 ''mem_total''),
     drop_value (sf_log_next64 ''mem_free''),
     drop_value (sf_log_next64 ''mem_shared''),
     drop_value (sf_log_next64 ''mem_buffers''),
     drop_value (sf_log_next64 ''mem_cached''),
     drop_value (sf_log_next64 ''swap_total''),
     drop_value (sf_log_next64 ''swap_free''),
     drop_value (sf_log_next32 ''page_in''),
     drop_value (sf_log_next32 ''page_out''),
     drop_value (sf_log_next32 ''swap_in''),
     drop_value (sf_log_next32 ''swap_out'')]"

definition readCounters_host_dsk :: "unit dec" where
  "readCounters_host_dsk = block [
     drop_value (sf_log_next64 ''disk_total''),
     drop_value (sf_log_next64 ''disk_free''),
     sf_log_percentage ''disk_partition_max_used'',
     drop_value (sf_log_next32 ''disk_reads''),
     drop_value (sf_log_next64 ''disk_bytes_read''),
     drop_value (sf_log_next32 ''disk_read_time''),
     drop_value (sf_log_next32 ''disk_writes''),
     drop_value (sf_log_next64 ''disk_bytes_written''),
     drop_value (sf_log_next32 ''disk_write_time'')]"

definition readCounters_host_nio :: "unit dec" where
  "readCounters_host_nio = block [
     drop_value (sf_log_next64 ''nio_bytes_in''),
     drop_value (sf_log_next32 ''nio_pkts_in''),
     drop_value (sf_log_next32 ''nio_errs_in''),
     drop_value (sf_log_next32 ''nio_drops_in''),
     drop_value (sf_log_next64 ''nio_bytes_out''),
     drop_value (sf_log_next32 ''nio_pkts_out''),
     drop_value (sf_log_next32 ''nio_errs_out''),
     drop_value (sf_log_next32 ''nio_drops_out'')]"

definition readCounters_host_vnode :: "unit dec" where
  "readCounters_host_vnode = block [
     drop_value (sf_log_next32 ''vnode_mhz''),
     drop_value (sf_log_next32 ''vnode_cpus''),
     drop_value (sf_log_next64 ''vnode_memory''),
     drop_value (sf_log_next64 ''vnode_memory_free''),
     drop_value (sf_log_next32 ''vnode_num_domains'')]"

definition readCounters_host_vcpu :: "unit dec" where
  "readCounters_host_vcpu = block [
     drop_value (sf_log_next32 ''vcpu_state''),
     drop_value (sf_log_next32 ''vcpu_cpu_mS''),
     drop_value (sf_log_next32 ''vcpu_cpuCount'')]"

definition readCounters_host_vmem :: "unit dec" where
  "readCounters_host_vmem = block [
     drop_value (sf_log_next64 ''vmem_memory''),
     drop_value (sf_log_next64 ''vmem_maxMemory'')]"

definition readCounters_host_vdsk :: "unit dec" where
  "readCounters_host_vdsk = block [
     drop_value (sf_log_next64 ''vdsk_capacity''),
     drop_value (sf_log_next64 ''vdsk_allocation''),
     drop_value (sf_log_next64 ''vdsk_available''),
     drop_value (sf_log_next32 ''vdsk_rd_req''),
     drop_value (sf_log_next64 ''vdsk_rd_bytes''),
     drop_value (sf_log_next32 ''vdsk_wr_req''),
     drop_value (sf_log_next64 ''vdsk_wr_bytes''),
     drop_value (sf_log_next32 ''vdsk_errs'')]"

definition readCounters_host_vnio :: "unit dec" where
  "readCounters_host_vnio = block [
     drop_value (sf_log_next64 ''vnio_bytes_in''),
     drop_value (sf_log_next32 ''vnio_pkts_in''),
     drop_value (sf_log_next32 ''vnio_errs_in''),
     drop_value (sf_log_next32 ''vnio_drops_in''),
     drop_value (sf_log_next64 ''vnio_bytes_out''),
     drop_value (sf_log_next32 ''vnio_pkts_out''),
     drop_value (sf_log_next32 ''vnio_errs_out''),
     drop_value (sf_log_next32 ''vnio_drops_out'')]"

definition readCounters_host_gpu_nvml :: "unit dec" where
  "readCounters_host_gpu_nvml = block [
     drop_value (sf_log_next32 ''nvml_device_count''),
     drop_value (sf_log_next32 ''nvml_processes''),
     drop_value (sf_log_next32 ''nvml_gpu_mS''),
     drop_value (sf_log_next32 ''nvml_mem_mS''),
     drop_value (sf_log_next64 ''nvml_mem_bytes_total''),
     drop_value (sf_log_next64 ''nvml_mem_bytes_free''),
     drop_value (sf_log_next32 ''nvml_ecc_errors''),
     drop_value (sf_log_next32 ''nvml_energy_mJ''),
     drop_value (sf_log_next32 ''nvml_temperature_C''),
     drop_value (sf_log_next32 ''nvml_fan_speed_pc'')]"

definition readCounters_memcache :: "unit dec" where
  "readCounters_memcache = block [
     drop_value (sf_log_next32 ''memcache_uptime''),
     drop_value (sf_log_next32 ''memcache_rusage_user''),
     drop_value (sf_log_next32 ''memcache_rusage_system''),
     drop_value (sf_log_next32 ''memcache_curr_connections''),
     drop_value (sf_log_next32 ''memcache_total_connections''),
     drop_value (sf_log_next32 ''memcache_connection_structures''),
     drop_value (sf_log_next32 ''memcache_cmd_get''),
     drop_value (sf_log_next32 ''memcache_cmd_set''),
     drop_value (sf_log_next32 ''memcache_cmd_flush''),
     drop_value (sf_log_next32 ''memcache_get_hits''),
     drop_value (sf_log_next32 ''memcache_get_misses''),
     drop_value (sf_log_next32 ''memcache_delete_misses''),
     drop_value (sf_log_next32 ''memcache_delete_hits''),
     drop_value (sf_log_next32 ''memcache_incr_misses''),
     drop_value (sf_log_next32 ''memcache_incr_hits''),
     drop_value (sf_log_next32 ''memcache_decr_misses''),
     drop_value (sf_log_next32 ''memcache_decr_hits''),
     drop_value (sf_log_next32 ''memcache_cas_misses''),
     drop_value (sf_log_next32 ''memcache_cas_hits''),
     drop_value (sf_log_next32 ''memcache_cas_badval''),
     drop_value (sf_log_next32 ''memcache_auth_cmds''),
     drop_value (sf_log_next32 ''memcache_auth_errors''),
     drop_value (sf_log_next64 ''memcache_bytes_read''),
     drop_value (sf_log_next64 ''memcache_bytes_written''),
     drop_value (sf_log_next32 ''memcache_limit_maxbytes''),
     drop_value (sf_log_next32 ''memcache_accepting_conns''),
     drop_value (sf_log_next32 ''memcache_listen_disabled_num''),
     drop_value (sf_log_next32 ''memcache_threads''),
     drop_value (sf_log_next32 ''memcache_conn_yields''),
     drop_value (sf_log_next64 ''memcache_bytes''),
     drop_value (sf_log_next32 ''memcache_curr_items''),
     drop_value (sf_log_next32 ''memcache_total_items''),
     drop_value (sf_log_next32 ''memcache_evictions'')]"

definition readCounters_memcache2 :: "unit dec" where
  "readCounters_memcache2 = block [
     drop_value (sf_log_next32 ''memcache_cmd_set''),
     drop_value (sf_log_next32 ''memcache_cmd_touch''),
     drop_value (sf_log_next32 ''memcache_cmd_flush''),
     drop_value (sf_log_next32 ''memcache_get_hits''),
     drop_value (sf_log_next32 ''memcache_get_misses''),
     drop_value (sf_log_next32 ''memcache_delete_hits''),
     drop_value (sf_log_next32 ''memcache_delete_misses''),
     drop_value (sf_log_next32 ''memcache_incr_hits''),
     drop_value (sf_log_next32 ''memcache_incr_misses''),
     drop_value (sf_log_next32 ''memcache_decr_hits''),
     drop_value (sf_log_next32 ''memcache_decr_misses''),
     drop_value (sf_log_next32 ''memcache_cas_hits''),
     drop_value (sf_log_next32 ''memcache_cas_misses''),
     drop_value (sf_log_next32 ''memcache_cas_badval''),
     drop_value (sf_log_next32 ''memcache_auth_cmds''),
     drop_value (sf_log_next32 ''memcache_auth_errors''),
     drop_value (sf_log_next32 ''memcache_threads''),
     drop_value (sf_log_next32 ''memcache_conn_yields''),
     drop_value (sf_log_next32 ''memcache_listen_disabled_num''),
     drop_value (sf_log_next32 ''memcache_curr_connections''),
     drop_value (sf_log_next32 ''memcache_rejected_connections''),
     drop_value (sf_log_next32 ''memcache_total_connections''),
     drop_value (sf_log_next32 ''memcache_connection_structures''),
     drop_value (sf_log_next32 ''memcache_evictions''),
     drop_value (sf_log_next32 ''memcache_reclaimed''),
     drop_value (sf_log_next32 ''memcache_curr_items''),
     drop_value (sf_log_next32 ''memcache_total_items''),
     drop_value (sf_log_next64 ''memcache_bytes_read''),
     drop_value (sf_log_next64 ''memcache_bytes_written''),
     drop_value (sf_log_next64 ''memcache_bytes''),
     drop_value (sf_log_next64 ''memcache_limit_maxbytes'')]"

definition readCounters_http :: "unit dec" where
  "readCounters_http = block [
     drop_value (sf_log_next32 ''http_method_option_count''),
     drop_value (sf_log_next32 ''http_method_get_count''),
     drop_value (sf_log_next32 ''http_method_head_count''),
     drop_value (sf_log_next32 ''http_method_post_count''),
     drop_value (sf_log_next32 ''http_method_put_count''),
     drop_value (sf_log_next32 ''http_method_delete_count''),
     drop_value (sf_log_next32 ''http_method_trace_count''),
     drop_value (sf_log_next32 ''http_methd_connect_count''),
     drop_value (sf_log_next32 ''http_method_other_count''),
     drop_value (sf_log_next32 ''http_status_1XX_count''),
     drop_value (sf_log_next32 ''http_status_2XX_count''),
     drop_value (sf_log_next32 ''http_status_3XX_count''),
     drop_value (sf_log_next32 ''http_status_4XX_count''),
     drop_value (sf_log_next32 ''http_status_5XX_count''),
     drop_value (sf_log_next32 ''http_status_other_count'')]"

definition readCounters_APP_RESOURCE :: "unit dec" where
  "readCounters_APP_RESOURCE = block [
     drop_value (sf_log_next32 ''user_time''),
     drop_value (sf_log_next32 ''system_time''),
     drop_value (sf_log_next64 ''memory_used''),
     drop_value (sf_log_next64 ''memory_max''),
     drop_value (sf_log_next32 ''files_open''),
     drop_value (sf_log_next32 ''files_max''),
     drop_value (sf_log_next32 ''connections_open''),
     drop_value (sf_log_next32 ''connections_max'')]"

definition readCounters_APP_WORKERS :: "unit dec" where
  "readCounters_APP_WORKERS = block [
     drop_value (sf_log_next32 ''workers_active''),
     drop_value (sf_log_next32 ''workers_idle''),
     drop_value (sf_log_next32 ''workers_max''),
     drop_value (sf_log_next32 ''requests_delayed''),
     drop_value (sf_log_next32 ''requests_dropped'')]"

definition readCounters_VDI :: "unit dec" where
  "readCounters_VDI = block [
     drop_value (sf_log_next32 ''vdi_sessions_current''),
     drop_value (sf_log_next32 ''vdi_sessions_total''),
     drop_value (sf_log_next32 ''vdi_sessions_duration''),
     drop_value (sf_log_next32 ''vdi_rx_bytes''),
     drop_value (sf_log_next32 ''vdi_tx_bytes''),
     drop_value (sf_log_next32 ''vdi_rx_packets''),
     drop_value (sf_log_next32 ''vdi_tx_packets''),
     drop_value (sf_log_next32 ''vdi_rx_packets_lost''),
     drop_value (sf_log_next32 ''vdi_tx_packets_lost''),
     drop_value (sf_log_next32 ''vdi_rtt_min_ms''),
     drop_value (sf_log_next32 ''vdi_rtt_max_ms''),
     drop_value (sf_log_next32 ''vdi_rtt_avg_ms''),
     drop_value (sf_log_next32 ''vdi_audio_rx_bytes''),
     drop_value (sf_log_next32 ''vdi_audio_tx_bytes''),
     drop_value (sf_log_next32 ''vdi_audio_tx_limit''),
     drop_value (sf_log_next32 ''vdi_img_rx_bytes''),
     drop_value (sf_log_next32 ''vdi_img_tx_bytes''),
     drop_value (sf_log_next32 ''vdi_img_frames''),
     drop_value (sf_log_next32 ''vdi_img_qual_min''),
     drop_value (sf_log_next32 ''vdi_img_qual_max''),
     drop_value (sf_log_next32 ''vdi_img_qual_avg''),
     drop_value (sf_log_next32 ''vdi_usb_rx_bytes''),
     drop_value (sf_log_next32 ''vdi_usb_tx_bytes'')]"

definition readCounters_vlan :: "unit dec" where
  "readCounters_vlan = block [
     store in_vlan_update getData32,
     log_field ''in_vlan %u\<newline>'' in_vlan,
     drop_value (sf_log_next64 ''octets''),
     drop_value (sf_log_next32 ''ucastPkts''),
     drop_value (sf_log_next32 ''multicastPkts''),
     drop_value (sf_log_next32 ''broadcastPkts''),
     drop_value (sf_log_next32 ''discards'')]"

definition readCounters_host_hid :: "unit dec" where
  "readCounters_host_hid = block [
     drop_value (log_string 65 64 ''hostname %s\<newline>''),
     bnd (peek_bytes 16) (\<lambda>uuid. block [
       sf_log ''UUID '' [],
       for_u32 16 (\<lambda>i. sf_log ''%02x'' [A8 (uuid ! unat i)]),
       sf_log ''\<newline>'' [],
       skipBytes 16]),
     drop_value (sf_log_next32 ''machine_type''),
     drop_value (sf_log_next32 ''os_name''),
     drop_value (log_string 33 32 ''os_release %s\<newline>'')]"

definition readCounters_adaptors :: "unit dec" where
  "readCounters_adaptors =
     bnd getData32 (\<lambda>num_adaptors.
     for_u32 num_adaptors (\<lambda>i.
       bnd getData32 (\<lambda>ifindex.
       bnd (sf_log ''adaptor_%u_ifIndex %u\<newline>'' [A32 i, A32 ifindex]) (\<lambda>_.
       bnd getData32 (\<lambda>num_macs. block [
         sf_log ''adaptor_%u_MACs %u\<newline>'' [A32 i, A32 num_macs],
         for_u32 num_macs (\<lambda>j.
           bnd (peek_bytes 6) (\<lambda>mac. block [
             sf_log ''adaptor_%u_MAC_%u %02x%02x%02x%02x%02x%02x\<newline>''
               ([A32 i, A32 j] @ map A8 mac),
             skipBytes 8]))])))))"

definition readCounters_JVM :: "unit dec" where
  "readCounters_JVM = block [
     drop_value (log_string 64 64 ''jvm_name %s\<newline>''),
     drop_value (log_string 32 32 ''jvm_vendor %s\<newline>''),
     drop_value (log_string 32 32 ''jvm_version %s\<newline>'')]"

definition readCounters_JMX :: "u32 \<Rightarrow> unit dec" where
  "readCounters_JMX len = block [
     drop_value (sf_log_next64 ''heap_mem_initial''),
     drop_value (sf_log_next64 ''heap_mem_used''),
     drop_value (sf_log_next64 ''heap_mem_committed''),
     drop_value (sf_log_next64 ''heap_mem_max''),
     drop_value (sf_log_next64 ''non_heap_mem_initial''),
     drop_value (sf_log_next64 ''non_heap_mem_used''),
     drop_value (sf_log_next64 ''non_heap_mem_committed''),
     drop_value (sf_log_next64 ''non_heap_mem_max''),
     drop_value (sf_log_next32 ''gc_count''),
     drop_value (sf_log_next32 ''gc_mS''),
     drop_value (sf_log_next32 ''classes_loaded''),
     drop_value (sf_log_next32 ''classes_total''),
     drop_value (sf_log_next32 ''classes_unloaded''),
     drop_value (sf_log_next32 ''compilation_mS''),
     drop_value (sf_log_next32 ''threads_live''),
     drop_value (sf_log_next32 ''threads_daemon''),
     drop_value (sf_log_next32 ''threads_started''),
     only_if (len > 100) (block [
       drop_value (sf_log_next32 ''fds_open''),
       drop_value (sf_log_next32 ''fds_max'')])]"

definition readCounters_APP :: "unit dec" where
  "readCounters_APP = block [
     drop_value (log_string 32 32 ''application %s\<newline>''),
     drop_value (sf_log_next32 ''status_OK''),
     drop_value (sf_log_next32 ''errors_OTHER''),
     drop_value (sf_log_next32 ''errors_TIMEOUT''),
     drop_value (sf_log_next32 ''errors_INTERNAL_ERROR''),
     drop_value (sf_log_next32 ''errors_BAD_REQUEST''),
     drop_value (sf_log_next32 ''errors_FORBIDDEN''),
     drop_value (sf_log_next32 ''errors_TOO_LARGE''),
     drop_value (sf_log_next32 ''errors_NOT_IMPLEMENTED''),
     drop_value (sf_log_next32 ''errors_NOT_FOUND''),
     drop_value (sf_log_next32 ''errors_UNAVAILABLE''),
     drop_value (sf_log_next32 ''errors_UNAUTHORIZED'')]"

text \<open>The port states are the bytes of the word as it stands in memory.\<close>

definition readCounters_LACP :: "unit dec" where
  "readCounters_LACP = block [
     sf_log_nextMAC ''actorSystemID'',
     sf_log_nextMAC ''partnerSystemID'',
     drop_value (sf_log_next32 ''attachedAggID''),
     bnd getData32_nobswap (\<lambda>portState. block [
       sf_log ''actorAdminPortState %u\<newline>'' [A8 (bytes_of_u32 portState ! 0)],
       sf_log ''actorOperPortState %u\<newline>'' [A8 (bytes_of_u32 portState ! 1)],
       sf_log ''partnerAdminPortState %u\<newline>'' [A8 (bytes_of_u32 portState ! 2)],
       sf_log ''partnerOperPortState %u\<newline>'' [A8 (bytes_of_u32 portState ! 3)]]),
     drop_value (sf_log_next32 ''LACPDUsRx''),
     drop_value (sf_log_next32 ''markerPDUsRx''),
     drop_value (sf_log_next32 ''markerResponsePDUsRx''),
     drop_value (sf_log_next32 ''unknownRx''),
     drop_value (sf_log_next32 ''illegalRx''),
     drop_value (sf_log_next32 ''LACPDUsTx''),
     drop_value (sf_log_next32 ''markerPDUsTx''),
     drop_value (sf_log_next32 ''markerResponsePDUsTx'')]"

section \<open>The counters sample of versions 2 and 4\<close>

abbreviation INMCOUNTERSVERSION_GENERIC :: u32 where "INMCOUNTERSVERSION_GENERIC \<equiv> 1"
abbreviation INMCOUNTERSVERSION_ETHERNET :: u32 where "INMCOUNTERSVERSION_ETHERNET \<equiv> 2"
abbreviation INMCOUNTERSVERSION_TOKENRING :: u32 where "INMCOUNTERSVERSION_TOKENRING \<equiv> 3"
abbreviation INMCOUNTERSVERSION_FDDI :: u32 where "INMCOUNTERSVERSION_FDDI \<equiv> 4"
abbreviation INMCOUNTERSVERSION_VG :: u32 where "INMCOUNTERSVERSION_VG \<equiv> 5"
abbreviation INMCOUNTERSVERSION_WAN :: u32 where "INMCOUNTERSVERSION_WAN \<equiv> 6"
abbreviation INMCOUNTERSVERSION_VLAN :: u32 where "INMCOUNTERSVERSION_VLAN \<equiv> 7"

text \<open>\<open>samplerId >> 24\<close> and \<open>samplerId & 0x00ffffff\<close>.\<close>

definition put_source_id :: "u32 \<Rightarrow> unit dec" where
  "put_source_id samplerId = block [
     put ds_class_update (drop_bit 24 samplerId),
     put ds_index_update (samplerId AND 0x00ffffff)]"

definition log_source_id :: "unit dec" where
  "log_source_id =
     bnd (gets smp) (\<lambda>x. sf_log ''sourceId %u:%u\<newline>'' [A32 (ds_class x), A32 (ds_index x)])"

definition read_generic_block :: "u32 \<Rightarrow> unit dec" where
  "read_generic_block version = switch version [
     (INMCOUNTERSVERSION_GENERIC, readCounters_generic),
     (INMCOUNTERSVERSION_ETHERNET, readCounters_generic),
     (INMCOUNTERSVERSION_TOKENRING, readCounters_generic),
     (INMCOUNTERSVERSION_FDDI, readCounters_generic),
     (INMCOUNTERSVERSION_VG, readCounters_generic),
     (INMCOUNTERSVERSION_WAN, readCounters_generic),
     (INMCOUNTERSVERSION_VLAN, ret ())]
     (receiveError ''unknown stats version'' True)"

definition read_specific_block :: "u32 \<Rightarrow> unit dec" where
  "read_specific_block version = switch version [
     (INMCOUNTERSVERSION_GENERIC, ret ()),
     (INMCOUNTERSVERSION_ETHERNET, readCounters_ethernet),
     (INMCOUNTERSVERSION_TOKENRING, readCounters_tokenring),
     (INMCOUNTERSVERSION_FDDI, ret ()),
     (INMCOUNTERSVERSION_VG, readCounters_vg),
     (INMCOUNTERSVERSION_WAN, ret ()),
     (INMCOUNTERSVERSION_VLAN, readCounters_vlan)]
     (receiveError ''unknown INMCOUNTERSVERSION'' True)"

definition readCountersSample_v2v4 :: "unit dec" where
  "readCountersSample_v2v4 = block [
     sf_log ''sampleType COUNTERSSAMPLE\<newline>'' [],
     store samplesGenerated_update getData32,
     log_field ''sampleSequenceNo %u\<newline>'' samplesGenerated,
     bnd getData32 put_source_id,
     log_source_id,
     store statsSamplingInterval_update getData32,
     log_field ''statsSamplingInterval %u\<newline>'' statsSamplingInterval,
     store counterBlockVersion_update getData32,
     log_field ''counterBlockVersion %u\<newline>'' counterBlockVersion,
     bnd (fetch counterBlockVersion) read_generic_block,
     bnd (fetch counterBlockVersion) read_specific_block,
     bnd (gets (\<lambda>s. outputFormat (cfg s))) (\<lambda>f. only_if (f = SFLFMT_LINE) writeCountersLine)]"

section \<open>Contracts\<close>

context checked_reader
begin

lemma sat_readCounters [contract_intro]:
  "sat R readCounters_generic" "sat R readCounters_ethernet"
  "sat R readCounters_tokenring" "sat R readCounters_vg"
  "sat R readCounters_80211" "sat R readCounters_processor"
  "sat R readCounters_radio" "sat R readCounters_host_parent"
  "sat R readCounters_host_cpu" "sat R readCounters_host_mem"
  "sat R readCounters_host_dsk" "sat R readCounters_host_nio"
  "sat R readCounters_host_vnode" "sat R readCounters_host_vcpu"
  "sat R readCounters_host_vmem" "sat R readCounters_host_vdsk"
  "sat R readCounters_host_vnio" "sat R readCounters_host_gpu_nvml"
  "sat R readCounters_memcache" "sat R readCounters_memcache2"
  "sat R readCounters_http" "sat R readCounters_APP_RESOURCE"
  "sat R readCounters_APP_WORKERS" "sat R readCounters_VDI"
  "sat R readCounters_vlan" "sat R readCounters_host_hid"
  "sat R readCounters_adaptors" "sat R readCounters_JVM"
  "sat R readCounters_APP" "sat R readCounters_LACP"
  "sat R (readCounters_JMX n)"
  unfolding readCounters_generic_def readCounters_ethernet_def readCounters_tokenring_def
    readCounters_vg_def readCounters_80211_def readCounters_processor_def
    readCounters_radio_def readCounters_host_parent_def readCounters_host_cpu_def
    readCounters_host_mem_def readCounters_host_dsk_def readCounters_host_nio_def
    readCounters_host_vnode_def readCounters_host_vcpu_def readCounters_host_vmem_def
    readCounters_host_vdsk_def readCounters_host_vnio_def readCounters_host_gpu_nvml_def
    readCounters_memcache_def readCounters_memcache2_def readCounters_http_def
    readCounters_APP_RESOURCE_def readCounters_APP_WORKERS_def readCounters_VDI_def
    readCounters_vlan_def readCounters_host_hid_def readCounters_adaptors_def
    readCounters_JVM_def readCounters_APP_def readCounters_LACP_def
    readCounters_JMX_def
  by (intro contract_intro)+

lemma sat_source_id [contract_intro]: "sat R (put_source_id w)" "sat R log_source_id"
  unfolding put_source_id_def log_source_id_def by (intro contract_intro)+

lemma sat_counter_blocks [contract_intro]:
  "sat R (read_generic_block v)" "sat R (read_specific_block v)"
  unfolding read_generic_block_def read_specific_block_def by (intro contract_intro)+

lemma sat_readCountersSample_v2v4 [contract_intro]: "sat R readCountersSample_v2v4"
  unfolding readCountersSample_v2v4_def by (intro contract_intro)

end

end
