(* ===== verification/CounterSpec.thy ===== *)
theory CounterSpec
  imports Counters
begin

text \<open>
  The standard counter readers against the structures of \<open>sflow.h\<close>: each consumes exactly
  the bytes of its structure and prints one line per field, in the declared order and with
  the declared widths; the versions with optional or unprinted fields consume what the
  size constants of the header say.
\<close>

section \<open>Readers that follow a declared structure\<close>

fun field_shown :: "wire_field \<Rightarrow> bool" where
  "field_shown (Silent n) = False"
| "field_shown f = True"

definition layout_size :: "struct_layout \<Rightarrow> nat" where
  "layout_size l = sum_list (map snd l)"

text \<open>\<open>m\<close> reads the structure \<open>l\<close>: there is a table of printed fields, of the widths \<open>l\<close>
  declares, that \<open>m\<close> logs.\<close>

definition reads_struct :: "unit dec \<Rightarrow> struct_layout \<Rightarrow> bool" where
  "reads_struct m l \<longleftrightarrow>
     (\<exists>fs. logs fs m \<and> map field_width fs = map snd l \<and> list_all field_shown fs)"

lemma reads_structI: "logs fs m \<Longrightarrow> map field_width fs = map snd l \<Longrightarrow> list_all field_shown fs \<Longrightarrow> reads_struct m l"
  unfolding reads_struct_def by blast

lemma reads_struct_takes: "reads_struct m l \<Longrightarrow> takes (layout_size l) m"
  unfolding reads_struct_def layout_size_def using logs_takes by (fastforce simp: fields_width_def)

definition struct_readers :: "(unit dec \<times> struct_layout) list" where
  "struct_readers = [
     (readCounters_generic, SFLIf_counters_layout),
     (readCounters_ethernet, SFLEthernet_counters_layout),
     (readCounters_tokenring, SFLTokenring_counters_layout),
     (readCounters_vg, SFLVg_counters_layout),
     (readCounters_80211, SFLWifi_counters_layout),
     (readCounters_processor, SFLProcessor_counters_layout),
     (readCounters_radio, SFLRadio_counters_layout),
     (readCounters_host_parent, SFLHost_parent_layout),
     (readCounters_host_cpu, SFLHost_cpu_counters_layout),
     (readCounters_host_mem, SFLHost_mem_counters_layout),
     (readCounters_host_dsk, SFLHost_dsk_counters_layout),
     (readCounters_host_nio, SFLHost_nio_counters_layout),
     (readCounters_host_vnode, SFLHost_vrt_node_counters_layout),
     (readCounters_host_vcpu, SFLHost_vrt_cpu_counters_layout),
     (readCounters_host_vmem, SFLHost_vrt_mem_counters_layout),
     (readCounters_host_vdsk, SFLHost_vrt_dsk_counters_layout),
     (readCounters_host_vnio, SFLHost_vrt_nio_counters_layout),
     (readCounters_host_gpu_nvml, SFLHost_gpu_nvml_layout),
     (readCounters_memcache2, SFLMemcache_counters_layout),
     (readCounters_http, SFLHTTP_counters_layout),
     (readCounters_APP_RESOURCE, SFLAPP_resources_layout),
     (readCounters_APP_WORKERS, SFLAPP_workers_layout),
     (readCounters_VDI, SFLVdi_counters_layout)]"

text \<open>Each reader against its structure: the field table is computed from the reader.\<close>

lemma reads_generic: "reads_struct readCounters_generic SFLIf_counters_layout"
  unfolding readCounters_generic_def
  by (rule reads_structI, (rule logs_intro)+) (simp_all add: SFLIf_counters_layout_def)

lemma reads_ethernet: "reads_struct readCounters_ethernet SFLEthernet_counters_layout"
  unfolding readCounters_ethernet_def
  by (rule reads_structI, (rule logs_intro)+) (simp_all add: SFLEthernet_counters_layout_def)

lemma reads_tokenring: "reads_struct readCounters_tokenring SFLTokenring_counters_layout"
  unfolding readCounters_tokenring_def
  by (rule reads_structI, (rule logs_intro)+) (simp_all add: SFLTokenring_counters_layout_def)

lemma reads_vg: "reads_struct readCounters_vg SFLVg_counters_layout"
  unfolding readCounters_vg_def
  by (rule reads_structI, (rule logs_intro)+) (simp_all add: SFLVg_counters_layout_def)

lemma reads_80211: "reads_struct readCounters_80211 SFLWifi_counters_layout"
  unfolding readCounters_80211_def
  by (rule reads_structI, (rule logs_intro)+) (simp_all add: SFLWifi_counters_layout_def)

lemma reads_processor: "reads_struct readCounters_processor SFLProcessor_counters_layout"
  unfolding readCounters_processor_def
  by (rule reads_structI, (rule logs_intro)+) (simp_all add: SFLProcessor_counters_layout_def)

lemma reads_radio: "reads_struct readCounters_radio SFLRadio_counters_layout"
  unfolding readCounters_radio_def
  by (rule reads_structI, (rule logs_intro)+) (simp_all add: SFLRadio_counters_layout_def)

lemma reads_host_parent: "reads_struct readCounters_host_parent SFLHost_parent_layout"
  unfolding readCounters_host_parent_def
  by (rule reads_structI, (rule logs_intro)+) (simp_all add: SFLHost_parent_layout_def)

lemma reads_host_cpu: "reads_struct readCounters_host_cpu SFLHost_cpu_counters_layout"
  unfolding readCounters_host_cpu_def
  by (rule reads_structI, (rule logs_intro)+) (simp_all add: SFLHost_cpu_counters_layout_def)

lemma reads_host_mem: "reads_struct readCounters_host_mem SFLHost_mem_counters_layout"
  unfolding readCounters_host_mem_def
  by (rule reads_structI, (rule logs_intro)+) (simp_all add: SFLHost_mem_counters_layout_def)

lemma reads_host_dsk: "reads_struct readCounters_host_dsk SFLHost_dsk_counters_layout"
  unfolding readCounters_host_dsk_def
  by (rule reads_structI, (rule logs_intro)+) (simp_all add: SFLHost_dsk_counters_layout_def)

lemma reads_host_nio: "reads_struct readCounters_host_nio SFLHost_nio_counters_layout"
  unfolding readCounters_host_nio_def
  by (rule reads_structI, (rule logs_intro)+) (simp_all add: SFLHost_nio_counters_layout_def)

lemma reads_host_vnode: "reads_struct readCounters_host_vnode SFLHost_vrt_node_counters_layout"
  unfolding readCounters_host_vnode_def
  by (rule reads_structI, (rule logs_intro)+) (simp_all add: SFLHost_vrt_node_counters_layout_def)

lemma reads_host_vcpu: "reads_struct readCounters_host_vcpu SFLHost_vrt_cpu_counters_layout"
  unfolding readCounters_host_vcpu_def
  by (rule reads_structI, (rule logs_intro)+) (simp_all add: SFLHost_vrt_cpu_counters_layout_def)

lemma reads_host_vmem: "reads_struct readCounters_host_vmem SFLHost_vrt_mem_counters_layout"
  unfolding readCounters_host_vmem_def
  by (rule reads_structI, (rule logs_intro)+) (simp_all add: SFLHost_vrt_mem_counters_layout_def)

lemma reads_host_vdsk: "reads_struct readCounters_host_vdsk SFLHost_vrt_dsk_counters_layout"
  unfolding readCounters_host_vdsk_def
  by (rule reads_structI, (rule logs_intro)+) (simp_all add: SFLHost_vrt_dsk_counters_layout_def)

lemma reads_host_vnio: "reads_struct readCounters_host_vnio SFLHost_vrt_nio_counters_layout"
  unfolding readCounters_host_vnio_def
  by (rule reads_structI, (rule logs_intro)+) (simp_all add: SFLHost_vrt_nio_counters_layout_def)

lemma reads_host_gpu_nvml: "reads_struct readCounters_host_gpu_nvml SFLHost_gpu_nvml_layout"
  unfolding readCounters_host_gpu_nvml_def
  by (rule reads_structI, (rule logs_intro)+) (simp_all add: SFLHost_gpu_nvml_layout_def)

lemma reads_memcache2: "reads_struct readCounters_memcache2 SFLMemcache_counters_layout"
  unfolding readCounters_memcache2_def
  by (rule reads_structI, (rule logs_intro)+) (simp_all add: SFLMemcache_counters_layout_def)

lemma reads_http: "reads_struct readCounters_http SFLHTTP_counters_layout"
  unfolding readCounters_http_def
  by (rule reads_structI, (rule logs_intro)+) (simp_all add: SFLHTTP_counters_layout_def)

lemma reads_APP_RESOURCE: "reads_struct readCounters_APP_RESOURCE SFLAPP_resources_layout"
  unfolding readCounters_APP_RESOURCE_def
  by (rule reads_structI, (rule logs_intro)+) (simp_all add: SFLAPP_resources_layout_def)

lemma reads_APP_WORKERS: "reads_struct readCounters_APP_WORKERS SFLAPP_workers_layout"
  unfolding readCounters_APP_WORKERS_def
  by (rule reads_structI, (rule logs_intro)+) (simp_all add: SFLAPP_workers_layout_def)

lemma reads_VDI: "reads_struct readCounters_VDI SFLVdi_counters_layout"
  unfolding readCounters_VDI_def
  by (rule reads_structI, (rule logs_intro)+) (simp_all add: SFLVdi_counters_layout_def)

lemmas reads_struct_rules =
  reads_generic reads_ethernet reads_tokenring reads_vg
  reads_80211 reads_processor reads_radio reads_host_parent
  reads_host_cpu reads_host_mem reads_host_dsk reads_host_nio
  reads_host_vnode reads_host_vcpu reads_host_vmem reads_host_vdsk
  reads_host_vnio reads_host_gpu_nvml reads_memcache2 reads_http
  reads_APP_RESOURCE reads_APP_WORKERS reads_VDI


section \<open>Readers with unprinted or optional fields\<close>

lemma takes_JMX: "takes (if 100 < len then 108 else 100) (readCounters_JMX len)"
proof -
  have "takes (if 100 < len then 108 else 100 :: nat) (readCounters_JMX len)" if "100 < len"
    using that unfolding readCounters_JMX_def
    by (simp only: only_if_def if_True simp_thms)
      (rule takes_eq, (rule takes_intro)+, simp)
  moreover have "takes (if 100 < len then 108 else 100 :: nat) (readCounters_JMX len)" if "\<not> 100 < len"
    using that unfolding readCounters_JMX_def
    by (simp only: only_if_def if_False simp_thms)
      (rule takes_eq, (rule takes_intro)+, simp)
  ultimately show ?thesis by blast
qed

lemma takes_LACP: "takes 56 readCounters_LACP"
  unfolding readCounters_LACP_def
  by (rule takes_eq, (rule takes_intro)+) simp

lemma takes_vlan: "takes 28 readCounters_vlan"
  unfolding readCounters_vlan_def log_field_def
  by (rule takes_eq, (rule takes_intro)+) simp

text \<open>
  The size constants of \<open>sflow.h\<close>: the JMX reader takes 108 bytes (\<open>XDRSIZ_JMX_COUNTERS\<close>)
  when the declared length exceeds 100 and 100 bytes otherwise, the LACP reader 56
  (\<open>XDRSIZ_LACP_COUNTERS\<close>), the VLAN reader the size of its structure.
\<close>

theorem declared_sizes:
  "takes (if 100 < len then 108 else 100) (readCounters_JMX len) \<and> takes 56 readCounters_LACP \<and>
   takes (layout_size SFLVlan_counters_layout) readCounters_vlan \<and>
   layout_size SFLJMX_counters_layout = 108"
  by (simp add: takes_JMX takes_LACP takes_vlan layout_size_def SFLVlan_counters_layout_def
      SFLJMX_counters_layout_def)

end
