(* ===== verification/OutputSpec.thy ===== *)
theory OutputSpec
  imports Wp Output
begin

text \<open>
  What leaves the tool: the fields of an exported NetFlow packet as a collector reads them, the
  checksums of a packet sent from a spoofed source, and the packets written in pcap format.
\<close>

section \<open>NetFlow\<close>

definition at16 :: "u8 list \<Rightarrow> nat \<Rightarrow> u16" where
  "at16 b i = be16 (b ! i) (b ! (i + 1))"

definition at32 :: "u8 list \<Rightarrow> nat \<Rightarrow> u32" where
  "at32 b i = be32 (b ! i) (b ! (i + 1)) (b ! (i + 2)) (b ! (i + 3))"

lemma be32_bytes [simp]:
  "be32 (ucast v) (ucast (drop_bit 8 v)) (ucast (drop_bit 16 v)) (ucast (drop_bit 24 v)) = ntohl v"
  by (simp add: be32_def ntohl_def)

lemma be16_bytes [simp]: "be16 (ucast v) (ucast (drop_bit 8 v)) = ntohs v"
  by (simp add: be16_def ntohs_def)

text \<open>The fields of a NetFlow version 5 packet with one record, at their offsets.\<close>

definition carries :: "u8 list \<Rightarrow> SFConfig \<Rightarrow> u32 \<Rightarrow> u32 \<Rightarrow> SFSample \<Rightarrow> bool" where
  "carries b c now seq x \<longleftrightarrow>
     length b = 72 \<and> at16 b 0 = 5 \<and> at16 b 2 = 1 \<and> at32 b 8 = now \<and> at32 b 12 = 0 \<and> at32 b 16 = seq \<and>
     take 4 (drop 24 b) = bytes_of_u32 (ip_v4 (ipsrc x)) \<and>
     take 4 (drop 28 b) = bytes_of_u32 (ip_v4 (ipdst x)) \<and>
     take 4 (drop 32 b) = bytes_of_u32 (ip_v4 (nextHop x)) \<and>
     at16 b 36 = ucast (inputPort x) \<and> at16 b 38 = ucast (outputPort x) \<and>
     at32 b 40 = (if disableNetFlowScale c then 1 else meanSkipCount x) \<and>
     at32 b 44 = (if disableNetFlowScale c then 1 else meanSkipCount x) * flow_byte_count x \<and>
     at16 b 56 = ucast (dcd_sport x) \<and> at16 b 58 = ucast (dcd_dport x) \<and>
     b ! 61 = ucast (dcd_tcpFlags x) \<and> b ! 62 = ucast (dcd_ipProtocol x) \<and> b ! 63 = ucast (dcd_ipTos x) \<and>
     at16 b 64 = ucast (if netFlowPeerAS c then src_peer_as x else src_as x) \<and>
     at16 b 66 = ucast (if netFlowPeerAS c then dst_peer_as x else dst_as x) \<and>
     b ! 68 = ucast (srcMask x) \<and> b ! 69 = ucast (dstMask x)"

lemma be32_zero [simp]: "be32 0 0 0 0 = 0"
  by (simp add: be32_def le32_def)

lemma netflow_packet_carries: "carries (bytes_of_pkt (netflow_packet c now seq x)) c now seq x"
  unfolding carries_def
  by (intro conjI)
    (simp_all add: netflow_packet_def Let_def bytes_of_pkt_def bytes_of_hdr_def bytes_of_flow_def
      bytes_of_u16_def bytes_of_u32_def at16_def at32_def)

text \<open>
  C17. Exporting a sample that is no fragment sends one packet of 72 bytes to the NetFlow socket
  and counts it; a collector reads from it version 5, one record, the time, the flow sequence
  number, the addresses, ports, protocol, masks and AS numbers of the sample, and packet and
  byte counts scaled by the sampling rate (or unscaled, when scaling is off). A later fragment
  sends nothing.
\<close>

theorem sendNetFlowDatagram_exports:
  assumes "\<not> spoofSource (cfg s)"
  shows "if ip_fragmentOffset (smp s) > 0 then sendNetFlowDatagram s = (Inr (), s)
    else \<exists>b. sendNetFlowDatagram s =
        (Inr (), s\<lparr>NFFlowSequenceNo := NFFlowSequenceNo s + 1,
                  out := out s @ [Send (netFlowOutputSocket (cfg s)) b]\<rparr>) \<and>
      carries b (cfg s) (clock s) (NFFlowSequenceNo s) (smp s)"
  using assms netflow_packet_carries
  by (auto simp: sendNetFlowDatagram_def next_sequence_def dec_defs)

theorem sendNetFlowDatagram_exports_witness:
  "\<exists>b. carries b zero_config 0 0 zero_sample"
  using sendNetFlowDatagram_exports [of "zero_state m n"]
  by (auto simp: zero_config_def zero_sample_def split: if_splits)

text \<open>The uptime is converted to network order before it is multiplied by 1000, so one second
  after midnight is sent as 232 milliseconds.\<close>

lemma netflow_uptime_scaled_after_swap:
  "at32 (bytes_of_pkt (netflow_packet zero_config 1 0 zero_sample)) 4 = 232"
  by code_simp

section \<open>Checksums of spoofed packets\<close>

text \<open>Two folds of a sum below \<open>2 ^ 31\<close> give its residue modulo 65535, with 65535 standing for a
  multiple of 65535 that is not 0.\<close>

lemma fold_carries_unat:
  assumes "n < 2 ^ 31"
  shows "unat (fold_carries n) = (if n = 0 then 0 else if n mod 65535 = 0 then 65535 else n mod 65535)"
proof -
  define q r where "q = n div 65536" and "r = n mod 65536"
  have n: "n = 65536 * q + r" and r: "r < 65536" and q: "q < 32768"
    using assms by (auto simp: q_def r_def)
  have "n = q + r + 65535 * q" using n by simp
  then have modulus: "n mod 65535 = (q + r) mod 65535" by (metis mod_mult_self2)
  have folded: "unat (fold_carries n) = (q + r + (q + r) div 65536) mod 65536"
    unfolding fold_carries_def Let_def q_def [symmetric] r_def [symmetric]
    by (simp only: unsigned_of_nat take_bit_nat_def) simp
  show ?thesis
  proof (cases "q + r \<le> 65535")
    case True
    then show ?thesis using modulus folded n by (cases "q + r = 65535") auto
  next
    case False
    then obtain k where k: "q + r = 65535 + k" "0 < k" "k < 65535"
      using q r that [of "q + r - 65535"] by simp
    then have "(q + r) mod 65535 = k" "(q + r) div 65536 = 1" by (auto simp: div_if)
    then show ?thesis using modulus folded n k by simp
  qed
qed

lemma checksum_words_append:
  "even (length xs) \<Longrightarrow> checksum_words (xs @ ys) = checksum_words xs + checksum_words ys"
  by (induction xs rule: checksum_words.induct) auto

lemma checksum_words_le: "checksum_words xs \<le> 65535 * length xs"
proof (induction xs rule: checksum_words.induct)
  case (3 b0 b1 bs)
  have "unat (le16 b0 b1) \<le> 65535" using unsigned_less [of "le16 b0 b1", where ?'a = nat] by simp
  then show ?case using 3 by simp
next
  case (2 b)
  have "unat b \<le> 255" using unsigned_less [of b, where ?'a = nat] by simp
  then show ?case by simp
qed simp

lemma unat_NOT: "unat (NOT w :: u16) = 65535 - unat w"
proof -
  have "NOT w = - 1 - w" by (simp add: not_eq_complement)
  moreover have "unat (- 1 - w) = unat (- 1 :: u16) - unat w" by (rule unat_sub) simp
  moreover have "unat (- 1 :: u16) = 65535" by (simp add: unsigned_minus_1_eq_mask mask_eq_exp_minus_1)
  ultimately show ?thesis by simp
qed

lemma in_checksum_zero_iff:
  assumes "length bs \<le> 2048"
  shows "in_checksum bs = 0 \<longleftrightarrow> checksum_words bs \<noteq> 0 \<and> checksum_words bs mod 65535 = 0"
proof -
  have "checksum_words bs < 2 ^ 31"
    using checksum_words_le [of bs] assms by simp
  note sum = fold_carries_unat [OF this]
  have "in_checksum bs = 0 \<longleftrightarrow> unat (in_checksum bs) = 0" by (simp add: unat_eq_zero)
  also have "\<dots> \<longleftrightarrow> 65535 \<le> unat (fold_carries (checksum_words bs))"
    by (simp add: in_checksum_def unat_NOT)
  finally show ?thesis
    using sum mod_less_divisor [of 65535 "checksum_words bs"] by auto
qed

lemma checksum_complement:
  assumes "length bs \<le> 2048"
  shows "(checksum_words bs + unat (nonzero_sum (in_checksum bs))) mod 65535 = 0"
    and "unat (nonzero_sum (in_checksum bs)) \<noteq> 0"
proof -
  have "checksum_words bs < 2 ^ 31"
    using checksum_words_le [of bs] assms by simp
  note sum = fold_carries_unat [OF this]
  show "(checksum_words bs + unat (nonzero_sum (in_checksum bs))) mod 65535 = 0"
  proof (cases "in_checksum bs = 0")
    case True
    then show ?thesis using in_checksum_zero_iff [OF assms] by (simp add: nonzero_sum_def)
  next
    case False
    then have "unat (nonzero_sum (in_checksum bs)) = 65535 - checksum_words bs mod 65535"
      using sum in_checksum_zero_iff [OF assms]
      by (auto simp: nonzero_sum_def in_checksum_def unat_NOT)
    then show ?thesis
      using mod_less_divisor [of 65535 "checksum_words bs"]
        mod_add_left_eq [of "checksum_words bs" 65535 "65535 - checksum_words bs mod 65535"]
      by simp
  qed
  show "unat (nonzero_sum (in_checksum bs)) \<noteq> 0"
    by (simp add: nonzero_sum_def unat_eq_zero)
qed

lemma le16_zero [simp]: "le16 0 0 = 0"
  by (simp add: le16_def)

text \<open>The checksum field of a header counts as one more word of its sum.\<close>

lemma checksum_words_ip:
  "checksum_words (bytes_of_ip (h\<lparr>check := k\<rparr>)) = checksum_words (bytes_of_ip (h\<lparr>check := 0\<rparr>)) + unat k"
  by (simp add: bytes_of_ip_def bytes_of_u16_def bytes_of_u32_def)

lemma checksum_words_pseudo:
  "checksum_words (udpmagichdr ip (u\<lparr>uh_sum := k\<rparr>) @ bytes_of_udp (u\<lparr>uh_sum := k\<rparr>) @ d) =
   checksum_words (udpmagichdr ip (u\<lparr>uh_sum := 0\<rparr>) @ bytes_of_udp (u\<lparr>uh_sum := 0\<rparr>) @ d) + unat k"
  by (simp add: udpmagichdr_def bytes_of_udp_def bytes_of_u16_def bytes_of_u32_def)

lemma lengths [simp]:
  "length (bytes_of_ip h) = 20" "length (bytes_of_udp u) = 8" "length (udpmagichdr ip u) = 12"
  by (simp_all add: bytes_of_ip_def bytes_of_udp_def udpmagichdr_def)

text \<open>The datagram a spoofed export puts on the wire, behind its IP header.\<close>

definition udp_datagram :: "spoof_state \<Rightarrow> u8 list" where
  "udp_datagram sp = take 80 (bytes_of_udp (send_udp sp) @ send_data sp)"

text \<open>
  C23. A spoofed export carries the whole NetFlow packet, names the agent as its source and the
  collector as its destination, and its UDP checksum, taken over the pseudo header as a receiver
  takes it, always verifies.
\<close>

theorem spoofed_datagram_verifies:
  "\<exists>sp. sendNetFlowDatagram_spoof pkt s =
      (Inr (), s\<lparr>spoof := sp,
                out := out s @ [SendTo (netFlowOutputSocket (cfg s)) (daddr (send_ip (spoof s)))
                                 (bytes_of_ip (send_ip sp) @ udp_datagram sp)]\<rparr>) \<and>
    ipid sp = ipid (spoof s) + 1 \<and> saddr (send_ip sp) = ip_v4 (agent_addr (smp s)) \<and>
    ntohs (tot_len (send_ip sp)) = 100 \<and> ntohs (uh_ulen (send_udp sp)) = 80 \<and>
    drop 8 (udp_datagram sp) = bytes_of_pkt pkt \<and>
    in_checksum (udpmagichdr (send_ip sp) (send_udp sp) @ udp_datagram sp) = 0"
proof -
  define sp where "sp = spoof_packet (smp s) (bytes_of_pkt pkt) (spoof s)"
  define udp where "udp = (send_udp (spoof s))\<lparr>uh_ulen := htons 80, uh_sum := 0\<rparr>"
  have data: "take 72 (send_data sp) = bytes_of_pkt pkt"
    by (simp add: sp_def spoof_packet_def Let_def overwrite_def)
  have datagram: "udp_datagram sp = bytes_of_udp (send_udp sp) @ bytes_of_pkt pkt"
    by (simp add: udp_datagram_def data)
  define bare where "bare = udpmagichdr (send_ip sp) udp @ bytes_of_udp udp @ bytes_of_pkt pkt"
  have sum: "send_udp sp = udp\<lparr>uh_sum := nonzero_sum (in_checksum bare)\<rparr>"
    unfolding bare_def sp_def udp_def spoof_packet_def Let_def overwrite_def
    by (simp add: udpmagichdr_def)
  have "length bare \<le> 2048" by (simp add: bare_def)
  note good = checksum_complement [OF this]
  have "in_checksum (udpmagichdr (send_ip sp) (send_udp sp) @ udp_datagram sp) = 0"
    using good checksum_words_pseudo [of "send_ip sp" "nonzero_sum (in_checksum bare)" udp "bytes_of_pkt pkt"]
    unfolding datagram sum by (subst in_checksum_zero_iff) (simp_all add: bare_def udp_def)
  moreover have "sendNetFlowDatagram_spoof pkt s =
      (Inr (), s\<lparr>spoof := sp,
                out := out s @ [SendTo (netFlowOutputSocket (cfg s)) (daddr (send_ip (spoof s)))
                                 (bytes_of_ip (send_ip sp) @ udp_datagram sp)]\<rparr>)"
    unfolding sendNetFlowDatagram_spoof_def Let_def sp_def [symmetric]
    by (simp add: udp_datagram_def) (simp add: sp_def spoof_packet_def Let_def)
  ultimately show ?thesis
    by (intro exI [of _ sp])
      (simp add: datagram, simp add: sp_def spoof_packet_def Let_def)
qed

text \<open>
  C38. The IP header checksum is taken with the previous packet's checksum still in place, so the
  header of a spoofed packet verifies only when that field held 0 or 0xffff: the first packet
  is right, and the packet after one with another checksum is not.
\<close>

theorem spoofed_ip_checksum_iff:
  "in_checksum (bytes_of_ip (send_ip (spoof_packet x p sp))) = 0 \<longleftrightarrow>
     check (send_ip sp) = 0 \<or> check (send_ip sp) = 0xffff"
proof -
  define ip where "ip = (send_ip sp)\<lparr>ip_id := htons (ipid sp + 1), tot_len := htons 100,
                             saddr := ip_v4 (agent_addr x)\<rparr>"
  let ?w = "checksum_words (bytes_of_ip (ip\<lparr>check := 0\<rparr>))"
  let ?k = "unat (check (send_ip sp))" and ?c = "unat (nonzero_sum (in_checksum (bytes_of_ip ip)))"
  have "ip\<lparr>check := check (send_ip sp)\<rparr> = ip" by (simp add: ip_def)
  then have "checksum_words (bytes_of_ip ip) = ?w + ?k"
    using checksum_words_ip [where h = ip and k = "check (send_ip sp)"] by simp
  then have c: "(?w + ?k + ?c) mod 65535 = 0" "?c \<noteq> 0"
    using checksum_complement [of "bytes_of_ip ip"] by simp_all
  have k: "?k < 65536" using unsigned_less [of "check (send_ip sp)", where ?'a = nat] by simp
  have mods: "(w + c) mod 65535 = 0 \<longleftrightarrow> k mod 65535 = 0" if "(w + k + c) mod 65535 = 0" for w c k :: nat
  proof -
    have "65535 dvd (w + c) + k" using that by (simp add: mod_eq_0_iff_dvd add_ac)
    then show ?thesis by (metis dvd_add_left_iff dvd_add_right_iff mod_eq_0_iff_dvd)
  qed
  have "send_ip (spoof_packet x p sp) = ip\<lparr>check := nonzero_sum (in_checksum (bytes_of_ip ip))\<rparr>"
    by (simp add: spoof_packet_def ip_def Let_def)
  then have "in_checksum (bytes_of_ip (send_ip (spoof_packet x p sp))) = 0 \<longleftrightarrow> (?w + ?c) mod 65535 = 0"
    using c checksum_words_ip [where h = ip and k = "nonzero_sum (in_checksum (bytes_of_ip ip))"]
    by (simp add: in_checksum_zero_iff)
  also have "\<dots> \<longleftrightarrow> ?k mod 65535 = 0"
    by (rule mods [OF c(1)])
  also have "\<dots> \<longleftrightarrow> ?k = 0 \<or> ?k = 65535" using k by (simp add: mod_if)
  also have "\<dots> \<longleftrightarrow> check (send_ip sp) = 0 \<or> check (send_ip sp) = 0xffff"
    by (simp add: word_unat_eq_iff)
  finally show ?thesis .
qed

end
