(* ===== verification/FlowElements.thy ===== *)
theory FlowElements
  imports Extended
begin

text \<open>
  The readers of the flow data elements: the sampled packet header with its dispatch on the
  header protocol, the pre-decoded Ethernet, IPv4 and IPv6 records, and the application
  layer records (memcache, HTTP, application operations), \<open>readFlowSample_...\<close> of
  \<open>sflowtool.c\<close>.
\<close>

section \<open>Packet header\<close>

abbreviation SFLHEADER_ETHERNET_ISO8023 :: u32 where "SFLHEADER_ETHERNET_ISO8023 \<equiv> 1"
abbreviation SFLHEADER_ISO88024_TOKENBUS :: u32 where "SFLHEADER_ISO88024_TOKENBUS \<equiv> 2"
abbreviation SFLHEADER_ISO88025_TOKENRING :: u32 where "SFLHEADER_ISO88025_TOKENRING \<equiv> 3"
abbreviation SFLHEADER_FDDI :: u32 where "SFLHEADER_FDDI \<equiv> 4"
abbreviation SFLHEADER_FRAME_RELAY :: u32 where "SFLHEADER_FRAME_RELAY \<equiv> 5"
abbreviation SFLHEADER_X25 :: u32 where "SFLHEADER_X25 \<equiv> 6"
abbreviation SFLHEADER_PPP :: u32 where "SFLHEADER_PPP \<equiv> 7"
abbreviation SFLHEADER_SMDS :: u32 where "SFLHEADER_SMDS \<equiv> 8"
abbreviation SFLHEADER_AAL5 :: u32 where "SFLHEADER_AAL5 \<equiv> 9"
abbreviation SFLHEADER_AAL5_IP :: u32 where "SFLHEADER_AAL5_IP \<equiv> 10"
abbreviation SFLHEADER_IPv4 :: u32 where "SFLHEADER_IPv4 \<equiv> 11"
abbreviation SFLHEADER_IPv6 :: u32 where "SFLHEADER_IPv6 \<equiv> 12"
abbreviation SFLHEADER_MPLS :: u32 where "SFLHEADER_MPLS \<equiv> 13"
abbreviation SFLHEADER_POS :: u32 where "SFLHEADER_POS \<equiv> 14"
abbreviation SFLHEADER_IEEE80211MAC :: u32 where "SFLHEADER_IEEE80211MAC \<equiv> 15"
abbreviation SFLHEADER_IEEE80211_AMPDU :: u32 where "SFLHEADER_IEEE80211_AMPDU \<equiv> 16"
abbreviation SFLHEADER_IEEE80211_AMSDU_SUBFRAME :: u32 where "SFLHEADER_IEEE80211_AMSDU_SUBFRAME \<equiv> 17"

text \<open>The protocols that are recognised and not decoded.\<close>

definition no_decode_protocols :: "u32 list" where
  "no_decode_protocols =
     [SFLHEADER_ISO88024_TOKENBUS, SFLHEADER_ISO88025_TOKENRING, SFLHEADER_FDDI,
      SFLHEADER_FRAME_RELAY, SFLHEADER_X25, SFLHEADER_PPP, SFLHEADER_SMDS, SFLHEADER_AAL5,
      SFLHEADER_AAL5_IP, SFLHEADER_MPLS, SFLHEADER_POS, SFLHEADER_IEEE80211_AMPDU,
      SFLHEADER_IEEE80211_AMSDU_SUBFRAME]"

definition dispatch_header :: "u32 \<Rightarrow> unit dec" where
  "dispatch_header proto =
     (if proto \<in> set no_decode_protocols
      then sf_log ''NO_DECODE headerProtocol=%d\<newline>'' [A32 proto]
      else switch proto [
        (SFLHEADER_ETHERNET_ISO8023, decodeLinkLayer),
        (SFLHEADER_IPv4, block [put gotIPV4_update True, put offsetToIPV4_update 0]),
        (SFLHEADER_IPv6, block [put gotIPV6_update True, put offsetToIPV6_update 0]),
        (SFLHEADER_IEEE80211MAC, decode80211MAC)]
        (block [eprintf ''undefined headerProtocol = %d\<newline>'' [A32 proto], custom_exit (-12)]))"

text \<open>The hex dump of the header goes into a buffer of 2000 characters; \<open>headerLen\<close> is passed
  as an \<open>int\<close>.\<close>

definition log_header_bytes :: "unit dec" where
  "log_header_bytes =
     bnd (fetch header) (\<lambda>hdr. bnd (fetch headerLen) (\<lambda>n.
     bnd (gets (\<lambda>s. printHex (load_bytes (rawSample s) hdr (nat (sint n))) 2000 0 2000)) (\<lambda>hex.
     sf_log ''headerBytes %s\<newline>'' [AStr (chars hex)])))"

definition log_IPSize :: "(SFSample \<Rightarrow> u32) \<Rightarrow> unit dec" where
  "log_IPSize off =
     bnd (gets smp) (\<lambda>x. sf_log ''IPSize %d\<newline>'' [A32 (sampledPacketSize x - stripped x - off x)])"

definition readFlowSample_header :: "unit dec" where
  "readFlowSample_header = block [
     sf_log ''flowSampleType HEADER\<newline>'' [],
     store headerProtocol_update getData32,
     log_field ''headerProtocol %u\<newline>'' headerProtocol,
     store sampledPacketSize_update getData32,
     log_field ''sampledPacketSize %u\<newline>'' sampledPacketSize,
     bnd (fetch datagramVersion) (\<lambda>v. only_if (v > 4) (block [
       store stripped_update getData32,
       log_field ''strippedBytes %u\<newline>'' stripped])),
     store headerLen_update getData32,
     log_field ''headerLen %u\<newline>'' headerLen,
     store header_update (gets datap),
     bnd (fetch headerLen) skipBytes,
     log_header_bytes,
     bnd (fetch headerProtocol) dispatch_header,
     bnd (fetch gotIPV4) (\<lambda>v4. bnd (fetch gotIPV6) (\<lambda>v6.
       if v4 then block [log_IPSize offsetToIPV4, decodeIPV4]
       else if v6 then block [log_IPSize offsetToIPV6, decodeIPV6]
       else ret ()))]"

definition readExtendedWifiPayload :: "unit dec" where
  "readExtendedWifiPayload = block [
     drop_value (sf_log_next32 ''cipher_suite''),
     readFlowSample_header]"

section \<open>Decoded packet records\<close>

definition log_mac_field :: "string \<Rightarrow> string \<Rightarrow> (SFSample \<Rightarrow> u8 list) \<Rightarrow> unit dec" where
  "log_mac_field fmt prefix f =
     bnd (fetch f) (\<lambda>p. sf_log fmt (AStr prefix # map A8 (take 6 p)))"

definition log_prefixed :: "string \<Rightarrow> string \<Rightarrow> (SFSample \<Rightarrow> u32) \<Rightarrow> unit dec" where
  "log_prefixed fmt prefix f = bnd (fetch f) (\<lambda>v. sf_log fmt [AStr prefix, A32 v])"

definition log_prefixed_address :: "string \<Rightarrow> string \<Rightarrow> (SFSample \<Rightarrow> SFLAddress) \<Rightarrow> unit dec" where
  "log_prefixed_address fmt prefix f =
     bnd (fetch f) (\<lambda>a. sf_log fmt [AStr prefix, AStr (printAddress a)])"

definition readFlowSample_ethernet :: "string \<Rightarrow> unit dec" where
  "readFlowSample_ethernet prefix = block [
     sf_log ''flowSampleType %sETHERNET\<newline>'' [AStr prefix],
     store eth_len_update getData32,
     bnd (peek_bytes 6) (copy_into eth_src_update),
     skipBytes 6,
     bnd (peek_bytes 6) (copy_into eth_dst_update),
     skipBytes 6,
     store eth_type_update getData32,
     log_prefixed ''%sethernet_type %u\<newline>'' prefix eth_type,
     log_prefixed ''%sethernet_len %u\<newline>'' prefix eth_len,
     log_mac_field ''%sethernet_src %02x%02x%02x%02x%02x%02x\<newline>'' prefix eth_src,
     log_mac_field ''%sethernet_dst %02x%02x%02x%02x%02x%02x\<newline>'' prefix eth_dst]"

record SFLSampled_ipv4 =
  v4_length :: u32
  v4_protocol :: u32
  v4_src_ip :: u32
  v4_dst_ip :: u32
  v4_src_port :: u32
  v4_dst_port :: u32
  v4_tcp_flags :: u32
  v4_tos :: u32

definition load_sampled_ipv4 :: "memory \<Rightarrow> addr \<Rightarrow> SFLSampled_ipv4" where
  "load_sampled_ipv4 m p = \<lparr>
     v4_length = load32 m p, v4_protocol = load32 m (p + 4), v4_src_ip = load32 m (p + 8),
     v4_dst_ip = load32 m (p + 12), v4_src_port = load32 m (p + 16),
     v4_dst_port = load32 m (p + 20), v4_tcp_flags = load32 m (p + 24), v4_tos = load32 m (p + 28)\<rparr>"

record SFLSampled_ipv6 =
  v6_length :: u32
  v6_protocol :: u32
  v6_src_ip :: "u8 list"
  v6_dst_ip :: "u8 list"
  v6_src_port :: u32
  v6_dst_port :: u32
  v6_tcp_flags :: u32
  v6_priority :: u32

definition load_sampled_ipv6 :: "memory \<Rightarrow> addr \<Rightarrow> SFLSampled_ipv6" where
  "load_sampled_ipv6 m p = \<lparr>
     v6_length = load32 m p, v6_protocol = load32 m (p + 4),
     v6_src_ip = load_bytes m (p + 8) 16, v6_dst_ip = load_bytes m (p + 24) 16,
     v6_src_port = load32 m (p + 40), v6_dst_port = load32 m (p + 44),
     v6_tcp_flags = load32 m (p + 48), v6_priority = load32 m (p + 52)\<rparr>"

text \<open>The lines for the transport ports, shared word for word by the two records.\<close>

definition log_ports :: "string \<Rightarrow> u32 \<Rightarrow> unit dec" where
  "log_ports prefix flags =
     bnd (fetch dcd_ipProtocol) (\<lambda>proto. switch proto [
       (1, log_prefixed ''%sICMPType %u\<newline>'' prefix dcd_dport),
       (6, block [
         log_prefixed ''%sTCPSrcPort %u\<newline>'' prefix dcd_sport,
         log_prefixed ''%sTCPDstPort %u\<newline>'' prefix dcd_dport,
         put dcd_tcpFlags_update flags,
         log_prefixed ''%sTCPFlags %u\<newline>'' prefix dcd_tcpFlags]),
       (17, block [
         log_prefixed ''%sUDPSrcPort %u\<newline>'' prefix dcd_sport,
         log_prefixed ''%sUDPDstPort %u\<newline>'' prefix dcd_dport])]
       (ret ()))"

definition readFlowSample_IPv4 :: "string \<Rightarrow> unit dec" where
  "readFlowSample_IPv4 prefix = block [
     sf_log ''flowSampleType %sIPV4\<newline>'' [AStr prefix],
     put headerLen_update 32,
     store header_update (gets datap),
     bnd (fetch headerLen) skipBytes,
     bnd (fetch header) (\<lambda>hdr. bnd (gets (\<lambda>s. load_sampled_ipv4 (rawSample s) hdr)) (\<lambda>nfKey. block [
       put sampledPacketSize_update (ntohl (v4_length nfKey)),
       log_prefixed ''%ssampledPacketSize %u\<newline>'' prefix sampledPacketSize,
       log_prefixed ''%sIPSize %u\<newline>'' prefix sampledPacketSize,
       alter (ipsrc_update (set_v4 (v4_src_ip nfKey))),
       alter (ipdst_update (set_v4 (v4_dst_ip nfKey))),
       put dcd_ipProtocol_update (ntohl (v4_protocol nfKey)),
       put dcd_ipTos_update (ntohl (v4_tos nfKey)),
       log_prefixed_address ''%ssrcIP %s\<newline>'' prefix ipsrc,
       log_prefixed_address ''%sdstIP %s\<newline>'' prefix ipdst,
       log_prefixed ''%sIPProtocol %u\<newline>'' prefix dcd_ipProtocol,
       log_prefixed ''%sIPTOS %u\<newline>'' prefix dcd_ipTos,
       put dcd_sport_update (ntohl (v4_src_port nfKey)),
       put dcd_dport_update (ntohl (v4_dst_port nfKey)),
       log_ports prefix (ntohl (v4_tcp_flags nfKey))]))]"

definition readFlowSample_IPv6 :: "string \<Rightarrow> unit dec" where
  "readFlowSample_IPv6 prefix = block [
     sf_log ''flowSampleType %sIPV6\<newline>'' [AStr prefix],
     store header_update (gets datap),
     put headerLen_update 56,
     bnd (fetch headerLen) skipBytes,
     bnd (fetch header) (\<lambda>hdr. bnd (gets (\<lambda>s. load_sampled_ipv6 (rawSample s) hdr)) (\<lambda>nfKey6. block [
       put sampledPacketSize_update (ntohl (v6_length nfKey6)),
       log_prefixed ''%ssampledPacketSize %u\<newline>'' prefix sampledPacketSize,
       log_prefixed ''%sIPSize %u\<newline>'' prefix sampledPacketSize,
       alter (ipsrc_update (set_v6 (v6_src_ip nfKey6))),
       alter (ipdst_update (set_v6 (v6_dst_ip nfKey6))),
       put dcd_ipProtocol_update (ntohl (v6_protocol nfKey6)),
       log_prefixed_address ''%ssrcIP6 %s\<newline>'' prefix ipsrc,
       log_prefixed_address ''%sdstIP6 %s\<newline>'' prefix ipdst,
       log_prefixed ''%sIPProtocol %u\<newline>'' prefix dcd_ipProtocol,
       sf_log ''%spriority %u\<newline>'' [AStr prefix, A32 (ntohl (v6_priority nfKey6))],
       put dcd_sport_update (ntohl (v6_src_port nfKey6)),
       put dcd_dport_update (ntohl (v6_dst_port nfKey6)),
       log_ports prefix (ntohl (v6_tcp_flags nfKey6))]))]"

section \<open>Application records\<close>

abbreviation SFL_MAX_MEMCACHE_KEY :: u32 where "SFL_MAX_MEMCACHE_KEY \<equiv> 255"
abbreviation SFLFLOW_HTTP2 :: u32 where "SFLFLOW_HTTP2 \<equiv> 2206"

definition urlencoded :: "u8 list \<Rightarrow> string" where
  "urlencoded key =
     (case URLEncode (takeWhile (\<lambda>b. b \<noteq> 0) key) 766 of
        None \<Rightarrow> ''URLEncode: not enough space''
      | Some t \<Rightarrow> chars t)"

definition readFlowSample_memcache :: "unit dec" where
  "readFlowSample_memcache = block [
     sf_log ''flowSampleType memcache\<newline>'' [],
     drop_value (sf_log_next32 ''memcache_op_protocol''),
     drop_value (sf_log_next32 ''memcache_op_cmd''),
     bnd (getString_local 256 SFL_MAX_MEMCACHE_KEY) (\<lambda>r.
       only_if (fst r > 0) (sf_log ''memcache_op_key %s\<newline>'' [AStr (urlencoded (snd r))])),
     drop_value (sf_log_next32 ''memcache_op_nkeys''),
     drop_value (sf_log_next32 ''memcache_op_value_bytes''),
     drop_value (sf_log_next32 ''memcache_op_duration_uS''),
     drop_value (sf_log_next32 ''memcache_op_status'')]"

definition SFHTTP_method_names :: "string list" where
  "SFHTTP_method_names =
     [''-'', ''OPTIONS'', ''GET'', ''HEAD'', ''POST'', ''PUT'', ''DELETE'', ''TRACE'', ''CONNECT'']"

definition or_dash :: "u8 list \<Rightarrow> string" where
  "or_dash t = (if t ! 0 \<noteq> 0 then cstr t else ''-'')"

text \<open>The common-log line is kept as its fields: the wall clock stands for the formatted local
  time, and the cut to 2000 characters is left to printing.\<close>

definition set_http_log ::
  "(string \<times> u32 \<times> string \<times> string \<times> u32 \<times> u32 \<times> u32 \<times> u64 \<times> string \<times> string) \<Rightarrow> unit dec" where
  "set_http_log l = (\<lambda>s. (Inr (), s\<lparr>clf := (clf s)\<lparr>clf_http_log := Some l, clf_valid := True\<rparr>\<rparr>))"

definition readFlowSample_http :: "u32 \<Rightarrow> unit dec" where
  "readFlowSample_http tag =
     bnd (sf_log ''flowSampleType http\<newline>'' []) (\<lambda>_.
     bnd (sf_log_next32 ''http_method'') (\<lambda>meth.
     bnd (sf_log_next32 ''http_protocol'') (\<lambda>proto.
     bnd (log_string 256 255 ''http_uri %s\<newline>'') (\<lambda>uri.
     bnd (log_string 65 64 ''http_host %s\<newline>'') (\<lambda>_.
     bnd (log_string 256 255 ''http_referrer %s\<newline>'') (\<lambda>referrer.
     bnd (log_string 129 128 ''http_useragent %s\<newline>'') (\<lambda>useragent.
     bnd (only_if (tag = SFLFLOW_HTTP2) (drop_value (log_string 65 64 ''http_xff %s\<newline>''))) (\<lambda>_.
     bnd (log_string 33 32 ''http_authuser %s\<newline>'') (\<lambda>authuser.
     bnd (log_string 65 64 ''http_mimetype %s\<newline>'') (\<lambda>_.
     bnd (only_if (tag = SFLFLOW_HTTP2) (drop_value (sf_log_next64 ''http_request_bytes''))) (\<lambda>_.
     bnd (sf_log_next64 ''http_bytes'') (\<lambda>resp_bytes.
     bnd (sf_log_next32 ''http_duration_uS'') (\<lambda>_.
     bnd (sf_log_next32 ''http_status'') (\<lambda>status.
     bnd (gets id) (\<lambda>s.
     only_if (outputFormat (cfg s) = SFLFMT_CLF)
       (bnd (index_table SFHTTP_method_names meth) (\<lambda>method_name.
        set_http_log (or_dash authuser, clock s, method_name, or_dash uri, proto div 1000,
          proto mod 1000, status, resp_bytes, or_dash referrer, or_dash useragent))))))))))))))))))"

definition SFL_APP_STATUS_names :: "string list" where
  "SFL_APP_STATUS_names =
     [''SUCCESS'', ''OTHER'', ''TIMEOUT'', ''INTERNAL_ERROR'', ''BAD_REQUEST'', ''FORBIDDEN'',
      ''TOO_LARGE'', ''NOT_IMPLEMENTED'', ''NOT_FOUND'', ''UNAVAILABLE'', ''UNATHORIZED'']"

definition readFlowSample_APP :: "unit dec" where
  "readFlowSample_APP = block [
     sf_log ''flowSampleType applicationOperation\<newline>'' [],
     drop_value (log_string 32 32 ''application %s\<newline>''),
     drop_value (log_string 32 32 ''operation %s\<newline>''),
     drop_value (log_string 255 255 ''attributes %s\<newline>''),
     drop_value (log_string 32 32 ''status_descr %s\<newline>''),
     drop_value (sf_log_next64 ''request_bytes''),
     drop_value (sf_log_next64 ''response_bytes''),
     bnd getData32 (\<lambda>st. bnd (index_table SFL_APP_STATUS_names st) (\<lambda>name.
       sf_log ''status %s\<newline>'' [AStr name])),
     drop_value (sf_log_next32 ''duration_uS'')]"

definition readFlowSample_APP_CTXT :: "unit dec" where
  "readFlowSample_APP_CTXT = block [
     drop_value (log_string 32 32 ''server_context_application %s\<newline>''),
     drop_value (log_string 32 32 ''server_context_operation %s\<newline>''),
     drop_value (log_string 255 255 ''server_context_attributes %s\<newline>'')]"

definition readFlowSample_APP_ACTOR_INIT :: "unit dec" where
  "readFlowSample_APP_ACTOR_INIT = drop_value (log_string 64 64 ''actor_initiator %s\<newline>'')"

definition readFlowSample_APP_ACTOR_TGT :: "unit dec" where
  "readFlowSample_APP_ACTOR_TGT = drop_value (log_string 64 64 ''actor_target %s\<newline>'')"

section \<open>Contracts\<close>

context checked_reader
begin

lemma sat_dispatch_header [contract_intro]: "sat R (dispatch_header proto)"
  unfolding dispatch_header_def by (intro contract_intro)

lemma sat_log_header_bytes [contract_intro]: "sat R log_header_bytes"
  unfolding log_header_bytes_def by (intro contract_intro)

lemma sat_log_IPSize [contract_intro]: "sat R (log_IPSize off)"
  unfolding log_IPSize_def by (intro contract_intro)

lemma sat_log_mac_field [contract_intro]: "sat R (log_mac_field fmt prefix f)"
  unfolding log_mac_field_def by (intro contract_intro)

lemma sat_log_prefixed [contract_intro]: "sat R (log_prefixed fmt prefix f)"
  unfolding log_prefixed_def by (intro contract_intro)

lemma sat_log_prefixed_address [contract_intro]: "sat R (log_prefixed_address fmt prefix g)"
  unfolding log_prefixed_address_def by (intro contract_intro)

lemma sat_log_ports [contract_intro]: "sat R (log_ports prefix flags)"
  unfolding log_ports_def by (intro contract_intro)

lemma sat_set_http_log [contract_intro]: "sat R (set_http_log l)"
  by (simp add: sat_def set_http_log_def common_log)

lemma sat_readFlowSample_header [contract_intro]: "sat R readFlowSample_header"
  unfolding readFlowSample_header_def by (intro contract_intro)

lemma sat_flow_elements [contract_intro]:
  "sat R readExtendedWifiPayload" "sat R (readFlowSample_ethernet prefix)"
  "sat R (readFlowSample_IPv4 prefix)" "sat R (readFlowSample_IPv6 prefix)"
  "sat R readFlowSample_memcache" "sat R (readFlowSample_http tag)"
  "sat R readFlowSample_APP" "sat R readFlowSample_APP_CTXT"
  "sat R readFlowSample_APP_ACTOR_INIT" "sat R readFlowSample_APP_ACTOR_TGT"
  unfolding readExtendedWifiPayload_def readFlowSample_ethernet_def readFlowSample_IPv4_def
    readFlowSample_IPv6_def readFlowSample_memcache_def readFlowSample_http_def
    readFlowSample_APP_def readFlowSample_APP_CTXT_def readFlowSample_APP_ACTOR_INIT_def
    readFlowSample_APP_ACTOR_TGT_def
  by (intro contract_intro)+

end

end
