(* ===== verification/FlowSample.thy ===== *)
theory FlowSample
  imports FlowElements Output Counters
begin

text \<open>
  Flow samples: \<open>readFlowSample_v2v4\<close> and \<open>readFlowSample\<close> of \<open>sflowtool.c\<close>, which read the
  sample's header, dispatch on the tag of each element, check the declared lengths and hand
  the sample to the writer of the output format. \<open>readExtendedAggregation\<close>, which would read
  a flow sample inside an element, is in the source but no tag leads to it, so the readers
  are not recursive.
\<close>

section \<open>Tags\<close>

abbreviation SFLFLOW_HEADER :: u32 where "SFLFLOW_HEADER \<equiv> 1"
abbreviation SFLFLOW_ETHERNET :: u32 where "SFLFLOW_ETHERNET \<equiv> 2"
abbreviation SFLFLOW_IPV4 :: u32 where "SFLFLOW_IPV4 \<equiv> 3"
abbreviation SFLFLOW_IPV6 :: u32 where "SFLFLOW_IPV6 \<equiv> 4"
abbreviation SFLFLOW_EX_SWITCH :: u32 where "SFLFLOW_EX_SWITCH \<equiv> 1001"
abbreviation SFLFLOW_EX_ROUTER :: u32 where "SFLFLOW_EX_ROUTER \<equiv> 1002"
abbreviation SFLFLOW_EX_GATEWAY :: u32 where "SFLFLOW_EX_GATEWAY \<equiv> 1003"
abbreviation SFLFLOW_EX_USER :: u32 where "SFLFLOW_EX_USER \<equiv> 1004"
abbreviation SFLFLOW_EX_URL :: u32 where "SFLFLOW_EX_URL \<equiv> 1005"
abbreviation SFLFLOW_EX_MPLS :: u32 where "SFLFLOW_EX_MPLS \<equiv> 1006"
abbreviation SFLFLOW_EX_NAT :: u32 where "SFLFLOW_EX_NAT \<equiv> 1007"
abbreviation SFLFLOW_EX_MPLS_TUNNEL :: u32 where "SFLFLOW_EX_MPLS_TUNNEL \<equiv> 1008"
abbreviation SFLFLOW_EX_MPLS_VC :: u32 where "SFLFLOW_EX_MPLS_VC \<equiv> 1009"
abbreviation SFLFLOW_EX_MPLS_FTN :: u32 where "SFLFLOW_EX_MPLS_FTN \<equiv> 1010"
abbreviation SFLFLOW_EX_MPLS_LDP_FEC :: u32 where "SFLFLOW_EX_MPLS_LDP_FEC \<equiv> 1011"
abbreviation SFLFLOW_EX_VLAN_TUNNEL :: u32 where "SFLFLOW_EX_VLAN_TUNNEL \<equiv> 1012"
abbreviation SFLFLOW_EX_80211_PAYLOAD :: u32 where "SFLFLOW_EX_80211_PAYLOAD \<equiv> 1013"
abbreviation SFLFLOW_EX_80211_RX :: u32 where "SFLFLOW_EX_80211_RX \<equiv> 1014"
abbreviation SFLFLOW_EX_80211_TX :: u32 where "SFLFLOW_EX_80211_TX \<equiv> 1015"
abbreviation SFLFLOW_EX_NAT_PORT :: u32 where "SFLFLOW_EX_NAT_PORT \<equiv> 1020"
abbreviation SFLFLOW_EX_L2_TUNNEL_OUT :: u32 where "SFLFLOW_EX_L2_TUNNEL_OUT \<equiv> 1021"
abbreviation SFLFLOW_EX_L2_TUNNEL_IN :: u32 where "SFLFLOW_EX_L2_TUNNEL_IN \<equiv> 1022"
abbreviation SFLFLOW_EX_IPV4_TUNNEL_OUT :: u32 where "SFLFLOW_EX_IPV4_TUNNEL_OUT \<equiv> 1023"
abbreviation SFLFLOW_EX_IPV4_TUNNEL_IN :: u32 where "SFLFLOW_EX_IPV4_TUNNEL_IN \<equiv> 1024"
abbreviation SFLFLOW_EX_IPV6_TUNNEL_OUT :: u32 where "SFLFLOW_EX_IPV6_TUNNEL_OUT \<equiv> 1025"
abbreviation SFLFLOW_EX_IPV6_TUNNEL_IN :: u32 where "SFLFLOW_EX_IPV6_TUNNEL_IN \<equiv> 1026"
abbreviation SFLFLOW_EX_DECAP_OUT :: u32 where "SFLFLOW_EX_DECAP_OUT \<equiv> 1027"
abbreviation SFLFLOW_EX_DECAP_IN :: u32 where "SFLFLOW_EX_DECAP_IN \<equiv> 1028"
abbreviation SFLFLOW_EX_VNI_OUT :: u32 where "SFLFLOW_EX_VNI_OUT \<equiv> 1029"
abbreviation SFLFLOW_EX_VNI_IN :: u32 where "SFLFLOW_EX_VNI_IN \<equiv> 1030"
abbreviation SFLFLOW_EX_SOCKET4 :: u32 where "SFLFLOW_EX_SOCKET4 \<equiv> 2100"
abbreviation SFLFLOW_EX_SOCKET6 :: u32 where "SFLFLOW_EX_SOCKET6 \<equiv> 2101"
abbreviation SFLFLOW_EX_PROXYSOCKET4 :: u32 where "SFLFLOW_EX_PROXYSOCKET4 \<equiv> 2102"
abbreviation SFLFLOW_EX_PROXYSOCKET6 :: u32 where "SFLFLOW_EX_PROXYSOCKET6 \<equiv> 2103"
abbreviation SFLFLOW_MEMCACHE :: u32 where "SFLFLOW_MEMCACHE \<equiv> 2200"
abbreviation SFLFLOW_HTTP :: u32 where "SFLFLOW_HTTP \<equiv> 2201"
abbreviation SFLFLOW_APP :: u32 where "SFLFLOW_APP \<equiv> 2202"
abbreviation SFLFLOW_APP_CTXT :: u32 where "SFLFLOW_APP_CTXT \<equiv> 2203"
abbreviation SFLFLOW_APP_ACTOR_INIT :: u32 where "SFLFLOW_APP_ACTOR_INIT \<equiv> 2204"
abbreviation SFLFLOW_APP_ACTOR_TGT :: u32 where "SFLFLOW_APP_ACTOR_TGT \<equiv> 2205"
abbreviation INMPACKETTYPE_HEADER :: u32 where "INMPACKETTYPE_HEADER \<equiv> 1"
abbreviation INMPACKETTYPE_IPV4 :: u32 where "INMPACKETTYPE_IPV4 \<equiv> 2"
abbreviation INMPACKETTYPE_IPV6 :: u32 where "INMPACKETTYPE_IPV6 \<equiv> 3"
abbreviation INMEXTENDED_SWITCH :: u32 where "INMEXTENDED_SWITCH \<equiv> 1"
abbreviation INMEXTENDED_ROUTER :: u32 where "INMEXTENDED_ROUTER \<equiv> 2"
abbreviation INMEXTENDED_GATEWAY :: u32 where "INMEXTENDED_GATEWAY \<equiv> 3"
abbreviation INMEXTENDED_USER :: u32 where "INMEXTENDED_USER \<equiv> 4"
abbreviation INMEXTENDED_URL :: u32 where "INMEXTENDED_URL \<equiv> 5"

section \<open>Writing the sample out\<close>

definition clf_args :: "SFCommonLogFormat \<Rightarrow> arg list" where
  "clf_args c =
     AStr (clf_client c) #
     (case clf_http_log c of
        None \<Rightarrow> []
      | Some (authuser, now, meth, uri, v1, v2, status, bytes, referrer, useragent) \<Rightarrow>
          [AStr authuser, A32 now, AStr meth, AStr uri, A32 v1, A32 v2, A32 status, A64 bytes,
           AStr referrer, AStr useragent])"

definition write_clf :: "unit dec" where
  "write_clf =
     bnd (gets clf) (\<lambda>c. only_if (clf_valid c)
       (printf ''%s - %s [%s] \"%s %s HTTP/%u.%u\" %u %lu \"%s\" \"%s\"\<newline>'' (clf_args c)))"

definition write_flow :: "(SFSample \<Rightarrow> bool) \<Rightarrow> unit dec \<Rightarrow> unit dec" where
  "write_flow has_v4 write_line =
     bnd sampleFilterOK (\<lambda>ok. only_if ok (
     bnd (gets id) (\<lambda>s.
     case outputFormat (cfg s) of
       SFLFMT_NETFLOW \<Rightarrow>
         only_if (netFlowOutputSocket (cfg s) \<noteq> 0 \<and> has_v4 (smp s)) sendNetFlowDatagram
     | SFLFMT_PCAP \<Rightarrow> writePcapPacket
     | SFLFMT_LINE \<Rightarrow> writeFlowLine
     | SFLFMT_CLF \<Rightarrow> write_line
     | _ \<Rightarrow> ret ())))"

section \<open>Versions 2 and 4\<close>

definition log_output_port :: "unit dec" where
  "log_output_port =
     bnd (fetch outputPort) (\<lambda>p.
     if p AND 0x80000000 \<noteq> 0 then
       (let numOutputs = p AND 0x7fffffff in
        if numOutputs > 0 then sf_log ''outputPort multiple %d\<newline>'' [A32 numOutputs]
        else sf_log ''outputPort multiple >1\<newline>'' [])
     else sf_log ''outputPort %u\<newline>'' [A32 p])"

definition read_packet_data :: "u32 \<Rightarrow> unit dec" where
  "read_packet_data tag = switch tag [
     (INMPACKETTYPE_HEADER, readFlowSample_header),
     (INMPACKETTYPE_IPV4, block [put gotIPV4Struct_update True, readFlowSample_IPv4 '''']),
     (INMPACKETTYPE_IPV6, block [put gotIPV6Struct_update True, readFlowSample_IPv6 ''''])]
     (receiveError ''unexpected packet_data_tag'' True)"

definition read_extended_v2v4 :: "u32 \<Rightarrow> unit dec" where
  "read_extended_v2v4 tag = switch tag [
     (INMEXTENDED_SWITCH, readExtendedSwitch),
     (INMEXTENDED_ROUTER, readExtendedRouter),
     (INMEXTENDED_GATEWAY, bnd (fetch datagramVersion) (\<lambda>v.
        if v = 2 then readExtendedGateway_v2 else readExtendedGateway)),
     (INMEXTENDED_USER, readExtendedUser),
     (INMEXTENDED_URL, readExtendedUrl)]
     (receiveError ''unrecognized extended data tag'' True)"

definition readFlowSample_v2v4 :: "unit dec" where
  "readFlowSample_v2v4 = block [
     sf_log ''sampleType FLOWSAMPLE\<newline>'' [],
     store samplesGenerated_update getData32,
     log_field ''sampleSequenceNo %u\<newline>'' samplesGenerated,
     bnd getData32 put_source_id,
     log_source_id,
     store meanSkipCount_update getData32,
     store samplePool_update getData32,
     store dropEvents_update getData32,
     store inputPort_update getData32,
     store outputPort_update getData32,
     log_field ''meanSkipCount %u\<newline>'' meanSkipCount,
     log_field ''samplePool %u\<newline>'' samplePool,
     log_field ''dropEvents %u\<newline>'' dropEvents,
     log_field ''inputPort %u\<newline>'' inputPort,
     log_output_port,
     store packet_data_tag_update getData32,
     bnd (fetch packet_data_tag) read_packet_data,
     put extended_data_tag_update 0,
     store num_extended_update getData32,
     bnd (fetch num_extended) (\<lambda>n. for_u32 n (\<lambda>x. bnd getData32 read_extended_v2v4)),
     write_flow (\<lambda>x. gotIPV4 x \<or> gotIPV4Struct x) (ret ())]"

section \<open>Version 5\<close>

definition log_port :: "u32 \<Rightarrow> string \<Rightarrow> (SFSample \<Rightarrow> u32) \<Rightarrow> unit dec" where
  "log_port fmt name port =
     bnd (fetch port) (\<lambda>p. switch fmt [
       (3, sf_log (name @ '' format==3 %u\<newline>'') [A32 p]),
       (2, sf_log (name @ '' multiple %u\<newline>'') [A32 p]),
       (1, sf_log (name @ '' dropCode %u\<newline>'') [A32 p]),
       (0, sf_log (name @ '' %u\<newline>'') [A32 p])]
       (ret ()))"

definition read_sample_source :: "bool \<Rightarrow> unit dec" where
  "read_sample_source expanded =
     (if expanded then block [store ds_class_update getData32, store ds_index_update getData32]
      else bnd getData32 put_source_id)"

definition read_sample_ports :: "bool \<Rightarrow> unit dec" where
  "read_sample_ports expanded =
     (if expanded then block [
        store inputPortFormat_update getData32,
        store inputPort_update getData32,
        store outputPortFormat_update getData32,
        store outputPort_update getData32]
      else bnd getData32 (\<lambda>inp. bnd getData32 (\<lambda>outp. block [
        put inputPortFormat_update (drop_bit 30 inp),
        put outputPortFormat_update (drop_bit 30 outp),
        put inputPort_update (inp AND 0x3fffffff),
        put outputPort_update (outp AND 0x3fffffff)])))"

definition clear_clf :: "unit dec" where
  "clear_clf = (\<lambda>s. (Inr (), s\<lparr>clf := (clf s)\<lparr>clf_valid := False, clf_client := ''''\<rparr>\<rparr>))"

definition flow_element_readers :: "u32 \<Rightarrow> (u32 \<times> unit dec) list" where
  "flow_element_readers tag = [
     (SFLFLOW_HEADER, readFlowSample_header),
     (SFLFLOW_ETHERNET, readFlowSample_ethernet ''''),
     (SFLFLOW_IPV4, readFlowSample_IPv4 ''''),
     (SFLFLOW_IPV6, readFlowSample_IPv6 ''''),
     (SFLFLOW_MEMCACHE, readFlowSample_memcache),
     (SFLFLOW_HTTP, readFlowSample_http tag),
     (SFLFLOW_HTTP2, readFlowSample_http tag),
     (SFLFLOW_APP, readFlowSample_APP),
     (SFLFLOW_APP_CTXT, readFlowSample_APP_CTXT),
     (SFLFLOW_APP_ACTOR_INIT, readFlowSample_APP_ACTOR_INIT),
     (SFLFLOW_APP_ACTOR_TGT, readFlowSample_APP_ACTOR_TGT),
     (SFLFLOW_EX_SWITCH, readExtendedSwitch),
     (SFLFLOW_EX_ROUTER, readExtendedRouter),
     (SFLFLOW_EX_GATEWAY, readExtendedGateway),
     (SFLFLOW_EX_USER, readExtendedUser),
     (SFLFLOW_EX_URL, readExtendedUrl),
     (SFLFLOW_EX_MPLS, readExtendedMpls),
     (SFLFLOW_EX_NAT, readExtendedNat),
     (SFLFLOW_EX_NAT_PORT, readExtendedNatPort),
     (SFLFLOW_EX_MPLS_TUNNEL, readExtendedMplsTunnel),
     (SFLFLOW_EX_MPLS_VC, readExtendedMplsVC),
     (SFLFLOW_EX_MPLS_FTN, readExtendedMplsFTN),
     (SFLFLOW_EX_MPLS_LDP_FEC, readExtendedMplsLDP_FEC),
     (SFLFLOW_EX_VLAN_TUNNEL, readExtendedVlanTunnel),
     (SFLFLOW_EX_80211_PAYLOAD, readExtendedWifiPayload),
     (SFLFLOW_EX_80211_RX, readExtendedWifiRx),
     (SFLFLOW_EX_80211_TX, readExtendedWifiTx),
     (SFLFLOW_EX_SOCKET4, readExtendedSocket4),
     (SFLFLOW_EX_SOCKET6, readExtendedSocket6),
     (SFLFLOW_EX_PROXYSOCKET4, readExtendedProxySocket4),
     (SFLFLOW_EX_PROXYSOCKET6, readExtendedProxySocket6),
     (SFLFLOW_EX_L2_TUNNEL_OUT, readFlowSample_ethernet ''tunnel_l2_out_''),
     (SFLFLOW_EX_L2_TUNNEL_IN, readFlowSample_ethernet ''tunnel_l2_in_''),
     (SFLFLOW_EX_IPV4_TUNNEL_OUT, readFlowSample_IPv4 ''tunnel_ipv4_out_''),
     (SFLFLOW_EX_IPV4_TUNNEL_IN, readFlowSample_IPv4 ''tunnel_ipv4_in_''),
     (SFLFLOW_EX_IPV6_TUNNEL_OUT, readFlowSample_IPv6 ''tunnel_ipv6_out_''),
     (SFLFLOW_EX_IPV6_TUNNEL_IN, readFlowSample_IPv6 ''tunnel_ipv6_in_''),
     (SFLFLOW_EX_DECAP_OUT, readExtendedDecap ''out_''),
     (SFLFLOW_EX_DECAP_IN, readExtendedDecap ''in_''),
     (SFLFLOW_EX_VNI_OUT, readExtendedVNI ''out_''),
     (SFLFLOW_EX_VNI_IN, readExtendedVNI ''in_'')]"

text \<open>One element: tag, length, contents, and the check of the declared length.\<close>

definition read_flow_element :: "unit dec" where
  "read_flow_element =
     bnd getData32 (\<lambda>tag.
     bnd (sf_log ''flowBlock_tag %s\<newline>'' [AStr (printTag tag)]) (\<lambda>_.
     bnd getData32 (\<lambda>len.
     bnd (gets datap) (\<lambda>start. block [
       switch tag (flow_element_readers tag) (skipTLVRecord tag len ''flow_sample_element''),
       lengthCheck ''flow_sample_element'' start len]))))"

definition readFlowSample :: "bool \<Rightarrow> unit dec" where
  "readFlowSample expanded =
     bnd (sf_log ''sampleType FLOWSAMPLE\<newline>'' []) (\<lambda>_.
     bnd getData32 (\<lambda>sampleLength.
     bnd (gets datap) (\<lambda>sampleStart. block [
       store samplesGenerated_update getData32,
       log_field ''sampleSequenceNo %u\<newline>'' samplesGenerated,
       read_sample_source expanded,
       log_source_id,
       store meanSkipCount_update getData32,
       store samplePool_update getData32,
       store dropEvents_update getData32,
       log_field ''meanSkipCount %u\<newline>'' meanSkipCount,
       log_field ''samplePool %u\<newline>'' samplePool,
       log_field ''dropEvents %u\<newline>'' dropEvents,
       read_sample_ports expanded,
       bnd (fetch inputPortFormat) (\<lambda>f. log_port f ''inputPort'' inputPort),
       bnd (fetch outputPortFormat) (\<lambda>f. log_port f ''outputPort'' outputPort),
       clear_clf,
       bnd getData32 (\<lambda>num_elements. for_u32 num_elements (\<lambda>el. read_flow_element)),
       lengthCheck ''flow_sample'' sampleStart sampleLength,
       write_flow gotIPV4 write_clf])))"

definition readExtendedAggregation :: "unit dec" where
  "readExtendedAggregation =
     bnd getData32 (\<lambda>num_pdus. block [
       sf_log ''aggregation_num_pdus %u\<newline>'' [A32 num_pdus],
       for_u32 num_pdus (\<lambda>i. block [
         sf_log ''aggregation_pdu %u\<newline>'' [A32 i],
         readFlowSample False])])"

section \<open>Contracts\<close>

context flow_writer
begin

lemma sat_write_clf [contract_intro]: "sat R write_clf"
  unfolding write_clf_def by (intro contract_intro)

lemma sat_format [contract_intro]:
  "sat R a \<Longrightarrow> sat R b \<Longrightarrow> sat R c \<Longrightarrow> sat R d \<Longrightarrow> sat R e \<Longrightarrow> sat R f \<Longrightarrow> sat R g \<Longrightarrow>
   sat R (case fmt of SFLFMT_FULL \<Rightarrow> a | SFLFMT_PCAP \<Rightarrow> b | SFLFMT_LINE \<Rightarrow> c | SFLFMT_NETFLOW \<Rightarrow> d
          | SFLFMT_FWD \<Rightarrow> e | SFLFMT_CLF \<Rightarrow> f | SFLFMT_TSD \<Rightarrow> g)"
  by (cases fmt) simp_all

lemma sat_write_flow [contract_intro]: "sat R w \<Longrightarrow> sat R (write_flow h w)"
  unfolding write_flow_def by (intro contract_intro)

lemma sat_log_output_port [contract_intro]: "sat R (log_output_port)"
  unfolding log_output_port_def Let_def by (intro contract_intro)

lemma sat_read_packet_data [contract_intro]: "sat R (read_packet_data tag)"
  unfolding read_packet_data_def by (intro contract_intro)

lemma sat_read_extended_v2v4 [contract_intro]: "sat R (read_extended_v2v4 tag)"
  unfolding read_extended_v2v4_def by (intro contract_intro)

lemma sat_log_port [contract_intro]: "sat R (log_port fmt name port)"
  unfolding log_port_def by (intro contract_intro)

lemma sat_read_sample_source [contract_intro]: "sat R (read_sample_source b)"
  unfolding read_sample_source_def by (intro contract_intro)

lemma sat_read_sample_ports [contract_intro]: "sat R (read_sample_ports b)"
  unfolding read_sample_ports_def by (intro contract_intro)

lemma sat_clear_clf [contract_intro]: "sat R clear_clf"
  by (simp add: sat_def clear_clf_def common_log)

lemma sat_read_flow_element [contract_intro]: "sat R read_flow_element"
  unfolding read_flow_element_def flow_element_readers_def by (intro contract_intro)

lemma sat_readFlowSample [contract_intro]: "sat R (readFlowSample expanded)"
  unfolding readFlowSample_def by (intro contract_intro)

lemma sat_readFlowSample_v2v4 [contract_intro]: "sat R readFlowSample_v2v4"
  unfolding readFlowSample_v2v4_def by (intro contract_intro)

lemma sat_readExtendedAggregation [contract_intro]: "sat R readExtendedAggregation"
  unfolding readExtendedAggregation_def by (intro contract_intro)

end

end
