(* ===== verification/FlowSpec.thy ===== *)
theory FlowSpec
  imports Reading HeaderSpec FlowSample
begin

text \<open>
  What holds of flow samples as a whole: a reader never leaves the datagram, an element that is
  accepted takes the length it declares, unknown elements are stepped over, the loop over the
  elements is bounded by the datagram whatever count it carries, and the two encodings of
  sources and ports mean the same.
\<close>

section \<open>Decoding stays inside the datagram\<close>

text \<open>The contracts of \<open>Contracts\<close> for one reader, in one statement about a run.\<close>

definition stays_inside :: "state \<Rightarrow> fault option \<Rightarrow> state \<Rightarrow> bool" where
  "stays_inside s r t \<longleftrightarrow>
     rawSample t = rawSample s \<and> rawSampleLen t = rawSampleLen s \<and> endp t = endp s \<and>
     cfg t = cfg s \<and> datap s \<le> datap t \<and> (\<exists>es. out t = out s @ es) \<and>
     (case r of None \<Rightarrow> datap s \<le> endp s \<longrightarrow> datap t \<le> endp t
              | Some (Abort a) \<Rightarrow> True | Some Undef \<Rightarrow> True | Some (Exit n) \<Rightarrow> n = -12)"

lemma stays_insideI:
  assumes "sat frame_rel m" "sat forward_rel m" "sat within_rel m" "sat append_rel m" "sat exits_rel m"
  shows "stays_inside s (ending (fst (m s))) (snd (m s))"
  using assms
  by (auto simp: sat_def stays_inside_def frame_rel_def forward_rel_def within_rel_def append_rel_def
      exits_rel_def split: option.split fault.split)



section \<open>Elements\<close>

lemma getData32_value:
  "getData32 s = (Inr v, t) \<Longrightarrow>
     v = ntohl (load32 (rawSample s) (datap s)) \<and> t = s\<lparr>datap := datap s + 4\<rparr> \<and> datap s + 4 \<le> endp s"
  by (auto simp: getData32_def getData32_nobswap_eq dec_defs split: if_splits)

lemma sf_log_value: "sf_log fmt args s = (r, t) \<Longrightarrow> r = Inr () \<and> (\<exists>es. t = s\<lparr>out := out s @ es\<rparr>)"
  by (auto simp: sf_log_def dec_defs split: if_splits intro: exI [of _ "[]"])

lemma lengthCheck_value:
  assumes "lengthCheck d start len s = (Inr v, t)" "0 \<le> datap s - start" "datap s - start \<le> 65536"
    "len \<le> 0xFFFFFFFC"
  shows "t = s \<and> pad4 (nat (datap s - start)) = pad4 (unat len)"
proof -
  have "fst (lengthCheck d start len s) = Inr v" using assms(1) by simp
  moreover have "datap s = start + int (nat (datap s - start))" using assms(2) by simp
  ultimately have "pad4 (nat (datap s - start)) = pad4 (unat len)"
    using lengthCheck_agrees [of s start "nat (datap s - start)" len d] assms(3,4)
    by (simp split: if_splits)
  moreover have "t = s"
    using assms(1) by (auto simp: lengthCheck_def Let_def dec_defs split: if_splits)
  ultimately show ?thesis by simp
qed

text \<open>One element, taken apart: the tag and the length are read, a reader runs, the length is
  checked.\<close>

lemma read_flow_elementE:
  assumes "read_flow_element s = (Inr (), t)"
  obtains es u where
    "switch (ntohl (load32 (rawSample s) (datap s)))
       (flow_element_readers (ntohl (load32 (rawSample s) (datap s))))
       (skipTLVRecord (ntohl (load32 (rawSample s) (datap s)))
          (ntohl (load32 (rawSample s) (datap s + 4))) ''flow_sample_element'')
       (s\<lparr>out := out s @ es, datap := 8 + datap s\<rparr>) = (Inr (), u)"
    "lengthCheck ''flow_sample_element'' (8 + datap s) (ntohl (load32 (rawSample s) (datap s + 4))) u
       = (Inr (), t)" "8 + datap s \<le> endp s"
  using assms unfolding read_flow_element_def
  by (auto elim!: bnd_InrE dest!: getData32_value sf_log_value simp: ret_def gets_def)

context flow_writer
begin

lemma sat_element_contents:
  "sat R (switch tag (flow_element_readers tag) (skipTLVRecord tag len d))"
  unfolding flow_element_readers_def by (intro contract_intro)

end

lemma element_contents_inside:
  assumes "switch tag (flow_element_readers tag) (skipTLVRecord tag len d) s = (Inr (), u)"
  shows "datap s \<le> datap u" "datap s \<le> endp s \<longrightarrow> datap u \<le> endp u" "endp u = endp s"
  using satD [OF forward.sat_element_contents assms] satD [OF within.sat_element_contents assms]
  by (auto simp: forward_rel_def within_rel_def)

text \<open>An element with a tag no reader is registered for.\<close>

lemma logged_state [simp]:
  "logged (s\<lparr>out := es\<rparr>) = logged s" "logged (s\<lparr>datap := p\<rparr>) = logged s"
  by (simp_all add: logged_def fun_eq_iff)

lemma length_logged: "length (logged s fmt args) \<le> 1"
  by (simp add: logged_def)

lemma getData32_run:
  "datap s + 4 \<le> endp s \<Longrightarrow>
     getData32 s = (Inr (ntohl (load32 (rawSample s) (datap s))), s\<lparr>datap := datap s + 4\<rparr>)"
  by (simp add: getData32_def getData32_nobswap_eq dec_defs)

lemma skipBytes_run:
  "valid s \<Longrightarrow> datap s + int (pad4 (unat n)) \<le> endp s \<Longrightarrow>
     skipBytes n s = (Inr (), s\<lparr>datap := datap s + int (pad4 (unat n))\<rparr>)"
proof -
  assume v: "valid s" and room: "datap s + int (pad4 (unat n)) \<le> endp s"
  then have "pad4 (unat n) \<le> length (remaining s)" using fits_remaining by blast
  then have "unat n \<le> unat (rawSampleLen s)" using pad4_ge [of "unat n"] valid_len [OF v] by simp
  then have "n \<le> rawSampleLen s" by (simp add: word_le_nat_alt)
  moreover from this have "4 * sint ((n + 3) div 4) = int (pad4 (unat n))"
    by (rule quads_pad4) (rule valid_small [OF v])
  ultimately show ?thesis using room by (simp add: skipBytes_eq)
qed

definition flow_tags :: "u32 set" where
  "flow_tags = fst ` set (flow_element_readers 0)"

lemma flow_tags_readers: "fst ` set (flow_element_readers tag) = flow_tags"
  by (simp add: flow_tags_def flow_element_readers_def)

lemma pad4_pad4 [simp]: "pad4 (pad4 n) = pad4 n"
  by (simp add: pad4_def)

lemma unknown_element_run:
  assumes "valid s" "tag = ntohl (load32 (rawSample s) (datap s))"
    "len = ntohl (load32 (rawSample s) (datap s + 4))"
    "tag \<notin> flow_tags" "datap s + 8 + int (pad4 (unat len)) \<le> endp s"
  shows "read_flow_element s = (Inr (),
    s\<lparr>out := out s @ logged s ''flowBlock_tag %s\<newline>'' [AStr (printTag tag)] @
        logged s ''skipping unknown %s: %s len=%d\<newline>''
          [AStr ''flow_sample_element'', AStr (printTag tag), A32 len],
      datap := datap s + 8 + int (pad4 (unat len))\<rparr>)"
proof -
  have default: "switch tag (flow_element_readers tag) d = d" for d
    using assms(4) by (intro switch_default) (simp add: flow_tags_readers)
  have e: "endp s \<le> 65536" "0 \<le> datap s" using assms(1) by (auto simp: valid_def word_le_def)
  have small: "unat len \<le> 65536" using assms(5) e pad4_ge [of "unat len"] by linarith
  define u where "u = s\<lparr>datap := 8 + datap s,
        out := out s @ logged s ''flowBlock_tag %s\<newline>'' [AStr (printTag tag)] @
          logged s ''skipping unknown %s: %s len=%d\<newline>''
            [AStr ''flow_sample_element'', AStr (printTag tag), A32 len]\<rparr>"
  have "valid u" using assms(1,5) by (simp add: u_def valid_def)
  then have skip: "skipBytes len u = (Inr (), u\<lparr>datap := datap u + int (pad4 (unat len))\<rparr>)"
    using assms(5) by (intro skipBytes_run) (simp_all add: u_def)
  have check: "lengthCheck ''flow_sample_element'' (8 + datap s) len
      (u\<lparr>datap := datap u + int (pad4 (unat len))\<rparr>) = (Inr (), u\<lparr>datap := datap u + int (pad4 (unat len))\<rparr>)"
    (is "_ = (Inr (), ?v)")
  proof -
    have "len \<le> 0xFFFFFFFC" using small by (simp add: word_le_nat_alt)
    then have "fst (lengthCheck ''flow_sample_element'' (8 + datap s) len ?v) = Inr ()"
      using small assms(5) e
      by (subst lengthCheck_agrees [where n = "pad4 (unat len)"]) (simp_all add: u_def)
    then show ?thesis by (auto simp: lengthCheck_def Let_def dec_defs split: if_splits)
  qed
  show ?thesis
    using assms(5) skip check e
    by (simp add: read_flow_element_def bnd_def getData32_run sf_log_run gets_def default ret_def
        skipTLVRecord_def u_def assms(2,3) [symmetric] algebra_simps)
qed


text \<open>An element from a datagram of 12 bytes: an unknown tag, a length of 1, and one quad.\<close>

abbreviation one_element :: "u8 list" where
  "one_element \<equiv> [0, 0, 0, 0, 0, 0, 0, 1, 0, 0, 0, 0]"

abbreviation one_element_state :: state where
  "one_element_state \<equiv> zero_state (mem_of one_element) 12"

lemma one_element_facts:
  "valid one_element_state"
  "ntohl (load32 (mem_of one_element) 0) = 0" "ntohl (load32 (mem_of one_element) 4) = 1"
  "pad4 (Suc 0) = 4" "0 \<notin> flow_tags"
  by (code_simp, code_simp, code_simp, code_simp) (simp add: flow_tags_def flow_element_readers_def)


lemma one_element_accepted: "fst (read_flow_element one_element_state) = Inr ()"
  by (subst unknown_element_run [OF one_element_facts(1) refl refl]) (use one_element_facts in simp_all)

text \<open>
  C2. A flow element that is accepted occupied exactly its tag, its length and as many bytes as
  it declared, both counts padded to quads: no reader of any tag can consume more or less than
  the element's own length and have the element accepted. (Lengths in the top four, which wrap
  to zero when padded, are excluded.)
\<close>

theorem read_flow_element_length:
  assumes "read_flow_element s = (Inr (), t)" "valid s"
    and "ntohl (load32 (rawSample s) (datap s + 4)) \<le> 0xFFFFFFFC"
  shows "datap s + 8 \<le> datap t \<and> datap t \<le> endp s \<and>
    pad4 (nat (datap t - datap s - 8)) = pad4 (unat (ntohl (load32 (rawSample s) (datap s + 4))))"
  using assms(1)
proof (rule read_flow_elementE)
  fix es u
  let ?len = "ntohl (load32 (rawSample s) (datap s + 4))"
  assume contents: "switch (ntohl (load32 (rawSample s) (datap s)))
       (flow_element_readers (ntohl (load32 (rawSample s) (datap s))))
       (skipTLVRecord (ntohl (load32 (rawSample s) (datap s))) ?len ''flow_sample_element'')
       (s\<lparr>out := out s @ es, datap := 8 + datap s\<rparr>) = (Inr (), u)"
    and check: "lengthCheck ''flow_sample_element'' (8 + datap s) ?len u = (Inr (), t)"
    and room: "8 + datap s \<le> endp s"
  have u: "8 + datap s \<le> datap u" "datap u \<le> endp s"
    using element_contents_inside [OF contents] room by auto
  moreover have "endp s \<le> 65536" "0 \<le> datap s"
    using assms(2) by (auto simp: valid_def word_le_def)
  ultimately show ?thesis
    using lengthCheck_value [OF check _ _ assms(3)] by (auto simp: algebra_simps)
qed


theorem read_flow_element_length_witness:
  "let t = snd (read_flow_element one_element_state) in datap t \<le> 12 \<and> pad4 (nat (datap t - 8)) = 4"
proof -
  have run: "read_flow_element one_element_state = (Inr (), snd (read_flow_element one_element_state))"
    by (rule prod_eqI) (simp_all add: one_element_accepted)
  have "ntohl (load32 (mem_of one_element) 4) \<le> 0xFFFFFFFC" by code_simp
  then show ?thesis
    using read_flow_element_length [OF run one_element_facts(1)] one_element_facts(3,4)
    by (simp add: Let_def)
qed

text \<open>A step that advances the cursor by at least \<open>k\<close> can be repeated only so often.\<close>

lemma for_from_advances:
  assumes "\<And>i s t. body i s = (Inr (), t) \<Longrightarrow> datap s + k \<le> datap t"
    and "for_from i n body s = (Inr (), t)"
  shows "datap s + k * int n \<le> datap t"
  using assms(2)
proof (induction n arbitrary: i s)
  case (Suc n)
  then obtain u where "body i s = (Inr (), u)" "for_from (Suc i) n body u = (Inr (), t)"
    by (auto elim: bnd_InrE)
  then show ?case using Suc.IH [of "Suc i" u] assms(1) [of i s u] by (simp add: algebra_simps)
qed (simp add: ret_def)

lemma read_flow_element_advances:
  assumes "read_flow_element s = (Inr (), t)"
  shows "datap s + 8 \<le> datap t"
  using assms
proof (rule read_flow_elementE)
  fix es u d len
  assume "switch (ntohl (load32 (rawSample s) (datap s)))
       (flow_element_readers (ntohl (load32 (rawSample s) (datap s))))
       (skipTLVRecord (ntohl (load32 (rawSample s) (datap s)))
          (ntohl (load32 (rawSample s) (datap s + 4))) ''flow_sample_element'')
       (s\<lparr>out := out s @ es, datap := 8 + datap s\<rparr>) = (Inr (), u)"
  from element_contents_inside(1) [OF this] have "8 + datap s \<le> datap u" by simp
  moreover assume "lengthCheck ''flow_sample_element'' (8 + datap s)
      (ntohl (load32 (rawSample s) (datap s + 4))) u = (Inr (), t)"
  then have "datap u \<le> datap t"
    using satD [OF forward.sat_lengthCheck] by (auto simp: forward_rel_def)
  ultimately show ?thesis by simp
qed

text \<open>
  C4. The number of elements a flow sample announces is bounded by the datagram: if the loop
  over \<open>num_elements\<close> returns, eight bytes per element were there. A count up to \<open>2 ^ 32 - 1\<close>
  therefore aborts within the datagram instead of running on.
\<close>

theorem element_loop_bounded:
  assumes "for_u32 num_elements (\<lambda>el. read_flow_element) s = (Inr (), t)" "datap s \<le> endp s"
  shows "8 * int (unat num_elements) \<le> endp s - datap s"
proof -
  have "datap s + 8 * int (unat num_elements) \<le> datap t"
    using assms(1) unfolding for_u32_def
    by (rule for_from_advances [rotated]) (rule read_flow_element_advances)
  moreover have "datap t \<le> endp s"
    using satD [OF within.sat_for_u32 [OF within.sat_read_flow_element] assms(1)] assms(2)
    by (simp add: within_rel_def)
  ultimately show ?thesis by simp
qed

theorem element_loop_bounded_witness: "8 * int (unat (1 :: u32)) \<le> 12"
proof -
  let ?run = "for_u32 1 (\<lambda>el. read_flow_element) one_element_state"
  have "fst ?run = Inr ()"
    using one_element_accepted
    by (cases "read_flow_element one_element_state") (auto simp: for_u32_def bnd_def ret_def)
  then have "?run = (Inr (), snd ?run)" by (simp add: prod_eq_iff)
  from element_loop_bounded [OF this] show ?thesis by simp
qed

section \<open>Header protocols\<close>

lemma small_word_cases: "p \<le> 17 \<Longrightarrow> (p :: u32) \<in> set (map word_of_nat [0..<18])"
proof -
  assume "p \<le> 17"
  then have "unat p \<in> set [0..<18]" by (simp add: word_le_nat_alt)
  then have "word_of_nat (unat p) \<in> set (map word_of_nat [0..<18] :: u32 list)" by (metis imageI set_map)
  then show ?thesis by simp
qed


section \<open>Records of fixed size\<close>

lemma takes_peek [takes_intro]: "takes 0 (peek_bytes n)"
  using takes_gets_bnd [of 0 ret, OF takes_ret] by (simp add: peek_bytes_def)

lemma takes_switch [takes_intro]: "all_cases (takes n) cs \<Longrightarrow> takes n d \<Longrightarrow> takes n (switch k cs d)"
  by (induction k cs d rule: switch.induct) auto

lemma takes_peek_bnd [takes_intro]: "(\<And>a. takes k (f a)) \<Longrightarrow> takes k (bnd (peek_bytes n) f)"
  unfolding peek_bytes_def by (rule takes_gets_bnd)

lemma takes_log_bnd: "takes 0 (bnd (fetch f) (\<lambda>v. sf_log (fmt v) (args v)))"
  by (intro takes_intro)

lemma takes_set_client [takes_intro]: "takes 0 (set_client c)"
  by (auto simp: takes_def sat_def takes_rel_def set_client_def valid_def remaining_def frame_rel_def)

lemma takes_logs [takes_intro]:
  "takes 0 (tag_extended b)" "takes 0 (log_field fmt f)" "takes 0 (log_address fmt g)"
  "takes 0 (log_prefixed fmt p f)" "takes 0 (log_mac_field fmt p h)"
  unfolding tag_extended_def log_field_def log_address_def log_prefixed_def log_mac_field_def
  by (intro takes_intro takes_log_bnd)+

lemma takes_getIPv6 [takes_intro]: "(\<And>bs. takes 0 (write bs)) \<Longrightarrow> takes 16 (getIPv6 write)"
  unfolding getIPv6_def
  by (rule takes_eq, (rule takes_intro | assumption)+) simp

lemma takes_records:
  "takes 16 readExtendedSwitch" "takes 8 readExtendedNatPort" "takes 4 readExtendedMplsLDP_FEC"
  "takes 20 readExtendedSocket4" "takes 20 readExtendedProxySocket4"
  "takes 44 readExtendedSocket6" "takes 44 readExtendedProxySocket6"
  "takes 4 (readExtendedDecap prefix)" "takes 4 (readExtendedVNI prefix)"
  "takes 24 (readFlowSample_ethernet prefix)"
  unfolding readExtendedSwitch_def readExtendedNatPort_def readExtendedMplsLDP_FEC_def
    readExtendedSocket4_def readExtendedProxySocket4_def readExtendedSocket6_def
    readExtendedProxySocket6_def readExtendedDecap_def readExtendedVNI_def
    readFlowSample_ethernet_def
  by (rule takes_eq, (rule takes_intro)+, simp add: pad4_def)+

text \<open>
  The fixed-size flow records take the sizes of the specification: 16 bytes of switch data,
  8 of NAT ports, 20 of an IPv4 and 44 of an IPv6 socket (and of their proxies), 4 of a decap or
  VNI record, 24 of a decoded Ethernet header. Each consumes exactly that much, or aborts at the
  end of the datagram.
\<close>

theorem flow_record_sizes:
  "list_all (\<lambda>(m, n). takes n m)
     [(readExtendedSwitch, 16), (readExtendedNatPort, 8), (readExtendedMplsLDP_FEC, 4),
      (readExtendedSocket4, 20), (readExtendedProxySocket4, 20), (readExtendedSocket6, 44),
      (readExtendedProxySocket6, 44), (readExtendedDecap prefix, 4), (readExtendedVNI prefix, 4),
      (readFlowSample_ethernet prefix, 24)]"
  by (simp add: takes_records)

section \<open>Ports and sources\<close>

lemma compact_split: "push_bit 30 (drop_bit 30 w) OR (w AND 0x3fffffff) = (w :: u32)"
  by (rule u32_eqI) (simp add: bit_simps upt_0_32)

lemma low30: "(w AND 0x3fffffff :: u32) < 2 ^ 30"
  by (rule le_less_trans [OF word_and_le1]) simp

lemma wp_getData32: "wp getData32 Q s = (datap s + 4 \<le> endp s \<longrightarrow>
    Q (ntohl (load32 (rawSample s) (datap s))) (s\<lparr>datap := datap s + 4\<rparr>))"
  by (simp add: wp_def getData32_def getData32_nobswap_eq dec_defs)

text \<open>
  A compact flow sample's interface words are split without loss: the two top bits are the
  format, the other thirty the port, and put together they are the word that was read. The
  expanded form reads the same four numbers from four words.
\<close>

theorem compact_ports_lossless:
  assumes "read_sample_ports False s = (Inr (), t)"
  shows "push_bit 30 (inputPortFormat (smp t)) OR inputPort (smp t) = ntohl (load32 (rawSample s) (datap s)) \<and>
    push_bit 30 (outputPortFormat (smp t)) OR outputPort (smp t) = ntohl (load32 (rawSample s) (datap s + 4)) \<and>
    inputPort (smp t) < 2 ^ 30 \<and> outputPort (smp t) < 2 ^ 30 \<and> datap t = datap s + 8"
proof -
  have "wp (read_sample_ports False) (\<lambda>_ t.
     push_bit 30 (inputPortFormat (smp t)) OR inputPort (smp t) = ntohl (load32 (rawSample s) (datap s)) \<and>
     push_bit 30 (outputPortFormat (smp t)) OR outputPort (smp t) = ntohl (load32 (rawSample s) (datap s + 4)) \<and>
     inputPort (smp t) < 2 ^ 30 \<and> outputPort (smp t) < 2 ^ 30 \<and> datap t = datap s + 8) s"
    unfolding read_sample_ports_def
    by (simp add: wp_simps wp_getData32 compact_split low30 [simplified])
  from wpD [OF this assms] show ?thesis .
qed

theorem compact_ports_lossless_witness:
  "inputPortFormat (smp (snd (read_sample_ports False (received [0x40, 0, 1, 2, 0, 0, 0, 7])))) = 1 \<and>
   push_bit 30 (1 :: u32) OR
     inputPort (smp (snd (read_sample_ports False (received [0x40, 0, 1, 2, 0, 0, 0, 7])))) = 0x40000102"
proof -
  let ?s = "received [0x40, 0, 1, 2, 0, 0, 0, 7]"
  have "fst (read_sample_ports False ?s) = Inr ()" by code_simp
  then have run: "read_sample_ports False ?s = (Inr (), snd (read_sample_ports False ?s))"
    by (simp only: prod_eq_iff fst_conv snd_conv simp_thms)
  have "inputPortFormat (smp (snd (read_sample_ports False ?s))) = 1" by code_simp
  moreover have "ntohl (load32 (mem_of [0x40, 0, 1, 2, 0, 0, 0, 7]) 0) = 0x40000102" by code_simp
  ultimately show ?thesis using compact_ports_lossless [OF run] by simp
qed

end
