(* ===== verification/DdosLayout.thy ===== *)
theory DdosLayout
  imports Prelude
begin

text \<open>
  The counter structures of \<open>sflowtool_ddos_ext_v1.h\<close> as the names of their fields in order.
  Each structure here is packed and homogeneous: all its fields are \<open>u64\<close> (or, for the two
  polling structures of \<open>u32\<close> counters, all \<open>u32\<close>), so that field \<open>i\<close> starts at offset \<open>8 * i\<close>
  (\<open>4 * i\<close>) and the structure's size is the number of names times the width.
  \<open>sflowtool_ddos_ext.h\<close> names the same structures without the version suffix.
\<close>

section \<open>Structures of 64-bit counters\<close>

definition sflow_ddos_packet_counters_v1 :: "string list" where
  "sflow_ddos_packet_counters_v1 = [
     ''ingress_bytes'', ''egress_bytes'', ''packets_dropped_by_countermeasures'',
     ''total_ingress_packets'', ''total_egress_packets'']"

definition sflow_ddos_l4_global_counters_v1 :: "string list" where
  "sflow_ddos_l4_global_counters_v1 = [
     ''intcp'', ''tcp_est'', ''tcp_outrst'', ''tcp_synreceived'', ''tcp_syncookiessent'',
     ''tcp_syncookiessentfailed'', ''tcp_syncookiescheckfailed'', ''tcp_syn_rate'',
     ''tcp_exceed_drop'', ''src_tcp_exceed_drop'', ''tcp_exceed_drop_crate_src'',
     ''tcp_exceed_drop_prate_src'', ''tcp_exceed_drop_climit_src'',
     ''tcp_exceed_drop_black_src'', ''tcp_exceed_drop_crate_dst'', ''tcp_exceed_drop_prate_dst'',
     ''tcp_exceed_drop_climit_dst'', ''tcp_exceed_drop_black_dst'',
     ''tcp_exceed_drop_crate_src_dst'', ''tcp_exceed_drop_prate_src_dst'',
     ''tcp_exceed_drop_climit_src_dst'', ''tcp_reset_client'', ''tcp_reset_server'', ''inudp'',
     ''udp_exceed_drop'', ''src_udp_exceed_drop'', ''udp_exceed_drop_crate_src'',
     ''udp_exceed_drop_prate_src'', ''udp_exceed_drop_climit_src'',
     ''udp_exceed_drop_black_src'', ''udp_exceed_drop_crate_dst'', ''udp_exceed_drop_prate_dst'',
     ''udp_exceed_drop_climit_dst'', ''udp_exceed_drop_black_dst'',
     ''udp_exceed_drop_crate_src_dst'', ''udp_exceed_drop_prate_src_dst'',
     ''udp_exceed_drop_climit_src_dst'', ''instateless'', ''ip_outnoroute'',
     ''other_exceed_drop'', ''src_other_exceed_drop'', ''l2_dsr'', ''dst_learn'', ''src_learn'',
     ''src_hit'', ''dst_hit'', ''inicmp'', ''icmp_exceed_drop'', ''src_icmp_exceed_drop'',
     ''icmp_exceed_drop_prate_dst'', ''dns_malform_drop'', ''dns_qry_any_drop'',
     ''sync_src_wl_sent'', ''sync_src_dst_wl_sent'', ''sync_dst_wl_sent'', ''sync_src_wl_rcv'',
     ''sync_src_dst_wl_rcv'', ''sync_dst_wl_rcv'', ''sync_wl_no_dst_drop'', ''ip_rcvd'',
     ''ipv6_rcvd'', ''ip_sent'', ''ipv6_sent'', ''inother'', ''ip_tunnel_rcvd'',
     ''ipv6_tunnel_rcvd'', ''ip_tunnel_encap'', ''ip_tunnel_decap'',
     ''ip_tunnel_fail_encap_rcvd'', ''ip_tunnel_rate'', ''gre_tunnel_encap'',
     ''gre_tunnel_fail_encap_rcvd'', ''gre_tunnel_decap'', ''gre_tunnel_rate'',
     ''gre_tunnel_encap_key'', ''gre_tunnel_decap_key'', ''gre_tunnel_decap_drop_no_key'',
     ''gre_v6_tunnel_rcvd'', ''gre_v6_tunnel_fail_encap_rcvd'', ''gre_v6_tunnel_decap'',
     ''gre_v6_tunnel_rate'', ''dst_port_deny'', ''dst_port_undef_drop'', ''dst_port_bl'',
     ''dst_port_pkt_rate_exceed'', ''dst_port_conn_limm_exceed'', ''dst_port_conn_rate_exceed'',
     ''dst_sport_bl'', ''dst_sport_pkt_rate_exceed'', ''dst_sport_conn_limm_exceed'',
     ''dst_sport_conn_rate_exceed'', ''tcp_ack_no_syn'', ''tcp_out_of_order'',
     ''tcp_zero_window'', ''tcp_retransmit'', ''tcp_action_on_ack_drop'',
     ''tcp_action_on_ack_matched'', ''tcp_action_on_ack_timeout'', ''tcp_action_on_ack_reset'',
     ''src_entry_aged'', ''dst_entry_aged'', ''zero_wind_fail_bl'', ''out_of_seq_fail_bl'',
     ''tcp_retransmit_fail_bl'', ''tcp_action_on_ack_passed'', ''syn_authn_skipped'',
     ''syn_cookie_fail_bl'', ''udp_learn'', ''icmp_learn'', ''udp_pass'', ''dns_auth_pass'',
     ''src_dst_other_frag_exceed_drop'', ''src_other_frag_exceed_drop'',
     ''dst_other_frag_exceed_drop'', ''over_conn_limit_tcp_syn_auth'',
     ''over_conn_limit_tcp_port_syn_auth'', ''max_rexmit_syn_drop'', ''max_rexmit_syn_bl'',
     ''wellknown_port_drop'', ''ntp_monlist_req_drop'', ''ntp_monlist_resp_drop'',
     ''udp_payload_too_big_drop'', ''udp_payload_too_small_drop'', ''tcp_bl_drop_user_config'',
     ''udp_bl_drop_user_config'', ''icmp_bl_drop_user_config'', ''other_bl_drop_user_config'',
     ''over_conn_limit_tcp_syn_cookie'', ''over_conn_limit_tcp_port_syn_cookie'',
     ''dst_ipproto_pkt_rate_exceed'', ''tcp_action_on_ack_failed'',
     ''udp_exceed_drop_conn_prate_dst'', ''tcp_exceed_drop_conn_prate_dst'',
     ''dns_tcp_auth_pass'']"

definition sflow_ddos_http_ext_counters_v1 :: "string list" where
  "sflow_ddos_http_ext_counters_v1 = [
     ''ofo_timer_expired'', ''partial_hdr'', ''ofo'', ''retrans_fin'', ''retrans_rst'',
     ''retrans_push'', ''retrans'', ''chunk_bad'', ''chunk_sz_512'', ''chunk_sz_1k'',
     ''chunk_sz_2k'', ''chunk_sz_4k'', ''chunk_sz_gt_4k'', ''neg_rsp_remain'',
     ''too_many_headers'', ''header_name_too_long'', ''http11'', ''http10'', ''get'', ''head'',
     ''put'', ''post'', ''trace'', ''options'', ''connect'', ''del'', ''unknown'',
     ''line_too_long'', ''req_content_len'', ''rsp_chunk'', ''parsereq_fail'', ''request'',
     ''neg_req_remain'', ''client_rst'', ''req_retrans'', ''req_ofo'', ''invalid_header'',
     ''ddos_policy_violation'', ''lower_than_mss_exceed'', ''dst_req_rate_exceed'',
     ''src_req_rate_exceed'', ''req_processed'', ''new_syn'', ''policy_drop'',
     ''error_condition'', ''ofo_queue_exceed'', ''alloc_fail'', ''alloc_hdr_fail'',
     ''invalid_hdr_name'', ''invalid_hdr_val'', ''challenge_ud_fail'', ''challenge_js_fail'',
     ''challenge_fail'', ''challenge_js_sent'', ''challenge_ud_sent'', ''malform_bad_chunk'',
     ''malform_content_len_too_long'', ''malform_too_many_headers'',
     ''malform_header_name_too_long'', ''malform_line_too_long'', ''malform_req_line_too_long'',
     ''window_small'', ''window_small_drop'', ''use_hdr_ip_as_source'', ''agent_filter_match'',
     ''agent_filter_blacklist'', ''referer_filter_match'', ''referer_filter_blacklist'',
     ''http_idle_timeout'', ''hps_rsp_10'', ''hps_rsp_11'', ''hps_req_sz_1k'', ''hps_req_sz_2k'',
     ''hps_req_sz_4k'', ''hps_req_sz_8k'', ''hps_req_sz_16k'', ''hps_req_sz_32k'',
     ''hps_req_sz_64k'', ''hps_req_sz_256k'', ''hps_req_sz_256k_plus'', ''hps_rsp_sz_1k'',
     ''hps_rsp_sz_2k'', ''hps_rsp_sz_4k'', ''hps_rsp_sz_8k'', ''hps_rsp_sz_16k'',
     ''hps_rsp_sz_32k'', ''hps_rsp_sz_64k'', ''hps_rsp_sz_256k'', ''hps_rsp_sz_256k_plus'',
     ''hps_rsp_status_1xx'', ''hps_rsp_status_2xx'', ''hps_rsp_status_3xx'',
     ''hps_rsp_status_4xx'', ''hps_rsp_status_5xx'', ''hps_rsp_status_504_AX'',
     ''hps_rsp_status_6xx'', ''hps_rsp_status_unknown'', ''header_processing_time_0'',
     ''header_processing_time_1'', ''header_processing_time_2'', ''header_processing_time_3'',
     ''header_processing_incomplete'', ''hps_server_rst'', ''filter_hdr_match'',
     ''filter_hdr_not_match'', ''filter_hdr_action_blacklist'', ''filter_hdr_action_drop'',
     ''filter_hdr_action_default_pass'', ''dst_post_rate_exceed'', ''src_post_rate_exceed'',
     ''dst_resp_rate_exceed'', ''filter_hdr_action_whitelist'', ''src_filter_hdr_match'',
     ''src_filter_hdr_not_match'', ''src_filter_hdr_action_blacklist'',
     ''src_filter_hdr_action_drop'', ''src_filter_hdr_action_default_pass'',
     ''src_filter_hdr_action_whitelist'', ''src_dst_filter_hdr_match'',
     ''src_dst_filter_hdr_not_match'', ''src_dst_filter_hdr_action_blacklist'',
     ''src_dst_filter_hdr_action_drop'', ''src_dst_filter_hdr_action_default_pass'',
     ''src_dst_filter_hdr_action_whitelist'']"

definition sflow_ddos_http_ip_ext_counters_v1 :: "string list" where
  "sflow_ddos_http_ip_ext_counters_v1 = [
     ''ofo_timer_expired'', ''partial_hdr'', ''ofo'', ''retrans_fin'', ''retrans_rst'',
     ''retrans_push'', ''retrans'', ''chunk_bad'', ''chunk_sz_512'', ''chunk_sz_1k'',
     ''chunk_sz_2k'', ''chunk_sz_4k'', ''chunk_sz_gt_4k'', ''neg_rsp_remain'',
     ''too_many_headers'', ''header_name_too_long'', ''http11'', ''http10'', ''get'', ''head'',
     ''put'', ''post'', ''trace'', ''options'', ''connect'', ''del'', ''unknown'',
     ''line_too_long'', ''req_content_len'', ''rsp_chunk'', ''parsereq_fail'', ''request'',
     ''neg_req_remain'', ''client_rst'', ''req_retrans'', ''req_ofo'', ''invalid_header'',
     ''ddos_policy_violation'', ''lower_than_mss_exceed'', ''dst_req_rate_exceed'',
     ''src_req_rate_exceed'', ''req_processed'', ''new_syn'', ''policy_drop'',
     ''error_condition'', ''ofo_queue_exceed'', ''alloc_fail'', ''get_line_fail'',
     ''alloc_hdr_fail'', ''invalid_hdr_name'', ''invalid_hdr_val'', ''challenge_ud_fail'',
     ''challenge_js_fail'', ''challenge_fail'', ''challenge_js_sent'', ''challenge_ud_sent'',
     ''malform_bad_chunk'', ''malform_content_len_too_long'', ''malform_too_many_headers'',
     ''malform_header_name_too_long'', ''malform_line_too_long'', ''malform_req_line_too_long'',
     ''window_small'', ''window_small_drop'', ''use_hdr_ip_as_source'', ''agent_filter_match'',
     ''agent_filter_blacklist'', ''referer_filter_match'', ''referer_filter_blacklist'',
     ''http_idle_timeout'', ''header_processing_time_0'', ''header_processing_time_1'',
     ''header_processing_time_2'', ''header_processing_time_3'',
     ''header_processing_incomplete'', ''req_sz_1k'', ''req_sz_2k'', ''req_sz_4k'',
     ''req_sz_8k'', ''req_sz_16k'', ''req_sz_32k'', ''req_sz_64k'', ''req_sz_256k'',
     ''req_sz_gt_256k'', ''filter_hdr_match'', ''filter_hdr_not_match'',
     ''filter_hdr_action_blacklist'', ''filter_hdr_action_drop'',
     ''filter_hdr_action_default_pass'', ''resp_code_1xx'', ''resp_code_2xx'', ''resp_code_3xx'',
     ''resp_code_4xx'', ''resp_code_5xx'', ''resp_code_other'', ''dst_post_rate_exceed'',
     ''src_post_rate_exceed'', ''dst_resp_rate_exceed'', ''filter_hdr_action_whitelist'',
     ''filter1_hdr_match'', ''filter2_hdr_match'', ''filter3_hdr_match'', ''filter4_hdr_match'',
     ''filter5_hdr_match'', ''filter_hdr_none_match'', ''src_partial_hdr'',
     ''src_parsereq_fail'', ''src_neg_req_remain'', ''src_ddos_policy_violation'',
     ''src_lower_than_mss_exceed'', ''src_policy_drop'', ''src_malform_bad_chunk'',
     ''src_challenge_ud_fail'', ''src_challenge_js_fail'', ''src_challenge_fail'',
     ''src_window_small_drop'', ''src_filter_hdr_action_drop'', ''src_challenge_ud_sent'',
     ''src_challenge_js_sent'']"

definition sflow_ddos_ssl_l4_ip_ext_counters_v1 :: "string list" where
  "sflow_ddos_ssl_l4_ip_ext_counters_v1 = [
     ''ssll4_policy_reset'', ''ssll4_policy_drop'', ''ssll4_drop_packet'',
     ''ssll4_er_condition'', ''ssll4_processed'', ''ssll4_new_syn'', ''ssll4_is_ssl3'',
     ''ssll4_is_tls1_1'', ''ssll4_is_tls1_2'', ''ssll4_is_tls1_3'', ''ssll4_is_renegotiation'',
     ''ssll4_renegotiation_exceed'', ''ssll4_is_dst_req_rate_exceed'',
     ''ssll4_is_src_req_rate_exceed'', ''ssll4_do_auth_handshake'',
     ''ssll4_reset_for_handshake'', ''ssll4_handshake_timeout'', ''ssll4_auth_handshake_ok'',
     ''ssll4_auth_handshake_bl'', ''src_ssll4_policy_drop'', ''src_ssll4_drop_packet'',
     ''src_ssll4_renegotiation_exceed'', ''src_ssll4_auth_handshake_bl'',
     ''src_ssll4_policy_reset'']"

definition sflow_ddos_icmp_ip_ext_counters_v1 :: "string list" where
  "sflow_ddos_icmp_ip_ext_counters_v1 = [
     ''icmp_type_deny_drop'', ''icmpv4_rfc_undef_drop'', ''icmpv6_rfc_undef_drop'',
     ''icmp_rate_exceed0'', ''icmp_rate_exceed1'', ''icmp_rate_exceed2'',
     ''icmp_wildcard_deny_drop'']"

definition sflow_ddos_udp_ip_ext_counters_v1 :: "string list" where
  "sflow_ddos_udp_ip_ext_counters_v1 = [
     ''filter1_match'', ''filter2_match'', ''filter3_match'', ''filter4_match'',
     ''filter5_match'', ''filter_none_match'']"

definition sflow_ddos_tcp_ip_ext_counters_v1 :: "string list" where
  "sflow_ddos_tcp_ip_ext_counters_v1 = [
     ''filter1_match'', ''filter2_match'', ''filter3_match'', ''filter4_match'',
     ''filter5_match'', ''filter_none_match'']"

definition sflow_ddos_other_ip_ext_counters_v1 :: "string list" where
  "sflow_ddos_other_ip_ext_counters_v1 = [
     ''filter1_match'', ''filter2_match'', ''filter3_match'', ''filter4_match'',
     ''filter5_match'', ''filter_none_match'']"

definition sflow_ddos_fpga_anomaly_drop_counters_v1 :: "string list" where
  "sflow_ddos_fpga_anomaly_drop_counters_v1 = [
     ''land_attack_drop'', ''empty_frag_drop'', ''micro_frag_drop'', ''ipv4_opt_drop'',
     ''ip_frag_drop'', ''bad_ip_hdr_len_drop'', ''bad_ip_flags_drop'', ''bad_ip_ttl_drop'',
     ''no_ip_payload_drop'', ''oversize_ip_pl_drop'', ''bad_ip_pl_len_drop'',
     ''bad_ip_frag_off_drop'', ''bad_ip_csum_drop'', ''icmp_pod_drop'', ''tcp_bad_urg_off_drop'',
     ''tcp_short_hdr_drop'', ''tcp_bad_ip_len_drop'', ''tcp_null_flags_drop'',
     ''tcp_null_scan_drop'', ''tcp_syn_and_fin_drop'', ''tcp_xmas_flags_drop'',
     ''tcp_xmas_scan_drop'', ''tcp_syn_frag_drop'', ''tcp_frag_header_drop'',
     ''tcp_bad_csum_drop'', ''udp_short_hdr_drop'', ''udp_bad_leng_drop'', ''udp_kb_frag_drop'',
     ''udp_port_lb_drop'', ''udp_bad_csum_drop'', ''runt_ip_hdr_drop'', ''runt_tcpudp_hdr_drop'',
     ''tun_mismatch_drop'', ''tcp_opt_err'']"

definition sflow_ddos_ssl_l4_stats_v1 :: "string list" where
  "sflow_ddos_ssl_l4_stats_v1 = [
     ''ssll4_policy_reset'', ''ssll4_policy_drop'', ''ssll4_drop_packet'',
     ''ssll4_er_condition'', ''ssll4_processed'', ''ssll4_new_syn'', ''ssll4_is_ssl3'',
     ''ssll4_is_tls1_1'', ''ssll4_is_tls1_2'', ''ssll4_is_tls1_3'', ''ssll4_is_renegotiation'',
     ''ssll4_renegotiation_exceed'', ''ssll4_is_dst_req_rate_exceed'',
     ''ssll4_is_src_req_rate_exceed'', ''ssll4_do_auth_handshake'',
     ''ssll4_reset_for_handshake'', ''ssll4_handshake_timeout'', ''ssll4_auth_handshake_ok'',
     ''ssll4_auth_handshake_bl'']"

definition sflow_ddos_l4_tcp_stats_v1 :: "string list" where
  "sflow_ddos_l4_tcp_stats_v1 = [
     ''tcp_sess_create'', ''intcp'', ''tcp_syn_rcvd'', ''tcp_invalid_syn_rcvd'',
     ''tcp_syn_ack_rcvd'', ''tcp_ack_rcvd'', ''tcp_fin_rcvd'', ''tcp_rst_rcvd'', ''tcp_outrst'',
     ''tcp_reset_client'', ''tcp_reset_server'', ''tcp_syn_rate'', ''tcp_total_drop'',
     ''tcp_drop_dst'', ''tcp_exceed_drop_any_dst'', ''tcp_exceed_drop_prate_dst'',
     ''tcp_exceed_drop_crate_dst'', ''tcp_exceed_drop_climit_dst'', ''tcp_drop_black_dst'',
     ''tcp_drop_src'', ''tcp_exceed_drop_any_src'', ''tcp_exceed_drop_prate_src'',
     ''tcp_exceed_drop_crate_src'', ''tcp_exceed_drop_climit_src'', ''tcp_drop_black_src'',
     ''tcp_drop_black_user_cfg_src'', ''tcp_drop_src_dst'', ''tcp_exceed_drop_any_src_dst'',
     ''tcp_exceed_drop_prate_src_dst'', ''tcp_exceed_drop_crate_src_dst'',
     ''tcp_exceed_drop_climit_src_dst'', ''tcp_drop_black_src_dst'',
     ''tcp_drop_black_user_cfg_src_dst'', ''tcp_port_zero_drop'', ''tcp_syncookie_sent'',
     ''tcp_syncookie_sent_fail'', ''tcp_syncookie_check_fail'', ''tcp_syncookie_hw_missing'',
     ''tcp_syncookie_fail_bl'', ''tcp_syncookie_pass'', ''syn_auth_pass'', ''syn_auth_skip'',
     ''over_conn_limit_tcp_syn_auth'', ''over_conn_limit_tcp_syn_cookie'',
     ''over_conn_limit_tcp_port_syn_auth'', ''over_conn_limit_tcp_port_syn_cookie'',
     ''tcp_action_on_ack_start'', ''tcp_action_on_ack_matched'', ''tcp_action_on_ack_passed'',
     ''tcp_action_on_ack_failed'', ''tcp_action_on_ack_timeout'', ''tcp_action_on_ack_reset'',
     ''tcp_ack_no_syn'', ''tcp_out_of_order'', ''tcp_zero_window'', ''tcp_retransmit'',
     ''tcp_rexmit_syn_limit_drop'', ''tcp_zero_wind_bl'', ''tcp_out_of_seq_bl'',
     ''tcp_retransmit_bl'', ''tcp_rexmit_syn_limit_bl'', ''tcp_exceed_drop_conn_prate'',
     ''tcp_action_on_ack_gap_drop'', ''tcp_action_on_ack_gap_pass'',
     ''tcp_new_conn_ack_retry_gap_start'', ''tcp_new_conn_ack_retry_gap_passed'',
     ''tcp_new_conn_ack_retry_gap_failed'', ''tcp_new_conn_ack_retry_gap_timeout'',
     ''tcp_new_conn_ack_retry_gap_reset'', ''tcp_new_conn_ack_retry_gap_drop'',
     ''tcp_action_on_syn_start'', ''tcp_action_on_syn_passed'', ''tcp_action_on_syn_failed'',
     ''tcp_action_on_syn_timeout'', ''tcp_action_on_syn_reset'', ''tcp_action_on_syn_gap_drop'',
     ''tcp_action_on_syn_gap_pass'', ''tcp_unauth_rst_drop'', ''tcp_filter_match'',
     ''tcp_filter_not_match'', ''tcp_filter_action_blacklist'', ''tcp_filter_action_drop'',
     ''tcp_filter_action_default_pass'', ''tcp_over_limit_syn_auth_src'',
     ''tcp_over_limit_syn_auth_src_dst'', ''tcp_over_limit_syn_cookie_src'',
     ''tcp_over_limit_syn_cookie_src_dst'', ''tcp_exceed_drop_brate_dst'',
     ''tcp_exceed_drop_brate_src'', ''tcp_exceed_drop_brate_src_dst'', ''tcp_concurrent'',
     ''tcp_filter_action_whitelist'', ''src_tcp_filter_match'', ''src_tcp_filter_not_match'',
     ''src_tcp_filter_action_blacklist'', ''src_tcp_filter_action_drop'',
     ''src_tcp_filter_action_default_pass'', ''src_tcp_filter_action_whitelist'',
     ''src_dst_tcp_filter_match'', ''src_dst_tcp_filter_not_match'',
     ''src_dst_tcp_filter_action_blacklist'', ''src_dst_tcp_filter_action_drop'',
     ''src_dst_tcp_filter_action_default_pass'', ''src_dst_tcp_filter_action_whitelist'']"

definition sflow_ddos_l4_udp_stats_v1 :: "string list" where
  "sflow_ddos_l4_udp_stats_v1 = [
     ''udp_sess_create'', ''inudp'', ''instateless'', ''udp_total_drop'', ''udp_drop_dst'',
     ''udp_exceed_drop_any_dst'', ''udp_exceed_drop_prate_dst'', ''udp_exceed_drop_crate_dst'',
     ''udp_exceed_drop_climit_dst'', ''udp_drop_black_dst'', ''udp_drop_src'',
     ''udp_exceed_drop_any_src'', ''udp_exceed_drop_prate_src'', ''udp_exceed_drop_crate_src'',
     ''udp_exceed_drop_climit_src'', ''udp_drop_black_src'', ''udp_drop_black_user_cfg_src'',
     ''udp_drop_src_dst'', ''udp_exceed_drop_any_src_dst'', ''udp_exceed_drop_prate_src_dst'',
     ''udp_exceed_drop_crate_src_dst'', ''udp_exceed_drop_climit_src_dst'',
     ''udp_drop_black_src_dst'', ''udp_drop_black_user_cfg_src_dst'', ''udp_port_zero_drop'',
     ''udp_wellknown_src_port_drop'', ''udp_exceed_drop_conn_prate'', ''udp_retry_start'',
     ''udp_retry_pass'', ''udp_retry_fail'', ''udp_retry_timeout'', ''udp_payload_too_big_drop'',
     ''udp_payload_too_small_drop'', ''ntp_monlist_req_drop'', ''ntp_monlist_resp_drop'',
     ''udp_filter_match'', ''udp_filter_not_match'', ''udp_filter_action_blacklist'',
     ''udp_filter_action_drop'', ''udp_filter_action_default_pass'',
     ''udp_filter_action_whitelist'', ''UNUSED1'', ''udp_auth_pass'',
     ''udp_over_limit_auth_dst'', ''udp_over_limit_auth_dst_port'', ''udp_over_limit_auth_src'',
     ''udp_over_limit_auth_src_dst'', ''udp_exceed_drop_brate_dst'',
     ''udp_exceed_drop_brate_src'', ''udp_exceed_drop_brate_src_dst'', ''src_udp_filter_match'',
     ''src_udp_filter_not_match'', ''src_udp_filter_action_blacklist'',
     ''src_udp_filter_action_drop'', ''src_udp_filter_action_default_pass'',
     ''src_udp_filter_action_whitelist'', ''src_dst_udp_filter_match'',
     ''src_dst_udp_filter_not_match'', ''src_dst_udp_filter_action_blacklist'',
     ''src_dst_udp_filter_action_drop'', ''src_dst_udp_filter_action_default_pass'',
     ''src_dst_udp_filter_action_whitelist'']"

definition sflow_ddos_l4_icmp_stats_v1 :: "string list" where
  "sflow_ddos_l4_icmp_stats_v1 = [
     ''inicmp'', ''icmp_echo_rcvd'', ''icmp_other_rcvd'', ''icmp_total_drop'', ''icmp_drop_dst'',
     ''icmp_exceed_drop_any_dst'', ''icmp_exceed_drop_prate_dst'', ''icmp_drop_black_dst'',
     ''icmp_drop_src'', ''icmp_exceed_drop_any_src'', ''icmp_exceed_drop_prate_src'',
     ''icmp_drop_black_src'', ''icmp_drop_black_user_cfg_src'', ''icmp_drop_src_dst'',
     ''icmp_exceed_drop_any_src_dst'', ''icmp_exceed_drop_prate_src_dst'',
     ''icmp_drop_black_src_dst'', ''icmp_drop_black_user_cfg_src_dst'', ''icmp_type_deny_drop'',
     ''icmp_v4_rfc_undef_drop'', ''icmp_v6_rfc_undef_drop'', ''icmp_wildcard_deny_drop'',
     ''icmp_rate_exceed0'', ''icmp_rate_exceed1'', ''icmp_rate_exceed2'',
     ''icmp_exceed_drop_brate_dst'', ''icmp_exceed_drop_brate_src'',
     ''icmp_exceed_drop_brate_src_dst'']"

definition sflow_ddos_dns_stats_v1 :: "string list" where
  "sflow_ddos_dns_stats_v1 = [
     ''force_tcp_auth'', ''dns_auth_udp'', ''dns_malform_drop'', ''dns_qry_any_drop'',
     ''dst_rate_limit0'', ''dst_rate_limit1'', ''dst_rate_limit2'', ''dst_rate_limit3'',
     ''dst_rate_limit4'', ''src_rate_limit0'', ''src_rate_limit1'', ''src_rate_limit2'',
     ''src_rate_limit3'', ''src_rate_limit4'', ''dns_auth_udp_pass'', ''dns_nx_bl'',
     ''dns_nx_drop'', ''dns_fqdn_stage2_exceed'', ''dns_is_nx'', ''dns_fqdn_label_len_exceed'',
     ''UNUSED1'', ''UNUSED2'', ''UNUSED3'', ''UNUSED4'', ''UNUSED5'', ''UNUSED6'',
     ''dns_pkt_processed'', ''dns_query_type_a'', ''dns_query_type_aaaa'', ''dns_query_type_ns'',
     ''dns_query_type_cname'', ''dns_query_type_any'', ''dns_query_type_srv'',
     ''dns_query_type_mx'', ''dns_query_type_soa'', ''dns_query_type_opt'',
     ''dns_tcp_auth_pass'', ''dns_auth_udp_fail'', ''dns_auth_udp_timeout'']"

definition sflow_ddos_l4_other_stats_v1 :: "string list" where
  "sflow_ddos_l4_other_stats_v1 = [
     ''inother'', ''infrag'', ''other_total_drop'', ''other_drop_dst'', ''frag_drop'',
     ''other_exceed_drop_any_dst'', ''other_exceed_drop_prate_dst'',
     ''other_exceed_drop_fprate_dst'', ''other_frag_exceed_drop_dst'', ''other_drop_black_dst'',
     ''other_drop_src'', ''other_exceed_drop_any_src'', ''other_exceed_drop_prate_src'',
     ''other_exceed_drop_fprate_src'', ''other_frag_exceed_drop_src'', ''other_drop_black_src'',
     ''other_drop_black_user_cfg_src'', ''other_drop_src_dst'',
     ''other_exceed_drop_any_src_dst'', ''other_exceed_drop_prate_src_dst'',
     ''other_exceed_drop_fprate_src_dst'', ''other_frag_exceed_drop_src_dst'',
     ''other_drop_black_src_dst'', ''other_drop_black_user_cfg_src_dst'',
     ''other_exceed_drop_brate_dst'', ''other_exceed_drop_brate_src'',
     ''other_exceed_drop_brate_src_dst'', ''other_filter_match'', ''other_filter_not_match'',
     ''other_filter_action_blacklist'', ''other_filter_action_drop'',
     ''other_filter_action_default_pass'', ''other_filter_action_whitelist'',
     ''src_other_filter_match'', ''src_other_filter_not_match'',
     ''src_other_filter_action_blacklist'', ''src_other_filter_action_drop'',
     ''src_other_filter_action_default_pass'', ''src_other_filter_action_whitelist'',
     ''src_dst_other_filter_match'', ''src_dst_other_filter_not_match'',
     ''src_dst_other_filter_action_blacklist'', ''src_dst_other_filter_action_drop'',
     ''src_dst_other_filter_action_default_pass'', ''src_dst_other_filter_action_whitelist'']"

definition sflow_ddos_switch_stats_v1 :: "string list" where
  "sflow_ddos_switch_stats_v1 = [
     ''ip_rcvd'', ''ip_sent'', ''ipv6_rcvd'', ''ipv6_sent'', ''instateless'', ''out_no_route'',
     ''not_for_ddos'', ''mpls_rcvd'', ''mpls_drop'', ''mpls_malformed'']"

definition sflow_ddos_sess_stats_v1 :: "string list" where
  "sflow_ddos_sess_stats_v1 = [
     ''v4_sess_create'', ''v6_sess_create'', ''tcp_sess_create'', ''tcp_conn_est_w_syn'',
     ''tcp_conn_est_w_ack'', ''tcp_conn_est'', ''tcp_conn_close_w_rst'',
     ''tcp_conn_close_w_fin'', ''tcp_conn_close_w_idle'', ''tcp_conn_close_w_half_open'',
     ''tcp_conn_close'', ''udp_sess_create'', ''udp_conn_est'', ''udp_conn_close'']"

definition sflow_ddos_sync_stats_v1 :: "string list" where
  "sflow_ddos_sync_stats_v1 = [
     ''sync_dst_wl_rcv'', ''sync_dst_wl_sent'', ''sync_src_wl_rcv'', ''sync_src_wl_sent'',
     ''sync_src_dst_wl_rcv'', ''sync_src_dst_wl_sent'', ''sync_src_dst_wl_no_dst_drop'',
     ''sync_hello_rcv'', ''sync_hello_sent'', ''sync_sent_fail'', ''sync_sent_no_peer'',
     ''sync_rcv_fail'', ''sync_dst_tcp_wl_sent'', ''sync_dst_udp_wl_sent'',
     ''sync_dst_icmp_wl_sent'', ''sync_dst_other_wl_sent'', ''sync_dst_tcp_bl_sent'',
     ''sync_dst_udp_bl_sent'', ''sync_dst_icmp_bl_sent'', ''sync_dst_other_bl_sent'',
     ''sync_src_tcp_wl_sent'', ''sync_src_udp_wl_sent'', ''sync_src_icmp_wl_sent'',
     ''sync_src_other_wl_sent'', ''sync_src_tcp_bl_sent'', ''sync_src_udp_bl_sent'',
     ''sync_src_icmp_bl_sent'', ''sync_src_other_bl_sent'', ''sync_src_dst_tcp_wl_sent'',
     ''sync_src_dst_udp_wl_sent'', ''sync_src_dst_icmp_wl_sent'', ''sync_src_dst_other_wl_sent'',
     ''sync_src_dst_tcp_bl_sent'', ''sync_src_dst_udp_bl_sent'', ''sync_src_dst_icmp_bl_sent'',
     ''sync_src_dst_other_bl_sent'', ''sync_dst_tcp_wl_rcvd'', ''sync_dst_udp_wl_rcvd'',
     ''sync_dst_icmp_wl_rcvd'', ''sync_dst_other_wl_rcvd'', ''sync_dst_tcp_bl_rcvd'',
     ''sync_dst_udp_bl_rcvd'', ''sync_dst_icmp_bl_rcvd'', ''sync_dst_other_bl_rcvd'',
     ''sync_src_tcp_wl_rcvd'', ''sync_src_udp_wl_rcvd'', ''sync_src_icmp_wl_rcvd'',
     ''sync_src_other_wl_rcvd'', ''sync_src_tcp_bl_rcvd'', ''sync_src_udp_bl_rcvd'',
     ''sync_src_icmp_bl_rcvd'', ''sync_src_other_bl_rcvd'', ''sync_src_dst_tcp_wl_rcvd'',
     ''sync_src_dst_udp_wl_rcvd'', ''sync_src_dst_icmp_wl_rcvd'', ''sync_src_dst_other_wl_rcvd'',
     ''sync_src_dst_tcp_bl_rcvd'', ''sync_src_dst_udp_bl_rcvd'', ''sync_src_dst_icmp_bl_rcvd'',
     ''sync_src_dst_other_bl_rcvd'']"

definition sflow_ddos_tunnel_stats_v1 :: "string list" where
  "sflow_ddos_tunnel_stats_v1 = [
     ''ip_tunnel_rcvd'', ''ip_tunnel_rate'', ''ip_tunnel_encap'', ''ip_tunnel_encap_fail'',
     ''ip_tunnel_decap'', ''ip_tunnel_decap_fail'', ''ipv6_tunnel_rcvd'', ''ipv6_tunnel_rate'',
     ''ipv6_tunnel_encap'', ''ipv6_tunnel_encap_fail'', ''ipv6_tunnel_decap'',
     ''ipv6_tunnel_decap_fail'', ''gre_tunnel_rcvd'', ''gre_tunnel_rate'', ''gre_tunnel_encap'',
     ''gre_tunnel_encap_fail'', ''gre_tunnel_decap'', ''gre_tunnel_decap_fail'',
     ''gre_tunnel_encap_key'', ''gre_tunnel_decap_key'', ''gre_tunnel_decap_drop_no_key'',
     ''gre_v6_tunnel_rcvd'', ''gre_v6_tunnel_rate'', ''gre_v6_tunnel_encap'',
     ''gre_v6_tunnel_encap_fail'', ''gre_v6_tunnel_decap'', ''gre_v6_tunnel_decap_fail'',
     ''gre_v6_tunnel_encap_key'', ''gre_v6_tunnel_decap_key'',
     ''gre_v6_tunnel_decap_drop_no_key'']"

definition sflow_ddos_table_stats_v1 :: "string list" where
  "sflow_ddos_table_stats_v1 = [
     ''dst_entry_learn'', ''dst_entry_hit'', ''dst_entry_miss'', ''dst_entry_aged'',
     ''src_entry_learn'', ''src_entry_hit'', ''src_entry_miss'', ''src_entry_aged'',
     ''src_dst_entry_learn'', ''src_dst_entry_hit'', ''src_dst_entry_miss'',
     ''src_dst_entry_aged'', ''src_wl_tcp'', ''src_wl_udp'', ''src_wl_icmp'', ''src_wl_other'',
     ''src_bl_tcp'', ''src_bl_udp'', ''src_bl_icmp'', ''src_bl_other'', ''src_dst_wl_tcp'',
     ''src_dst_wl_udp'', ''src_dst_wl_icmp'', ''src_dst_wl_other'', ''src_dst_bl_tcp'',
     ''src_dst_bl_udp'', ''src_dst_bl_icmp'', ''src_dst_bl_other'', ''dst_over_limit_on'',
     ''dst_port_over_limit_on'', ''src_over_limit_on'', ''src_dst_over_limit_on'',
     ''dst_over_limit_off'', ''dst_port_over_limit_off'', ''src_over_limit_off'',
     ''src_dst_over_limit_off'']"

definition sflow_ddos_brief_stats_v1 :: "string list" where
  "sflow_ddos_brief_stats_v1 = [
     ''ip_rcvd'', ''ip_sent'', ''ipv6_rcvd'', ''ipv6_sent'', ''out_no_route'', ''not_for_ddos'',
     ''instateless'', ''intcp'', ''inudp'', ''inicmp'', ''inother'', ''v4_sess_create'',
     ''v6_sess_create'', ''tcp_sess_create'', ''udp_sess_create'', ''sess_aged_out'',
     ''tcp_total_drop'', ''tcp_dst_drop'', ''tcp_src_drop'', ''tcp_src_dst_drop'',
     ''tcp_drop_black_dst'', ''tcp_drop_black_src'', ''tcp_drop_black_src_dst'',
     ''tcp_exceed_drop_any_dst'', ''tcp_exceed_drop_any_src'', ''tcp_exceed_drop_any_src_dst'',
     ''udp_total_drop'', ''udp_dst_drop'', ''udp_src_drop'', ''udp_src_dst_drop'',
     ''udp_drop_black_dst'', ''udp_drop_black_src'', ''udp_drop_black_src_dst'',
     ''udp_exceed_drop_any_dst'', ''udp_exceed_drop_any_src'', ''udp_exceed_drop_any_src_dst'',
     ''icmp_total_drop'', ''icmp_dst_drop'', ''icmp_src_drop'', ''icmp_src_dst_drop'',
     ''icmp_drop_black_dst'', ''icmp_drop_black_src'', ''icmp_drop_black_src_dst'',
     ''icmp_exceed_drop_any_dst'', ''icmp_exceed_drop_any_src'',
     ''icmp_exceed_drop_any_src_dst'', ''other_total_drop'', ''other_dst_drop'',
     ''other_src_drop'', ''other_src_dst_drop'', ''other_drop_black_dst'',
     ''other_drop_black_src'', ''other_drop_black_src_dst'', ''other_exceed_drop_any_dst'',
     ''other_exceed_drop_src'', ''other_exceed_drop_src_dst'', ''infrag'', ''frag_drop'',
     ''http_drop_total'', ''http_drop_dst'', ''http_drop_src'', ''http_drop_src_dst'',
     ''dns_udp_drop_total'', ''dns_udp_drop_dst'', ''dns_udp_drop_src'',
     ''dns_udp_drop_src_dst'', ''dns_tcp_drop_total'', ''dns_tcp_drop_dst'',
     ''dns_tcp_drop_src'', ''dns_tcp_drop_src_dst'', ''ssl_l4_drop_total'', ''ssl_l4_drop_dst'',
     ''ssl_l4_drop_src'', ''ssl_l4_drop_src_dst'', ''dst_port_undef_drop'',
     ''dst_port_exceed_drop_any'', ''dst_ipproto_bl'', ''dst_port_bl'', ''dst_sport_bl'',
     ''dst_sport_exceed_drop_any'', ''dst_ipproto_rcvd'', ''dst_ipproto_drop'',
     ''dst_ipproto_exceed_drop_any'', ''src_ip_bypass'', ''mpls_rcvd'', ''mpls_drop'',
     ''mpls_malformed'', ''dst_scanning_detected'', ''dst_ingress_bytes'', ''dst_egress_bytes'',
     ''dst_ingress_packets'', ''dst_egress_packets'', ''dst_ip_bypass'',
     ''dst_blackhole_inject'', ''dst_blackhole_withdraw'', ''dst_fwd_pkt_sent'',
     ''dst_rev_pkt_sent'', ''dst_fwd_byte_sent'', ''dst_rev_byte_sent'']"

definition sflow_ddos_long_stats_v1 :: "string list" where
  "sflow_ddos_long_stats_v1 = [
     ''tcp_syncookie_sent'', ''tcp_syncookie_pass'', ''tcp_syncookie_sent_fail'',
     ''tcp_syncookie_check_fail'', ''tcp_syncookie_fail_bl'', ''tcp_outrst'',
     ''tcp_syn_received'', ''tcp_syn_rate'', ''tcp_exceed_drop_prate_dst'',
     ''tcp_exceed_drop_crate_dst'', ''tcp_exceed_drop_climit_dst'',
     ''tcp_exceed_drop_prate_src'', ''tcp_exceed_drop_crate_src'',
     ''tcp_exceed_drop_climit_src'', ''tcp_exceed_drop_prate_src_dst'',
     ''tcp_exceed_drop_crate_src_dst'', ''tcp_exceed_drop_climit_src_dst'',
     ''udp_exceed_drop_prate_dst'', ''udp_exceed_drop_crate_dst'',
     ''udp_exceed_drop_climit_dst'', ''udp_exceed_drop_prate_src'',
     ''udp_exceed_drop_crate_src'', ''udp_exceed_drop_climit_src'',
     ''udp_exceed_drop_prate_src_dst'', ''udp_exceed_drop_crate_src_dst'',
     ''udp_exceed_drop_climit_src_dst'', ''udp_exceed_drop_conn_prate'', ''dns_malform_drop'',
     ''dns_qry_any_drop'', ''tcp_reset_client'', ''tcp_reset_server'', ''dst_entry_learn'',
     ''dst_entry_hit'', ''src_entry_learn'', ''src_entry_hit'', ''sync_src_wl_sent'',
     ''sync_src_dst_wl_sent'', ''sync_dst_wl_sent'', ''sync_src_wl_rcv'',
     ''sync_src_dst_wl_rcv'', ''sync_dst_wl_rcv'', ''dst_port_pkt_rate_exceed'',
     ''dst_port_conn_limm_exceed'', ''dst_port_conn_rate_exceed'', ''dst_sport_pkt_rate_exceed'',
     ''dst_sport_conn_limm_exceed'', ''dst_sport_conn_rate_exceed'',
     ''dst_ipproto_pkt_rate_exceed'', ''tcp_ack_no_syn'', ''tcp_ofo'', ''tcp_zero_window'',
     ''tcp_retransmit'', ''tcp_action_on_ack_start'', ''tcp_action_on_ack_matched'',
     ''tcp_action_on_ack_passed'', ''tcp_action_on_ack_failed'', ''tcp_action_on_ack_timeout'',
     ''tcp_action_on_ack_reset'', ''src_entry_aged'', ''dst_entry_aged'', ''tcp_zero_wind_bl'',
     ''tcp_ofo_bl'', ''tcp_retransmit_bl'', ''syn_auth_skip'', ''udp_retry_pass'',
     ''dns_auth_udp_pass'', ''dst_port_udp_wellknown_port_drop'', ''ntp_monlist_req_drop'',
     ''ntp_monlist_resp_drop'', ''udp_payload_too_big_drop'', ''udp_payload_too_small_drop'',
     ''other_frag_exceed_drop_dst'', ''other_frag_exceed_drop_src'',
     ''other_frag_exceed_drop_src_dst'', ''tcp_rexmit_syn_limit_drop'',
     ''tcp_rexmit_syn_limit_bl'', ''over_conn_limit_tcp_syn_auth'',
     ''over_conn_limit_tcp_syn_cookie'', ''over_conn_limit_tcp_port_syn_auth'',
     ''over_conn_limit_tcp_port_syn_cookie'', ''tcp_exceed_drop_conn_prate'', ''syn_auth_pass'',
     ''udp_retry_start'', ''udp_retry_fail'', ''udp_retry_timeout'', ''ip_tunnel_rcvd'',
     ''ipv6_tunnel_rcvd'', ''gre_tunnel_rcvd'', ''gre_v6_tunnel_rcvd'', ''dst_entry_miss'',
     ''src_entry_miss'', ''src_dst_entry_hit'', ''src_dst_entry_miss'', ''src_dst_entry_aged'',
     ''icmp_exceed_drop_prate_dst'', ''sync_wl_no_dst_drop'', ''src_dst_entry_learn'',
     ''dns_tcp_auth_pass'', ''dst_port_kbit_rate_exceed'', ''dst_sport_kbit_rate_exceed'']"

definition sflow_ddos_dns_ip_ext_counters_v1 :: "string list" where
  "sflow_ddos_dns_ip_ext_counters_v1 = [
     ''force_tcp_auth'', ''udp_auth'', ''dst_rate_limit0'', ''dst_rate_limit1'',
     ''dst_rate_limit2'', ''dst_rate_limit3'', ''dst_rate_limit4'', ''dst_is_nx'',
     ''dst_fqdn_stage2_rate_exceed'', ''dst_nx_bl'', ''dst_nx_drop'', ''dns_req_sent'',
     ''dns_req_size_exceed'', ''dns_req_retrans'', ''dns_tcp_req_incomplete'',
     ''dns_fqdn_label_len_exceed'', ''UNUSED1'', ''UNUSED2'', ''UNUSED3'', ''UNUSED4'',
     ''UNUSED5'', ''UNUSED6'', ''dns_query_type_a'', ''dns_query_type_aaaa'',
     ''dns_query_type_ns'', ''dns_query_type_cname'', ''dns_query_type_any'',
     ''dns_query_type_srv'', ''dns_query_type_mx'', ''dns_query_type_soa'',
     ''dns_query_type_opt'', ''dns_udp_auth_fail'', ''dns_malform_drop'', ''src_rate_limit0'',
     ''src_rate_limit1'', ''src_rate_limit2'', ''src_rate_limit3'', ''src_rate_limit4'',
     ''src_dns_fqdn_label_len_exceed'', ''src_dns_udp_auth_fail'', ''src_force_tcp_auth'',
     ''src_dns_malform_drop'']"

definition sflow_ddos_ip_counter_l4_t2_v1 :: "string list" where
  "sflow_ddos_ip_counter_l4_t2_v1 = [
     ''dst_frag_pkt_rate_exceed'', ''dst_icmp_pkt_rate_exceed'', ''dst_other_pkt_rate_exceed'',
     ''dst_tcp_src_drop'', ''dst_udp_src_drop'', ''dst_icmp_src_drop'', ''dst_other_src_drop'',
     ''dst_tcp_pkt_rcvd'', ''dst_tcp_conn_limit_exceed'', ''dst_tcp_any_exceed'',
     ''dst_tcp_pkt'', ''dst_tcp_pkt_rate_exceed'', ''dst_tcp_syn'', ''dst_tcp_syn_drop'',
     ''dst_tcp_conn_rate_exceed'', ''dst_frag_src_rate_drop'', ''dst_udp_conn_limit_exceed'',
     ''dst_udp_pkt'', ''dst_udp_pkt_rate_exceed'', ''dst_tcp_auth'',
     ''dst_udp_conn_rate_exceed'', ''dst_tcp_drop'', ''dst_udp_drop'', ''dst_icmp_drop'',
     ''dst_frag_drop'', ''dst_other_drop'', ''dst_pkt_sent'', ''dst_udp_pkt_sent'',
     ''dst_tcp_pkt_sent'', ''dst_icmp_pkt_sent'', ''dst_other_pkt_sent'', ''dst_icmp_pkt'',
     ''dst_other_pkt'', ''dst_tcp_src_rate_drop'', ''dst_udp_src_rate_drop'',
     ''dst_icmp_src_rate_drop'', ''dst_other_src_rate_drop'', ''dst_port_pkt_rate_exceed'',
     ''dst_port_conn_limit_exceed'', ''dst_port_conn_rate_exceed'', ''dst_udp_any_exceed'',
     ''dst_udp_filter_match'', ''dst_udp_filter_not_match'', ''dst_udp_filter_action_blacklist'',
     ''dst_udp_filter_action_drop'', ''dst_udp_filter_action_default_pass'',
     ''dst_tcp_filter_match'', ''dst_tcp_filter_not_match'', ''dst_tcp_filter_action_blacklist'',
     ''dst_tcp_filter_action_drop'', ''dst_tcp_filter_action_default_pass'',
     ''dst_udp_filter_action_whitelist'', ''dst_udp_pkt_rcvd'', ''dst_icmp_pkt_rcvd'',
     ''dst_other_pkt_rcvd'', ''tcp_syn_cookie_fail'', ''tcp_syn_rcvd'', ''tcp_syn_ack_rcvd'',
     ''tcp_ack_rcvd'', ''tcp_fin_rcvd'', ''tcp_rst_rcvd'', ''ingress_bytes'', ''egress_bytes'',
     ''ingress_packets'', ''egress_packets'', ''tcp_fwd_recv'', ''udp_fwd_recv'',
     ''icmp_fwd_recv'', ''dst_over_limit_on'', ''dst_over_limit_off'',
     ''dst_port_over_limit_on'', ''dst_port_over_limit_off'', ''dst_over_limit_action'',
     ''dst_port_over_limit_action'', ''scanning_detected_drop'', ''scanning_detected_blacklist'',
     ''dst_udp_kibit_rate_drop'', ''dst_tcp_kibit_rate_drop'', ''dst_icmp_kibit_rate_drop'',
     ''dst_other_kibit_rate_drop'', ''dst_port_undef_drop'', ''dst_port_bl'',
     ''dst_src_port_bl'', ''dst_tcp_session_created'', ''dst_udp_session_created'',
     ''dst_tcp_filter_action_whitelist'', ''dst_other_filter_match'',
     ''dst_other_filter_not_match'', ''dst_other_filter_action_blacklist'',
     ''dst_other_filter_action_drop'', ''dst_other_filter_action_default_pass'',
     ''dst_other_filter_action_whitelist'', ''dst_blackhole_inject'', ''dst_blackhole_withdraw'',
     ''dst_out_no_route'', ''dst_port_kbit_rate_exceed'', ''dst_tcp_out_of_seq_excd'',
     ''dst_tcp_retransmit_excd'', ''dst_tcp_zero_window_excd'', ''dst_tcp_conn_prate_excd'',
     ''dst_tcp_action_on_ack_init'', ''dst_tcp_action_on_ack_gap_drop'',
     ''dst_tcp_action_on_ack_fail'', ''dst_tcp_action_on_ack_pass'',
     ''dst_tcp_action_on_syn_init'', ''dst_tcp_action_on_syn_gap_drop'',
     ''dst_tcp_action_on_syn_fail'', ''dst_tcp_action_on_syn_pass'', ''dst_udp_min_payload'',
     ''dst_udp_max_payload'', ''dst_udp_conn_prate_excd'', ''dst_udp_ntp_monlist_req'',
     ''dst_udp_ntp_monlist_resp'', ''dst_udp_wellknown_sport_drop'', ''dst_udp_retry_init'',
     ''dst_udp_retry_pass'', ''dst_icmp_any_exceed'', ''dst_other_any_exceed'',
     ''dst_drop_frag_pkt'', ''src_udp_min_payload'', ''src_udp_max_payload'',
     ''src_udp_ntp_monlist_req'', ''src_udp_ntp_monlist_resp'',
     ''src_tcp_action_on_ack_gap_drop'', ''src_tcp_action_on_syn_gap_drop'',
     ''tcp_new_conn_ack_retry_gap_drop'', ''src_tcp_new_conn_ack_retry_gap_drop'',
     ''src_tcp_filter_action_blacklist'', ''src_tcp_filter_action_drop'',
     ''src_tcp_out_of_seq_excd'', ''src_tcp_retransmit_excd'', ''src_tcp_zero_window_excd'',
     ''src_tcp_conn_prate_excd'', ''src_udp_filter_action_blacklist'',
     ''src_dst_udp_filter_action_blacklist'', ''src_udp_filter_action_drop'',
     ''src_dst_udp_filter_action_drop'', ''src_udp_conn_prate_excd'',
     ''src_other_filter_action_blacklist'', ''src_dst_other_filter_action_blacklist'',
     ''src_other_filter_action_drop'', ''src_dst_other_filter_action_drop'',
     ''dst_port_src_over_limit_action'', ''src_tcp_action_on_ack_fail'',
     ''src_tcp_action_on_syn_fail'', ''src_udp_wellknown_sport_drop'',
     ''src_tcp_syn_cookie_fail'', ''src_tcp_action_on_ack_init'', ''src_tcp_action_on_syn_init'',
     ''src_udp_retry_init'', ''tcp_rst_cookie_fail'', ''tcp_unauth_drop'',
     ''src_tcp_rst_cookie_fail'', ''src_tcp_unauth_drop'', ''dst_l4_tcp_blacklist_drop'',
     ''dst_l4_udp_blacklist_drop'', ''dst_l4_icmp_blacklist_drop'',
     ''dst_l4_other_blacklist_drop'', ''src_dst_l4_tcp_blacklist_drop'',
     ''src_dst_l4_udp_blacklist_drop'', ''src_dst_l4_icmp_blacklist_drop'',
     ''src_dst_l4_other_blacklist_drop'', ''src_tcp_auth'', ''dst_fwd_pkt_sent'',
     ''dst_rev_pkt_sent'']"

definition sflow_ddos_ip_counter_l4_ext_t2_v1 :: "string list" where
  "sflow_ddos_ip_counter_l4_ext_t2_v1 = [
     ''dst_fwd_bytes_sent'', ''dst_rev_bytes_sent'', ''tcp_l4_syn_cookie_fail'',
     ''tcp_l4_rst_cookie_fail'', ''tcp_l4_unauth_drop'', ''dst_l4_tcp_auth'',
     ''src_frag_pkt_rate_exceed'', ''src_frag_drop'', ''dst_frag_timeout_drop'',
     ''dst_tcp_invalid_syn'']"

section \<open>Structures of 32-bit counters\<close>

definition sflow_ddos_tcp_basic_counter_dir_v1 :: "string list" where
  "sflow_ddos_tcp_basic_counter_dir_v1 = [
     ''syn'', ''syn_ack'', ''fin'', ''rst'', ''psh'', ''ack'', ''urg'', ''ece'', ''cwr'', ''ns'',
     ''reserved_flag9'', ''reserved_flag10'', ''reserved_flag11'', ''no_flags'', ''option_mss'',
     ''option_wscale'', ''option_sack'', ''option_ts'', ''option_other'']"

definition sflow_ddos_tcp_basic_counters_v1 :: "string list" where
  "sflow_ddos_tcp_basic_counters_v1 =
     map (\<lambda>f. ''rcvd.'' @ f) sflow_ddos_tcp_basic_counter_dir_v1 @
     map (\<lambda>f. ''sent.'' @ f) sflow_ddos_tcp_basic_counter_dir_v1"

text \<open>An element of an array member, as C writes it.\<close>

definition elem_name :: "string \<Rightarrow> nat \<Rightarrow> string" where
  "elem_name a i = a @ ''['' @ show_dec i @ '']''"

definition sflow_ddos_l4_counters_v1 :: "string list" where
  "sflow_ddos_l4_counters_v1 = map (elem_name ''protocol'') [0..<256]"

section \<open>Tables of names\<close>

definition g_l4_protocol_list :: "string list" where
  "g_l4_protocol_list = [
     ''HOPOPT'', ''ICMP'', ''IGMP'', ''GGP'', ''IPv4'', ''ST'', ''TCP'', ''CBT'', ''EGP'',
     ''IGP'', ''BBN-RCC-MON'', ''NVP-II'', ''PUP'', ''ARGUS'', ''EMCON'', ''XNET'', ''CHAOS'',
     ''UDP'', ''MUX'', ''DCN-MEAS'', ''HMP'', ''PRM'', ''XNS-IDP'', ''TRUNK-1'', ''TRUNK-2'',
     ''LEAF-1'', ''LEAF-2'', ''RDP'', ''IRTP'', ''ISO-TP4'', ''NETBLT'', ''MFE-NSP'',
     ''MERIT-INP'', ''DCCP'', ''3PC'', ''IDPR'', ''XTP'', ''DDP'', ''IDPR-CMTP'', ''TP++'',
     ''IL'', ''IPv6'', ''SDRP'', ''IPv6-Route'', ''IPv6-Frag'', ''IDRP'', ''RSVP'', ''GRE'',
     ''DSR'', ''BNA'', ''ESP'', ''AH'', ''I-NLSP'', ''SWIPE'', ''NARP'', ''MOBILE'', ''TLSP'',
     ''SKIP'', ''IPv6-ICMP'', ''IPv6-NoNxt'', ''IPv6-Opts'', ''Any host internal protocol'',
     ''CFTP'', ''Any local network'', ''SAT-EXPAK'', ''KRYPTOLAN'', ''RVD'', ''IPPC'',
     ''Any distributed file system'', ''SAT-MON'', ''VISA'', ''IPCV'', ''CPNX'', ''CPHB'',
     ''WSN'', ''PVP'', ''BR-SAT-MON'', ''SUN-ND'', ''WB-MON'', ''WB-EXPAK'', ''ISO-IP'',
     ''VMTP'', ''SECURE-VMTP'', ''VINES'', ''TTP/IPTM'', ''NSFNET-IGP'', ''DGP'', ''TCF'',
     ''EIGRP'', ''OSPFIGP'', ''Sprite-RPC'', ''LARP'', ''MTP'', ''AX.25'', ''IPIP'', ''MICP'',
     ''SCC-SP'', ''ETHERIP'', ''ENCAP'', ''Any private encryption scheme'', ''GMTP'', ''IFMP'',
     ''PNNI'', ''PIM'', ''ARIS'', ''SCPS'', ''QNX'', ''A/N'', ''IPComp'', ''SNP'',
     ''Compaq-Peer'', ''IPX-in-IP'', ''VRRP'', ''PGM'', ''Any 0-hop protocol'', ''L2TP'',
     ''DDX'', ''IATP'', ''STP'', ''SRP'', ''UTI'', ''SMP'', ''SM'', ''PTP'', ''ISIS over IPv4'',
     ''FIRE'', ''CRTP'', ''CRUDP'', ''SSCOPMCE'', ''IPLT'', ''SPS'', ''PIPE'', ''SCTP'', ''FC'',
     ''RSVP-E2E-IGNORE'', ''Mobility Header'', ''UDPLite'', ''MPLS-in-IP'', ''manet'', ''HIP'',
     ''Shim6'', ''WESP'', ''ROHC'', ''Unassigned-143'', ''Unassigned-144'', ''Unassigned-145'',
     ''Unassigned-146'', ''Unassigned-147'', ''Unassigned-148'', ''Unassigned-149'',
     ''Unassigned-150'', ''Unassigned-151'', ''Unassigned-152'', ''Unassigned-153'',
     ''Unassigned-154'', ''Unassigned-155'', ''Unassigned-156'', ''Unassigned-157'',
     ''Unassigned-158'', ''Unassigned-159'', ''Unassigned-160'', ''Unassigned-161'',
     ''Unassigned-162'', ''Unassigned-163'', ''Unassigned-164'', ''Unassigned-165'',
     ''Unassigned-166'', ''Unassigned-167'', ''Unassigned-168'', ''Unassigned-169'',
     ''Unassigned-170'', ''Unassigned-171'', ''Unassigned-172'', ''Unassigned-173'',
     ''Unassigned-174'', ''Unassigned-175'', ''Unassigned-176'', ''Unassigned-177'',
     ''Unassigned-178'', ''Unassigned-179'', ''Unassigned-180'', ''Unassigned-181'',
     ''Unassigned-182'', ''Unassigned-183'', ''Unassigned-184'', ''Unassigned-185'',
     ''Unassigned-186'', ''Unassigned-187'', ''Unassigned-188'', ''Unassigned-189'',
     ''Unassigned-190'', ''Unassigned-191'', ''Unassigned-192'', ''Unassigned-193'',
     ''Unassigned-194'', ''Unassigned-195'', ''Unassigned-196'', ''Unassigned-197'',
     ''Unassigned-198'', ''Unassigned-199'', ''Unassigned-200'', ''Unassigned-201'',
     ''Unassigned-202'', ''Unassigned-203'', ''Unassigned-204'', ''Unassigned-205'',
     ''Unassigned-206'', ''Unassigned-207'', ''Unassigned-208'', ''Unassigned-209'',
     ''Unassigned-210'', ''Unassigned-211'', ''Unassigned-212'', ''Unassigned-213'',
     ''Unassigned-214'', ''Unassigned-215'', ''Unassigned-216'', ''Unassigned-217'',
     ''Unassigned-218'', ''Unassigned-219'', ''Unassigned-220'', ''Unassigned-221'',
     ''Unassigned-222'', ''Unassigned-223'', ''Unassigned-224'', ''Unassigned-225'',
     ''Unassigned-226'', ''Unassigned-227'', ''Unassigned-228'', ''Unassigned-229'',
     ''Unassigned-230'', ''Unassigned-231'', ''Unassigned-232'', ''Unassigned-233'',
     ''Unassigned-234'', ''Unassigned-235'', ''Unassigned-236'', ''Unassigned-237'',
     ''Unassigned-238'', ''Unassigned-239'', ''Unassigned-240'', ''Unassigned-241'',
     ''Unassigned-242'', ''Unassigned-243'', ''Unassigned-244'', ''Unassigned-245'',
     ''Unassigned-246'', ''Unassigned-247'', ''Unassigned-248'', ''Unassigned-249'',
     ''Unassigned-250'', ''Unassigned-251'', ''Unassigned-252'',
     ''Experimentation and testing-253'', ''Experimentation and testing-254'', ''Reserved-255'']"

definition ddos_proto_str :: "string list" where
  "ddos_proto_str = [''UDP'', ''TCP'', ''ICM'', ''OTH'', ''HTTP'', ''DNST'', ''DNSU'', ''SSL-L4'']"

definition ddos_state_flag :: "string list" where
  "ddos_state_flag = [''-'', ''W'', ''B'', ''?'']"

definition ddos_table_type :: "string list" where
  "ddos_table_type = [''DST table'', ''SRC table'', ''SRC-DST table'']"

definition ddos_ip_type :: "string list" where
  "ddos_ip_type = [''DDOS IPv6'', ''DDOS IPv4'']"

abbreviation DDOS_TOTAL_L4_TYPE_SIZE :: nat where "DDOS_TOTAL_L4_TYPE_SIZE \<equiv> 4"
abbreviation DDOS_TOTAL_APP_TYPE_SIZE :: nat where "DDOS_TOTAL_APP_TYPE_SIZE \<equiv> 7"

end
