(* ===== verification/Ddos.thy ===== *)
theory Ddos
  imports DdosLayout Contracts
begin

text \<open>
  The vendor's counter tables, first part: how a table is read into the structures under
  \<open>sample->ddos\<close> (\<open>populate_sflow_struct_u64\<close> and its kin), how its counters are printed and handed
  to the time-series database, and the readers of the global tables and of the indicator and
  polling records (\<open>sflowtool.c\<close> 4176-4890, 5386-6471). A pointer to a structure is the C path of
  the structure; the number at \<open>sample->ddos.p.f\<close> is \<open>ddos sample ''p.f''\<close>.

  These readers are the only ones that move the cursor without a check, so they satisfy the
  contracts of \<open>unchecked_reader\<close>.
\<close>

section \<open>Unchecked readers\<close>

text \<open>A byte and a 16-bit number, read without a look at the end of the datagram. Nothing calls them.\<close>

definition getChar :: "u8 dec" where
  "getChar = bnd (gets (\<lambda>s. load8 (rawSample s) (datap s))) (\<lambda>c. bnd (advance 1) (\<lambda>_. ret c))"

definition getShort :: "u16 dec" where
  "getShort = bnd (gets (\<lambda>s. load16 (rawSample s) (datap s))) (\<lambda>c. bnd (advance 2) (\<lambda>_. ret (ntohs c)))"

section \<open>Fields of the tables\<close>

definition set_ddos :: "string \<Rightarrow> string \<Rightarrow> u64 \<Rightarrow> unit dec" where
  "set_ddos p f v = alter (\<lambda>x. x\<lparr>ddos := (ddos x)(p @ ''.'' @ f := v)\<rparr>)"

definition fields_of :: "string \<Rightarrow> (string \<Rightarrow> u64) dec" where
  "fields_of p = fetch (\<lambda>x f. ddos x (p @ ''.'' @ f))"

text \<open>The statics the tables add up, by name.\<close>

definition total :: "string \<Rightarrow> u64 dec" where
  "total g = gets (\<lambda>s. totals s g)"

definition set_total :: "string \<Rightarrow> u64 \<Rightarrow> unit dec" where
  "set_total g v = (\<lambda>s. (Inr (), s\<lparr>totals := (totals s)(g := v)\<rparr>))"

text \<open>A run of counters printed with \<open>sf_log_u64\<close> or \<open>sf_log_u32\<close>: field and label.\<close>

definition log_u64s :: "(string \<Rightarrow> u64) \<Rightarrow> (string \<times> string) list \<Rightarrow> unit dec" where
  "log_u64s v fs = block (map (\<lambda>(f, label). sf_log_u64 (v f) label) fs)"

definition log_u32s :: "(string \<Rightarrow> u64) \<Rightarrow> (string \<times> string) list \<Rightarrow> unit dec" where
  "log_u32s v fs = block (map (\<lambda>(f, label). sf_log_u32 (ucast (v f)) label) fs)"

definition sfl_log_ex_string_fmt :: "string \<Rightarrow> string \<Rightarrow> unit dec" where
  "sfl_log_ex_string_fmt data description = printf ''%-35s %s\<newline>'' [AStr description, AStr data]"

text \<open>Records of mixed widths are read field by field: the field, its width and its label.\<close>

datatype item = N16 string string | N32 string string | N64 string string | Text string

fun read_item :: "string \<Rightarrow> item \<Rightarrow> unit dec" where
  "read_item p (N16 f label) = bnd (sf_log_next16 label) (\<lambda>v. set_ddos p f (ucast v))"
| "read_item p (N32 f label) = bnd (sf_log_next32 label) (\<lambda>v. set_ddos p f (ucast v))"
| "read_item p (N64 f label) = bnd (sf_log_next64 label) (\<lambda>v. set_ddos p f v)"
| "read_item p (Text t) = sf_log_string t"

definition read_items :: "string \<Rightarrow> item list \<Rightarrow> unit dec" where
  "read_items p is = block (map (read_item p) is)"

section \<open>The context of a table\<close>

text \<open>\<open>strncpy\<close> with the length of its source copies no terminating zero.\<close>

definition sfl_ddos_description :: "string \<Rightarrow> unit dec" where
  "sfl_ddos_description description =
     alter (\<lambda>x. x\<lparr>sfl_ddos_desc := overwrite (sfl_ddos_desc x) (map of_char description)\<rparr>)"

text \<open>The difference is computed as an \<open>int\<close>, whose overflow is undefined.\<close>

definition sfl_ddos_update_ctx_len :: "u16 \<Rightarrow> unit dec" where
  "sfl_ddos_update_ctx_len len =
     bnd (fetch current_context_length) (\<lambda>cl.
     if ucast len > cl then block [
       sf_log ''[%s-%d] Sample Ctx length Update failed.\<newline>'' [AStr ''sfl_ddos_update_ctx_len'', A32 4188],
       SFABORT SF_ABORT_EOS]
     else if sint cl - uint len < - (2 ^ 31) then fail Undef
     else if sint cl - uint len > 0 then put current_context_length_update (cl - ucast len)
     else block [
       SFABORT SF_ABORT_EOS,
       sf_log ''[%s-%d] Sample Ctx length Update failed.\<newline>'' [AStr ''sfl_ddos_update_ctx_len'', A32 4198]])"

text \<open>
  \<open>populate_sflow_struct_u64(sample, p, sizeof(struct))\<close>, the structure given by its path and its
  fields. The move at the end, past what the structure does not hold, is not checked.
\<close>

definition populate_sflow_struct_u64 :: "string \<Rightarrow> string list \<Rightarrow> unit dec" where
  "populate_sflow_struct_u64 p layout =
     bnd (fetch current_context_length) (\<lambda>cl.
     let parse_length = ucast cl :: u16;
         sfl_length = 8 * of_nat (length layout) :: u16;
         sample_counter_length = parse_length div 8;
         sfl_struct_length = sfl_length div 8;
         iter_length = (if sample_counter_length < sfl_struct_length
                        then sample_counter_length else sfl_struct_length);
         fast_forward_length = (if parse_length > sfl_length then parse_length - sfl_length
                                else sfl_length - parse_length)
     in block [
       only_if (parse_length = 0 \<or> parse_length mod 8 \<noteq> 0) (block [
         sf_log ''[%s-%d] Invalid parse length detected.\<newline>''
           [AStr ''populate_sflow_struct_u64'', A32 4213],
         SFABORT SF_ABORT_EOS]),
       for_from 0 (unat iter_length) (\<lambda>i. bnd getData64 (set_ddos p (layout ! i))),
       only_if (sfl_length < parse_length) (
         bnd (fetch sfl_ddos_desc) (\<lambda>desc. block [
           sf_log ''Counter Length mismatch detected for %s, continuing...\<newline>'' [AStr (cstr desc)],
           advance (uint fast_forward_length)]))])"

definition populate_sflow_struct_u32 :: "string \<Rightarrow> string list \<Rightarrow> unit dec" where
  "populate_sflow_struct_u32 p layout =
     bnd (fetch current_context_length) (\<lambda>cl.
     let parse_length = ucast cl :: u16;
         sfl_length = 4 * of_nat (length layout) :: u16;
         sample_counter_length = parse_length div 4;
         sfl_struct_length = sfl_length div 4;
         iter_length = (if sample_counter_length < sfl_struct_length
                        then sample_counter_length else sfl_struct_length);
         fast_forward_length = (if parse_length > sfl_length then parse_length - sfl_length
                                else sfl_length - parse_length)
     in block [
       only_if (parse_length = 0 \<or> parse_length mod 4 \<noteq> 0) (block [
         sf_log ''[%s-%d] Invalid parse length detected.\<newline>''
           [AStr ''populate_sflow_struct_u32'', A32 4250],
         SFABORT SF_ABORT_EOS]),
       for_from 0 (unat iter_length) (\<lambda>i. bnd getData32 (\<lambda>v. set_ddos p (layout ! i) (ucast v))),
       only_if (sfl_length < parse_length) (
         bnd (fetch sfl_ddos_desc) (\<lambda>desc. block [
           sf_log ''Counter Length mismatch detected for %s, continuing...'' [AStr (cstr desc)],
           advance (uint fast_forward_length)]))])"

section \<open>The time-series database\<close>

text \<open>
  \<open>tsdb_buff\<close> collects lines \<open>put name time value tags\<close>; they are kept as the pieces \<open>sprintf\<close>
  renders. \<open>tbuf\<close> holds the tags, \<open>agent_id\<close> is the agent's address in host order, and handing
  the text to the database client is an event.
\<close>

type_synonym piece = "string \<times> arg list"

definition now64 :: "state \<Rightarrow> u64" where
  "now64 s = ucast (clock s)"

definition agent_id :: "u32 dec" where
  "agent_id = fetch (\<lambda>x. htonl (ip_v4 (agent_addr x)))"

definition num32 :: "u64 \<Rightarrow> arg" where
  "num32 v = A32 (ucast v)"

definition tsdb_put :: "u64 \<Rightarrow> piece \<Rightarrow> string \<Rightarrow> u64 \<Rightarrow> piece list" where
  "tsdb_put tstamp tbuf name v = [(''put '' @ name @ '' %lu %lu '', [A64 tstamp, A64 v]), tbuf]"

definition send_tsdb :: "piece list list \<Rightarrow> unit dec" where
  "send_tsdb tsdb_buff = emit [Tsdb (concat tsdb_buff)]"

section \<open>Global tables\<close>

definition readCounters_DDOS_GENERAL_HTTP_COUNTER :: "unit dec" where
  "readCounters_DDOS_GENERAL_HTTP_COUNTER = block [
     drop_value (sf_log_next32 ''HTTP HEADER_TIMEOUT:''),
     drop_value (sf_log_next32 ''HTTP BODY_TIMEMOUT:''),
     drop_value (sf_log_next32 ''HTTP OFO_TIMEOUT:''),
     drop_value (sf_log_next32 ''HTTP OFO_QUEUE_SIZE_EXCEED:''),
     drop_value (sf_log_next32 ''HTTP LESS_THAN_MSS_EXCEED:''),
     drop_value (sf_log_next32 ''HTTP DDOS_ERROR_CONDITION:''),
     drop_value (sf_log_next32 ''HTTP DDOS_POLICY_VIOLATION:''),
     drop_value (sf_log_next32 ''HTTP DDOS_DST_REQ_RATE_EXCEED:''),
     drop_value (sf_log_next32 ''HTTP DDOS_SRC_REQ_RATE_EXCEED:''),
     drop_value (sf_log_next32 ''HTTP DDOS_HTTP_PROCESSED:''),
     drop_value (sf_log_next32 ''HTTP DDOS_HTTP_POLICY_DROP:''),
     drop_value (sf_log_next32 ''HTTP DDOS_HTTP_NEW_SYN:'')]"

definition DDOS_COUNTER_printed :: "(string \<times> string) list" where
  "DDOS_COUNTER_printed = [
     (''intcp'', ''TCP received:''), (''tcp_est'', ''L4 TCP Established :''),
     (''tcp_outrst'', ''TCP out RST:''), (''tcp_synreceived'', ''TCP SYN received:''),
     (''tcp_syncookiessent'', ''TCP SYN cookie snt:''),
     (''tcp_syncookiessentfailed'', ''TCP SYN cookie snt fail:''),
     (''tcp_syncookiescheckfailed'', ''TCP SYN cookie failed:''),
     (''tcp_syn_rate'', ''TCP SYN rate per sec:''), (''tcp_exceed_drop'', ''TCP drop:''),
     (''src_tcp_exceed_drop'', ''TCP src drop :''),
     (''tcp_exceed_drop_crate_src'', ''TCP src conn rate drop:''),
     (''tcp_exceed_drop_prate_src'', ''TCP src pkt rate drop:''),
     (''tcp_exceed_drop_climit_src'', ''TCP src conn limit drop:''),
     (''tcp_exceed_drop_black_src'', ''TCP src black list drop:''),
     (''tcp_exceed_drop_crate_dst'', ''TCP dst conn rate drop:''),
     (''tcp_exceed_drop_prate_dst'', ''TCP dst pkt rate drop:''),
     (''tcp_exceed_drop_climit_dst'', ''TCP dst conn limit drop:''),
     (''tcp_exceed_drop_black_dst'', ''TCP dst black list drop:''),
     (''tcp_exceed_drop_crate_src_dst'', ''TCP src dst crate drop:''),
     (''tcp_exceed_drop_prate_src_dst'', ''TCP src dst prate drop:''),
     (''tcp_exceed_drop_climit_src_dst'', ''TCP src dst climit drop:''),
     (''tcp_reset_client'', ''Reset TCP client:''),
     (''tcp_reset_server'', ''Reset TCP server:''), (''inudp'', ''UDP received:''),
     (''udp_exceed_drop'', ''UDP drop:''), (''src_udp_exceed_drop'', ''UDP src drop:''),
     (''udp_exceed_drop_crate_src'', ''UDP src conn rate drop:''),
     (''udp_exceed_drop_prate_src'', ''UDP src pkt rate drop:''),
     (''udp_exceed_drop_climit_src'', ''UDP src conn limit drop:''),
     (''udp_exceed_drop_black_src'', ''UDP src black list drop:''),
     (''udp_exceed_drop_crate_dst'', ''UDP dst conn rate drop:''),
     (''udp_exceed_drop_prate_dst'', ''UDP dst pkt rate drop:''),
     (''udp_exceed_drop_climit_dst'', ''UDP dst climit drop:''),
     (''udp_exceed_drop_black_dst'', ''UDP dst black list drop:''),
     (''udp_exceed_drop_crate_src_dst'', ''UDP src dst crate drop:''),
     (''udp_exceed_drop_prate_src_dst'', ''UDP src dst prate drop:''),
     (''udp_exceed_drop_climit_src_dst'', ''UDP src dst conn limit drop:''),
     (''instateless'', ''Stateless packets:''), (''ip_outnoroute'', ''IP out noroute:''),
     (''other_exceed_drop'', ''Other proto drop:''),
     (''src_other_exceed_drop'', ''Other src drop:''), (''l2_dsr'', ''TCP SYN cookie pass:''),
     (''dst_learn'', ''Dest entry learned:''), (''src_learn'', ''Src entry learn :''),
     (''src_hit'', ''Src entry hit:''), (''dst_hit'', ''Dest entry hit:''),
     (''inicmp'', ''ICMP received:''), (''icmp_exceed_drop'', ''ICMP drop:''),
     (''src_icmp_exceed_drop'', ''ICMP src drop:''),
     (''icmp_exceed_drop_prate_dst'', ''ICMP pkt rate exceed drop:''),
     (''dns_malform_drop'', ''DNS malform drop :''),
     (''dns_qry_any_drop'', ''DNS query any drop:''), (''sync_src_wl_sent'', ''Sync src sent:''),
     (''sync_src_dst_wl_sent'', ''Sync src dst sent:''),
     (''sync_dst_wl_sent'', ''Sync dst sent:''), (''sync_src_wl_rcv'', ''Sync src rcv:''),
     (''sync_src_dst_wl_rcv'', ''Sync src dst rcv:''), (''sync_dst_wl_rcv'', ''Sync dst rcv:''),
     (''sync_wl_no_dst_drop'', ''Sync WL No dst drop:''), (''ip_rcvd'', ''IPv4 rcv:''),
     (''ipv6_rcvd'', ''IPv6 rcv:''), (''ip_sent'', ''IPv4 sent:''),
     (''ipv6_sent'', ''IPv6 sent:''), (''inother'', ''OTHER received:''),
     (''ip_tunnel_rcvd'', ''IPv4 tunnel rcv:''), (''ipv6_tunnel_rcvd'', ''IPv6 tunnel rcv:''),
     (''ip_tunnel_encap'', ''IPv4 tunnel encap:''),
     (''ip_tunnel_decap'', ''IPv4 tunnel decap:''),
     (''ip_tunnel_fail_encap_rcvd'', ''IPv4 tun fail encap rcv:''),
     (''ip_tunnel_rate'', ''IPv4 tunnel rate:''), (''gre_tunnel_encap'', ''GRE tunnel encap:''),
     (''gre_tunnel_fail_encap_rcvd'', ''GRE tun fail encap rcv:''),
     (''gre_tunnel_decap'', ''GRE tunnel decap:''), (''gre_tunnel_rate'', ''GRE tunnel rate:''),
     (''gre_tunnel_encap_key'', ''GRE tunnel encap w/ key:''),
     (''gre_tunnel_decap_key'', ''GRE tunnel decap w/ key:''),
     (''gre_tunnel_decap_drop_no_key'', ''GRE tun decap drp key mismatch:''),
     (''gre_v6_tunnel_rcvd'', ''GRE v6 tunnel rcv:''),
     (''gre_v6_tunnel_fail_encap_rcvd'', ''GRE v6 tun fail encap rcv :''),
     (''gre_v6_tunnel_decap'', ''GRE v6 tunnel decap:''),
     (''gre_v6_tunnel_rate'', ''GRE v6 tunnel rate:''), (''dst_port_deny'', ''Dest port deny:''),
     (''dst_port_undef_drop'', ''Dest port undef drop:''),
     (''dst_port_bl'', ''Dest port black list:''),
     (''dst_port_pkt_rate_exceed'', ''Dest port pkt rate excd :''),
     (''dst_port_conn_limm_exceed'', ''Dest port conn lim excd:''),
     (''dst_port_conn_rate_exceed'', ''Dest port conn rate excd:''),
     (''dst_sport_bl'', ''Dest sport BL:''),
     (''dst_sport_pkt_rate_exceed'', ''Dest sport pkt rate excd:''),
     (''dst_sport_conn_limm_exceed'', ''Dest sport conn lim excd:''),
     (''dst_sport_conn_rate_exceed'', ''Dest sport conn rate excd:''),
     (''tcp_ack_no_syn'', ''TCP ACK no SYN:''), (''tcp_out_of_order'', ''TCP out of order:''),
     (''tcp_zero_window'', ''TCP zero window:''), (''tcp_retransmit'', ''TCP rexmit:''),
     (''tcp_action_on_ack_drop'', ''TCP action-on-ack drop:''),
     (''tcp_action_on_ack_matched'', ''TCP action-on-ack matched:''),
     (''tcp_action_on_ack_timeout'', ''TCP action-on-ack timeout :''),
     (''tcp_action_on_ack_reset'', ''TCP action-on-ack reset''),
     (''src_entry_aged'', ''Src entry aged:''), (''dst_entry_aged'', ''Dest entry aged:''),
     (''zero_wind_fail_bl'', ''Zero win Fail BL:''),
     (''out_of_seq_fail_bl'', ''Out of seq Fail BL:''),
     (''tcp_retransmit_fail_bl'', ''TCP re-xmit Fail BL:''),
     (''tcp_action_on_ack_passed'', ''TCP action-on-ack passed:''),
     (''syn_authn_skipped'', ''TCP SYN auth skipped:''),
     (''syn_cookie_fail_bl'', ''TCP SYN cookie failed BL:''), (''udp_learn'', ''UDP learn:''),
     (''icmp_learn'', ''ICMP learn:''), (''udp_pass'', ''UDP passed:''),
     (''dns_auth_pass'', ''DNS auth passed:''),
     (''src_dst_other_frag_exceed_drop'', ''Src-Dest frag exc drop:''),
     (''src_other_frag_exceed_drop'', ''Src frag exc drop:''),
     (''dst_other_frag_exceed_drop'', ''Dest frag exc drop:''),
     (''over_conn_limit_tcp_syn_auth'', ''TCP over policy auth:''),
     (''over_conn_limit_tcp_port_syn_auth'', ''TCP port over policy auth :''),
     (''max_rexmit_syn_drop'', ''Re-xmit SYN excd drop:''),
     (''max_rexmit_syn_bl'', ''Re-xmit SYN excd bl:''),
     (''wellknown_port_drop'', ''Wellknown port drop:''),
     (''ntp_monlist_req_drop'', ''NTP monlist req drop:''),
     (''ntp_monlist_resp_drop'', ''NTP monlist resp drop:''),
     (''udp_payload_too_big_drop'', ''UDP payload too big drop''),
     (''udp_payload_too_small_drop'', ''UDP payload too small drop''),
     (''tcp_bl_drop_user_config'', ''TCP Src BL Deny User Cfg:''),
     (''udp_bl_drop_user_config'', ''UDP Src BL Deny User Cfg:''),
     (''icmp_bl_drop_user_config'', ''ICMP Src BL Deny User Cfg:''),
     (''other_bl_drop_user_config'', ''Other Src BL Deny User Cfg:''),
     (''over_conn_limit_tcp_syn_cookie'', ''TCP over policy SYN cookie :''),
     (''over_conn_limit_tcp_port_syn_cookie'', ''TCP port over policy cookie :''),
     (''dst_ipproto_pkt_rate_exceed'', ''Dest IP protcol pkt rate excd:''),
     (''tcp_action_on_ack_failed'', ''Action on ACK Failed:''),
     (''udp_exceed_drop_conn_prate_dst'', ''UDP conn dst prate drop:''),
     (''tcp_exceed_drop_conn_prate_dst'', ''TCP conn dst prate drop:''),
     (''dns_tcp_auth_pass'', ''DNS TCP Auth Passed:'')]"

definition readCounters_DDOS_COUNTER :: "unit dec" where
  "readCounters_DDOS_COUNTER =
     bnd (populate_sflow_struct_u64 ''l4'' sflow_ddos_l4_global_counters_v1) (\<lambda>_.
     bnd (fields_of ''l4'') (\<lambda>global_l4_t1.
     log_u64s global_l4_t1 DDOS_COUNTER_printed))"

definition DDOS_HTTP_COUNTER_printed :: "(string \<times> string) list" where
  "DDOS_HTTP_COUNTER_printed = [
     (''ofo_timer_expired'', ''OFO Timer Expired:''), (''partial_hdr'', ''Partial Header:''),
     (''ofo'', ''Out of Order Packets:''), (''retrans_fin'', ''TCP FIN Retransmit:''),
     (''retrans_rst'', ''TCP RST Retransmit:''), (''retrans_push'', ''TCP PSH Retransmit:''),
     (''retrans'', ''TCP Retransmit:''), (''chunk_bad'', ''Bad HTTP Chunk:''),
     (''chunk_sz_512'', ''Payload chunk size < 512:''),
     (''chunk_sz_1k'', ''Payload chunk size < 1K:''),
     (''chunk_sz_2k'', ''Payload chunk size < 2K:''),
     (''chunk_sz_4k'', ''Payload chunk size < 4K:''),
     (''chunk_sz_gt_4k'', ''Payload chunk size > 4K:''),
     (''neg_rsp_remain'', ''Negative response remain:''),
     (''too_many_headers'', ''Too many HTTP Headers:''),
     (''header_name_too_long'', ''HTTP Header Name too long:''),
     (''http11'', ''Request HTTP 1.1:''), (''http10'', ''Request HTTP 1.0:''),
     (''get'', ''Request method GET:''), (''head'', ''Request method HEAD:''),
     (''put'', ''Request method PUT:''), (''post'', ''Request method POST:''),
     (''trace'', ''Request method TRACE:''), (''options'', ''Request method OPTIONS:''),
     (''connect'', ''Request method CONNECT:''), (''del'', ''Request method DELETE:''),
     (''unknown'', ''Request method UNKNOWN:''), (''line_too_long'', ''Line too long:''),
     (''req_content_len'', ''Request Content-Length:''), (''rsp_chunk'', ''Response Chunk:''),
     (''parsereq_fail'', ''Parse request failure:''), (''request'', ''Request:''),
     (''neg_req_remain'', ''Negative request remain:''),
     (''client_rst'', ''Client TCP RST recv:''), (''req_retrans'', ''Request retransmit:''),
     (''req_ofo'', ''Request OFO:''), (''invalid_header'', ''Invalid HTTP Header:''),
     (''ddos_policy_violation'', ''Policy violation:''),
     (''lower_than_mss_exceed'', ''Fail min payload exceeded:''),
     (''dst_req_rate_exceed'', ''Dst request rate exceeded:''),
     (''src_req_rate_exceed'', ''Src request rate exceeded:''),
     (''req_processed'', ''Packets processed:''), (''new_syn'', ''TCP SYN:''),
     (''policy_drop'', ''Policy Drop:''), (''error_condition'', ''Error condition:''),
     (''ofo_queue_exceed'', ''OFO queue exceeded:''), (''alloc_fail'', ''Alloc Failed:''),
     (''alloc_hdr_fail'', ''Alloc header Failed:''),
     (''invalid_hdr_name'', ''Invalid HTTP header Name:''),
     (''invalid_hdr_val'', ''Invalid HTTP header Value:''),
     (''challenge_ud_fail'', ''Challenge URL redirect Fail:''),
     (''challenge_js_fail'', ''Challenge javascript Fail:''),
     (''challenge_fail'', ''challenge fail:''),
     (''challenge_js_sent'', ''Challenge javascript Sent:''),
     (''challenge_ud_sent'', ''Challenge URL redirect Sent:''),
     (''malform_bad_chunk'', ''Malform bad Chunk:''),
     (''malform_content_len_too_long'', ''Malform content len too long:''),
     (''malform_too_many_headers'', ''Malform too many headers:''),
     (''malform_header_name_too_long'', ''Malform header name too long:''),
     (''malform_line_too_long'', ''Malform line too long:''),
     (''malform_req_line_too_long'', ''Malform req line too long:''),
     (''window_small'', ''Window size small:''),
     (''window_small_drop'', ''Window size small Drop:''),
     (''use_hdr_ip_as_source'', ''Use ip in hdr as src:''),
     (''agent_filter_match'', ''Agent filter matched :''),
     (''agent_filter_blacklist'', ''Agent filter blacklisted:''),
     (''referer_filter_match'', ''Referer filter matched:''),
     (''referer_filter_blacklist'', ''Referer filter blacklisted:''),
     (''http_idle_timeout'', ''HTTP Idle Timeout:''), (''hps_rsp_10'', ''Response HTTP 1.0:''),
     (''hps_rsp_11'', ''Response HTTP 1.1:''),
     (''hps_req_sz_1k'', ''Request payload Size < 1K:''),
     (''hps_req_sz_2k'', ''Request payload Size < 2K:''),
     (''hps_req_sz_4k'', ''Request payload Size < 4K:''),
     (''hps_req_sz_8k'', ''Request payload Size < 8K:''),
     (''hps_req_sz_16k'', ''Request payload Size < 16K:''),
     (''hps_req_sz_32k'', ''Request payload Size < 32K:''),
     (''hps_req_sz_64k'', ''Request payload Size < 64K:''),
     (''hps_req_sz_256k'', ''Request payload Size < 256K:''),
     (''hps_req_sz_256k_plus'', ''Request payload Size > 256K:''),
     (''hps_rsp_sz_1k'', ''Response payload Size < 1K:''),
     (''hps_rsp_sz_2k'', ''Response payload Size < 2K:''),
     (''hps_rsp_sz_4k'', ''Response payload Size < 4K:''),
     (''hps_rsp_sz_8k'', ''Response payload Size < 8K:''),
     (''hps_rsp_sz_16k'', ''Response payload Size < 16K:''),
     (''hps_rsp_sz_32k'', ''Response payload Size < 32K:''),
     (''hps_rsp_sz_64k'', ''Response payload Size < 64K:''),
     (''hps_rsp_sz_256k'', ''Response payload Size < 256K:''),
     (''hps_rsp_sz_256k_plus'', ''Response payload Size > 256K:''),
     (''hps_rsp_status_1xx'', ''Status code 1XX:''),
     (''hps_rsp_status_2xx'', ''Status code 2XX:''),
     (''hps_rsp_status_3xx'', ''Status code 3XX:''),
     (''hps_rsp_status_4xx'', ''Status code 4XX:''),
     (''hps_rsp_status_5xx'', ''Status code 5XX:''),
     (''hps_rsp_status_504_AX'', ''Status code 504 AX-gen:''),
     (''hps_rsp_status_6xx'', ''Status code 6XX:''),
     (''hps_rsp_status_unknown'', ''Status code unknown:''),
     (''header_processing_time_0'', ''Header processing time < 1s:''),
     (''header_processing_time_1'', ''Header processing time < 10s:''),
     (''header_processing_time_2'', ''Header processing time < 30s:''),
     (''header_processing_time_3'', ''Header processing time >= 30s:''),
     (''header_processing_incomplete'', ''Header processing incomplete:''),
     (''hps_server_rst'', ''Server TCP RST recv:''),
     (''filter_hdr_match'', ''Dst Filter Hdr Match:''),
     (''filter_hdr_not_match'', ''Dst Filter Hdr Not Match:''),
     (''filter_hdr_action_blacklist'', ''Dst Filter Hdr Action BL:''),
     (''filter_hdr_action_drop'', ''Dst Filter Hdr Action Drop:''),
     (''filter_hdr_action_default_pass'', ''Dst Filter Hdr Action Default Pass:''),
     (''dst_post_rate_exceed'', ''Dst post rate exceeded:''),
     (''src_post_rate_exceed'', ''Src post rate exceeded:''),
     (''dst_resp_rate_exceed'', ''Dst resp rate exceeded:''),
     (''filter_hdr_action_whitelist'', ''Dst Filter Hdr Action WL:''),
     (''src_filter_hdr_match'', ''Src Filter Hdr Match:''),
     (''src_filter_hdr_not_match'', ''Src Filter Hdr Not Match:''),
     (''src_filter_hdr_action_blacklist'', ''Src Filter Hdr Action BL:''),
     (''src_filter_hdr_action_drop'', ''Src Filter Hdr Action Drop:''),
     (''src_filter_hdr_action_default_pass'', ''Src Filter Hdr Action Default Pass:''),
     (''src_filter_hdr_action_whitelist'', ''Src Filter Hdr Action WL:''),
     (''src_dst_filter_hdr_match'', ''SrcDst Filter Hdr Match:''),
     (''src_dst_filter_hdr_not_match'', ''SrcDst Filter Hdr Not Match:''),
     (''src_dst_filter_hdr_action_blacklist'', ''SrcDst Filter Hdr Action BL:''),
     (''src_dst_filter_hdr_action_drop'', ''SrcDst Filter Hdr Action Drop:''),
     (''src_dst_filter_hdr_action_default_pass'', ''SrcDst Filter Hdr Action Default Pass:''),
     (''src_dst_filter_hdr_action_whitelist'', ''SrcDst Filter Hdr Action WL:'')]"

definition readCounters_DDOS_HTTP_COUNTER :: "string \<Rightarrow> unit dec" where
  "readCounters_DDOS_HTTP_COUNTER http =
     bnd (gets now64) (\<lambda>now.
     bnd agent_id (\<lambda>agent.
     bnd (populate_sflow_struct_u64 http sflow_ddos_http_ext_counters_v1) (\<lambda>_.
     bnd (fields_of http) (\<lambda>http.
     (let tbuf = (''agent=%08x\<newline>'', [A32 agent])
     in block [
     send_tsdb [
       tsdb_put now tbuf ''global_http_other_drop'' (http ''ddos_policy_violation'' + http ''challenge_ud_sent'' + http ''challenge_js_sent'')],
     log_u64s http DDOS_HTTP_COUNTER_printed])))))"

definition DDOS_FPGA_ANOMALY_COUNTER_printed :: "(string \<times> string) list" where
  "DDOS_FPGA_ANOMALY_COUNTER_printed = [
     (''land_attack_drop'', ''Land attack Drop:''), (''empty_frag_drop'', ''Empty frag Drop:''),
     (''micro_frag_drop'', ''Micro frag Drop:''), (''ipv4_opt_drop'', ''IPv4 opt Drop:''),
     (''ip_frag_drop'', ''IP Frag Drop:''), (''bad_ip_hdr_len_drop'', ''Bad IP hdr len Drop:''),
     (''bad_ip_flags_drop'', ''Bad IP Flags Drop:''),
     (''bad_ip_ttl_drop'', ''Bad IP TTL Drop:''),
     (''no_ip_payload_drop'', ''No IP payload Drop:''),
     (''oversize_ip_pl_drop'', ''Oversize IP payload Drop:''),
     (''bad_ip_pl_len_drop'', ''Bad IP payload length Drop:''),
     (''bad_ip_frag_off_drop'', ''Bad IP frag offset Drop:''),
     (''bad_ip_csum_drop'', ''Bad IP Checksum Drop:''),
     (''icmp_pod_drop'', ''ICMP ping of death Drop:''),
     (''tcp_bad_urg_off_drop'', ''TCP Bad urg off Drop:''),
     (''tcp_short_hdr_drop'', ''TCP short hdr Drop:''),
     (''tcp_bad_ip_len_drop'', ''TCP bad IP len Drop:''),
     (''tcp_null_flags_drop'', ''TCP NULL Flags Drop:''),
     (''tcp_null_scan_drop'', ''TCP NULL scan Drop:''),
     (''tcp_syn_and_fin_drop'', ''TCP SYN and FIN Drop:''),
     (''tcp_xmas_flags_drop'', ''TCP XMAS flags Drop:''),
     (''tcp_xmas_scan_drop'', ''TCP XMAS scan Drop:''),
     (''tcp_syn_frag_drop'', ''TCP SYN Frag Drop:''),
     (''tcp_frag_header_drop'', ''TCP Frag header Drop:''),
     (''tcp_bad_csum_drop'', ''TCP bad csum Drop:''),
     (''udp_short_hdr_drop'', ''UDP short hdr Drop:''),
     (''udp_bad_leng_drop'', ''UDP bad length Drop:''),
     (''udp_kb_frag_drop'', ''UDP kerberos Frag Drop:''),
     (''udp_port_lb_drop'', ''UDP port LB Drop:''),
     (''udp_bad_csum_drop'', ''UDP bad checksum Drop:''),
     (''runt_ip_hdr_drop'', ''Runt IP header Drop:''),
     (''runt_tcpudp_hdr_drop'', ''Runt TCP/UDP header Drop:''),
     (''tun_mismatch_drop'', ''Tun mismatch Drop:''),
     (''tcp_opt_err'', ''TCP OPTIONS error Drop:'')]"

definition readCounters_DDOS_FPGA_ANOMALY_COUNTER :: "unit dec" where
  "readCounters_DDOS_FPGA_ANOMALY_COUNTER =
     bnd (gets now64) (\<lambda>now.
     bnd agent_id (\<lambda>agent.
     bnd (populate_sflow_struct_u64 ''anomaly'' sflow_ddos_fpga_anomaly_drop_counters_v1) (\<lambda>_.
     bnd (fields_of ''anomaly'') (\<lambda>anomaly_t1.
     (let tbuf = (''agent=%08x\<newline>'', [A32 agent]);
         packet_anomaly_dropped = anomaly_t1 ''land_attack_drop'' + anomaly_t1 ''empty_frag_drop'' +
           anomaly_t1 ''micro_frag_drop'' + anomaly_t1 ''ipv4_opt_drop'' +
           anomaly_t1 ''ip_frag_drop'' + anomaly_t1 ''bad_ip_hdr_len_drop'' +
           anomaly_t1 ''bad_ip_flags_drop'' + anomaly_t1 ''bad_ip_ttl_drop'' +
           anomaly_t1 ''no_ip_payload_drop'' + anomaly_t1 ''oversize_ip_pl_drop'' +
           anomaly_t1 ''bad_ip_pl_len_drop'' + anomaly_t1 ''bad_ip_frag_off_drop'' +
           anomaly_t1 ''bad_ip_csum_drop'' + anomaly_t1 ''icmp_pod_drop'' +
           anomaly_t1 ''tcp_bad_urg_off_drop'' + anomaly_t1 ''tcp_short_hdr_drop'' +
           anomaly_t1 ''tcp_bad_ip_len_drop'' + anomaly_t1 ''tcp_null_flags_drop'' +
           anomaly_t1 ''tcp_null_scan_drop'' + anomaly_t1 ''tcp_syn_and_fin_drop'' +
           anomaly_t1 ''tcp_xmas_flags_drop'' + anomaly_t1 ''tcp_xmas_scan_drop'' +
           anomaly_t1 ''tcp_syn_frag_drop'' + anomaly_t1 ''tcp_frag_header_drop'' +
           anomaly_t1 ''tcp_bad_csum_drop'' + anomaly_t1 ''udp_short_hdr_drop'' +
           anomaly_t1 ''udp_bad_leng_drop'' + anomaly_t1 ''udp_kb_frag_drop'' +
           anomaly_t1 ''udp_port_lb_drop'' + anomaly_t1 ''udp_bad_csum_drop'' +
           anomaly_t1 ''runt_ip_hdr_drop'' + anomaly_t1 ''runt_tcpudp_hdr_drop'' +
           anomaly_t1 ''tun_mismatch_drop'' + anomaly_t1 ''tcp_opt_err''
     in block [
     set_total ''packet_anomaly_dropped'' packet_anomaly_dropped,
     send_tsdb [
       tsdb_put now tbuf ''packet_anomaly_dropped'' packet_anomaly_dropped],
     log_u64s anomaly_t1 DDOS_FPGA_ANOMALY_COUNTER_printed])))))"

definition DDOS_POLLING_PACKETS_printed :: "(string \<times> string) list" where
  "DDOS_POLLING_PACKETS_printed = [
     (''ingress_bytes'', ''Ingress bytes:''), (''egress_bytes'', ''Egress bytes:''),
     (''packets_dropped_by_countermeasures'', ''Packets dropped by countermeasures:''),
     (''total_ingress_packets'', ''Total ingress packets:''),
     (''total_egress_packets'', ''Total egress packets:'')]"

definition readCounters_DDOS_POLLING_PACKETS :: "unit dec" where
  "readCounters_DDOS_POLLING_PACKETS =
     bnd (populate_sflow_struct_u64 ''polling_packets'' sflow_ddos_packet_counters_v1) (\<lambda>_.
     bnd (fields_of ''polling_packets'') (\<lambda>packets.
     log_u64s packets DDOS_POLLING_PACKETS_printed))"

definition DDOS_DNS_COUNTER_printed :: "(string \<times> string) list" where
  "DDOS_DNS_COUNTER_printed = [
     (''force_tcp_auth'', ''Force TCP auth:''), (''dns_auth_udp'', ''DNS Auth UDP:''),
     (''dns_malform_drop'', ''DNS malform query Drop:''),
     (''dns_qry_any_drop'', ''DNS query ANY Drop:''),
     (''dst_rate_limit0'', ''Dest rate 0 Drop:''), (''dst_rate_limit1'', ''Dest rate 1 Drop:''),
     (''dst_rate_limit2'', ''Dest rate 2 Drop:''), (''dst_rate_limit3'', ''Dest rate 3 Drop:''),
     (''dst_rate_limit4'', ''Dest rate 4 Drop:''), (''src_rate_limit0'', ''Src rate 0 Drop:''),
     (''src_rate_limit1'', ''Src rate 1 Drop''), (''src_rate_limit2'', ''Src rate 2 Drop:''),
     (''src_rate_limit3'', ''Src rate 3 Drop:''), (''src_rate_limit4'', ''Src rate 4 Drop:''),
     (''dns_auth_udp_pass'', ''DNS Auth UDP Pass:''),
     (''dns_nx_bl'', ''NXDOMAIN query black-list:''),
     (''dns_nx_drop'', ''NXDOMAIN query drop:''),
     (''dns_fqdn_stage2_exceed'', ''FQDN stage-II Rate exceed/Src Drop:''),
     (''dns_is_nx'', ''Response is NXDOMAIN:''),
     (''dns_fqdn_label_len_exceed'', ''FQDN Label Length Exceed''),
     (''dns_pkt_processed'', ''DNS Packets Processed''),
     (''dns_query_type_a'', ''DNS Query type A''),
     (''dns_query_type_aaaa'', ''DNS Query type AAAA''),
     (''dns_query_type_ns'', ''DNS Query type NS''),
     (''dns_query_type_cname'', ''DNS Query type CNAME''),
     (''dns_query_type_any'', ''DNS Query type ANY''),
     (''dns_query_type_srv'', ''DNS Query type SRV''),
     (''dns_query_type_mx'', ''DNS Query type MX''),
     (''dns_query_type_soa'', ''DNS Query type SOA''),
     (''dns_query_type_opt'', ''DNS Query type OPT''),
     (''dns_tcp_auth_pass'', ''DNS TCP Auth Pass:''),
     (''dns_auth_udp_fail'', ''DNS Auth UDP Fail:''),
     (''dns_auth_udp_timeout'', ''DNS Auth UDP Timeout:'')]"

definition readCounters_DDOS_DNS_COUNTER :: "unit dec" where
  "readCounters_DDOS_DNS_COUNTER =
     bnd (gets now64) (\<lambda>now.
     bnd agent_id (\<lambda>agent.
     bnd (populate_sflow_struct_u64 ''dns'' sflow_ddos_dns_stats_v1) (\<lambda>_.
     bnd (fields_of ''dns'') (\<lambda>dns_t1.
     (let tbuf = (''agent=%08x\<newline>'', [A32 agent])
     in block [
     send_tsdb [
       tsdb_put now tbuf ''global_force_tcp_auth'' (dns_t1 ''force_tcp_auth'')],
     log_u64s dns_t1 DDOS_DNS_COUNTER_printed])))))"

definition DDOS_SSL_L4_COUNTER_printed :: "(string \<times> string) list" where
  "DDOS_SSL_L4_COUNTER_printed = [
     (''ssll4_policy_reset'', ''Policy Reset:''), (''ssll4_policy_drop'', ''Policy Drop:''),
     (''ssll4_drop_packet'', ''Pkt Drop:''), (''ssll4_er_condition'', ''Error Condition:''),
     (''ssll4_processed'', ''Process:''), (''ssll4_new_syn'', ''New TCP SYN:''),
     (''ssll4_is_ssl3'', ''SSL v3:''), (''ssll4_is_tls1_1'', ''TLS v1.0:''),
     (''ssll4_is_tls1_2'', ''TLS v1.1:''), (''ssll4_is_tls1_3'', ''TLS v1.2:''),
     (''ssll4_is_renegotiation'', ''SSL Renegotiation:''),
     (''ssll4_renegotiation_exceed'', ''Renegotiation Excd:''),
     (''ssll4_is_dst_req_rate_exceed'', ''Dst Rate Excd Drop:''),
     (''ssll4_is_src_req_rate_exceed'', ''Src Rate Excd Drop:''),
     (''ssll4_do_auth_handshake'', ''Do Auth Handshake:''),
     (''ssll4_reset_for_handshake'', ''Reset While Others in HS:''),
     (''ssll4_handshake_timeout'', ''Auth handshake timeout:''),
     (''ssll4_auth_handshake_ok'', ''Auth handskake success:''),
     (''ssll4_auth_handshake_bl'', ''Auth handskake blacklisted:'')]"

definition readCounters_DDOS_SSL_L4_COUNTER :: "unit dec" where
  "readCounters_DDOS_SSL_L4_COUNTER =
     bnd (gets now64) (\<lambda>now.
     bnd agent_id (\<lambda>agent.
     bnd (populate_sflow_struct_u64 ''ssl_l4'' sflow_ddos_ssl_l4_stats_v1) (\<lambda>_.
     bnd (fields_of ''ssl_l4'') (\<lambda>ssl_l4_t1.
     (let tbuf = (''agent=%08x\<newline>'', [A32 agent])
     in block [
     send_tsdb [
       tsdb_put now tbuf ''global_ssl_drop'' (ssl_l4_t1 ''ssll4_policy_reset'' + ssl_l4_t1 ''ssll4_drop_packet'')],
     log_u64s ssl_l4_t1 DDOS_SSL_L4_COUNTER_printed])))))"

definition DDOS_L4_TCP_COUNTER_printed :: "(string \<times> string) list" where
  "DDOS_L4_TCP_COUNTER_printed = [
     (''tcp_sess_create'', ''TCP Session Create:''), (''intcp'', ''TCP Rcv:''),
     (''tcp_syn_rcvd'', ''TCP SYN Rcv:''), (''tcp_invalid_syn_rcvd'', ''TCP Invalid SYN Rcv:''),
     (''tcp_syn_ack_rcvd'', ''TCP SYN ACK Rcv:''), (''tcp_ack_rcvd'', ''TCP ACK Rcv:''),
     (''tcp_fin_rcvd'', ''TCP FIN Rcv:''), (''tcp_rst_rcvd'', ''TCP RST Rcv:''),
     (''tcp_outrst'', ''TCP Out RST:''), (''tcp_reset_client'', ''TCP Reset Client:''),
     (''tcp_reset_server'', ''TCP Reset Server:''),
     (''tcp_syn_rate'', ''TCP SYN Rate Per Sec:''), (''tcp_total_drop'', ''TCP Total Drop:''),
     (''tcp_drop_dst'', ''TCP Dst Drop:''),
     (''tcp_exceed_drop_any_dst'', ''TCP Dst Excd Drop:''),
     (''tcp_exceed_drop_prate_dst'', ''TCP Dst Pkt Rate Drop:''),
     (''tcp_exceed_drop_crate_dst'', ''TCP Dst Conn Rate Drop:''),
     (''tcp_exceed_drop_climit_dst'', ''TCP Dst Conn Limit Drop:''),
     (''tcp_drop_black_dst'', ''TCP Dst BL Drop:''), (''tcp_drop_src'', ''TCP Src Drop:''),
     (''tcp_exceed_drop_any_src'', ''TCP Src Excd Drop:''),
     (''tcp_exceed_drop_prate_src'', ''TCP Src Pkt Rate Drop:''),
     (''tcp_exceed_drop_crate_src'', ''TCP Src Conn Rate Drop:''),
     (''tcp_exceed_drop_climit_src'', ''TCP Src Conn Limit Drop:''),
     (''tcp_drop_black_src'', ''TCP Src BL Drop:''),
     (''tcp_drop_black_user_cfg_src'', ''TCP Src BL User Drop:''),
     (''tcp_drop_src_dst'', ''TCP SrcDst Drop:''),
     (''tcp_exceed_drop_any_src_dst'', ''TCP SrcDst Excd Drop:''),
     (''tcp_exceed_drop_prate_src_dst'', ''TCP SrcDst Pkt Rate Drop:''),
     (''tcp_exceed_drop_crate_src_dst'', ''TCP SrcDst Conn Rate Drop:''),
     (''tcp_exceed_drop_climit_src_dst'', ''TCP SrcDst Conn Limit Drop:''),
     (''tcp_drop_black_src_dst'', ''TCP SrcDst BL Drop:''),
     (''tcp_drop_black_user_cfg_src_dst'', ''TCP SrcDst BL User Drop:''),
     (''tcp_port_zero_drop'', ''TCP Port Zero Drop:''),
     (''tcp_syncookie_sent'', ''TCP SYN Cookie Sent:''),
     (''tcp_syncookie_sent_fail'', ''TCP SYN Cookie Sent Fail:''),
     (''tcp_syncookie_check_fail'', ''TCP SYN Cookie Check Fail:''),
     (''tcp_syncookie_hw_missing'', ''TCP SYN Cookie HW Miss:''),
     (''tcp_syncookie_fail_bl'', ''TCP SYN Cookie BL Fail:''),
     (''tcp_syncookie_pass'', ''TCP SYN Cookie Pass:''),
     (''syn_auth_pass'', ''TCP SYN Auth Pass:''), (''syn_auth_skip'', ''TCP SYN Auth Skip:''),
     (''over_conn_limit_tcp_syn_auth'', ''TCP SYN Auth Limit Excd:''),
     (''over_conn_limit_tcp_syn_cookie'', ''TCP SYN Cookie Limit Excd:''),
     (''over_conn_limit_tcp_port_syn_auth'', ''TCP Port SYN Auth Limit Excd:''),
     (''over_conn_limit_tcp_port_syn_cookie'', ''TCP Port SYN Cookie Limit Excd:''),
     (''tcp_action_on_ack_start'', ''TCP Action-On-Ack Init:''),
     (''tcp_action_on_ack_matched'', ''TCP Action-On-Ack Match:''),
     (''tcp_action_on_ack_passed'', ''TCP Action-On-Ack Pass:''),
     (''tcp_action_on_ack_failed'', ''TCP Action-On-Ack Fail:''),
     (''tcp_action_on_ack_timeout'', ''TCP Action-On-Ack Timeout:''),
     (''tcp_action_on_ack_reset'', ''TCP Action-On-Ack Reset:''),
     (''tcp_ack_no_syn'', ''TCP ACK No SYN:''), (''tcp_out_of_order'', ''TCP Out-Of-Seq:''),
     (''tcp_zero_window'', ''TCP Zero Window:''), (''tcp_retransmit'', ''TCP ReXmit:''),
     (''tcp_rexmit_syn_limit_drop'', ''TCP Rexmit SYN Excd Drop:''),
     (''tcp_zero_wind_bl'', ''TCP Zero Window BL:''),
     (''tcp_out_of_seq_bl'', ''TCP Out-Of-Seq BL:''),
     (''tcp_retransmit_bl'', ''TCP ReXmit BL:''),
     (''tcp_rexmit_syn_limit_bl'', ''TCP ReXmit SYN Excd BL:''),
     (''tcp_exceed_drop_conn_prate'', ''TCP Conn Pkt Rate Drop:''),
     (''tcp_action_on_ack_gap_drop'', ''TCP Action-On-Ack Retry-Gap Drop:''),
     (''tcp_action_on_ack_gap_pass'', ''TCP Action-On-Ack Retry-Gap Pass:''),
     (''tcp_new_conn_ack_retry_gap_start'', ''TCP New-Conn-Ack-Retry-Gap Init:''),
     (''tcp_new_conn_ack_retry_gap_passed'', ''TCP New-Conn-Ack-Retry-Gap Pass:''),
     (''tcp_new_conn_ack_retry_gap_failed'', ''TCP New-Conn-Ack-Retry-Gap Fail:''),
     (''tcp_new_conn_ack_retry_gap_timeout'', ''TCP New-Conn-Ack-Retry-Gap Timeout:''),
     (''tcp_new_conn_ack_retry_gap_reset'', ''TCP New-Conn-Ack-Retry-Gap Reset:''),
     (''tcp_new_conn_ack_retry_gap_drop'', ''TCP New-Conn-Ack-Retry-Gap Drop:''),
     (''tcp_action_on_syn_start'', ''TCP Action-On-Syn Init:''),
     (''tcp_action_on_syn_passed'', ''TCP Action-On-Syn Pass:''),
     (''tcp_action_on_syn_failed'', ''TCP Action-On-Syn Fail:''),
     (''tcp_action_on_syn_timeout'', ''TCP Action-On-Syn Timeout:''),
     (''tcp_action_on_syn_reset'', ''TCP Action-On-Syn Reset:''),
     (''tcp_action_on_syn_gap_drop'', ''TCP Action-On-Syn Retry-Gap Drop:''),
     (''tcp_action_on_syn_gap_pass'', ''TCP Action-On-Syn Retry-Gap Pass:''),
     (''tcp_unauth_rst_drop'', ''TCP Unauth RST Drop:''),
     (''tcp_filter_match'', ''Dst Filter Match:''),
     (''tcp_filter_not_match'', ''Dst Filter Not Match:''),
     (''tcp_filter_action_blacklist'', ''Dst Filter Action BL:''),
     (''tcp_filter_action_drop'', ''Dst Filter Action Drop:''),
     (''tcp_filter_action_default_pass'', ''Dst Filter Action Default Pass:''),
     (''tcp_over_limit_syn_auth_src'', ''TCP Src Over Limit Auth:''),
     (''tcp_over_limit_syn_auth_src_dst'', ''TCP SrcDst Over Limit Auth:''),
     (''tcp_over_limit_syn_cookie_src'', ''TCP Src Over Limit Cookie:''),
     (''tcp_over_limit_syn_cookie_src_dst'', ''TCP SrcDst Over Limit Cookie:''),
     (''tcp_exceed_drop_brate_dst'', ''TCP Dst KiBit Rate Drop (KiBit):''),
     (''tcp_exceed_drop_brate_src'', ''TCP Src KiBit Rate Drop (KiBit):''),
     (''tcp_exceed_drop_brate_src_dst'', ''TCP SrcDst KiBit Rate Drop (KiBit):''),
     (''tcp_concurrent'', ''TCP Concurrent Port Access:''),
     (''tcp_filter_action_whitelist'', ''Dst Filter Action WL:''),
     (''src_tcp_filter_match'', ''Src Filter Match:''),
     (''src_tcp_filter_not_match'', ''Src Filter Not Match:''),
     (''src_tcp_filter_action_blacklist'', ''Src Filter Action BL:''),
     (''src_tcp_filter_action_drop'', ''Src Filter Action Drop:''),
     (''src_tcp_filter_action_default_pass'', ''Src Filter Action Default Pass:''),
     (''src_tcp_filter_action_whitelist'', ''Src Filter Action WL:''),
     (''src_dst_tcp_filter_match'', ''SrcDst Filter Match:''),
     (''src_dst_tcp_filter_not_match'', ''SrcDst Filter Not Match:''),
     (''src_dst_tcp_filter_action_blacklist'', ''SrcDst Filter Action BL:''),
     (''src_dst_tcp_filter_action_drop'', ''SrcDst Filter Action Drop:''),
     (''src_dst_tcp_filter_action_default_pass'', ''SrcDst Filter Action Default Pass:''),
     (''src_dst_tcp_filter_action_whitelist'', ''SrcDst Filter Action WL:'')]"

definition readCounters_DDOS_L4_TCP_COUNTER :: "unit dec" where
  "readCounters_DDOS_L4_TCP_COUNTER =
     bnd (gets now64) (\<lambda>now.
     bnd agent_id (\<lambda>agent.
     bnd (populate_sflow_struct_u64 ''l4_tcp'' sflow_ddos_l4_tcp_stats_v1) (\<lambda>_.
     bnd (fields_of ''l4_tcp'') (\<lambda>l4_tcp_t1.
     (let tbuf = (''agent=%08x\<newline>'', [A32 agent])
     in block [
     send_tsdb [
       tsdb_put now tbuf ''global_tcp_auth'' (l4_tcp_t1 ''tcp_syncookie_sent'' + l4_tcp_t1 ''tcp_syncookie_sent_fail''),
       tsdb_put now tbuf ''tcp_invalid_syn'' (l4_tcp_t1 ''tcp_invalid_syn_rcvd'')],
     log_u64s l4_tcp_t1 DDOS_L4_TCP_COUNTER_printed])))))"

definition DDOS_L4_UDP_COUNTER_printed :: "(string \<times> string) list" where
  "DDOS_L4_UDP_COUNTER_printed = [
     (''udp_sess_create'', ''UDP Session Create:''), (''inudp'', ''UDP Rcv:''),
     (''instateless'', ''UDP Stateless:''), (''udp_total_drop'', ''UDP Total Drop:''),
     (''udp_drop_dst'', ''UDP Dst Drop:''),
     (''udp_exceed_drop_any_dst'', ''UDP Dst Excd Drop:''),
     (''udp_exceed_drop_prate_dst'', ''UDP Dst Pkt Rate Drop:''),
     (''udp_exceed_drop_crate_dst'', ''UDP Dst Conn Rate Drop:''),
     (''udp_exceed_drop_climit_dst'', ''UDP Dst Conn Limit Drop:''),
     (''udp_drop_black_dst'', ''UDP Dst BL Drop:''), (''udp_drop_src'', ''UDP Src Drop:''),
     (''udp_exceed_drop_any_src'', ''UDP Src Excd Drop:''),
     (''udp_exceed_drop_prate_src'', ''UDP Src Pkt Rate Drop:''),
     (''udp_exceed_drop_crate_src'', ''UDP Src Conn Rate Drop:''),
     (''udp_exceed_drop_climit_src'', ''UDP Src Conn Limit Drop:''),
     (''udp_drop_black_src'', ''UDP Src BL Drop:''),
     (''udp_drop_black_user_cfg_src'', ''UDP Src BL User Drop:''),
     (''udp_drop_src_dst'', ''UDP SrcDst Drop:''),
     (''udp_exceed_drop_any_src_dst'', ''UDP SrcDst Excd Drop:''),
     (''udp_exceed_drop_prate_src_dst'', ''UDP SrcDst Pkt Rate Drop:''),
     (''udp_exceed_drop_crate_src_dst'', ''UDP SrcDst Conn Rate Drop:''),
     (''udp_exceed_drop_climit_src_dst'', ''UDP SrcDst Conn Limit Drop:''),
     (''udp_drop_black_src_dst'', ''UDP SrcDst BL Drop:''),
     (''udp_drop_black_user_cfg_src_dst'', ''UDP SrcDst BL User Drop:''),
     (''udp_port_zero_drop'', ''UDP Port Zero Drop:''),
     (''udp_wellknown_src_port_drop'', ''UDP SrcPort Wellknown Drop:''),
     (''udp_exceed_drop_conn_prate'', ''UDP Conn Pkt Rate Drop:''),
     (''udp_retry_start'', ''UDP Retry Init:''), (''udp_retry_pass'', ''UDP Retry Pass:''),
     (''udp_retry_fail'', ''UDP Retry Fail:''), (''udp_retry_timeout'', ''UDP Retry Timeout:''),
     (''udp_payload_too_big_drop'', ''UDP Payload Too Large Drop:''),
     (''udp_payload_too_small_drop'', ''UDP Payload Too Small Drop:''),
     (''ntp_monlist_req_drop'', ''NTP Monlist Req Drop:''),
     (''ntp_monlist_resp_drop'', ''NTP Monlist Resp Drop:''),
     (''udp_filter_match'', ''Dst Filter Match:''),
     (''udp_filter_not_match'', ''Dst Filter Not Match:''),
     (''udp_filter_action_blacklist'', ''Dst Filter Action BL:''),
     (''udp_filter_action_whitelist'', ''Dst Filter Action WL:''),
     (''udp_filter_action_drop'', ''Dst Filter Action Drop:''),
     (''udp_filter_action_default_pass'', ''Dst Filter Action Default Pass:''),
     (''udp_auth_pass'', ''UDP Auth Pass:''),
     (''udp_over_limit_auth_dst'', ''UDP Dst Over Limit Auth:''),
     (''udp_over_limit_auth_dst_port'', ''UDP Dst Port Over Limit Auth:''),
     (''udp_over_limit_auth_src'', ''UDP Src Over Limit Auth:''),
     (''udp_over_limit_auth_src_dst'', ''UDP SrcDst Over Limit Auth:''),
     (''udp_exceed_drop_brate_dst'', ''UDP Dst KiBit Rate Drop (KiBit):''),
     (''udp_exceed_drop_brate_src'', ''UDP Src KiBit Rate Drop (KiBit):''),
     (''udp_exceed_drop_brate_src_dst'', ''UDP SrcDst KiBit Rate Drop (KiBit):''),
     (''src_udp_filter_match'', ''Src Filter Match:''),
     (''src_udp_filter_not_match'', ''Src Filter Not Match:''),
     (''src_udp_filter_action_blacklist'', ''Src Filter Action BL:''),
     (''src_udp_filter_action_whitelist'', ''Src Filter Action WL:''),
     (''src_udp_filter_action_drop'', ''Src Filter Action Drop:''),
     (''src_udp_filter_action_default_pass'', ''Src Filter Action Default Pass:''),
     (''src_dst_udp_filter_match'', ''SrcDst Filter Match:''),
     (''src_dst_udp_filter_not_match'', ''SrcDst Filter Not Match:''),
     (''src_dst_udp_filter_action_blacklist'', ''SrcDst Filter Action BL:''),
     (''src_dst_udp_filter_action_whitelist'', ''SrcDst Filter Action WL:''),
     (''src_dst_udp_filter_action_drop'', ''SrcDst Filter Action Drop:''),
     (''src_dst_udp_filter_action_default_pass'', ''SrcDst Filter Action Default Pass:'')]"

definition readCounters_DDOS_L4_UDP_COUNTER :: "unit dec" where
  "readCounters_DDOS_L4_UDP_COUNTER =
     bnd (populate_sflow_struct_u64 ''l4_udp'' sflow_ddos_l4_udp_stats_v1) (\<lambda>_.
     bnd (fields_of ''l4_udp'') (\<lambda>l4_udp_t1.
     log_u64s l4_udp_t1 DDOS_L4_UDP_COUNTER_printed))"

definition DDOS_L4_ICMP_COUNTER_printed :: "(string \<times> string) list" where
  "DDOS_L4_ICMP_COUNTER_printed = [
     (''inicmp'', ''ICMP Rcv:''), (''icmp_echo_rcvd'', ''ICMP Echo Rcv:''),
     (''icmp_other_rcvd'', ''ICMP other Rcv:''), (''icmp_total_drop'', ''ICMP Total Drop:''),
     (''icmp_drop_dst'', ''ICMP Dst Drop:''),
     (''icmp_exceed_drop_any_dst'', ''ICMP Dst Excd Drop:''),
     (''icmp_exceed_drop_prate_dst'', ''ICMP Dst Pkt Rate Drop:''),
     (''icmp_drop_black_dst'', ''ICMP Dst BL Drop:''), (''icmp_drop_src'', ''ICMP Src Drop:''),
     (''icmp_exceed_drop_any_src'', ''ICMP Src Excd Drop:''),
     (''icmp_exceed_drop_prate_src'', ''ICMP Src Pkt Rate Drop:''),
     (''icmp_drop_black_src'', ''ICMP Src BL Drop:''),
     (''icmp_drop_black_user_cfg_src'', ''ICMP Src BL User Drop:''),
     (''icmp_drop_src_dst'', ''ICMP SrcDst Drop:''),
     (''icmp_exceed_drop_any_src_dst'', ''ICMP SrcDst Excd Drop:''),
     (''icmp_exceed_drop_prate_src_dst'', ''ICMP SrcDst Pkt Rate Drop:''),
     (''icmp_drop_black_src_dst'', ''ICMP SrcDst BL Drop:''),
     (''icmp_drop_black_user_cfg_src_dst'', ''ICMP SrcDst BL User Drop:''),
     (''icmp_type_deny_drop'', ''ICMP Type Deny Drop:''),
     (''icmp_v4_rfc_undef_drop'', ''ICMPv4 RFC Undef Type Drop:''),
     (''icmp_v6_rfc_undef_drop'', ''ICMPv6 RFC Undef Type Drop:''),
     (''icmp_wildcard_deny_drop'', ''ICMP Wildcard Deny Drop:''),
     (''icmp_rate_exceed0'', ''ICMP Type Code Rate Excd 1:''),
     (''icmp_rate_exceed1'', ''ICMP Type Code Rate Excd 2:''),
     (''icmp_rate_exceed2'', ''ICMP Type Code Rate Excd 3:''),
     (''icmp_exceed_drop_brate_dst'', ''ICMP Dst KiBit Rate Drop (KiBit):''),
     (''icmp_exceed_drop_brate_src'', ''ICMP Src KiBit Rate Drop (KiBit):''),
     (''icmp_exceed_drop_brate_src_dst'', ''ICMP SrcDst KiBit Rate Drop (KiBit):'')]"

definition readCounters_DDOS_L4_ICMP_COUNTER :: "unit dec" where
  "readCounters_DDOS_L4_ICMP_COUNTER =
     bnd (populate_sflow_struct_u64 ''l4_icmp'' sflow_ddos_l4_icmp_stats_v1) (\<lambda>_.
     bnd (fields_of ''l4_icmp'') (\<lambda>l4_icmp_t1.
     log_u64s l4_icmp_t1 DDOS_L4_ICMP_COUNTER_printed))"

definition DDOS_L4_OTHER_COUNTER_printed :: "(string \<times> string) list" where
  "DDOS_L4_OTHER_COUNTER_printed = [
     (''inother'', ''OTHER Rcv:''), (''infrag'', ''OTHER Frag Rcv:''),
     (''other_total_drop'', ''OTHER Total Drop:''), (''other_drop_dst'', ''OTHER Dst Drop:''),
     (''frag_drop'', ''OTHER Frag Drop:''),
     (''other_exceed_drop_any_dst'', ''OTHER Dst Excd Drop:''),
     (''other_exceed_drop_prate_dst'', ''OTHER Dst Pkt Rate Drop:''),
     (''other_exceed_drop_fprate_dst'', ''OTHER Dst Frag Rate Drop:''),
     (''other_frag_exceed_drop_dst'', ''OTHER Dst Frag Excd Drop:''),
     (''other_drop_black_dst'', ''OTHER Dst BL Drop:''),
     (''other_drop_src'', ''OTHER Src Drop:''),
     (''other_exceed_drop_any_src'', ''OTHER Src Excd Drop:''),
     (''other_exceed_drop_prate_src'', ''OTHER Src Pkt Rate Drop:''),
     (''other_exceed_drop_fprate_src'', ''OTHER Src Frag Rate Drop:''),
     (''other_frag_exceed_drop_src'', ''OTHER Src Frag Excd Drop:''),
     (''other_drop_black_src'', ''OTHER Src BL Drop:''),
     (''other_drop_black_user_cfg_src'', ''OTHER Src BL User Drop:''),
     (''other_drop_src_dst'', ''OTHER SrcDst Drop:''),
     (''other_exceed_drop_any_src_dst'', ''OTHER SrcDst Excd Drop:''),
     (''other_exceed_drop_prate_src_dst'', ''OTHER SrcDst Pkt Rate Drop:''),
     (''other_exceed_drop_fprate_src_dst'', ''OTHER SrcDst Frag Rate Drop:''),
     (''other_frag_exceed_drop_src_dst'', ''OTHER SrcDst Frag Excd Drop:''),
     (''other_drop_black_src_dst'', ''OTHER SrcDst BL Drop:''),
     (''other_drop_black_user_cfg_src_dst'', ''OTHER SrcDst BL User Drop:''),
     (''other_exceed_drop_brate_dst'', ''OTHER Dst KiBit Rate Drop (KiBit):''),
     (''other_exceed_drop_brate_src'', ''OTHER Src KiBit Rate Drop (KiBit):''),
     (''other_exceed_drop_brate_src_dst'', ''OTHER SrcDst KiBit Rate Drop (KiBit):''),
     (''other_filter_match'', ''Dst Filter Match:''),
     (''other_filter_not_match'', ''Dst Filter Not Match:''),
     (''other_filter_action_blacklist'', ''Dst Filter Action BL:''),
     (''other_filter_action_drop'', ''Dst Filter Action Drop:''),
     (''other_filter_action_default_pass'', ''Dst Filter Action Default Pass:''),
     (''other_filter_action_whitelist'', ''Dst Filter Action WL:''),
     (''other_filter_match'', ''Src Filter Match:''),
     (''src_other_filter_not_match'', ''Src Filter Not Match:''),
     (''src_other_filter_action_blacklist'', ''Src Filter Action BL:''),
     (''src_other_filter_action_drop'', ''Src Filter Action Drop:''),
     (''src_other_filter_action_default_pass'', ''Src Filter Action Default Pass:''),
     (''src_other_filter_action_whitelist'', ''Src Filter Action WL:''),
     (''src_dst_other_filter_match'', ''SrcDst Filter Match:''),
     (''src_dst_other_filter_not_match'', ''SrcDst Filter Not Match:''),
     (''src_dst_other_filter_action_blacklist'', ''SrcDst Filter Action BL:''),
     (''src_dst_other_filter_action_drop'', ''SrcDst Filter Action Drop:''),
     (''src_dst_other_filter_action_default_pass'', ''SrcDst Filter Action Default Pass:''),
     (''src_dst_other_filter_action_whitelist'', ''SrcDst Filter Action WL:'')]"

definition readCounters_DDOS_L4_OTHER_COUNTER :: "unit dec" where
  "readCounters_DDOS_L4_OTHER_COUNTER =
     bnd (populate_sflow_struct_u64 ''l4_other'' sflow_ddos_l4_other_stats_v1) (\<lambda>_.
     bnd (fields_of ''l4_other'') (\<lambda>l4_other_t1.
     log_u64s l4_other_t1 DDOS_L4_OTHER_COUNTER_printed))"

definition DDOS_L4_SWITCH_COUNTER_printed :: "(string \<times> string) list" where
  "DDOS_L4_SWITCH_COUNTER_printed = [
     (''ip_rcvd'', ''IPv4 Rcv:''), (''ip_sent'', ''IPv4 Sent:''), (''ipv6_rcvd'', ''IPv6 Rcv:''),
     (''ipv6_sent'', ''IPv6 Sent:''), (''instateless'', ''Stateless Pkt Rcv:''),
     (''out_no_route'', ''IPv4/v6 Out No Route:''), (''not_for_ddos'', ''Not For DDOS:''),
     (''mpls_rcvd'', ''MPLS Rcv:''), (''mpls_drop'', ''MPLS Drop:''),
     (''mpls_malformed'', ''MPLS Malformed:'')]"

definition readCounters_DDOS_L4_SWITCH_COUNTER :: "unit dec" where
  "readCounters_DDOS_L4_SWITCH_COUNTER =
     bnd (populate_sflow_struct_u64 ''l4_switch'' sflow_ddos_switch_stats_v1) (\<lambda>_.
     bnd (fields_of ''l4_switch'') (\<lambda>l4_switch_t1.
     log_u64s l4_switch_t1 DDOS_L4_SWITCH_COUNTER_printed))"

definition DDOS_L4_SESSION_COUNTER_printed :: "(string \<times> string) list" where
  "DDOS_L4_SESSION_COUNTER_printed = [
     (''v4_sess_create'', ''IPv4 Session Create:''),
     (''v6_sess_create'', ''IPv6 Session Create:''),
     (''tcp_sess_create'', ''TCP Session Create:''),
     (''tcp_conn_est_w_syn'', ''TCP Conn Est WL SYN:''),
     (''tcp_conn_est_w_ack'', ''TCP Conn Est WL ACK:''), (''tcp_conn_est'', ''TCP Conn Est:''),
     (''tcp_conn_close_w_rst'', ''TCP Conn Close WL RST:''),
     (''tcp_conn_close_w_fin'', ''TCP Conn Close WL FIN:''),
     (''tcp_conn_close_w_idle'', ''TCP Conn Close WL Idle:''),
     (''tcp_conn_close_w_half_open'', ''TCP Conn Close WL Half Open:''),
     (''tcp_conn_close'', ''TCP Conn Close:''), (''udp_sess_create'', ''UDP Session Create:''),
     (''udp_conn_est'', ''UDP Conn Est:''), (''udp_conn_close'', ''UDP Conn Close:'')]"

definition readCounters_DDOS_L4_SESSION_COUNTER :: "unit dec" where
  "readCounters_DDOS_L4_SESSION_COUNTER =
     bnd (populate_sflow_struct_u64 ''l4_session'' sflow_ddos_sess_stats_v1) (\<lambda>_.
     bnd (fields_of ''l4_session'') (\<lambda>l4_session_t1.
     log_u64s l4_session_t1 DDOS_L4_SESSION_COUNTER_printed))"

definition DDOS_L4_SYNC_COUNTER_printed :: "(string \<times> string) list" where
  "DDOS_L4_SYNC_COUNTER_printed = [
     (''sync_dst_wl_rcv'', ''Sync Dst Rcv:''), (''sync_dst_wl_sent'', ''Sync Dst Sent:''),
     (''sync_src_wl_rcv'', ''Sync Src Rcv:''), (''sync_src_wl_sent'', ''Sync Src Sent:''),
     (''sync_src_dst_wl_rcv'', ''Sync SrcDst Rcv:''),
     (''sync_src_dst_wl_sent'', ''Sync SrcDst Sent:''),
     (''sync_src_dst_wl_no_dst_drop'', ''Sync SrcDst No Dst Drop:''),
     (''sync_hello_rcv'', ''Sync Hello Rcv:''), (''sync_hello_sent'', ''Sync Hello Sent:''),
     (''sync_sent_fail'', ''Sync Sent Fail:''), (''sync_sent_no_peer'', ''Sync Sent No Peer:''),
     (''sync_rcv_fail'', ''Sync Rcv Fail:''),
     (''sync_dst_tcp_wl_sent'', ''Sync Sent Dst TCP WL:''),
     (''sync_dst_udp_wl_sent'', ''Sync Sent Dst UDP WL:''),
     (''sync_dst_icmp_wl_sent'', ''Sync Sent Dst ICMP WL:''),
     (''sync_dst_other_wl_sent'', ''Sync Sent Dst OTHER WL:''),
     (''sync_dst_tcp_bl_sent'', ''Sync Sent Dst TCP BL:''),
     (''sync_dst_udp_bl_sent'', ''Sync Sent Dst UDP BL:''),
     (''sync_dst_icmp_bl_sent'', ''Sync Sent Dst ICMP BL:''),
     (''sync_dst_other_bl_sent'', ''Sync Sent Dst OTHER BL:''),
     (''sync_src_tcp_wl_sent'', ''Sync Sent Src TCP WL:''),
     (''sync_src_udp_wl_sent'', ''Sync Sent Src UDP WL:''),
     (''sync_src_icmp_wl_sent'', ''Sync Sent Src ICMP WL:''),
     (''sync_src_other_wl_sent'', ''Sync Sent Src OTHER WL:''),
     (''sync_src_tcp_bl_sent'', ''Sync Sent Src TCP BL:''),
     (''sync_src_udp_bl_sent'', ''Sync Sent Src UDP BL:''),
     (''sync_src_icmp_bl_sent'', ''Sync Sent Src ICMP BL:''),
     (''sync_src_other_bl_sent'', ''Sync Sent Src OTHER BL:''),
     (''sync_src_dst_tcp_wl_sent'', ''Sync Sent SrcDst TCP WL:''),
     (''sync_src_dst_udp_wl_sent'', ''Sync Sent SrcDst UDP WL:''),
     (''sync_src_dst_icmp_wl_sent'', ''Sync Sent SrcDst ICMP WL:''),
     (''sync_src_dst_other_wl_sent'', ''Sync Sent SrcDst OTHER WL:''),
     (''sync_src_dst_tcp_bl_sent'', ''Sync Sent SrcDst UDP BL:''),
     (''sync_src_dst_udp_bl_sent'', ''Sync Sent SrcDst TCP BL:''),
     (''sync_src_dst_icmp_bl_sent'', ''Sync Sent SrcDst ICMP BL:''),
     (''sync_src_dst_other_bl_sent'', ''Sync Sent SrcDst OTHER BL:''),
     (''sync_dst_tcp_wl_rcvd'', ''Sync Rcv Dst UDP WL:''),
     (''sync_dst_udp_wl_rcvd'', ''Sync Rcv Dst TCP WL:''),
     (''sync_dst_icmp_wl_rcvd'', ''Sync Rcv Dst ICMP WL:''),
     (''sync_dst_other_wl_rcvd'', ''Sync Rcv Dst OTHER WL:''),
     (''sync_dst_tcp_bl_rcvd'', ''Sync Rcv Dst TCP BL:''),
     (''sync_dst_udp_bl_rcvd'', ''Sync Rcv Dst UDP BL:''),
     (''sync_dst_icmp_bl_rcvd'', ''Sync Rcv Dst ICMP BL:''),
     (''sync_dst_other_bl_rcvd'', ''Sync Rcv Dst OTHER BL:''),
     (''sync_src_tcp_wl_rcvd'', ''Sync Rcv Src TCP WL:''),
     (''sync_src_udp_wl_rcvd'', ''Sync Rcv Src UDP WL:''),
     (''sync_src_icmp_wl_rcvd'', ''Sync Rcv Src ICMP WL:''),
     (''sync_src_other_wl_rcvd'', ''Sync Rcv Src OTHER WL:''),
     (''sync_src_tcp_bl_rcvd'', ''Sync Rcv Src TCP BL:''),
     (''sync_src_udp_bl_rcvd'', ''Sync Rcv Src UDP BL:''),
     (''sync_src_icmp_bl_rcvd'', ''Sync Rcv Src ICMP BL:''),
     (''sync_src_other_bl_rcvd'', ''Sync Rcv Src OTHER BL:''),
     (''sync_src_dst_tcp_wl_rcvd'', ''Sync Rcv SrcDst TCP WL:''),
     (''sync_src_dst_udp_wl_rcvd'', ''Sync Rcv SrcDst UDP WL:''),
     (''sync_src_dst_icmp_wl_rcvd'', ''Sync Rcv SrcDst ICMP WL:''),
     (''sync_src_dst_other_wl_rcvd'', ''Sync Rcv SrcDst OTHER WL:''),
     (''sync_src_dst_tcp_bl_rcvd'', ''Sync Rcv SrcDst TCP BL:''),
     (''sync_src_dst_udp_bl_rcvd'', ''Sync Rcv SrcDst UDP BL:''),
     (''sync_src_dst_icmp_bl_rcvd'', ''Sync Rcv SrcDst ICMP BL:''),
     (''sync_src_dst_other_bl_rcvd'', ''Sync Rcv SrcDst OTHER BL:'')]"

definition readCounters_DDOS_L4_SYNC_COUNTER :: "unit dec" where
  "readCounters_DDOS_L4_SYNC_COUNTER =
     bnd (populate_sflow_struct_u64 ''l4_sync'' sflow_ddos_sync_stats_v1) (\<lambda>_.
     bnd (fields_of ''l4_sync'') (\<lambda>l4_sync_t1.
     log_u64s l4_sync_t1 DDOS_L4_SYNC_COUNTER_printed))"

definition DDOS_L4_TUNNEL_COUNTER_printed :: "(string \<times> string) list" where
  "DDOS_L4_TUNNEL_COUNTER_printed = [
     (''ip_tunnel_rcvd'', ''IPv4 Tunnel Rcv:''), (''ip_tunnel_rate'', ''IPv4 Tunnel Encap:''),
     (''ip_tunnel_encap'', ''IPv4 Tunnel Encap Fail:''),
     (''ip_tunnel_encap_fail'', ''IPv4 Tunnel Decap:''),
     (''ip_tunnel_decap'', ''IPv4 Tunnel Decap Fail:''),
     (''ip_tunnel_decap_fail'', ''IPv4 Tunnel Rate:''),
     (''ipv6_tunnel_rcvd'', ''IPv6 Tunnel Rcv:''),
     (''ipv6_tunnel_rate'', ''IPv6 Tunnel Encap:''),
     (''ipv6_tunnel_encap'', ''IPv6 Tunnel Encap Fail:''),
     (''ipv6_tunnel_encap_fail'', ''IPv6 Tunnel Decap:''),
     (''ipv6_tunnel_decap'', ''IPv6 Tunnel Decap Fail:''),
     (''ipv6_tunnel_decap_fail'', ''IPv6 Tunnel Rate:''),
     (''gre_tunnel_rcvd'', ''GRE Tunnel Rcv:''), (''gre_tunnel_rate'', ''GRE Tunnel Encap:''),
     (''gre_tunnel_encap'', ''GRE Tunnel Encap Fail:''),
     (''gre_tunnel_encap_fail'', ''GRE Tunnel Decap:''),
     (''gre_tunnel_decap'', ''GRE Tunnel Decap Fail:''),
     (''gre_tunnel_decap_fail'', ''GRE Tunnel Rate:''),
     (''gre_tunnel_encap_key'', ''GRE Tunnel Encap W/ Key:''),
     (''gre_tunnel_decap_key'', ''GRE Tunnel Decap W/ Key:''),
     (''gre_tunnel_decap_drop_no_key'', ''GRE Tunnel Decap Key Mismatch Drop:''),
     (''gre_v6_tunnel_rcvd'', ''GRE V6 Tunnel Rcv:''),
     (''gre_v6_tunnel_rate'', ''GRE V6 Tunnel Encap:''),
     (''gre_v6_tunnel_encap'', ''GRE V6 Tunnel Encap Rcv Fail:''),
     (''gre_v6_tunnel_encap_fail'', ''GRE V6 Tunnel Decap:''),
     (''gre_v6_tunnel_decap'', ''GRE V6 Tunnel Decap Fail:''),
     (''gre_v6_tunnel_decap_fail'', ''GRE V6 Tunnel Rate:''),
     (''gre_v6_tunnel_encap_key'', ''GRE V6 Tunnel Encap W/ Key:''),
     (''gre_v6_tunnel_decap_key'', ''GRE V6 Tunnel Decap W/ Key:''),
     (''gre_v6_tunnel_decap_drop_no_key'', ''GRE V6 Tunnel Decap No Key Drop:'')]"

definition readCounters_DDOS_L4_TUNNEL_COUNTER :: "unit dec" where
  "readCounters_DDOS_L4_TUNNEL_COUNTER =
     bnd (populate_sflow_struct_u64 ''l4_tunnel'' sflow_ddos_tunnel_stats_v1) (\<lambda>_.
     bnd (fields_of ''l4_tunnel'') (\<lambda>tunnel_t1.
     log_u64s tunnel_t1 DDOS_L4_TUNNEL_COUNTER_printed))"

definition DDOS_ENTRY_TABLE_COUNTER_printed :: "(string \<times> string) list" where
  "DDOS_ENTRY_TABLE_COUNTER_printed = [
     (''dst_entry_learn'', ''Dst Entry Learn:''), (''dst_entry_hit'', ''Dst Entry Hit:''),
     (''dst_entry_miss'', ''Dst Entry Miss:''), (''dst_entry_aged'', ''Dst Entry Aged:''),
     (''src_entry_learn'', ''Src Entry Learn:''), (''src_entry_hit'', ''Src Entry Hit:''),
     (''src_entry_miss'', ''Src Entry Miss:''), (''src_entry_aged'', ''Src Entry Aged:''),
     (''src_dst_entry_learn'', ''SrcDst Entry Learn:''),
     (''src_dst_entry_hit'', ''SrcDst Entry Hit:''),
     (''src_dst_entry_miss'', ''SrcDst Entry Miss:''),
     (''src_dst_entry_aged'', ''SrcDst Entry Aged:''), (''src_wl_tcp'', ''TCP Src WL:''),
     (''src_wl_udp'', ''UDP Src WL:''), (''src_wl_icmp'', ''ICMP Src WL:''),
     (''src_wl_other'', ''OTHER Src WL:''), (''src_bl_tcp'', ''TCP Src BL:''),
     (''src_bl_udp'', ''UDP Src BL:''), (''src_bl_icmp'', ''ICMP Src BL:''),
     (''src_bl_other'', ''OTHER Src BL:''), (''src_dst_wl_tcp'', ''TCP SrcDst WL:''),
     (''src_dst_wl_udp'', ''UDP SrcDst WL:''), (''src_dst_wl_icmp'', ''ICMP SrcDst WL:''),
     (''src_dst_wl_other'', ''OTHER SrcDst WL:''), (''src_dst_bl_tcp'', ''TCP SrcDst BL:''),
     (''src_dst_bl_udp'', ''UDP SrcDst BL:''), (''src_dst_bl_icmp'', ''ICMP SrcDst BL:''),
     (''src_dst_bl_other'', ''OTHER SrcDst BL:''),
     (''dst_over_limit_on'', ''Dst Over Limit Trigger ON:''),
     (''dst_port_over_limit_on'', ''Dst Port Over Limit Trigger ON:''),
     (''src_over_limit_on'', ''Src Over Limit Trigger ON:''),
     (''src_dst_over_limit_on'', ''SrcDst Over Limit Trigger ON:''),
     (''dst_over_limit_off'', ''Dst Over Limit Trigger OFF:''),
     (''dst_port_over_limit_off'', ''Dst Port Over Limit Trigger OFF:''),
     (''src_over_limit_off'', ''Src Over Limit Trigger OFF:''),
     (''src_dst_over_limit_off'', ''SrcDst Over Limit Trigger OFF:'')]"

definition readCounters_DDOS_ENTRY_TABLE_COUNTER :: "unit dec" where
  "readCounters_DDOS_ENTRY_TABLE_COUNTER =
     bnd (populate_sflow_struct_u64 ''entry_table'' sflow_ddos_table_stats_v1) (\<lambda>_.
     bnd (fields_of ''entry_table'') (\<lambda>table_t1.
     log_u64s table_t1 DDOS_ENTRY_TABLE_COUNTER_printed))"

definition DDOS_BRIEF_STATS_COUNTER_printed :: "(string \<times> string) list" where
  "DDOS_BRIEF_STATS_COUNTER_printed = [
     (''ip_rcvd'', ''IPv4 Rcv:''), (''ip_sent'', ''IPv4 Sent:''), (''ipv6_rcvd'', ''IPv6 Rcv:''),
     (''ipv6_sent'', ''IPv6 Sent:''), (''out_no_route'', ''IPv4/v6 Out No Route:''),
     (''not_for_ddos'', ''Not For DDOS:''), (''instateless'', ''Stateless Pkt Rcv:''),
     (''intcp'', ''TCP Rcv:''), (''inudp'', ''UDP Rcv:''), (''inicmp'', ''ICMP Rcv:''),
     (''inother'', ''OTHER Rcv:''), (''v4_sess_create'', ''IPv4 Session Create:''),
     (''v6_sess_create'', ''IPv6 Session Create:''),
     (''tcp_sess_create'', ''TCP Session Create:''),
     (''udp_sess_create'', ''UDP Session Create:''), (''sess_aged_out'', ''Session Age Out:''),
     (''tcp_total_drop'', ''TCP Total Drop:''), (''tcp_dst_drop'', ''TCP Dst Drop:''),
     (''tcp_src_drop'', ''TCP Src Drop:''), (''tcp_src_dst_drop'', ''TCP SrcDst Drop:''),
     (''tcp_drop_black_dst'', ''TCP Dst BL Drop:''),
     (''tcp_drop_black_src'', ''TCP Src BL Drop:''),
     (''tcp_drop_black_src_dst'', ''TCP SrcDst BL Drop:''),
     (''tcp_exceed_drop_any_dst'', ''TCP Dst Excd Drop:''),
     (''tcp_exceed_drop_any_src'', ''TCP Src Excd Drop:''),
     (''tcp_exceed_drop_any_src_dst'', ''TCP SrcDst Excd Drop:''),
     (''udp_total_drop'', ''UDP Total Drop:''), (''udp_dst_drop'', ''UDP Dst Drop:''),
     (''udp_src_drop'', ''UDP Src Drop:''), (''udp_src_dst_drop'', ''UDP SrcDst Drop:''),
     (''udp_drop_black_dst'', ''UDP Dst BL Drop:''),
     (''udp_drop_black_src'', ''UDP Src BL Drop:''),
     (''udp_drop_black_src_dst'', ''UDP SrcDst BL Drop:''),
     (''udp_exceed_drop_any_dst'', ''UDP Dst Excd Drop:''),
     (''udp_exceed_drop_any_src'', ''UDP Src Excd Drop:''),
     (''udp_exceed_drop_any_src_dst'', ''UDP SrcDst Excd Drop:''),
     (''icmp_total_drop'', ''ICMP Total Drop:''), (''icmp_dst_drop'', ''ICMP Dst Drop:''),
     (''icmp_src_drop'', ''ICMP Src Drop:''), (''icmp_src_dst_drop'', ''ICMP SrcDst Drop:''),
     (''icmp_drop_black_dst'', ''ICMP Dst BL Drop:''),
     (''icmp_drop_black_src'', ''ICMP Src BL Drop:''),
     (''icmp_drop_black_src_dst'', ''ICMP SrcDst BL Drop:''),
     (''icmp_exceed_drop_any_dst'', ''ICMP Dst Excd Drop:''),
     (''icmp_exceed_drop_any_src'', ''ICMP Src Excd Drop:''),
     (''icmp_exceed_drop_any_src_dst'', ''ICMP SrcDst Excd Drop:''),
     (''other_total_drop'', ''OTHER Total Drop:''), (''other_dst_drop'', ''OTHER Dst Drop:''),
     (''other_src_drop'', ''OTHER Src Drop:''), (''other_src_dst_drop'', ''OTHER SrcDst Drop:''),
     (''other_drop_black_dst'', ''OTHER Dst BL Drop:''),
     (''other_drop_black_src'', ''OTHER Src BL Drop:''),
     (''other_drop_black_src_dst'', ''OTHER SrcDst BL Drop:''),
     (''other_exceed_drop_any_dst'', ''OTHER Dst Excd Drop:''),
     (''other_exceed_drop_src'', ''OTHER Src Excd Drop:''),
     (''other_exceed_drop_src_dst'', ''OTHER SrcDst Excd Drop:''),
     (''infrag'', ''OTHER Frag Rcv:''), (''frag_drop'', ''OTHER Frag Drop:''),
     (''http_drop_total'', ''HTTP Total Drop:''), (''http_drop_dst'', ''HTTP Dst Drop:''),
     (''http_drop_src'', ''HTTP Src Drop:''), (''http_drop_src_dst'', ''HTTP SrcDst Drop:''),
     (''dns_udp_drop_total'', ''DNS-UDP Total Drop:''),
     (''dns_udp_drop_dst'', ''DNS-UDP Dst Drop:''),
     (''dns_udp_drop_src'', ''DNS-UDP Src Drop:''),
     (''dns_udp_drop_src_dst'', ''DNS-UDP SrcDst Drop:''),
     (''dns_tcp_drop_total'', ''DNS-TCP Total Drop:''),
     (''dns_tcp_drop_dst'', ''DNS-TCP Dst Drop:''),
     (''dns_tcp_drop_src'', ''DNS-TCP Src Drop:''),
     (''dns_tcp_drop_src_dst'', ''DNS-TCP SrcDst Drop:''),
     (''ssl_l4_drop_total'', ''SSL-L4 Total Drop:''),
     (''ssl_l4_drop_dst'', ''SSL-L4 Dst Drop:''), (''ssl_l4_drop_src'', ''SSL-L4 Src Drop:''),
     (''ssl_l4_drop_src_dst'', ''SSL-L4 SrcDst Drop:''),
     (''dst_port_undef_drop'', ''Dst Port Undef Drop:''),
     (''dst_port_exceed_drop_any'', ''Dst Port Excd Drop:''),
     (''dst_ipproto_bl'', ''Dst IP-Proto BL Drop:''), (''dst_port_bl'', ''Dst Port BL Drop:''),
     (''dst_sport_bl'', ''Dst SrcPort BL Drop:''),
     (''dst_sport_exceed_drop_any'', ''Dst SrcPort Excd Drop:''),
     (''dst_ipproto_rcvd'', ''Dst IP-Proto Rcv:''),
     (''dst_ipproto_drop'', ''Dst IP-Proto Drop:''),
     (''dst_ipproto_exceed_drop_any'', ''Dst IP-Proto Excd Drop:''),
     (''src_ip_bypass'', ''Src IP Bypass:''), (''mpls_rcvd'', ''MPLS Rcv:''),
     (''mpls_drop'', ''MPLS Drop:''), (''mpls_malformed'', ''MPLS Malformed:''),
     (''dst_scanning_detected'', ''Dst Scanning Detected:''),
     (''dst_ingress_bytes'', ''Ingress Bytes:''), (''dst_egress_bytes'', ''Egress Bytes:''),
     (''dst_ingress_packets'', ''Ingress Packets:''),
     (''dst_egress_packets'', ''Egress Packets:''), (''dst_ip_bypass'', ''Dst IP Bypass:''),
     (''dst_blackhole_inject'', ''Dst Blackhole Inject:''),
     (''dst_blackhole_withdraw'', ''Dst Blackhole Withdraw:''),
     (''dst_fwd_pkt_sent'', ''Incoming Packets Sent:''),
     (''dst_rev_pkt_sent'', ''Outgoing Packets Sent:''),
     (''dst_fwd_byte_sent'', ''Incoming Bytes Sent:''),
     (''dst_rev_byte_sent'', ''Outgoing Bytes Sent:'')]"

definition readCounters_DDOS_BRIEF_STATS_COUNTER :: "unit dec" where
  "readCounters_DDOS_BRIEF_STATS_COUNTER =
     bnd (gets now64) (\<lambda>now.
     bnd agent_id (\<lambda>agent.
     bnd (populate_sflow_struct_u64 ''ddos_brief_stats'' sflow_ddos_brief_stats_v1) (\<lambda>_.
     bnd (fields_of ''ddos_brief_stats'') (\<lambda>ddos_brief_stats_t1.
     bnd (total ''packet_anomaly_dropped'') (\<lambda>packet_anomaly_dropped.
     (let tbuf = (''agent=%08x\<newline>'', [A32 agent]);
         packet_anomaly_passed = ddos_brief_stats_t1 ''ip_rcvd'' + ddos_brief_stats_t1 ''ipv6_rcvd'' -
           packet_anomaly_dropped
     in block [
     set_total ''packet_anomaly_passed'' packet_anomaly_passed,
     send_tsdb [
       tsdb_put now tbuf ''intcp'' (ddos_brief_stats_t1 ''intcp''),
       tsdb_put now tbuf ''inudp'' (ddos_brief_stats_t1 ''inudp''),
       tsdb_put now tbuf ''inicmp'' (ddos_brief_stats_t1 ''inicmp''),
       tsdb_put now tbuf ''inother'' (ddos_brief_stats_t1 ''inother''),
       tsdb_put now tbuf ''tcp_total_drop'' (ddos_brief_stats_t1 ''tcp_total_drop''),
       tsdb_put now tbuf ''udp_total_drop'' (ddos_brief_stats_t1 ''udp_total_drop''),
       tsdb_put now tbuf ''icmp_total_drop'' (ddos_brief_stats_t1 ''icmp_total_drop''),
       tsdb_put now tbuf ''other_total_drop'' (ddos_brief_stats_t1 ''other_total_drop''),
       tsdb_put now tbuf ''tcp_sess_create'' (ddos_brief_stats_t1 ''tcp_sess_create''),
       tsdb_put now tbuf ''udp_sess_create'' (ddos_brief_stats_t1 ''udp_sess_create''),
       tsdb_put now tbuf ''global_dst_packet_sent'' (ddos_brief_stats_t1 ''dst_fwd_pkt_sent''),
       tsdb_put now tbuf ''global_dst_ingress_bytes'' (ddos_brief_stats_t1 ''dst_ingress_bytes''),
       tsdb_put now tbuf ''global_dst_egress_bytes'' (ddos_brief_stats_t1 ''dst_fwd_byte_sent''),
       tsdb_put now tbuf ''packet_anomaly_passed'' packet_anomaly_passed],
     log_u64s ddos_brief_stats_t1 DDOS_BRIEF_STATS_COUNTER_printed]))))))"

definition DDOS_LONG_STATS_COUNTER_printed :: "(string \<times> string) list" where
  "DDOS_LONG_STATS_COUNTER_printed = [
     (''tcp_syncookie_sent'', ''TCP SYN Cookie Sent:''),
     (''tcp_syncookie_pass'', ''TCP SYN Cookie Pass:''),
     (''tcp_syncookie_sent_fail'', ''TCP SYN Cookie Sent Fail:''),
     (''tcp_syncookie_check_fail'', ''TCP SYN Cookie Check Fail:''),
     (''tcp_syncookie_fail_bl'', ''TCP SYN Cookie BL Fail:''),
     (''tcp_outrst'', ''TCP Out RST:''), (''tcp_syn_received'', ''TCP SYN Rcv:''),
     (''tcp_syn_rate'', ''TCP SYN Rate Per Sec:''),
     (''tcp_exceed_drop_prate_dst'', ''TCP Dst Pkt Rate Drop:''),
     (''tcp_exceed_drop_crate_dst'', ''TCP Dst Conn Rate Drop:''),
     (''tcp_exceed_drop_climit_dst'', ''TCP Dst Conn Limit Drop:''),
     (''tcp_exceed_drop_prate_src'', ''TCP Src Pkt Rate Drop:''),
     (''tcp_exceed_drop_crate_src'', ''TCP Src Conn Rate Drop:''),
     (''tcp_exceed_drop_climit_src'', ''TCP Src Conn Limit Drop:''),
     (''tcp_exceed_drop_prate_src_dst'', ''TCP SrcDst Pkt Rate Drop:''),
     (''tcp_exceed_drop_crate_src_dst'', ''TCP SrcDst Conn Rate Drop:''),
     (''tcp_exceed_drop_climit_src_dst'', ''TCP SrcDst Conn Limit Drop:''),
     (''udp_exceed_drop_prate_dst'', ''UDP Dst Pkt Rate Drop:''),
     (''udp_exceed_drop_crate_dst'', ''UDP Dst Conn Rate Drop:''),
     (''udp_exceed_drop_climit_dst'', ''UDP Dst Conn Limit Drop:''),
     (''udp_exceed_drop_prate_src'', ''UDP Src Pkt Rate Drop:''),
     (''udp_exceed_drop_crate_src'', ''UDP Src Conn Rate Drop:''),
     (''udp_exceed_drop_climit_src'', ''UDP Src Conn Limit Drop:''),
     (''udp_exceed_drop_prate_src_dst'', ''UDP SrcDst Pkt Rate Drop:''),
     (''udp_exceed_drop_crate_src_dst'', ''UDP SrcDst Conn Rate Drop:''),
     (''udp_exceed_drop_climit_src_dst'', ''UDP SrcDst Conn Limit Drop:''),
     (''udp_exceed_drop_conn_prate'', ''UDP Conn Pkt Rate Drop:''),
     (''dns_malform_drop'', ''DNS Malform Drop:''),
     (''dns_qry_any_drop'', ''DNS Query Any Drop:''),
     (''tcp_reset_client'', ''TCP Reset Client:''),
     (''tcp_reset_server'', ''TCP Reset Server:''), (''dst_entry_learn'', ''Dst Entry Learn:''),
     (''dst_entry_hit'', ''Dst Entry Hit:''), (''src_entry_learn'', ''Src Entry Learn:''),
     (''src_entry_hit'', ''Src Entry Hit:''), (''sync_src_wl_sent'', ''Sync Src Sent:''),
     (''sync_src_dst_wl_sent'', ''Sync SrcDst Sent:''),
     (''sync_dst_wl_sent'', ''Sync Dst Sent:''), (''sync_src_wl_rcv'', ''Sync Src Rcv:''),
     (''sync_src_dst_wl_rcv'', ''Sync SrcDst Rcv:''), (''sync_dst_wl_rcv'', ''Sync Dst Rcv:''),
     (''dst_port_pkt_rate_exceed'', ''Dst Port Pkt Rate Excd:''),
     (''dst_port_conn_limm_exceed'', ''Dst Port Conn Limit Excd:''),
     (''dst_port_conn_rate_exceed'', ''Dst Port Conn Rate Excd:''),
     (''dst_sport_pkt_rate_exceed'', ''Dst SrcPort Pkt Rate Excd:''),
     (''dst_sport_conn_limm_exceed'', ''Dst SrcPort Conn Limit Excd:''),
     (''dst_sport_conn_rate_exceed'', ''Dst SrcPort Conn Rate Excd:''),
     (''dst_ipproto_pkt_rate_exceed'', ''Dst IP-Proto Pkt Rate Excd:''),
     (''tcp_ack_no_syn'', ''TCP ACK No SYN:''), (''tcp_ofo'', ''TCP Out-Of-Seq:''),
     (''tcp_zero_window'', ''TCP 0 Window:''), (''tcp_retransmit'', ''TCP ReXmit''),
     (''tcp_retransmit_bl'', ''TCP ReXmit BL:''),
     (''tcp_action_on_ack_start'', ''TCP Action-On-Ack Init:''),
     (''tcp_action_on_ack_matched'', ''TCP Action-On-Ack Match:''),
     (''tcp_action_on_ack_passed'', ''TCP Action-On-Ack Pass:''),
     (''tcp_action_on_ack_failed'', ''TCP Action-On-Ack Fail:''),
     (''tcp_action_on_ack_timeout'', ''TCP Action-On-Ack Timeout:''),
     (''tcp_action_on_ack_reset'', ''TCP Action-On-Ack Reset:''),
     (''src_entry_aged'', ''Src Entry Aged:''), (''dst_entry_aged'', ''Dst Entry Aged:''),
     (''tcp_zero_wind_bl'', ''TCP Zero Window BL:''), (''tcp_ofo_bl'', ''TCP Out-Of-Seq BL:''),
     (''syn_auth_skip'', ''TCP SYN Auth Skip:''), (''udp_retry_pass'', ''UDP Retry Pass:''),
     (''dns_auth_udp_pass'', ''DNS Auth UDP Pass:''),
     (''dst_port_udp_wellknown_port_drop'', ''UDP Wellknown Port Drop:''),
     (''ntp_monlist_req_drop'', ''NTP Monlist Req Drop:''),
     (''ntp_monlist_resp_drop'', ''NTP Monlist Resp Drop:''),
     (''udp_payload_too_big_drop'', ''UDP Payload Too Large Drop:''),
     (''udp_payload_too_small_drop'', ''UDP Payload Too Small Drop:''),
     (''other_frag_exceed_drop_dst'', ''OTHER Dst Frag Excd Drop:''),
     (''other_frag_exceed_drop_src'', ''OTHER Src Frag Excd Drop:''),
     (''other_frag_exceed_drop_src_dst'', ''OTHER SrcDst Frag Excd Drop:''),
     (''tcp_rexmit_syn_limit_drop'', ''TCP Rexmit SYN Excd Drop:''),
     (''tcp_rexmit_syn_limit_bl'', ''TCP ReXmit SYN Excd BL:''),
     (''over_conn_limit_tcp_syn_auth'', ''Over conn limit TCP SYN Auth''),
     (''over_conn_limit_tcp_syn_cookie'', ''Over conn limit TCP SYN Cookie''),
     (''over_conn_limit_tcp_port_syn_auth'', ''Over conn limit TCP port SYN Auth''),
     (''over_conn_limit_tcp_port_syn_cookie'', ''Over conn limit TCP port SYN Cookie''),
     (''tcp_exceed_drop_conn_prate'', ''TCP Conn Pkt Rate Drop:''),
     (''syn_auth_pass'', ''TCP SYN Auth Pass:''), (''udp_retry_start'', ''UDP Retry Init:''),
     (''udp_retry_fail'', ''UDP Retry Fail:''), (''udp_retry_timeout'', ''UDP Retry Timeout:''),
     (''ip_tunnel_rcvd'', ''IPv4 Tunnel Rcv:''), (''ipv6_tunnel_rcvd'', ''IPv6 Tunnel Rcv:''),
     (''gre_tunnel_rcvd'', ''GRE Tunnel Rcv:''), (''gre_v6_tunnel_rcvd'', ''GRE V6 Tunnel Rcv''),
     (''dst_entry_miss'', ''Dst Entry Miss:''), (''src_entry_miss'', ''Src Entry Miss:''),
     (''src_dst_entry_hit'', ''SrcDst Entry Hit:''),
     (''src_dst_entry_miss'', ''SrcDst Entry Miss:''),
     (''src_dst_entry_aged'', ''SrcDst Entry Aged:''),
     (''icmp_exceed_drop_prate_dst'', ''ICMP Dst Pkt Rate Drop:''),
     (''sync_wl_no_dst_drop'', ''Sync SrcDst No Dst Drop:''),
     (''src_dst_entry_learn'', ''SrcDst Entry Learn:''),
     (''dns_tcp_auth_pass'', ''DNS TCP Auth Pass:''),
     (''dst_port_kbit_rate_exceed'', ''Dst Port KiBit Rate Excd:''),
     (''dst_sport_kbit_rate_exceed'', ''Dst SrcPort KiBit Rate Excd:'')]"

definition readCounters_DDOS_LONG_STATS_COUNTER :: "unit dec" where
  "readCounters_DDOS_LONG_STATS_COUNTER =
     bnd (populate_sflow_struct_u64 ''ddos_long_stats'' sflow_ddos_long_stats_v1) (\<lambda>_.
     bnd (fields_of ''ddos_long_stats'') (\<lambda>ddos_long_stats_t1.
     log_u64s ddos_long_stats_t1 DDOS_LONG_STATS_COUNTER_printed))"

section \<open>Indicators and polling records\<close>

definition DDOS_DST_INDICATORS_items :: "item list" where
  "DDOS_DST_INDICATORS_items = [
     N32 ''tcp.seq_num'' ''Sequence #:'', N16 ''tcp.num_data_points'' ''Num Data Points:'',
     N16 ''tcp.elapsed_sec'' ''Elapsed sec:'',
     N32 ''tcp.in_pkt_rate.mean_x100'' ''In Packet rate: Mean'',
     N32 ''tcp.in_pkt_rate.variance_x100'' ''In Packet rate: Variance'',
     N32 ''tcp.in_pkt_rate.min_x100'' ''In Packet rate: Min'',
     N32 ''tcp.in_pkt_rate.nonzero_min_x100'' ''In Packet rate: Nonzero Min'',
     N32 ''tcp.in_pkt_rate.max_x100'' ''In Packet rate: Max'',
     N32 ''tcp.in_syn_rate.mean_x100'' ''In SYN rate: Mean'',
     N32 ''tcp.in_syn_rate.variance_x100'' ''In SYN rate: Variance'',
     N32 ''tcp.in_syn_rate.min_x100'' ''In SYN rate: Min'',
     N32 ''tcp.in_syn_rate.nonzero_min_x100'' ''In SYN rate: Nonzero Min'',
     N32 ''tcp.in_syn_rate.max_x100'' ''In SYN rate: Max'',
     N32 ''tcp.in_fin_rate.mean_x100'' ''In FIN rate: Mean'',
     N32 ''tcp.in_fin_rate.variance_x100'' ''In FIN rate: Variance'',
     N32 ''tcp.in_fin_rate.min_x100'' ''In FIN rate: Min'',
     N32 ''tcp.in_fin_rate.nonzero_min_x100'' ''In FIN rate: Nonzero Min'',
     N32 ''tcp.in_fin_rate.max_x100'' ''In FIN rate: Max'',
     N32 ''tcp.in_rst_rate.mean_x100'' ''In RST rate: Mean'',
     N32 ''tcp.in_rst_rate.variance_x100'' ''In RST rate: Variance'',
     N32 ''tcp.in_rst_rate.min_x100'' ''In RST rate: Min'',
     N32 ''tcp.in_rst_rate.nonzero_min_x100'' ''In RST rate: Nonzero Min'',
     N32 ''tcp.in_rst_rate.max_x100'' ''In RST rate: Max'',
     N32 ''tcp.small_window_ack_rate.mean_x100'' ''Small Window ACK rate: Mean'',
     N32 ''tcp.small_window_ack_rate.variance_x100'' ''Small Window ACK rate: Variance'',
     N32 ''tcp.small_window_ack_rate.min_x100'' ''Small Window ACK rate: Min'',
     N32 ''tcp.small_window_ack_rate.nonzero_min_x100'' ''Small Window ACK rate: Nonzero Min'',
     N32 ''tcp.small_window_ack_rate.max_x100'' ''Small Window ACK rate: Max'',
     N32 ''tcp.empty_ack_rate.mean_x100'' ''Empty ACK rate: Mean'',
     N32 ''tcp.empty_ack_rate.variance_x100'' ''Empty ACK rate: Variance'',
     N32 ''tcp.empty_ack_rate.min_x100'' ''Empty ACK rate: Min'',
     N32 ''tcp.empty_ack_rate.nonzero_min_x100'' ''Empty ACK rate: Nonzero Min'',
     N32 ''tcp.empty_ack_rate.max_x100'' ''Empty ACK rate: Max'',
     N32 ''tcp.small_payload_rate.mean_x100'' ''Small Payload rate: Mean'',
     N32 ''tcp.small_payload_rate.variance_x100'' ''Small Payload rate: Variance'',
     N32 ''tcp.small_payload_rate.min_x100'' ''Small Payload rate: Min'',
     N32 ''tcp.small_payload_rate.nonzero_min_x100'' ''Small Payload rate: Nonzero Min'',
     N32 ''tcp.small_payload_rate.max_x100'' ''Small Payload rate: Max'',
     N32 ''tcp.in_byte_over_out_byte.mean_x100'' ''In byte over Out byte: Mean'',
     N32 ''tcp.in_byte_over_out_byte.variance_x100'' ''In byte over Out byte: Variance'',
     N32 ''tcp.in_byte_over_out_byte.min_x100'' ''In byte over Out byte: Min'',
     N32 ''tcp.in_byte_over_out_byte.nonzero_min_x100'' ''In byte over Out byte: Nonzero Min'',
     N32 ''tcp.in_byte_over_out_byte.max_x100'' ''In byte over Out byte: Max'',
     N32 ''tcp.syn_over_fin.mean_x100'' ''SYN over FIN: Mean'',
     N32 ''tcp.syn_over_fin.variance_x100'' ''SYN over FIN: Variance'',
     N32 ''tcp.syn_over_fin.min_x100'' ''SYN over FIN: Min'',
     N32 ''tcp.syn_over_fin.nonzero_min_x100'' ''SYN over FIN: Nonzero Min'',
     N32 ''tcp.syn_over_fin.max_x100'' ''SYN over FIN: Max'',
     N32 ''tcp.conn_miss_rate.mean_x100'' ''Conn miss rate: Mean'',
     N32 ''tcp.conn_miss_rate.variance_x100'' ''Conn miss rate: Variance'',
     N32 ''tcp.conn_miss_rate.min_x100'' ''Conn miss rate: Min'',
     N32 ''tcp.conn_miss_rate.nonzero_min_x100'' ''Conn miss rate: Nonzero Min'',
     N32 ''tcp.conn_miss_rate.max_x100'' ''Conn miss rate: Max'',
     N32 ''tcp.concurrent_conns.mean_x100'' ''Conncurrent conns: Mean'',
     N32 ''tcp.concurrent_conns.variance_x100'' ''Conncurrent conns: Variance'',
     N32 ''tcp.concurrent_conns.min_x100'' ''Conncurrent conns: Min'',
     N32 ''tcp.concurrent_conns.nonzero_min_x100'' ''Conncurrent conns: Nonzero Min'',
     N32 ''tcp.concurrent_conns.max_x100'' ''Conncurrent conns: Max'',
     N32 ''tcp.pkt_drop_rate.mean_x100'' ''TCP Pkt Drop Rate: Mean'',
     N32 ''tcp.pkt_drop_rate.variance_x100'' ''TCP Pkt Drop Rate: Variance'',
     N32 ''tcp.pkt_drop_rate.min_x100'' ''TCP Pkt Drop Rate: Min'',
     N32 ''tcp.pkt_drop_rate.nonzero_min_x100'' ''TCP Pkt Drop Rate: Nonzero Min'',
     N32 ''tcp.pkt_drop_rate.max_x100'' ''TCP Pkt Drop Rate: Max'',
     N32 ''tcp.pkt_drop_recv_ratio.mean_x100'' ''TCP Pkt Drop / Pkt Rcvd: Mean'',
     N32 ''tcp.pkt_drop_recv_ratio.variance_x100'' ''TCP Pkt Drop / Pkt Rcvd: Variance'',
     N32 ''tcp.pkt_drop_recv_ratio.min_x100'' ''TCP Pkt Drop / Pkt Rcvd: Min'',
     N32 ''tcp.pkt_drop_recv_ratio.nonzero_min_x100'' ''TCP Pkt Drop / Pkt Rcvd: Nonzero Min'',
     N32 ''tcp.pkt_drop_recv_ratio.max_x100'' ''TCP Pkt Drop / Pkt Rcvd: Max'',
     N32 ''udp.seq_num'' ''Sequence #:'', N16 ''udp.num_data_points'' ''Num Data Points:'',
     N16 ''udp.elapsed_sec'' ''Elapsed sec:'',
     N32 ''udp.in_pkt_rate.mean_x100'' ''In Packet rate: Mean'',
     N32 ''udp.in_pkt_rate.variance_x100'' ''In Packet rate: Variance'',
     N32 ''udp.in_pkt_rate.min_x100'' ''In Packet rate: Min'',
     N32 ''udp.in_pkt_rate.nonzero_min_x100'' ''In Packet rate: Nonzero Min'',
     N32 ''udp.in_pkt_rate.max_x100'' ''In Packet rate: Max'',
     N32 ''udp.small_payload_rate.mean_x100'' ''Small Payload rate: Mean'',
     N32 ''udp.small_payload_rate.variance_x100'' ''Small Payload rate: Variance'',
     N32 ''udp.small_payload_rate.min_x100'' ''Small Payload rate: Min'',
     N32 ''udp.small_payload_rate.nonzero_min_x100'' ''Small Payload rate: Nonzero Min'',
     N32 ''udp.small_payload_rate.max_x100'' ''Small Payload rate: Max'',
     N32 ''udp.in_byte_over_out_byte.mean_x100'' ''In byte over Out byte: Mean'',
     N32 ''udp.in_byte_over_out_byte.variance_x100'' ''In byte over Out byte: Variance'',
     N32 ''udp.in_byte_over_out_byte.min_x100'' ''In byte over Out byte: Min'',
     N32 ''udp.in_byte_over_out_byte.nonzero_min_x100'' ''In byte over Out byte: Nonzero Min'',
     N32 ''udp.in_byte_over_out_byte.max_x100'' ''In byte over Out byte: Max'',
     N32 ''udp.pkt_drop_rate.mean_x100'' ''UDP Pkt Drop Rate: Mean'',
     N32 ''udp.pkt_drop_rate.variance_x100'' ''UDP Pkt Drop Rate: Variance'',
     N32 ''udp.pkt_drop_rate.min_x100'' ''UDP Pkt Drop Rate: Min'',
     N32 ''udp.pkt_drop_rate.nonzero_min_x100'' ''UDP Pkt Drop Rate: Nonzero Min'',
     N32 ''udp.pkt_drop_rate.max_x100'' ''UDP Pkt Drop Rate: Max'',
     N32 ''udp.pkt_drop_recv_ratio.mean_x100'' ''UDP Pkt Drop / Pkt Rcvd: Mean'',
     N32 ''udp.pkt_drop_recv_ratio.variance_x100'' ''UDP Pkt Drop / Pkt Rcvd: Variance'',
     N32 ''udp.pkt_drop_recv_ratio.min_x100'' ''UDP Pkt Drop / Pkt Rcvd: Min'',
     N32 ''udp.pkt_drop_recv_ratio.nonzero_min_x100'' ''UDP Pkt Drop / Pkt Rcvd: Nonzero Min'',
     N32 ''udp.pkt_drop_recv_ratio.max_x100'' ''UDP Pkt Drop / Pkt Rcvd: Max'',
     N32 ''icmp.seq_num'' ''Sequence #:'', N16 ''icmp.num_data_points'' ''Num Data Points:'',
     N16 ''icmp.elapsed_sec'' ''Elapsed sec:'',
     N32 ''icmp.in_pkt_rate.mean_x100'' ''In Packet rate: Mean'',
     N32 ''icmp.in_pkt_rate.variance_x100'' ''In Packet rate: Variance'',
     N32 ''icmp.in_pkt_rate.min_x100'' ''In Packet rate: Min'',
     N32 ''icmp.in_pkt_rate.nonzero_min_x100'' ''In Packet rate: Nonzero Min'',
     N32 ''icmp.in_pkt_rate.max_x100'' ''In Packet rate: Max'',
     N32 ''icmp.in_byte_over_out_byte.mean_x100'' ''In byte over Out byte: Mean'',
     N32 ''icmp.in_byte_over_out_byte.variance_x100'' ''In byte over Out byte: Variance'',
     N32 ''icmp.in_byte_over_out_byte.min_x100'' ''In byte over Out byte: Min'',
     N32 ''icmp.in_byte_over_out_byte.nonzero_min_x100'' ''In byte over Out byte: Nonzero Min'',
     N32 ''icmp.in_byte_over_out_byte.max_x100'' ''In byte over Out byte: Max'',
     N32 ''icmp.pkt_drop_rate.mean_x100'' ''ICMP Pkt Drop Rate: Mean'',
     N32 ''icmp.pkt_drop_rate.variance_x100'' ''ICMP Pkt Drop Rate: Variance'',
     N32 ''icmp.pkt_drop_rate.min_x100'' ''ICMP Pkt Drop Rate: Min'',
     N32 ''icmp.pkt_drop_rate.nonzero_min_x100'' ''ICMP Pkt Drop Rate: Nonzero Min'',
     N32 ''icmp.pkt_drop_rate.max_x100'' ''ICMP Pkt Drop Rate: Max'',
     N32 ''icmp.pkt_drop_recv_ratio.mean_x100'' ''ICMP Pkt Drop / Pkt Rcvd: Mean'',
     N32 ''icmp.pkt_drop_recv_ratio.variance_x100'' ''ICMP Pkt Drop / Pkt Rcvd: Variance'',
     N32 ''icmp.pkt_drop_recv_ratio.min_x100'' ''ICMP Pkt Drop / Pkt Rcvd: Min'',
     N32 ''icmp.pkt_drop_recv_ratio.nonzero_min_x100'' ''ICMP Pkt Drop / Pkt Rcvd: Nonzero Min'',
     N32 ''icmp.pkt_drop_recv_ratio.max_x100'' ''ICMP Pkt Drop / Pkt Rcvd: Max'',
     N32 ''other.seq_num'' ''Sequence #:'', N16 ''other.num_data_points'' ''Num Data Points:'',
     N16 ''other.elapsed_sec'' ''Elapsed sec:'',
     N32 ''other.in_pkt_rate.mean_x100'' ''OTHER In Packet rate: Mean'',
     N32 ''other.in_pkt_rate.variance_x100'' ''OTHER In Packet rate: Variance'',
     N32 ''other.in_pkt_rate.min_x100'' ''OTHER In Packet rate: Min'',
     N32 ''other.in_pkt_rate.nonzero_min_x100'' ''OTHER In Packet rate: Nonzero Min'',
     N32 ''other.in_pkt_rate.max_x100'' ''OTHER In Packet rate: Max'',
     N32 ''other.in_frag_rate.mean_x100'' ''OTHER In Frag rate: Mean'',
     N32 ''other.in_frag_rate.variance_x100'' ''OTHER In Frag rate: Variance'',
     N32 ''other.in_frag_rate.min_x100'' ''OTHER In Frag rate: Min'',
     N32 ''other.in_frag_rate.nonzero_min_x100'' ''OTHER In Frag rate: Nonzero Min'',
     N32 ''other.in_frag_rate.max_x100'' ''OTHER In Frag rate: Max'',
     N32 ''other.in_byte_over_out_byte.mean_x100'' ''OTHER In byte over Out byte: Mean'',
     N32 ''other.in_byte_over_out_byte.variance_x100'' ''OTHER In byte over Out byte: Variance'',
     N32 ''other.in_byte_over_out_byte.min_x100'' ''OTHER In byte over Out byte: Min'',
     N32 ''other.in_byte_over_out_byte.nonzero_min_x100'' ''OTHER In byte over Out byte: Nonzero Min'',
     N32 ''other.in_byte_over_out_byte.max_x100'' ''OTHER In byte over Out byte: Max'',
     N32 ''other.pkt_drop_rate.mean_x100'' ''OTHER Pkt Drop Rate: Mean'',
     N32 ''other.pkt_drop_rate.variance_x100'' ''OTHER Pkt Drop Rate: Variance'',
     N32 ''other.pkt_drop_rate.min_x100'' ''OTHER Pkt Drop Rate: Min'',
     N32 ''other.pkt_drop_rate.nonzero_min_x100'' ''OTHER Pkt Drop Rate: Nonzero Min'',
     N32 ''other.pkt_drop_rate.max_x100'' ''OTHER Pkt Drop Rate: Max'',
     N32 ''other.pkt_drop_recv_ratio.mean_x100'' ''OTHER Pkt Drop / Pkt Rcvd: Mean'',
     N32 ''other.pkt_drop_recv_ratio.variance_x100'' ''OTHER Pkt Drop / Pkt Rcvd: Variance'',
     N32 ''other.pkt_drop_recv_ratio.min_x100'' ''OTHER Pkt Drop / Pkt Rcvd: Min'',
     N32 ''other.pkt_drop_recv_ratio.nonzero_min_x100'' ''OTHER Pkt Drop / Pkt Rcvd: Nonzero Min'',
     N32 ''other.pkt_drop_recv_ratio.max_x100'' ''OTHER Pkt Drop / Pkt Rcvd: Max'']"

definition readCounters_DDOS_DST_INDICATORS :: "unit dec" where
  "readCounters_DDOS_DST_INDICATORS = read_items ''ddos_dst_indicators'' DDOS_DST_INDICATORS_items"

definition DDOS_DST_TCP_INDICATORS_items :: "item list" where
  "DDOS_DST_TCP_INDICATORS_items = [
     N32 ''seq_num'' ''Sequence #:'', N16 ''num_data_points'' ''Num Data Points:'',
     N16 ''elapsed_sec'' ''Elapsed sec:'',
     N32 ''in_pkt_rate.mean_x100'' ''In Packet rate: Mean'',
     N32 ''in_pkt_rate.variance_x100'' ''In Packet rate: Variance'',
     N32 ''in_pkt_rate.min_x100'' ''In Packet rate: Min'',
     N32 ''in_pkt_rate.nonzero_min_x100'' ''In Packet rate: Nonzero Min'',
     N32 ''in_pkt_rate.max_x100'' ''In Packet rate: Max'',
     N32 ''in_syn_rate.mean_x100'' ''In SYN rate: Mean'',
     N32 ''in_syn_rate.variance_x100'' ''In SYN rate: Variance'',
     N32 ''in_syn_rate.min_x100'' ''In SYN rate: Min'',
     N32 ''in_syn_rate.nonzero_min_x100'' ''In SYN rate: Nonzero Min'',
     N32 ''in_syn_rate.max_x100'' ''In SYN rate: Max'',
     N32 ''in_fin_rate.mean_x100'' ''In FIN rate: Mean'',
     N32 ''in_fin_rate.variance_x100'' ''In FIN rate: Variance'',
     N32 ''in_fin_rate.min_x100'' ''In FIN rate: Min'',
     N32 ''in_fin_rate.nonzero_min_x100'' ''In FIN rate: Nonzero Min'',
     N32 ''in_fin_rate.max_x100'' ''In FIN rate: Max'',
     N32 ''in_rst_rate.mean_x100'' ''In RST rate: Mean'',
     N32 ''in_rst_rate.variance_x100'' ''In RST rate: Variance'',
     N32 ''in_rst_rate.min_x100'' ''In RST rate: Min'',
     N32 ''in_rst_rate.nonzero_min_x100'' ''In RST rate: Nonzero Min'',
     N32 ''in_rst_rate.max_x100'' ''In RST rate: Max'',
     N32 ''small_window_ack_rate.mean_x100'' ''Small Window ACK rate: Mean'',
     N32 ''small_window_ack_rate.variance_x100'' ''Small Window ACK rate: Variance'',
     N32 ''small_window_ack_rate.min_x100'' ''Small Window ACK rate: Min'',
     N32 ''small_window_ack_rate.nonzero_min_x100'' ''Small Window ACK rate: Nonzero Min'',
     N32 ''small_window_ack_rate.max_x100'' ''Small Window ACK rate: Max'',
     N32 ''empty_ack_rate.mean_x100'' ''Empty ACK rate: Mean'',
     N32 ''empty_ack_rate.variance_x100'' ''Empty ACK rate: Variance'',
     N32 ''empty_ack_rate.min_x100'' ''Empty ACK rate: Min'',
     N32 ''empty_ack_rate.nonzero_min_x100'' ''Empty ACK rate: Nonzero Min'',
     N32 ''empty_ack_rate.max_x100'' ''Empty ACK rate: Max'',
     N32 ''small_payload_rate.mean_x100'' ''Small Payload rate: Mean'',
     N32 ''small_payload_rate.variance_x100'' ''Small Payload rate: Variance'',
     N32 ''small_payload_rate.min_x100'' ''Small Payload rate: Min'',
     N32 ''small_payload_rate.nonzero_min_x100'' ''Small Payload rate: Nonzero Min'',
     N32 ''small_payload_rate.max_x100'' ''Small Payload rate: Max'',
     N32 ''in_byte_over_out_byte.mean_x100'' ''In byte over Out byte: Mean'',
     N32 ''in_byte_over_out_byte.variance_x100'' ''In byte over Out byte: Variance'',
     N32 ''in_byte_over_out_byte.min_x100'' ''In byte over Out byte: Min'',
     N32 ''in_byte_over_out_byte.nonzero_min_x100'' ''In byte over Out byte: Nonzero Min'',
     N32 ''in_byte_over_out_byte.max_x100'' ''In byte over Out byte: Max'',
     N32 ''syn_over_fin.mean_x100'' ''SYN over FIN: Mean'',
     N32 ''syn_over_fin.variance_x100'' ''SYN over FIN: Variance'',
     N32 ''syn_over_fin.min_x100'' ''SYN over FIN: Min'',
     N32 ''syn_over_fin.nonzero_min_x100'' ''SYN over FIN: Nonzero Min'',
     N32 ''syn_over_fin.max_x100'' ''SYN over FIN: Max'',
     N32 ''conn_miss_rate.mean_x100'' ''Conn miss rate: Mean'',
     N32 ''conn_miss_rate.variance_x100'' ''Conn miss rate: Variance'',
     N32 ''conn_miss_rate.min_x100'' ''Conn miss rate: Min'',
     N32 ''conn_miss_rate.nonzero_min_x100'' ''Conn miss rate: Nonzero Min'',
     N32 ''conn_miss_rate.max_x100'' ''Conn miss rate: Max'',
     N32 ''concurrent_conns.mean_x100'' ''Conncurrent conns: Mean'',
     N32 ''concurrent_conns.variance_x100'' ''Conncurrent conns: Variance'',
     N32 ''concurrent_conns.min_x100'' ''Conncurrent conns: Min'',
     N32 ''concurrent_conns.nonzero_min_x100'' ''Conncurrent conns: Nonzero Min'',
     N32 ''concurrent_conns.max_x100'' ''Conncurrent conns: Max'',
     N32 ''pkt_drop_rate.mean_x100'' ''Pkt Drop Rate: Mean'',
     N32 ''pkt_drop_rate.variance_x100'' ''Pkt Drop Rate: Variance'',
     N32 ''pkt_drop_rate.min_x100'' ''Pkt Drop Rate: Min'',
     N32 ''pkt_drop_rate.nonzero_min_x100'' ''Pkt Drop Rate: Nonzero Min'',
     N32 ''pkt_drop_rate.max_x100'' ''Pkt Drop Rate: Max'',
     N32 ''pkt_drop_recv_ratio.mean_x100'' ''Pkt Drop / Pkt Rcvd: Mean'',
     N32 ''pkt_drop_recv_ratio.variance_x100'' ''Pkt Drop / Pkt Rcvd: Variance'',
     N32 ''pkt_drop_recv_ratio.min_x100'' ''Pkt Drop / Pkt Rcvd: Min'',
     N32 ''pkt_drop_recv_ratio.nonzero_min_x100'' ''Pkt Drop / Pkt Rcvd: Nonzero Min'',
     N32 ''pkt_drop_recv_ratio.max_x100'' ''Pkt Drop / Pkt Rcvd: Max'']"

definition readCounters_DDOS_DST_TCP_INDICATORS :: "unit dec" where
  "readCounters_DDOS_DST_TCP_INDICATORS = read_items ''ddos_dst_tcp_indicators'' DDOS_DST_TCP_INDICATORS_items"

definition DDOS_DST_UDP_INDICATORS_items :: "item list" where
  "DDOS_DST_UDP_INDICATORS_items = [
     N32 ''seq_num'' ''Sequence #:'', N16 ''num_data_points'' ''Num Data Points:'',
     N16 ''elapsed_sec'' ''Elapsed sec:'',
     N32 ''in_pkt_rate.mean_x100'' ''In Packet rate: Mean'',
     N32 ''in_pkt_rate.variance_x100'' ''In Packet rate: Variance'',
     N32 ''in_pkt_rate.min_x100'' ''In Packet rate: Min'',
     N32 ''in_pkt_rate.nonzero_min_x100'' ''In Packet rate: Nonzero Min'',
     N32 ''in_pkt_rate.max_x100'' ''In Packet rate: Max'',
     N32 ''small_payload_rate.mean_x100'' ''Small Payload rate: Mean'',
     N32 ''small_payload_rate.variance_x100'' ''Small Payload rate:: Variance'',
     N32 ''small_payload_rate.min_x100'' ''Small Payload rate:: Min'',
     N32 ''small_payload_rate.nonzero_min_x100'' ''Small Payload rate:: Nonzero Min'',
     N32 ''small_payload_rate.max_x100'' ''Small Payload rate:: Max'',
     N32 ''in_byte_over_out_byte.mean_x100'' ''In byte over Out byte: Mean'',
     N32 ''in_byte_over_out_byte.variance_x100'' ''In byte over Out byte: Variance'',
     N32 ''in_byte_over_out_byte.min_x100'' ''In byte over Out byte: Min'',
     N32 ''in_byte_over_out_byte.nonzero_min_x100'' ''In byte over Out byte: Nonzero Min'',
     N32 ''in_byte_over_out_byte.max_x100'' ''In byte over Out byte: Max'',
     N32 ''pkt_drop_rate.mean_x100'' ''Pkt Drop Rate: Mean'',
     N32 ''pkt_drop_rate.variance_x100'' ''Pkt Drop Rate: Variance'',
     N32 ''pkt_drop_rate.min_x100'' ''Pkt Drop Rate: Min'',
     N32 ''pkt_drop_rate.nonzero_min_x100'' ''Pkt Drop Rate: Nonzero Min'',
     N32 ''pkt_drop_rate.max_x100'' ''Pkt Drop Rate: Max'',
     N32 ''pkt_drop_recv_ratio.mean_x100'' ''Pkt Drop / Pkt Rcvd: Mean'',
     N32 ''pkt_drop_recv_ratio.variance_x100'' ''Pkt Drop / Pkt Rcvd: Variance'',
     N32 ''pkt_drop_recv_ratio.min_x100'' ''Pkt Drop / Pkt Rcvd: Min'',
     N32 ''pkt_drop_recv_ratio.nonzero_min_x100'' ''Pkt Drop / Pkt Rcvd: Nonzero Min'',
     N32 ''pkt_drop_recv_ratio.max_x100'' ''Pkt Drop / Pkt Rcvd: Max'']"

definition readCounters_DDOS_DST_UDP_INDICATORS :: "unit dec" where
  "readCounters_DDOS_DST_UDP_INDICATORS = read_items ''ddos_dst_udp_indicators'' DDOS_DST_UDP_INDICATORS_items"

definition DDOS_DST_ICMP_INDICATORS_items :: "item list" where
  "DDOS_DST_ICMP_INDICATORS_items = [
     N32 ''seq_num'' ''Sequence #:'', N16 ''num_data_points'' ''Num Data Points:'',
     N16 ''elapsed_sec'' ''Elapsed sec:'',
     N32 ''in_pkt_rate.mean_x100'' ''In Packet rate: Mean'',
     N32 ''in_pkt_rate.variance_x100'' ''In Packet rate: Variance'',
     N32 ''in_pkt_rate.min_x100'' ''In Packet rate: Min'',
     N32 ''in_pkt_rate.nonzero_min_x100'' ''In Packet rate: Nonzero Min'',
     N32 ''in_pkt_rate.max_x100'' ''In Packet rate: Max'',
     N32 ''in_byte_over_out_byte.mean_x100'' ''In byte over Out byte: Mean'',
     N32 ''in_byte_over_out_byte.variance_x100'' ''In byte over Out byte: Variance'',
     N32 ''in_byte_over_out_byte.min_x100'' ''In byte over Out byte: Min'',
     N32 ''in_byte_over_out_byte.nonzero_min_x100'' ''In byte over Out byte: Nonzero Min'',
     N32 ''in_byte_over_out_byte.max_x100'' ''In byte over Out byte: Max'',
     N32 ''pkt_drop_rate.mean_x100'' ''Pkt Drop Rate: Mean'',
     N32 ''pkt_drop_rate.variance_x100'' ''Pkt Drop Rate: Variance'',
     N32 ''pkt_drop_rate.min_x100'' ''Pkt Drop Rate: Min'',
     N32 ''pkt_drop_rate.nonzero_min_x100'' ''Pkt Drop Rate: Nonzero Min'',
     N32 ''pkt_drop_rate.max_x100'' ''Pkt Drop Rate: Max'',
     N32 ''pkt_drop_recv_ratio.mean_x100'' ''Pkt Drop / Pkt Rcvd: Mean'',
     N32 ''pkt_drop_recv_ratio.variance_x100'' ''Pkt Drop / Pkt Rcvd: Variance'',
     N32 ''pkt_drop_recv_ratio.min_x100'' ''Pkt Drop / Pkt Rcvd: Min'',
     N32 ''pkt_drop_recv_ratio.nonzero_min_x100'' ''Pkt Drop / Pkt Rcvd: Nonzero Min'',
     N32 ''pkt_drop_recv_ratio.max_x100'' ''Pkt Drop / Pkt Rcvd: Max'']"

definition readCounters_DDOS_DST_ICMP_INDICATORS :: "unit dec" where
  "readCounters_DDOS_DST_ICMP_INDICATORS = read_items ''ddos_dst_icmp_indicators'' DDOS_DST_ICMP_INDICATORS_items"

definition DDOS_DST_OTHER_INDICATORS_items :: "item list" where
  "DDOS_DST_OTHER_INDICATORS_items = [
     N32 ''seq_num'' ''Sequence #:'', N16 ''num_data_points'' ''Num Data Points:'',
     N16 ''elapsed_sec'' ''Elapsed sec:'',
     N32 ''in_pkt_rate.mean_x100'' ''In Packet rate: Mean'',
     N32 ''in_pkt_rate.variance_x100'' ''In Packet rate: Variance'',
     N32 ''in_pkt_rate.min_x100'' ''In Packet rate: Min'',
     N32 ''in_pkt_rate.nonzero_min_x100'' ''In Packet rate: Nonzero Min'',
     N32 ''in_pkt_rate.max_x100'' ''In Packet rate: Max'',
     N32 ''in_frag_rate.mean_x100'' ''In Frag rate: Mean'',
     N32 ''in_frag_rate.variance_x100'' ''In Frag rate: Variance'',
     N32 ''in_frag_rate.min_x100'' ''In Frag rate: Min'',
     N32 ''in_frag_rate.nonzero_min_x100'' ''In Frag rate: Nonzero Min'',
     N32 ''in_frag_rate.max_x100'' ''In Frag rate: Max'',
     N32 ''in_byte_over_out_byte.mean_x100'' ''In byte over Out byte: Mean'',
     N32 ''in_byte_over_out_byte.variance_x100'' ''In byte over Out byte: Variance'',
     N32 ''in_byte_over_out_byte.min_x100'' ''In byte over Out byte: Min'',
     N32 ''in_byte_over_out_byte.nonzero_min_x100'' ''In byte over Out byte: Nonzero Min'',
     N32 ''in_byte_over_out_byte.max_x100'' ''In byte over Out byte: Max'',
     N32 ''pkt_drop_rate.mean_x100'' ''Pkt Drop Rate: Mean'',
     N32 ''pkt_drop_rate.variance_x100'' ''Pkt Drop Rate: Variance'',
     N32 ''pkt_drop_rate.min_x100'' ''Pkt Drop Rate: Min'',
     N32 ''pkt_drop_rate.nonzero_min_x100'' ''Pkt Drop Rate: Nonzero Min'',
     N32 ''pkt_drop_rate.max_x100'' ''Pkt Drop Rate: Max'',
     N32 ''pkt_drop_recv_ratio.mean_x100'' ''Pkt Drop / Pkt Rcvd: Mean'',
     N32 ''pkt_drop_recv_ratio.variance_x100'' ''Pkt Drop / Pkt Rcvd: Variance'',
     N32 ''pkt_drop_recv_ratio.min_x100'' ''Pkt Drop / Pkt Rcvd: Min'',
     N32 ''pkt_drop_recv_ratio.nonzero_min_x100'' ''Pkt Drop / Pkt Rcvd: Nonzero Min'',
     N32 ''pkt_drop_recv_ratio.max_x100'' ''Pkt Drop / Pkt Rcvd: Max'']"

definition readCounters_DDOS_DST_OTHER_INDICATORS :: "unit dec" where
  "readCounters_DDOS_DST_OTHER_INDICATORS = read_items ''ddos_dst_other_indicators'' DDOS_DST_OTHER_INDICATORS_items"

definition DDOS_POLLING_TCP_STATEFUL_items :: "item list" where
  "DDOS_POLLING_TCP_STATEFUL_items = [
     N64 ''conn_open'' ''Connections Open:'', N64 ''conn_est'' ''Connections Established:'',
     Text ''Connections Closed when it was in the OPEN state:\<newline>'',
     N64 ''open_closed.client_fin'' ''Client FIN:'',
     N64 ''open_closed.client_rst'' ''Client RST:'',
     N64 ''open_closed.server_fin'' ''Server FIN:'',
     N64 ''open_closed.server_rst'' ''Server RST:'', N64 ''open_closed.idle'' ''Idle:'',
     N64 ''open_closed.other'' ''Other:'',
     Text ''Connections Closed when it was in the ESTABLISHED state:\<newline>'',
     N64 ''est_closed.client_fin'' ''Client FIN:'',
     N64 ''est_closed.client_rst'' ''Client RST:'',
     N64 ''est_closed.server_fin'' ''Server FIN:'',
     N64 ''est_closed.server_rst'' ''Server RST:'', N64 ''est_closed.idle'' ''Idle:'',
     N64 ''est_closed.other'' ''Other:'', Text ''TCP Handshake details:\<newline>'',
     N16 ''handshake.avg_syn_ack_delay_ms'' ''Avg SYN/ACK delay(ms):'',
     N16 ''handshake.max_syn_ack_delay_ms'' ''Max SYN/ACK delay(ms):'',
     N16 ''handshake.avg_ack_delay_ms'' ''Avg ACK delay(ms):'',
     N16 ''handshake.max_ack_delay_ms'' ''Max ACK delay(ms):'',
     N32 ''syn_retransmit'' ''SYN rexmit:'', N32 ''psh_retransmit'' ''PUSH rexmit:'',
     N32 ''ack_retransmit'' ''ACK rexmit:'', N32 ''fin_retransmit'' ''FIN rexmit:'',
     N32 ''total_retransmit'' ''Total rexmit:'', N32 ''syn_ofo'' ''SYN OFO:'',
     N32 ''psh_ofo'' ''PUSH OFO:'', N32 ''ack_ofo'' ''ACK OFO:'', N32 ''fin_ofo'' ''FIN OFO:'',
     N32 ''total_ofo'' ''Total OFO:'']"

definition readCounters_DDOS_POLLING_TCP_STATEFUL :: "unit dec" where
  "readCounters_DDOS_POLLING_TCP_STATEFUL = read_items ''polling_tcp_stateful'' DDOS_POLLING_TCP_STATEFUL_items"

definition DDOS_POLLING_HTTP_items :: "item list" where
  "DDOS_POLLING_HTTP_items = [
     N32 ''method_option_count'' ''OPTION:'', N32 ''method_get_count'' ''GET:'',
     N32 ''method_head_count'' ''HEAD:'', N32 ''method_post_count'' ''POST:'',
     N32 ''method_put_count'' ''PUT:'', N32 ''method_delete_count'' ''DELETE:'',
     N32 ''method_trace_count'' ''TRACE:'', N32 ''method_connect_count'' ''CONNECT:'',
     N32 ''method_other_count'' ''OTHER:'', N32 ''status_1XX_count'' ''Status 1XX:'',
     N32 ''status_2XX_count'' ''Status 2XX:'', N32 ''status_3XX_count'' ''Status 3XX:'',
     N32 ''status_4XX_count'' ''Status 4XX:'', N32 ''status_5XX_count'' ''Status 5XX:'',
     N32 ''status_other_count'' ''Status OTHER:'',
     N16 ''avg_response_time_ms'' ''Average response time(ms):'',
     N16 ''max_response_time_ms'' ''Max response time(ms):'',
     N16 ''avg_health_check_time_ms'' ''Average Health check time(ms):'',
     N16 ''max_health_check_time_ms'' ''Max Health check time(ms):'']"

definition readCounters_DDOS_POLLING_HTTP :: "unit dec" where
  "readCounters_DDOS_POLLING_HTTP = read_items ''polling_http'' DDOS_POLLING_HTTP_items"

definition TCP_BASIC_printed :: "(string \<times> string) list" where
  "TCP_BASIC_printed = [
     (''syn'', ''SYN:''), (''syn_ack'', ''SYN/ACK:''), (''fin'', ''FIN:''), (''rst'', ''RST:''),
     (''psh'', ''PUSH:''), (''ack'', ''ACK:''), (''urg'', ''URGENT:''), (''ece'', ''ECE:''),
     (''cwr'', ''CWR:''), (''ns'', ''NS:''), (''reserved_flag9'', ''FLAG-09:''),
     (''reserved_flag10'', ''FLAG-10:''), (''reserved_flag11'', ''FLAG-11''),
     (''no_flags'', ''No FLAGS''), (''option_mss'', ''OPTIONS-MSS:''),
     (''option_wscale'', ''OPTIONS-WSCALE:''), (''option_sack'', ''OPTIONS-SACK:''),
     (''option_ts'', ''OPTIONS-TIME STAMP:''), (''option_other'', ''OPTIONS-OTHER:'')]"

definition readCounters_DDOS_POLLING_TCP_BASIC :: "unit dec" where
  "readCounters_DDOS_POLLING_TCP_BASIC = block [
     populate_sflow_struct_u32 ''polling_tcp_basic'' sflow_ddos_tcp_basic_counters_v1,
     bnd (fields_of ''polling_tcp_basic'') (\<lambda>tcp_basic. block [
       sf_log_string ''RECEIVED:\<newline>'',
       log_u32s (\<lambda>f. tcp_basic (''rcvd.'' @ f)) TCP_BASIC_printed,
       sf_log_string ''SENT:\<newline>'',
       log_u32s (\<lambda>f. tcp_basic (''sent.'' @ f)) TCP_BASIC_printed])]"

definition readCounters_DDOS_POLLING_L4_PROTOCOL :: "unit dec" where
  "readCounters_DDOS_POLLING_L4_PROTOCOL = block [
     populate_sflow_struct_u32 ''polling_l4'' sflow_ddos_l4_counters_v1,
     bnd (fields_of ''polling_l4'') (\<lambda>l4.
       for_from 0 256 (\<lambda>i.
         bnd (index_table g_l4_protocol_list (of_nat i)) (\<lambda>name.
         sf_log_u32 (ucast (l4 (elem_name ''protocol'' i))) name)))]"

definition readCounters_DDOS_POLLING_ENTRY_MAP :: "unit dec" where
  "readCounters_DDOS_POLLING_ENTRY_MAP =
     bnd getData_u8 (\<lambda>is_src.
     bnd (block [
       set_ddos ''polling_entry_map'' ''is_src'' (ucast is_src),
       sf_log ''%-35s %-20s\<newline>'' [AStr ''Port Direction'',
         AStr (if is_src \<noteq> 0 then ''Source'' else ''Destination'')]]) (\<lambda>_.
     bnd getData_u8 (\<lambda>port_type.
     bnd (set_ddos ''polling_entry_map'' ''port_type'' (ucast port_type)) (\<lambda>_.
     bnd (if port_type > 0 then index_table ddos_proto_str (ucast port_type - 1)
          else ret ''None'') (\<lambda>buffer_port_app_type. block [
       sf_log ''%-35s %-20s\<newline>'' [AStr ''Port Type'', AStr buffer_port_app_type],
       read_items ''polling_entry_map'' [N16 ''port'' ''Port #''],
       drop_value (sf_log_next8 ''Entry name'' 64)])))))"

section \<open>Contracts\<close>

context contract_law
begin

lemma sat_Let [contract_intro]: "(\<And>v. sat R (f v)) \<Longrightarrow> sat R (let v = e in f v)"
  by simp

end

context checked_reader
begin

lemma sat_set_ddos [contract_intro]: "sat R (set_ddos p f v)"
  unfolding set_ddos_def by (intro contract_intro)

lemma sat_fields_of [contract_intro]: "sat R (fields_of p)"
  unfolding fields_of_def by (intro contract_intro)

lemma sat_total [contract_intro]: "sat R (total g)"
  unfolding total_def by (intro contract_intro)

lemma sat_log_u64s [contract_intro]: "sat R (log_u64s v fs)"
  unfolding log_u64s_def by (rule sat_block) (auto simp: list_all_iff intro!: contract_intro)

lemma sat_log_u32s [contract_intro]: "sat R (log_u32s v fs)"
  unfolding log_u32s_def by (rule sat_block) (auto simp: list_all_iff intro!: contract_intro)

lemma sat_sfl_log_ex_string_fmt [contract_intro]: "sat R (sfl_log_ex_string_fmt d l)"
  unfolding sfl_log_ex_string_fmt_def by (intro contract_intro)

lemma sat_read_item [contract_intro]: "sat R (read_item p it)"
  by (cases it) (simp_all, (intro contract_intro)+)

lemma sat_read_items [contract_intro]: "sat R (read_items p is)"
  unfolding read_items_def by (rule sat_block) (auto simp: list_all_iff intro!: contract_intro)

lemma sat_sfl_ddos_description [contract_intro]: "sat R (sfl_ddos_description d)"
  unfolding sfl_ddos_description_def by (intro contract_intro)

lemma sat_sfl_ddos_update_ctx_len [contract_intro]: "sat R (sfl_ddos_update_ctx_len n)"
  unfolding sfl_ddos_update_ctx_len_def by (intro contract_intro)

lemma sat_agent_id [contract_intro]: "sat R agent_id"
  unfolding agent_id_def by (intro contract_intro)

lemma sat_send_tsdb [contract_intro]: "sat R (send_tsdb b)"
  unfolding send_tsdb_def by (intro contract_intro)

end

context unchecked_reader
begin

lemma sat_advance_word [contract_intro]: "sat R (advance (uint (w :: u16)))"
  by (simp add: sat_def advance_def jumped)

lemma sat_set_total [contract_intro]: "sat R (set_total g v)"
  by (simp add: sat_def set_total_def totalled)

lemma sat_for_from_unat [contract_intro]:
  "(\<And>i. sat R (body i)) \<Longrightarrow> sat R (for_from 0 (unat (n :: u16)) body)"
  by (rule sat_for_from)

lemma sat_populate_u64 [contract_intro]: "sat R (populate_sflow_struct_u64 p fs)"
  unfolding populate_sflow_struct_u64_def by (intro contract_intro)

lemma sat_populate_u32 [contract_intro]: "sat R (populate_sflow_struct_u32 p fs)"
  unfolding populate_sflow_struct_u32_def by (intro contract_intro)

lemma sat_readCounters_DDOS_GENERAL_HTTP_COUNTER [contract_intro]: "sat R readCounters_DDOS_GENERAL_HTTP_COUNTER"
  unfolding readCounters_DDOS_GENERAL_HTTP_COUNTER_def by (intro contract_intro)

lemma sat_readCounters_DDOS_COUNTER [contract_intro]: "sat R readCounters_DDOS_COUNTER"
  unfolding readCounters_DDOS_COUNTER_def by (intro contract_intro)

lemma sat_readCounters_DDOS_HTTP_COUNTER [contract_intro]: "sat R (readCounters_DDOS_HTTP_COUNTER p)"
  unfolding readCounters_DDOS_HTTP_COUNTER_def by (intro contract_intro)

lemma sat_readCounters_DDOS_FPGA_ANOMALY_COUNTER [contract_intro]: "sat R readCounters_DDOS_FPGA_ANOMALY_COUNTER"
  unfolding readCounters_DDOS_FPGA_ANOMALY_COUNTER_def by (intro contract_intro)

lemma sat_readCounters_DDOS_POLLING_PACKETS [contract_intro]: "sat R readCounters_DDOS_POLLING_PACKETS"
  unfolding readCounters_DDOS_POLLING_PACKETS_def by (intro contract_intro)

lemma sat_readCounters_DDOS_DNS_COUNTER [contract_intro]: "sat R readCounters_DDOS_DNS_COUNTER"
  unfolding readCounters_DDOS_DNS_COUNTER_def by (intro contract_intro)

lemma sat_readCounters_DDOS_SSL_L4_COUNTER [contract_intro]: "sat R readCounters_DDOS_SSL_L4_COUNTER"
  unfolding readCounters_DDOS_SSL_L4_COUNTER_def by (intro contract_intro)

lemma sat_readCounters_DDOS_L4_TCP_COUNTER [contract_intro]: "sat R readCounters_DDOS_L4_TCP_COUNTER"
  unfolding readCounters_DDOS_L4_TCP_COUNTER_def by (intro contract_intro)

lemma sat_readCounters_DDOS_L4_UDP_COUNTER [contract_intro]: "sat R readCounters_DDOS_L4_UDP_COUNTER"
  unfolding readCounters_DDOS_L4_UDP_COUNTER_def by (intro contract_intro)

lemma sat_readCounters_DDOS_L4_ICMP_COUNTER [contract_intro]: "sat R readCounters_DDOS_L4_ICMP_COUNTER"
  unfolding readCounters_DDOS_L4_ICMP_COUNTER_def by (intro contract_intro)

lemma sat_readCounters_DDOS_L4_OTHER_COUNTER [contract_intro]: "sat R readCounters_DDOS_L4_OTHER_COUNTER"
  unfolding readCounters_DDOS_L4_OTHER_COUNTER_def by (intro contract_intro)

lemma sat_readCounters_DDOS_L4_SWITCH_COUNTER [contract_intro]: "sat R readCounters_DDOS_L4_SWITCH_COUNTER"
  unfolding readCounters_DDOS_L4_SWITCH_COUNTER_def by (intro contract_intro)

lemma sat_readCounters_DDOS_L4_SESSION_COUNTER [contract_intro]: "sat R readCounters_DDOS_L4_SESSION_COUNTER"
  unfolding readCounters_DDOS_L4_SESSION_COUNTER_def by (intro contract_intro)

lemma sat_readCounters_DDOS_L4_SYNC_COUNTER [contract_intro]: "sat R readCounters_DDOS_L4_SYNC_COUNTER"
  unfolding readCounters_DDOS_L4_SYNC_COUNTER_def by (intro contract_intro)

lemma sat_readCounters_DDOS_L4_TUNNEL_COUNTER [contract_intro]: "sat R readCounters_DDOS_L4_TUNNEL_COUNTER"
  unfolding readCounters_DDOS_L4_TUNNEL_COUNTER_def by (intro contract_intro)

lemma sat_readCounters_DDOS_ENTRY_TABLE_COUNTER [contract_intro]: "sat R readCounters_DDOS_ENTRY_TABLE_COUNTER"
  unfolding readCounters_DDOS_ENTRY_TABLE_COUNTER_def by (intro contract_intro)

lemma sat_readCounters_DDOS_BRIEF_STATS_COUNTER [contract_intro]: "sat R readCounters_DDOS_BRIEF_STATS_COUNTER"
  unfolding readCounters_DDOS_BRIEF_STATS_COUNTER_def by (intro contract_intro)

lemma sat_readCounters_DDOS_LONG_STATS_COUNTER [contract_intro]: "sat R readCounters_DDOS_LONG_STATS_COUNTER"
  unfolding readCounters_DDOS_LONG_STATS_COUNTER_def by (intro contract_intro)

lemma sat_readCounters_DDOS_DST_INDICATORS [contract_intro]: "sat R readCounters_DDOS_DST_INDICATORS"
  unfolding readCounters_DDOS_DST_INDICATORS_def by (intro contract_intro)

lemma sat_readCounters_DDOS_DST_TCP_INDICATORS [contract_intro]: "sat R readCounters_DDOS_DST_TCP_INDICATORS"
  unfolding readCounters_DDOS_DST_TCP_INDICATORS_def by (intro contract_intro)

lemma sat_readCounters_DDOS_DST_UDP_INDICATORS [contract_intro]: "sat R readCounters_DDOS_DST_UDP_INDICATORS"
  unfolding readCounters_DDOS_DST_UDP_INDICATORS_def by (intro contract_intro)

lemma sat_readCounters_DDOS_DST_ICMP_INDICATORS [contract_intro]: "sat R readCounters_DDOS_DST_ICMP_INDICATORS"
  unfolding readCounters_DDOS_DST_ICMP_INDICATORS_def by (intro contract_intro)

lemma sat_readCounters_DDOS_DST_OTHER_INDICATORS [contract_intro]: "sat R readCounters_DDOS_DST_OTHER_INDICATORS"
  unfolding readCounters_DDOS_DST_OTHER_INDICATORS_def by (intro contract_intro)

lemma sat_readCounters_DDOS_POLLING_TCP_STATEFUL [contract_intro]: "sat R readCounters_DDOS_POLLING_TCP_STATEFUL"
  unfolding readCounters_DDOS_POLLING_TCP_STATEFUL_def by (intro contract_intro)

lemma sat_readCounters_DDOS_POLLING_HTTP [contract_intro]: "sat R readCounters_DDOS_POLLING_HTTP"
  unfolding readCounters_DDOS_POLLING_HTTP_def by (intro contract_intro)

lemma sat_readCounters_DDOS_POLLING_TCP_BASIC [contract_intro]: "sat R readCounters_DDOS_POLLING_TCP_BASIC"
  unfolding readCounters_DDOS_POLLING_TCP_BASIC_def by (intro contract_intro)

lemma sat_readCounters_DDOS_POLLING_L4_PROTOCOL [contract_intro]: "sat R readCounters_DDOS_POLLING_L4_PROTOCOL"
  unfolding readCounters_DDOS_POLLING_L4_PROTOCOL_def by (intro contract_intro sat_for_from)

lemma sat_readCounters_DDOS_POLLING_ENTRY_MAP [contract_intro]: "sat R readCounters_DDOS_POLLING_ENTRY_MAP"
  unfolding readCounters_DDOS_POLLING_ENTRY_MAP_def by (intro contract_intro)

end

end
