(* ===== verification/DdosEntry.thy ===== *)
theory DdosEntry
  imports Ddos
begin

text \<open>
  The vendor's counter tables, second part: the tables of one protected entry. Each starts with
  the entry's table type, address and age (\<open>readCounters_DDOS_IP_COUNTER_COMMON\<close>), some with a port and
  an application type, and then holds the entry's counters (\<open>sflowtool.c\<close> 4459-4502, 5033-5384,
  6473-7035), or two arrays of limits per protocol and application
  (\<open>readCounters_DDOS_IP_COUNTER\<close>). At the end the functions that would print such an entry on a
  line, which nothing calls.
\<close>

section \<open>Addresses\<close>

definition getDDoSAddress :: "u8 \<Rightarrow> SFLAddress \<Rightarrow> SFLAddress dec" where
  "getDDoSAddress ip_type address =
     (if ip_type = 1 then
        bnd getData32 (\<lambda>w.
        bnd (skipBytes 12) (\<lambda>_.
        ret (set_ip_v4 w (address\<lparr>addr_type := SFLADDRESSTYPE_IP_V4\<rparr>))))
      else
        bnd (peek_bytes 16) (\<lambda>bs.
        bnd (skipBytes 16) (\<lambda>_.
        ret (set_ip_v6 bs (address\<lparr>addr_type := SFLADDRESSTYPE_IP_V6\<rparr>)))))"

text \<open>
  The entry's address is a union of a word and sixteen bytes (\<open>ip_addr\<close>, \<open>ip6_addr\<close>, and the same
  for the destination): its bytes are \<open>ddos_addr\<close> at the path of the word.
\<close>

definition union_v4 :: "u8 list \<Rightarrow> u32" where
  "union_v4 i = le32 (i ! 0) (i ! 1) (i ! 2) (i ! 3)"

definition entry_ip :: "string \<Rightarrow> u8 list dec" where
  "entry_ip hdr = fetch (\<lambda>x. ddos_addr x (hdr @ ''.ip_addr''))"

definition set_entry_address :: "string \<Rightarrow> u32 \<Rightarrow> SFLAddress \<Rightarrow> unit dec" where
  "set_entry_address p ip_type a =
     alter (\<lambda>x. x\<lparr>ddos_addr := (ddos_addr x)(p :=
       overwrite (ddos_addr x p)
         (if ip_type = 1 then bytes_of_u32 (ip_v4 a) else take 16 (addr_bytes a)))\<rparr>)"

section \<open>The head of a table\<close>

definition log_table_entry :: "string \<Rightarrow> string \<Rightarrow> string list \<Rightarrow> u32 \<Rightarrow> unit dec" where
  "log_table_entry fmt label table i =
     bnd (index_table table i) (\<lambda>name. sf_log fmt [AStr label, AStr name, A32 i])"

definition readCounters_DDOS_IP_COUNTER_COMMON :: "string \<Rightarrow> unit dec" where
  "readCounters_DDOS_IP_COUNTER_COMMON hdr =
     bnd getData32 (\<lambda>table_type.
     bnd (block [
       log_table_entry ''%-35s %s[%u]\<newline>'' ''Table Type:'' ddos_table_type table_type,
       set_ddos hdr ''table_type'' (ucast table_type)]) (\<lambda>_.
     bnd getData32 (\<lambda>ip_type.
     bnd (block [
       log_table_entry ''%-35s %s[%u]\<newline>'' ''IP Type:'' ddos_ip_type ip_type,
       set_ddos hdr ''ip_type'' (ucast ip_type),
       read_items hdr [N32 ''static_entry'' ''Static:'']]) (\<lambda>_.
     bnd (getDDoSAddress (ucast ip_type) zero_address) (\<lambda>addr.
     bnd (block [
       set_entry_address (hdr @ ''.ip_addr'') ip_type addr,
       sf_log ''%-35s %-20s\<newline>'' [AStr ''Address:'', AStr (printAddress_no_conversion addr)]]) (\<lambda>_.
     bnd (getDDoSAddress (ucast ip_type) addr) (\<lambda>addr. block [
       set_entry_address (hdr @ ''.dst_ip_addr'') ip_type addr,
       only_if (table_type = 2)
         (sf_log ''Dst Address: %s\<newline>'' [AStr (printAddress_no_conversion addr)]),
       read_items hdr [N16 ''subnet_mask'' ''Subnet/Prefix:'', N16 ''age'' ''Age:'']])))))))"

text \<open>The port and application type in front of an entry's counters, read alike for six tables.\<close>

definition read_port_and_app_type :: "string \<Rightarrow> unit dec" where
  "read_port_and_app_type p = block [
     read_items p [N16 ''port'' ''Port:''],
     bnd getData16 (\<lambda>app_type. block [
       set_ddos p ''app_type'' (ucast app_type),
       only_if (\<not> unat app_type > DDOS_TOTAL_APP_TYPE_SIZE)
         (bnd (index_table ddos_proto_str (ucast app_type)) (\<lambda>name.
          sfl_log_ex_string_fmt name ''App type:''))])]"

definition readCounters_DDOS_HTTP_IP_COUNTER :: "unit dec" where
  "readCounters_DDOS_HTTP_IP_COUNTER = read_port_and_app_type ''http_perip.http''"

definition readCounters_DDOS_SSL_L4_IP_COUNTER :: "unit dec" where
  "readCounters_DDOS_SSL_L4_IP_COUNTER = read_port_and_app_type ''ssl_l4_perip.ssl_l4''"

definition readCounters_DDOS_UDP_IP_COUNTER :: "unit dec" where
  "readCounters_DDOS_UDP_IP_COUNTER = read_port_and_app_type ''udp_perip.udp''"

definition readCounters_DDOS_TCP_IP_COUNTER :: "unit dec" where
  "readCounters_DDOS_TCP_IP_COUNTER = read_port_and_app_type ''tcp_perip.tcp''"

definition readCounters_DDOS_OTHER_IP_COUNTER :: "unit dec" where
  "readCounters_DDOS_OTHER_IP_COUNTER = read_port_and_app_type ''other_perip.other''"

definition readCounters_DDOS_DNS_IP_COUNTER :: "unit dec" where
  "readCounters_DDOS_DNS_IP_COUNTER = read_port_and_app_type ''dns_perip.dns''"

section \<open>The counters of an entry\<close>

definition DDOS_HTTP_T2_COUNTER_printed :: "(string \<times> string) list" where
  "DDOS_HTTP_T2_COUNTER_printed = [
     (''ofo_timer_expired'', ''OFO Timer Expired:''), (''partial_hdr'', ''Partial Header:''),
     (''ofo'', ''Out of Order Packets:''), (''retrans_fin'', ''TCP FIN Retransmit:''),
     (''retrans_rst'', ''TCP RST Retransmit:''), (''retrans_push'', ''TCP PSH Retransmit:''),
     (''retrans'', ''TCP Retransmit:''), (''chunk_bad'', ''Bad HTTP Chunk:''),
     (''chunk_sz_512'', ''Payload chunk size < 512:''),
     (''chunk_sz_1k'', ''Payload chunk size < 1K:''),
     (''chunk_sz_2k'', ''Payload chunk size < 2K:''),
     (''chunk_sz_4k'', ''Payload chunk size < 4K:''),
     (''chunk_sz_gt_4k'', ''Payload chunk size > 4K:''),
     (''neg_rsp_remain'', ''Negative response remain:''),
     (''too_many_headers'', ''Too many HTTP Headers:''),
     (''header_name_too_long'', ''HTTP Header Name too long:''),
     (''http11'', ''Request HTTP 1.1:''), (''http10'', ''Request HTTP 1.0:''),
     (''get'', ''Request method GET:''), (''head'', ''Request method HEAD:''),
     (''put'', ''Request method PUT:''), (''post'', ''Request method POST:''),
     (''trace'', ''Request method TRACE:''), (''options'', ''Request method OPTIONS:''),
     (''connect'', ''Request method CONNECT:''), (''del'', ''Request method DELETE:''),
     (''unknown'', ''Request method UNKNOWN:''), (''line_too_long'', ''Line too long:''),
     (''req_content_len'', ''Request Content-Length:''), (''rsp_chunk'', ''Response Chunk:''),
     (''parsereq_fail'', ''Parse request failure:''), (''request'', ''Request:''),
     (''neg_req_remain'', ''Negative request remain:''),
     (''client_rst'', ''Client TCP RST recv:''), (''req_retrans'', ''Request retransmit:''),
     (''req_ofo'', ''Request OFO:''), (''invalid_header'', ''Invalid HTTP Header:''),
     (''ddos_policy_violation'', ''Policy violation:''),
     (''lower_than_mss_exceed'', ''Fail min payload exceeded:''),
     (''dst_req_rate_exceed'', ''Dst request rate exceeded:''),
     (''src_req_rate_exceed'', ''Src request rate exceeded:''),
     (''req_processed'', ''Packets processed:''), (''new_syn'', ''TCP SYN:''),
     (''policy_drop'', ''Policy Drop:''), (''error_condition'', ''Error condition:''),
     (''ofo_queue_exceed'', ''OFO queue exceeded:''), (''alloc_fail'', ''Alloc Failed:''),
     (''alloc_hdr_fail'', ''Alloc header Failed:''), (''get_line_fail'', ''Get line Failed:''),
     (''invalid_hdr_name'', ''Invalid HTTP header Name:''),
     (''invalid_hdr_val'', ''Invalid HTTP header Value:''),
     (''challenge_ud_fail'', ''Challenge URL redirect Fail:''),
     (''challenge_js_fail'', ''Challenge javascript Fail:''),
     (''challenge_fail'', ''challenge fail:''),
     (''challenge_js_sent'', ''Challenge javascript Sent:''),
     (''challenge_ud_sent'', ''Challenge URL redirect Sent:''),
     (''malform_bad_chunk'', ''Malform bad Chunk:''),
     (''malform_content_len_too_long'', ''Malform content len too long:''),
     (''malform_too_many_headers'', ''Malform too many headers:''),
     (''malform_header_name_too_long'', ''Malform header name too long:''),
     (''malform_line_too_long'', ''Malform line too long:''),
     (''malform_req_line_too_long'', ''Malform req line too long:''),
     (''window_small'', ''Window size small:''),
     (''window_small_drop'', ''Window size small Drop:''),
     (''use_hdr_ip_as_source'', ''Use ip in hdr as src:''),
     (''agent_filter_match'', ''Agent filter matched :''),
     (''agent_filter_blacklist'', ''Agent filter blacklisted:''),
     (''referer_filter_match'', ''Referer filter matched:''),
     (''referer_filter_blacklist'', ''Referer filter blacklisted:''),
     (''http_idle_timeout'', ''HTTP Idle Timeout:''),
     (''header_processing_time_0'', ''Header processing time < 1s:''),
     (''header_processing_time_1'', ''Header processing time < 10s:''),
     (''header_processing_time_2'', ''Header processing time < 30s:''),
     (''header_processing_time_3'', ''Header processing time >= 30s:''),
     (''header_processing_incomplete'', ''Header processing incomplete:''),
     (''req_sz_1k'', ''Request payload Size < 1K:''),
     (''req_sz_2k'', ''Request payload Size < 2K:''),
     (''req_sz_4k'', ''Request payload Size < 4K:''),
     (''req_sz_8k'', ''Request payload Size < 8K:''),
     (''req_sz_16k'', ''Request payload Size < 16K:''),
     (''req_sz_32k'', ''Request payload Size < 32K:''),
     (''req_sz_64k'', ''Request payload Size < 64K:''),
     (''req_sz_256k'', ''Request payload Size < 256K:''),
     (''req_sz_gt_256k'', ''Request payload Size > 256K:''),
     (''filter_hdr_match'', ''Filter Hdr Match:''),
     (''filter_hdr_not_match'', ''Filter Hdr Not Match:''),
     (''filter_hdr_action_blacklist'', ''Filter Hdr Action BL:''),
     (''filter_hdr_action_drop'', ''Filter Hdr Action Drop:''),
     (''filter_hdr_action_default_pass'', ''Filter Hdr Action Default Pass:''),
     (''resp_code_1xx'', ''HTTP Status Code 1XX:''),
     (''resp_code_2xx'', ''HTTP Status Code 2XX:''),
     (''resp_code_3xx'', ''HTTP Status Code 3XX:''),
     (''resp_code_4xx'', ''HTTP Status Code 4XX:''),
     (''resp_code_5xx'', ''HTTP Status Code 5XX:''),
     (''resp_code_other'', ''HTTP Status Code OTHER:''),
     (''dst_post_rate_exceed'', ''Dst post rate exceeded:''),
     (''src_post_rate_exceed'', ''Src post rate exceeded:''),
     (''dst_resp_rate_exceed'', ''Dst response rate exceeded:''),
     (''filter_hdr_action_whitelist'', ''Filter Hdr Action WL:''),
     (''filter_hdr_match'', ''Filter1 Hdr Match:''),
     (''filter_hdr_match'', ''Filter2 Hdr Match:''),
     (''filter_hdr_match'', ''Filter3 Hdr Match:''),
     (''filter_hdr_match'', ''Filter4 Hdr Match:''),
     (''filter_hdr_match'', ''Filter5 Hdr Match:''),
     (''filter_hdr_match'', ''Filter None Hdr Match:''),
     (''src_partial_hdr'', ''Src Partial Header:''),
     (''src_parsereq_fail'', ''Src Parse request failure:''),
     (''src_neg_req_remain'', ''Src Negative request remain:''),
     (''src_ddos_policy_violation'', ''Src Policy violation:''),
     (''src_lower_than_mss_exceed'', ''Src Fail min payload exceeded:''),
     (''src_policy_drop'', ''Src Policy Drop:''),
     (''src_malform_bad_chunk'', ''Src Malform bad Chunk:''),
     (''src_challenge_ud_fail'', ''Src Challenge URL redirect Fail:''),
     (''src_challenge_js_fail'', ''Src Challenge javascript Fail:''),
     (''src_challenge_fail'', ''Src challenge fail:''),
     (''src_window_small_drop'', ''Src Window size small Drop:''),
     (''src_filter_hdr_action_drop'', ''Src Filter Hdr Action Drop:''),
     (''src_challenge_js_sent'', ''Src Challenge javascript Sent:''),
     (''src_challenge_ud_sent'', ''Src Challenge URL redirect Sent:'')]"

definition readCounters_DDOS_HTTP_T2_COUNTER :: "string \<Rightarrow> unit dec" where
  "readCounters_DDOS_HTTP_T2_COUNTER http_t2 =
     bnd (gets now64) (\<lambda>now.
     bnd (populate_sflow_struct_u64 http_t2 sflow_ddos_http_ip_ext_counters_v1) (\<lambda>_.
     bnd (fields_of http_t2) (\<lambda>http_t2.
     bnd (fields_of ''http_perip'') (\<lambda>perip.
     bnd (entry_ip ''http_perip.common'') (\<lambda>i.
     bnd agent_id (\<lambda>agent.
     (let tbuf = (if perip ''common.ip_type'' = 1
            then (''ip=%08x prefix=%d port=%d agent=%08x type=%x\<newline>'',
              [A32 (union_v4 i), num32 (perip ''common.subnet_mask''), num32 (perip ''http.port''), A32 agent, num32 (perip ''common.ip_type'')])
            else (''ip=%02x%02x%02x%02x%02x%02x%02x%02x%02x%02x%02x%02x%02x%02x%02x%02x prefix=%d port=%d agent=%08x\<newline>'',
              map A8 (take 16 i) @ [num32 (perip ''common.subnet_mask''), num32 (perip ''http.port''), A32 agent]));
         http_dropped = http_t2 ''src_challenge_ud_fail'' + http_t2 ''src_challenge_js_fail'' +
           http_t2 ''src_policy_drop'' + http_t2 ''src_ddos_policy_violation'' +
           http_t2 ''src_challenge_ud_sent'' + http_t2 ''src_challenge_js_sent'';
         http_challenge_sent = http_t2 ''challenge_ud_sent'' + http_t2 ''challenge_js_sent'' +
           http_t2 ''src_challenge_ud_sent'' + http_t2 ''src_challenge_js_sent'' +
           http_t2 ''challenge_ud_fail'' + http_t2 ''challenge_js_fail'' +
           http_t2 ''src_challenge_ud_fail'' + http_t2 ''src_challenge_js_fail'';
         dst_http_challenge_sent = http_t2 ''challenge_js_sent'' + http_t2 ''challenge_ud_sent'' +
           http_t2 ''challenge_ud_fail'' + http_t2 ''challenge_js_fail'';
         http_excl_src_dropped = http_t2 ''src_policy_drop''
     in block [
     log_u64s http_t2 DDOS_HTTP_T2_COUNTER_printed,
     set_total ''http_dropped'' http_dropped,
     set_total ''http_challenge_sent'' http_challenge_sent,
     set_total ''dst_http_challenge_sent'' dst_http_challenge_sent,
     set_total ''http_excl_src_dropped'' http_excl_src_dropped,
     send_tsdb [
       tsdb_put now tbuf ''http_dropped'' http_dropped,
       tsdb_put now tbuf ''http_challenge_sent'' http_challenge_sent,
       tsdb_put now tbuf ''dst_http_challenge_sent'' dst_http_challenge_sent,
       tsdb_put now tbuf ''http_policy_violation'' (http_t2 ''ddos_policy_violation'' + http_t2 ''src_ddos_policy_violation''),
       tsdb_put now tbuf ''dst_http_policy_violation'' (http_t2 ''ddos_policy_violation''),
       tsdb_put now tbuf ''http_excl_src_dropped'' http_excl_src_dropped]])))))))"

definition DDOS_UDP_T2_COUNTER_printed :: "(string \<times> string) list" where
  "DDOS_UDP_T2_COUNTER_printed = [
     (''filter1_match'', ''Filter1 Match:''), (''filter2_match'', ''Filter2 Match:''),
     (''filter3_match'', ''Filter3 Match:''), (''filter4_match'', ''Filter4 Match:''),
     (''filter5_match'', ''Filter5 Match:''), (''filter_none_match'', ''Filter None Match:'')]"

definition readCounters_DDOS_UDP_T2_COUNTER :: "string \<Rightarrow> unit dec" where
  "readCounters_DDOS_UDP_T2_COUNTER udp_t2 =
     bnd (populate_sflow_struct_u64 udp_t2 sflow_ddos_udp_ip_ext_counters_v1) (\<lambda>_.
     bnd (fields_of udp_t2) (\<lambda>udp_t2.
     log_u64s udp_t2 DDOS_UDP_T2_COUNTER_printed))"

definition DDOS_TCP_T2_COUNTER_printed :: "(string \<times> string) list" where
  "DDOS_TCP_T2_COUNTER_printed = [
     (''filter1_match'', ''Filter1 Match:''), (''filter2_match'', ''Filter2 Match:''),
     (''filter3_match'', ''Filter3 Match:''), (''filter4_match'', ''Filter4 Match:''),
     (''filter5_match'', ''Filter5 Match:''), (''filter_none_match'', ''Filter None Match:'')]"

definition readCounters_DDOS_TCP_T2_COUNTER :: "string \<Rightarrow> unit dec" where
  "readCounters_DDOS_TCP_T2_COUNTER tcp_t2 =
     bnd (populate_sflow_struct_u64 tcp_t2 sflow_ddos_tcp_ip_ext_counters_v1) (\<lambda>_.
     bnd (fields_of tcp_t2) (\<lambda>tcp_t2.
     log_u64s tcp_t2 DDOS_TCP_T2_COUNTER_printed))"

definition DDOS_OTHER_T2_COUNTER_printed :: "(string \<times> string) list" where
  "DDOS_OTHER_T2_COUNTER_printed = [
     (''filter1_match'', ''Filter1 Match:''), (''filter2_match'', ''Filter2 Match:''),
     (''filter3_match'', ''Filter3 Match:''), (''filter4_match'', ''Filter4 Match:''),
     (''filter5_match'', ''Filter5 Match:''), (''filter_none_match'', ''Filter None Match:'')]"

definition readCounters_DDOS_OTHER_T2_COUNTER :: "string \<Rightarrow> unit dec" where
  "readCounters_DDOS_OTHER_T2_COUNTER other_t2 =
     bnd (populate_sflow_struct_u64 other_t2 sflow_ddos_other_ip_ext_counters_v1) (\<lambda>_.
     bnd (fields_of other_t2) (\<lambda>other_t2.
     log_u64s other_t2 DDOS_OTHER_T2_COUNTER_printed))"

definition DDOS_SSL_L4_T2_COUNTER_printed :: "(string \<times> string) list" where
  "DDOS_SSL_L4_T2_COUNTER_printed = [
     (''ssll4_policy_reset'', ''Policy Reset:''), (''ssll4_policy_drop'', ''Policy Drop:''),
     (''ssll4_drop_packet'', ''Drop packets:''), (''ssll4_er_condition'', ''Error condition:''),
     (''ssll4_processed'', ''Processed:''), (''ssll4_new_syn'', ''New TCP SYN:''),
     (''ssll4_is_ssl3'', ''SSL v3:''), (''ssll4_is_tls1_1'', ''TLS v1.0:''),
     (''ssll4_is_tls1_2'', ''TLS v1.1:''), (''ssll4_is_tls1_3'', ''TLS v1.2:''),
     (''ssll4_is_renegotiation'', ''SSL Renegotiation:''),
     (''ssll4_renegotiation_exceed'', ''Renegotiation exceeded:''),
     (''ssll4_is_dst_req_rate_exceed'', ''Dst rate exceeded:''),
     (''ssll4_is_src_req_rate_exceed'', ''Src rate exceeded:''),
     (''ssll4_do_auth_handshake'', ''Do Auth Handshake:''),
     (''ssll4_reset_for_handshake'', ''Reset While Others in HS:''),
     (''ssll4_handshake_timeout'', ''Auth handshake timeout:''),
     (''ssll4_auth_handshake_ok'', ''Auth handshake success:''),
     (''ssll4_auth_handshake_bl'', ''Auth handshake blacklisted:''),
     (''src_ssll4_policy_drop'', ''Src Policy Drop:''),
     (''src_ssll4_drop_packet'', ''Src Drop packets:''),
     (''src_ssll4_renegotiation_exceed'', ''Src Renegotiation exceeded:''),
     (''src_ssll4_auth_handshake_bl'', ''Src Auth handskake blacklisted:''),
     (''src_ssll4_policy_reset'', ''Src Policy Reset:'')]"

definition readCounters_DDOS_SSL_L4_T2_COUNTER :: "string \<Rightarrow> unit dec" where
  "readCounters_DDOS_SSL_L4_T2_COUNTER ssl_l4_t2 =
     bnd (gets now64) (\<lambda>now.
     bnd (populate_sflow_struct_u64 ssl_l4_t2 sflow_ddos_ssl_l4_ip_ext_counters_v1) (\<lambda>_.
     bnd (fields_of ssl_l4_t2) (\<lambda>ssl_l4_t2.
     bnd (fields_of ''ssl_l4_perip'') (\<lambda>perip.
     bnd (entry_ip ''ssl_l4_perip.common'') (\<lambda>i.
     bnd agent_id (\<lambda>agent.
     (let tbuf = (if perip ''common.ip_type'' = 1
            then (''ip=%08x prefix=%d port=%d agent=%08x type=%x\<newline>'',
              [A32 (union_v4 i), num32 (perip ''common.subnet_mask''), num32 (perip ''ssl_l4.port''), A32 agent, num32 (perip ''common.ip_type'')])
            else (''ip=%02x%02x%02x%02x%02x%02x%02x%02x%02x%02x%02x%02x%02x%02x%02x%02x prefix=%d  port=%d agent=%08x\<newline>'',
              map A8 (take 16 i) @ [num32 (perip ''common.subnet_mask''), num32 (perip ''ssl_l4.port''), A32 agent]))
     in block [
     log_u64s ssl_l4_t2 DDOS_SSL_L4_T2_COUNTER_printed,
     send_tsdb [
       tsdb_put now tbuf ''ssl_dropped'' (ssl_l4_t2 ''src_ssll4_drop_packet'' + ssl_l4_t2 ''src_ssll4_policy_reset''),
       tsdb_put now tbuf ''dst_ssl_dropped'' (ssl_l4_t2 ''ssll4_drop_packet'' + ssl_l4_t2 ''ssll4_policy_reset'')]])))))))"

definition DDOS_DNS_COUNTER_T2_printed :: "(string \<times> string) list" where
  "DDOS_DNS_COUNTER_T2_printed = [
     (''force_tcp_auth'', ''Force TCP auth:''), (''udp_auth'', ''UDP auth:''),
     (''dst_rate_limit0'', ''Dest rate 0 Drop:''), (''dst_rate_limit1'', ''Dest rate 1 Drop:''),
     (''dst_rate_limit2'', ''Dest rate 2 Drop:''), (''dst_rate_limit3'', ''Dest rate 3 Drop:''),
     (''dst_rate_limit4'', ''Dest rate 4 Drop:''), (''dst_is_nx'', ''Response is NXDOMAIN:''),
     (''dst_fqdn_stage2_rate_exceed'', ''FQDN stage-II Exceed:''),
     (''dst_nx_bl'', ''NXDOMAIN query BL:''), (''dst_nx_drop'', ''NXDOMAIN Drop:''),
     (''dns_req_sent'', ''Request:''), (''dns_req_size_exceed'', ''UDP req size exceed:''),
     (''dns_req_retrans'', ''UDP req retrans:''),
     (''dns_tcp_req_incomplete'', ''TCP req incomplete:''),
     (''dns_fqdn_label_len_exceed'', ''FQDN Label Length Exceed:''),
     (''dns_query_type_a'', ''DNS Query A:''), (''dns_query_type_aaaa'', ''DNS Query AAAA:''),
     (''dns_query_type_ns'', ''DNS Query NS:''),
     (''dns_query_type_cname'', ''DNS Query CNAME:''),
     (''dns_query_type_any'', ''DNS Query ANY:''), (''dns_query_type_srv'', ''DNS Query SRV:''),
     (''dns_query_type_mx'', ''DNS Query MX:''), (''dns_query_type_soa'', ''DNS Query SOA:''),
     (''dns_query_type_opt'', ''DNS Query OPTIONS:''),
     (''dns_udp_auth_fail'', ''UDP Auth Fail:''),
     (''dns_malform_drop'', ''DNS Malformed Query Drop:''),
     (''src_rate_limit0'', ''Src rate 0 Drop:''), (''src_rate_limit1'', ''Src rate 1 Drop:''),
     (''src_rate_limit2'', ''Src rate 2 Drop:''), (''src_rate_limit3'', ''Src rate 3 Drop:''),
     (''src_rate_limit4'', ''Src rate 4 Drop:''),
     (''src_dns_fqdn_label_len_exceed'', ''Src FQDN Label Length Exceed:''),
     (''src_dns_udp_auth_fail'', ''Src UDP Auth Fail:''),
     (''src_force_tcp_auth'', ''Src Force TCP auth:''),
     (''src_dns_malform_drop'', ''Src DNS Malformed Query Drop:'')]"

definition readCounters_DDOS_DNS_COUNTER_T2 :: "string \<Rightarrow> unit dec" where
  "readCounters_DDOS_DNS_COUNTER_T2 dns_t2 =
     bnd (gets now64) (\<lambda>now.
     bnd (populate_sflow_struct_u64 dns_t2 sflow_ddos_dns_ip_ext_counters_v1) (\<lambda>_.
     bnd (fields_of dns_t2) (\<lambda>dns_t2.
     bnd (fields_of ''dns_perip'') (\<lambda>perip.
     bnd (entry_ip ''dns_perip.common'') (\<lambda>i.
     bnd agent_id (\<lambda>agent.
     bnd (total ''dns_excl_src_dropped'') (\<lambda>dns_excl_src_dropped.
     (let tbuf = (if perip ''common.ip_type'' = 1
            then (''ip=%08x prefix=%d port=%d app-type=%d agent=%08x type=%x\<newline>'',
              [A32 (union_v4 i), num32 (perip ''common.subnet_mask''), num32 (perip ''dns.port''), num32 (perip ''dns.app_type''), A32 agent, num32 (perip ''common.ip_type'')])
            else (''ip=%02x%02x%02x%02x%02x%02x%02x%02x%02x%02x%02x%02x%02x%02x%02x%02x prefix=%d port=%d app-type=%d agent=%08x\<newline>'',
              map A8 (take 16 i) @ [num32 (perip ''common.subnet_mask''), num32 (perip ''dns.port''), num32 (perip ''dns.app_type''), A32 agent]));
         dns_dropped = dns_t2 ''src_force_tcp_auth'' + dns_t2 ''src_dns_udp_auth_fail'' +
           dns_t2 ''src_dns_malform_drop'' + dns_t2 ''dst_nx_bl'' + dns_t2 ''dst_nx_drop'' +
           dns_t2 ''src_dns_fqdn_label_len_exceed'' + dns_t2 ''src_rate_limit0'' +
           dns_t2 ''src_rate_limit1'' + dns_t2 ''src_rate_limit2'' + dns_t2 ''src_rate_limit3''
           + dns_t2 ''src_rate_limit4''
     in block [
     log_u64s dns_t2 DDOS_DNS_COUNTER_T2_printed,
     set_total ''dns_dropped'' dns_dropped,
     send_tsdb [
       tsdb_put now tbuf ''dns_dropped'' dns_dropped,
       tsdb_put now tbuf ''dst_force_tcp'' (dns_t2 ''force_tcp_auth''),
       tsdb_put now tbuf ''force_tcp'' (dns_t2 ''force_tcp_auth'' + dns_t2 ''src_force_tcp_auth''),
       tsdb_put now tbuf ''dns_excl_src_dropped'' dns_excl_src_dropped]]))))))))"

definition DDOS_ICMP_COUNTER_T2_printed :: "(string \<times> string) list" where
  "DDOS_ICMP_COUNTER_T2_printed = [
     (''icmp_type_deny_drop'', ''ICMP Type Deny Drop :''),
     (''icmpv4_rfc_undef_drop'', ''ICMPv4 RFC Undef Type Drop:''),
     (''icmpv6_rfc_undef_drop'', ''ICMPv6 RFC Undef Type Drop:''),
     (''icmp_rate_exceed0'', ''ICMP Type Code Rate Excd 1 :''),
     (''icmp_rate_exceed1'', ''ICMP Type Code Rate Excd 2 :''),
     (''icmp_rate_exceed2'', ''ICMP Type Code Rate Excd 3 :''),
     (''icmp_wildcard_deny_drop'', ''ICMP Wildcard Deny Drop:'')]"

definition readCounters_DDOS_ICMP_COUNTER_T2 :: "string \<Rightarrow> unit dec" where
  "readCounters_DDOS_ICMP_COUNTER_T2 icmp_t2 =
     bnd (gets now64) (\<lambda>now.
     bnd (populate_sflow_struct_u64 icmp_t2 sflow_ddos_icmp_ip_ext_counters_v1) (\<lambda>_.
     bnd (fields_of icmp_t2) (\<lambda>icmp_t2.
     bnd (fields_of ''icmp_perip'') (\<lambda>perip.
     bnd (entry_ip ''icmp_perip.common'') (\<lambda>i.
     bnd agent_id (\<lambda>agent.
     (let tbuf = (if perip ''common.ip_type'' = 1
            then (''ip=%08x prefix=%d agent=%08x type=%x\<newline>'',
              [A32 (union_v4 i), num32 (perip ''common.subnet_mask''), A32 agent, num32 (perip ''common.ip_type'')])
            else (''ip=%02x%02x%02x%02x%02x%02x%02x%02x%02x%02x%02x%02x%02x%02x%02x%02x prefix=%d agent=%08x\<newline>'',
              map A8 (take 16 i) @ [num32 (perip ''common.subnet_mask''), A32 agent]));
         icmp_dropped = icmp_t2 ''icmp_type_deny_drop'' + icmp_t2 ''icmpv4_rfc_undef_drop'' +
           icmp_t2 ''icmpv6_rfc_undef_drop'' + icmp_t2 ''icmp_rate_exceed0'' +
           icmp_t2 ''icmp_rate_exceed1'' + icmp_t2 ''icmp_rate_exceed2'' +
           icmp_t2 ''icmp_wildcard_deny_drop''
     in block [
     set_total ''icmp_dropped'' icmp_dropped,
     send_tsdb [
       tsdb_put now tbuf ''icmp_dropped'' icmp_dropped],
     log_u64s icmp_t2 DDOS_ICMP_COUNTER_T2_printed])))))))"

definition DDOS_L4_IP_COUNTER_T2_printed :: "(string \<times> string) list" where
  "DDOS_L4_IP_COUNTER_T2_printed = [
     (''dst_frag_pkt_rate_exceed'', ''OTHER drop - Frag rate exceed:''),
     (''dst_icmp_pkt_rate_exceed'', ''ICMP drop - Pkt rate exceed:''),
     (''dst_other_pkt_rate_exceed'', ''OTHER drop - Pkt rate exceed:''),
     (''dst_tcp_src_drop'', ''SRC dst src drop''), (''dst_udp_src_drop'', ''UDP dst src drop''),
     (''dst_icmp_src_drop'', ''ICMP dst src drop''),
     (''dst_other_src_drop'', ''OTHER dst src drop''),
     (''dst_tcp_pkt_rcvd'', ''TCP dst pkt rcvd''),
     (''dst_tcp_conn_limit_exceed'', ''TCP drop - Conn limit exceed:''),
     (''dst_tcp_any_exceed'', ''TCP drop:total rate excd:''),
     (''dst_tcp_pkt'', ''TCP pkt rcvd:''),
     (''dst_tcp_pkt_rate_exceed'', ''TCP drop - Pkt rate excd:''),
     (''dst_tcp_syn'', ''TCP dst SYN pkt rcvd:''),
     (''dst_tcp_syn_drop'', ''TCP dst SYN pkt drop:''),
     (''dst_tcp_conn_rate_exceed'', ''TCP drop - Conn rate exceed:''),
     (''dst_frag_src_rate_drop'', ''Frag dst src rate drop:''),
     (''dst_udp_conn_limit_exceed'', ''UDP drop - Conn limit exceed:''),
     (''dst_udp_pkt'', ''UDP pkt rcvd:''),
     (''dst_udp_pkt_rate_exceed'', ''UDP drop - Pkt rate exceed:''),
     (''dst_tcp_auth'', ''TCP Auth Sent:''),
     (''dst_udp_conn_rate_exceed'', ''UDP drop - Conn rate exceed:''),
     (''dst_tcp_drop'', ''TCP drop:''), (''dst_udp_drop'', ''UDP drop:''),
     (''dst_icmp_drop'', ''ICMP drop:''), (''dst_frag_drop'', ''Frag drop:''),
     (''dst_other_drop'', ''Other drop:''), (''dst_pkt_sent'', ''Packets Forwarded:''),
     (''dst_fwd_pkt_sent'', ''Incoming Packets Forwarded:''),
     (''dst_rev_pkt_sent'', ''Outgoing Packets Forwarded:''),
     (''dst_udp_pkt_sent'', ''UDP Packets Forwarded:''),
     (''dst_tcp_pkt_sent'', ''TCP Packets Forwarded:''),
     (''dst_icmp_pkt_sent'', ''ICMP Packets Forwarded:''),
     (''dst_other_pkt_sent'', ''Other Packets Forwarded:''),
     (''dst_icmp_pkt'', ''ICMP pkt rcvd:''), (''dst_other_pkt'', ''OTHER pkt rcvd:''),
     (''dst_tcp_src_rate_drop'', ''TCP dst src rate drop:''),
     (''dst_udp_src_rate_drop'', ''UDP dst src rate drop:''),
     (''dst_icmp_src_rate_drop'', ''ICMP dst src rate drop:''),
     (''dst_other_src_rate_drop'', ''Other dst src rate drop:''),
     (''dst_port_pkt_rate_exceed'', ''PORT drop - Pkt rate exceed:''),
     (''dst_port_kbit_rate_exceed'', ''PORT drop - KiBit rate exceed:''),
     (''dst_port_conn_limit_exceed'', ''PORT drop - Conn limit exceed:''),
     (''dst_port_conn_rate_exceed'', ''PORT drop - Conn rate exceed:''),
     (''dst_udp_any_exceed'', ''UDP drop:total rate excd:''),
     (''dst_udp_filter_match'', ''UDP Filter Match:''),
     (''dst_udp_filter_not_match'', ''UDP Filter Not Match:''),
     (''dst_udp_filter_action_blacklist'', ''UDP Filter Action BL:''),
     (''dst_udp_filter_action_drop'', ''UDP Filter Action Drop:''),
     (''dst_udp_filter_action_default_pass'', ''UDP Filter Action Default Pass:''),
     (''dst_tcp_filter_match'', ''TCP Filter Match:''),
     (''dst_tcp_filter_not_match'', ''TCP Filter Not Match:''),
     (''dst_tcp_filter_action_blacklist'', ''TCP Filter Action BL:''),
     (''dst_tcp_filter_action_drop'', ''TCP Filter Action Drop:''),
     (''dst_tcp_filter_action_default_pass'', ''TCP Filter Action Default Pass:''),
     (''dst_udp_filter_action_whitelist'', ''UDP Filter Action WL:''),
     (''dst_udp_pkt_rcvd'', ''UDP dst pkt rcvd''),
     (''dst_icmp_pkt_rcvd'', ''ICMP dst pkt rcvd''),
     (''dst_icmp_any_exceed'', ''ICMP drop:total rate excd:''),
     (''dst_other_pkt_rcvd'', ''OTHER dst pkt rcvd''),
     (''dst_other_any_exceed'', ''OTHER drop:total rate excd:''),
     (''tcp_syn_cookie_fail'', ''TCP Syn Cookie Failed''),
     (''tcp_rst_cookie_fail'', ''TCP RST Cookie Failed''),
     (''tcp_unauth_drop'', ''TCP Un-Auth Packet Drop''), (''tcp_syn_rcvd'', ''TCP SYN Rcv''),
     (''tcp_syn_ack_rcvd'', ''TCP SYN ACK Rcv''), (''tcp_ack_rcvd'', ''TCP ACK Rcv''),
     (''tcp_fin_rcvd'', ''TCP FIN ACK Rcv''), (''tcp_rst_rcvd'', ''TCP RST Rcv''),
     (''ingress_bytes'', ''Ingress Bytes''), (''egress_bytes'', ''Egress Bytes''),
     (''ingress_packets'', ''Ingress Packets''), (''egress_packets'', ''Egress Packets''),
     (''tcp_fwd_recv'', ''TCP FWD recv''), (''udp_fwd_recv'', ''UDP FWD recv''),
     (''icmp_fwd_recv'', ''ICMP FWD recv''),
     (''dst_over_limit_on'', ''DST overlimit on trigger''),
     (''dst_over_limit_off'', ''DST overlimit off trigger''),
     (''dst_port_over_limit_on'', ''DST port overlimit on trigger''),
     (''dst_port_over_limit_off'', ''DST port overlimit off trig''),
     (''dst_over_limit_action'', ''DST overlimit action''),
     (''dst_port_over_limit_action'', ''DST port overlimit action''),
     (''scanning_detected_drop'', ''Scanning Detected drop''),
     (''scanning_detected_blacklist'', ''Scanning Detected blacklist''),
     (''dst_udp_kibit_rate_drop'', ''UDP drop:KiBit rate excd''),
     (''dst_tcp_kibit_rate_drop'', ''TCP drop:KiBit rate excd''),
     (''dst_icmp_kibit_rate_drop'', ''ICMP drop:KiBit rate excd''),
     (''dst_other_kibit_rate_drop'', ''OTHER drop:KiBit rate excd''),
     (''dst_port_undef_drop'', ''Dst Port Undef Drop''), (''dst_port_bl'', ''Dst Port BL Drop''),
     (''dst_src_port_bl'', ''Dst SrcPort BL''),
     (''dst_tcp_session_created'', ''Dst TCP Session Created''),
     (''dst_udp_session_created'', ''Dst UDP Session Created''),
     (''dst_tcp_filter_action_whitelist'', ''TCP Filter Action WL:''),
     (''dst_other_filter_match'', ''OTHER Filter Match:''),
     (''dst_other_filter_not_match'', ''OTHER Filter Not Match:''),
     (''dst_other_filter_action_blacklist'', ''OTHER Filter Action BL:''),
     (''dst_other_filter_action_drop'', ''OTHER Filter Action Drop:''),
     (''dst_other_filter_action_default_pass'', ''OTHER Filter Action Default Pass:''),
     (''dst_other_filter_action_whitelist'', ''Other Filter Action WL:''),
     (''dst_blackhole_inject'', ''Dst Blackhole Inject''),
     (''dst_blackhole_withdraw'', ''Dst Blackhole Withdraw''),
     (''dst_out_no_route'', ''Dst IPv4/v6 Out No Route''),
     (''dst_tcp_out_of_seq_excd'', ''Dst TCP Out-Of-Seq BL''),
     (''dst_tcp_retransmit_excd'', ''Dst TCP ReXmit BL''),
     (''dst_tcp_zero_window_excd'', ''Dst TCP 0 Window BL''),
     (''dst_tcp_conn_prate_excd'', ''Dst TCP Conn Pkt Rate Drop''),
     (''dst_tcp_action_on_ack_init'', ''Dst TCP Action-On-Ack Init''),
     (''dst_tcp_action_on_ack_gap_drop'', ''Dst TCP Action-On-Ack Retry-Gap Drop''),
     (''dst_tcp_action_on_ack_fail'', ''Dst TCP Action-On-Ack Fail''),
     (''dst_tcp_action_on_ack_pass'', ''Dst TCP Action-On-Ack Pass''),
     (''dst_tcp_action_on_syn_init'', ''Dst TCP Action-On-Syn Init''),
     (''dst_tcp_action_on_syn_gap_drop'', ''Dst TCP Action-On-Syn Retry-Gap Drop''),
     (''dst_tcp_action_on_syn_fail'', ''Dst TCP Action-On-Syn Fail''),
     (''dst_tcp_action_on_syn_pass'', ''Dst TCP Action-On-Syn Pass''),
     (''dst_udp_min_payload'', ''Dst UDP Payload Too Small Drop''),
     (''dst_udp_max_payload'', ''Dst UDP Payload Too Large Drop''),
     (''dst_udp_conn_prate_excd'', ''Dst UDP Conn Pkt Rate Drop''),
     (''dst_udp_ntp_monlist_req'', ''Dst UDP Monlist Req Drop''),
     (''dst_udp_ntp_monlist_resp'', ''Dst UDP Monlist Resp Drop''),
     (''dst_udp_wellknown_sport_drop'', ''Dst UDP Wellknown Port Drop''),
     (''dst_udp_retry_init'', ''Dst UDP Retry Init''),
     (''dst_udp_retry_pass'', ''Dst UDP Retry Fail''),
     (''dst_drop_frag_pkt'', ''Dst Drop Frag Pkt''),
     (''dst_l4_tcp_blacklist_drop'', ''Dst L4-type TCP Blacklist Drop''),
     (''dst_l4_udp_blacklist_drop'', ''Dst L4-type UDP Blacklist Drop''),
     (''dst_l4_icmp_blacklist_drop'', ''Dst L4-type ICMP Blacklist Drop''),
     (''dst_l4_other_blacklist_drop'', ''Dst L4-type OTHER Blacklist Drop''),
     (''src_udp_min_payload'', ''Src UDP Payload Too Small Drop''),
     (''src_udp_max_payload'', ''Src UDP Payload Too Large Drop''),
     (''src_udp_ntp_monlist_req'', ''Src UDP Monlist Req Drop''),
     (''src_udp_ntp_monlist_resp'', ''Src UDP Monlist Resp Drop''),
     (''src_tcp_action_on_ack_gap_drop'', ''Src TCP Action-On-Ack Retry-Gap Drop''),
     (''src_tcp_action_on_syn_gap_drop'', ''Src TCP Action-On-Syn Retry-Gap Drop''),
     (''tcp_new_conn_ack_retry_gap_drop'', ''Dst TCP New Conn Ack Retry-Gap Drop''),
     (''src_tcp_new_conn_ack_retry_gap_drop'', ''Src Dst TCP New Conn Ack Retry-Gap Drop''),
     (''src_tcp_filter_action_blacklist'', ''Src TCP Filter Action BL:''),
     (''src_tcp_filter_action_drop'', ''Src TCP Filter Action Drop:''),
     (''src_tcp_out_of_seq_excd'', ''Src TCP Out-Of-Seq BL''),
     (''src_tcp_retransmit_excd'', ''Src TCP ReXmit BL''),
     (''src_tcp_zero_window_excd'', ''Src TCP 0 Window BL''),
     (''src_tcp_conn_prate_excd'', ''Src TCP Conn Pkt Rate Drop''),
     (''src_udp_filter_action_blacklist'', ''Src UDP Filter Action BL:''),
     (''src_udp_filter_action_drop'', ''Src UDP Filter Action Drop:''),
     (''src_udp_conn_prate_excd'', ''Src UDP Conn Pkt Rate Drop''),
     (''src_other_filter_action_blacklist'', ''Src OTHER Filter Action BL:''),
     (''src_other_filter_action_drop'', ''Src OTHER Filter Action Drop:''),
     (''dst_port_src_over_limit_action'', ''DST port Src overlimit action''),
     (''src_tcp_auth'', ''Src TCP Auth Sent''),
     (''src_tcp_action_on_ack_fail'', ''DST port Src overlimit action''),
     (''src_tcp_action_on_syn_fail'', ''DST port Src overlimit action''),
     (''src_udp_wellknown_sport_drop'', ''DST port Src overlimit action''),
     (''src_tcp_syn_cookie_fail'', ''DST port Src overlimit action''),
     (''src_tcp_rst_cookie_fail'', ''Src TCP RST Cookie Failed''),
     (''src_tcp_unauth_drop'', ''Src TCP Un-Auth Packet Drop''),
     (''src_tcp_action_on_ack_init'', ''DST port Src overlimit action''),
     (''src_tcp_action_on_syn_init'', ''DST port Src overlimit action''),
     (''src_udp_retry_init'', ''DST port Src overlimit action''),
     (''src_dst_l4_tcp_blacklist_drop'', ''Src Dst L4-type TCP Blacklist Drop''),
     (''src_dst_l4_udp_blacklist_drop'', ''Src Dst L4-type UDP Blacklist Drop''),
     (''src_dst_l4_icmp_blacklist_drop'', ''Src Dst L4-type ICMP Blacklist Drop''),
     (''src_dst_l4_other_blacklist_drop'', ''Src Dst L4-type OTHER Blacklist Drop'')]"

definition readCounters_DDOS_L4_IP_COUNTER_T2 :: "string \<Rightarrow> unit dec" where
  "readCounters_DDOS_L4_IP_COUNTER_T2 ddos_stat_t2 =
     bnd (gets now64) (\<lambda>now.
     bnd (populate_sflow_struct_u64 ddos_stat_t2 sflow_ddos_ip_counter_l4_t2_v1) (\<lambda>_.
     bnd (fields_of ddos_stat_t2) (\<lambda>ddos_stat_t2.
     bnd (fields_of ''l4_perip'') (\<lambda>perip.
     bnd (entry_ip ''l4_perip.common'') (\<lambda>i.
     bnd agent_id (\<lambda>agent.
     (let tbuf = (if perip ''common.ip_type'' = 1
            then (''ip=%08x prefix=%d agent=%08x type=%x\<newline>'',
              [A32 (union_v4 i), num32 (perip ''common.subnet_mask''), A32 agent, num32 (perip ''common.ip_type'')])
            else (''ip=%02x%02x%02x%02x%02x%02x%02x%02x%02x%02x%02x%02x%02x%02x%02x%02x prefix=%d agent=%08x\<newline>'',
              map A8 (take 16 i) @ [num32 (perip ''common.subnet_mask''), A32 agent]));
         dst_recvd_total = ddos_stat_t2 ''ingress_packets'';
         dst_pass_total = ddos_stat_t2 ''dst_fwd_pkt_sent'';
         dst_drop_total = ddos_stat_t2 ''dst_tcp_drop'' + ddos_stat_t2 ''dst_udp_drop'' +
           ddos_stat_t2 ''dst_icmp_drop'' + ddos_stat_t2 ''dst_other_drop'' +
           ddos_stat_t2 ''dst_tcp_auth'' + ddos_stat_t2 ''src_tcp_auth'';
         port_wildcards_dropped = ddos_stat_t2 ''dst_port_undef_drop'';
         dst_rates_dropped = ddos_stat_t2 ''dst_tcp_any_exceed'' + ddos_stat_t2 ''dst_udp_any_exceed'' +
           ddos_stat_t2 ''dst_icmp_any_exceed'' + ddos_stat_t2 ''dst_other_any_exceed'' +
           ddos_stat_t2 ''dst_l4_tcp_blacklist_drop'' +
           ddos_stat_t2 ''dst_l4_udp_blacklist_drop'' +
           ddos_stat_t2 ''dst_l4_icmp_blacklist_drop'' +
           ddos_stat_t2 ''dst_l4_other_blacklist_drop'' + ddos_stat_t2 ''dst_drop_frag_pkt'';
         src_auth_dropped = ddos_stat_t2 ''src_tcp_out_of_seq_excd'' + ddos_stat_t2 ''src_tcp_retransmit_excd''
           + ddos_stat_t2 ''src_tcp_zero_window_excd'' +
           ddos_stat_t2 ''src_tcp_conn_prate_excd'' +
           ddos_stat_t2 ''src_tcp_action_on_ack_gap_drop'' +
           ddos_stat_t2 ''src_tcp_action_on_ack_fail'' +
           ddos_stat_t2 ''src_tcp_action_on_syn_gap_drop'' +
           ddos_stat_t2 ''src_tcp_action_on_syn_fail'' +
           ddos_stat_t2 ''src_udp_conn_prate_excd'' +
           ddos_stat_t2 ''src_udp_wellknown_sport_drop'' + ddos_stat_t2 ''src_udp_min_payload''
           + ddos_stat_t2 ''src_udp_max_payload'' +
           ddos_stat_t2 ''src_other_filter_action_blacklist'' +
           ddos_stat_t2 ''src_other_filter_action_drop'' +
           ddos_stat_t2 ''src_udp_filter_action_blacklist'' +
           ddos_stat_t2 ''src_udp_filter_action_drop'' +
           ddos_stat_t2 ''src_tcp_filter_action_blacklist'' +
           ddos_stat_t2 ''src_tcp_filter_action_drop'' +
           ddos_stat_t2 ''src_tcp_syn_cookie_fail'' +
           ddos_stat_t2 ''src_tcp_action_on_ack_init'' +
           ddos_stat_t2 ''src_tcp_action_on_syn_init'' +
           ddos_stat_t2 ''src_udp_ntp_monlist_req'' + ddos_stat_t2 ''src_udp_ntp_monlist_resp''
           + ddos_stat_t2 ''src_udp_retry_init'' + ddos_stat_t2 ''src_tcp_auth'' +
           ddos_stat_t2 ''src_tcp_rst_cookie_fail'' + ddos_stat_t2 ''src_tcp_unauth_drop'';
         src_rates_dropped = ddos_stat_t2 ''dst_tcp_src_rate_drop'' + ddos_stat_t2 ''dst_udp_src_rate_drop'' +
           ddos_stat_t2 ''dst_icmp_src_rate_drop'' + ddos_stat_t2 ''dst_other_src_rate_drop'' +
           ddos_stat_t2 ''src_dst_l4_tcp_blacklist_drop'' +
           ddos_stat_t2 ''src_dst_l4_udp_blacklist_drop'' +
           ddos_stat_t2 ''src_dst_l4_icmp_blacklist_drop'' +
           ddos_stat_t2 ''src_dst_l4_other_blacklist_drop'';
         ip_proto_dropped = ddos_stat_t2 ''dst_other_drop'' - ddos_stat_t2 ''dst_other_any_exceed'' -
           ddos_stat_t2 ''dst_other_src_drop'' - ddos_stat_t2 ''dst_drop_frag_pkt'' -
           ddos_stat_t2 ''dst_l4_other_blacklist_drop'';
         port_cm_dropped = (ddos_stat_t2 ''dst_tcp_drop'' + ddos_stat_t2 ''dst_udp_drop'' +
           ddos_stat_t2 ''dst_icmp_drop'' + ddos_stat_t2 ''dst_tcp_auth'') -
           (ddos_stat_t2 ''dst_tcp_any_exceed'' + ddos_stat_t2 ''dst_udp_any_exceed'' +
           ddos_stat_t2 ''dst_icmp_any_exceed'' + ddos_stat_t2 ''dst_l4_tcp_blacklist_drop'' +
           ddos_stat_t2 ''dst_l4_udp_blacklist_drop'' +
           ddos_stat_t2 ''dst_l4_icmp_blacklist_drop'' + ddos_stat_t2 ''dst_port_undef_drop'' +
           ddos_stat_t2 ''dst_tcp_src_drop'' + ddos_stat_t2 ''dst_udp_src_drop'' +
           ddos_stat_t2 ''dst_icmp_src_drop'');
         port_cm_dropped = if port_cm_dropped < 0 then 0 else port_cm_dropped
     in block [
     set_total ''port_wildcards_dropped'' port_wildcards_dropped,
     set_total ''dst_rates_dropped'' dst_rates_dropped,
     set_total ''src_auth_dropped'' src_auth_dropped,
     set_total ''src_rates_dropped'' src_rates_dropped,
     set_total ''ip_proto_dropped'' ip_proto_dropped,
     set_total ''port_cm_dropped'' port_cm_dropped,
     send_tsdb [
       tsdb_put now tbuf ''dst_tcp_pkt'' (ddos_stat_t2 ''dst_tcp_pkt''),
       tsdb_put now tbuf ''dst_udp_pkt'' (ddos_stat_t2 ''dst_udp_pkt''),
       tsdb_put now tbuf ''dst_icmp_pkt'' (ddos_stat_t2 ''dst_icmp_pkt''),
       tsdb_put now tbuf ''dst_other_pkt'' (ddos_stat_t2 ''dst_other_pkt''),
       tsdb_put now tbuf ''dst_tcp_syn'' (ddos_stat_t2 ''dst_tcp_syn''),
       tsdb_put now tbuf ''dst_tcp_fin_rcvd'' (ddos_stat_t2 ''tcp_fin_rcvd''),
       tsdb_put now tbuf ''dst_tcp_pkt_rcvd'' (ddos_stat_t2 ''dst_tcp_pkt_rcvd''),
       tsdb_put now tbuf ''dst_udp_pkt_rcvd'' (ddos_stat_t2 ''dst_udp_pkt_rcvd''),
       tsdb_put now tbuf ''dst_icmp_pkt_rcvd'' (ddos_stat_t2 ''dst_icmp_pkt_rcvd''),
       tsdb_put now tbuf ''dst_other_pkt_rcvd'' (ddos_stat_t2 ''dst_other_pkt_rcvd''),
       tsdb_put now tbuf ''dst_tcp_drop'' (ddos_stat_t2 ''dst_tcp_drop'' + ddos_stat_t2 ''dst_tcp_auth'' + ddos_stat_t2 ''src_tcp_auth''),
       tsdb_put now tbuf ''dst_udp_drop'' (ddos_stat_t2 ''dst_udp_drop''),
       tsdb_put now tbuf ''dst_icmp_drop'' (ddos_stat_t2 ''dst_icmp_drop''),
       tsdb_put now tbuf ''dst_other_drop'' (ddos_stat_t2 ''dst_other_drop''),
       tsdb_put now tbuf ''dst_tcp_session_created'' (ddos_stat_t2 ''dst_tcp_session_created''),
       tsdb_put now tbuf ''dst_udp_session_created'' (ddos_stat_t2 ''dst_udp_session_created''),
       tsdb_put now tbuf ''dst_recvd_total'' dst_recvd_total,
       tsdb_put now tbuf ''dst_drop_total'' dst_drop_total,
       tsdb_put now tbuf ''dst_total_packet_pass'' dst_pass_total,
       tsdb_put now tbuf ''dst_total_packet_drop'' dst_drop_total,
       tsdb_put now tbuf ''dst.ingress_packets'' (ddos_stat_t2 ''ingress_packets''),
       tsdb_put now tbuf ''dst.ingress_bytes'' (ddos_stat_t2 ''ingress_bytes''),
       tsdb_put now tbuf ''dst.egress_packets'' (ddos_stat_t2 ''egress_packets''),
       tsdb_put now tbuf ''dst.egress_bytes'' (ddos_stat_t2 ''egress_bytes''),
       tsdb_put now tbuf ''dst_rates_dropped'' dst_rates_dropped,
       tsdb_put now tbuf ''port_wildcards_dropped'' port_wildcards_dropped,
       tsdb_put now tbuf ''src_rates_dropped'' src_rates_dropped,
       tsdb_put now tbuf ''port_cm_dropped'' port_cm_dropped,
       tsdb_put now tbuf ''src_auth_dropped'' src_auth_dropped,
       tsdb_put now tbuf ''ip_proto_dropped'' ip_proto_dropped,
       tsdb_put now tbuf ''out_no_route'' (ddos_stat_t2 ''dst_out_no_route'')],
     log_u64s ddos_stat_t2 DDOS_L4_IP_COUNTER_T2_printed])))))))"

definition DDOS_L4_EXT_IP_COUNTER_T2_printed :: "(string \<times> string) list" where
  "DDOS_L4_EXT_IP_COUNTER_T2_printed = [
     (''dst_fwd_bytes_sent'', ''Incoming Bytes Forwarded''),
     (''dst_rev_bytes_sent'', ''Outgoing Bytes Forwarded''),
     (''tcp_l4_syn_cookie_fail'', ''L4-type TCP Syn Cookie Failed''),
     (''tcp_l4_rst_cookie_fail'', ''L4-type TCP RST Cookie Failed''),
     (''tcp_l4_unauth_drop'', ''L4-type TCP Un-Auth Packet Drop''),
     (''dst_l4_tcp_auth'', ''L4-type TCP Auth Sent''),
     (''src_frag_pkt_rate_exceed'', ''OTHER drop - Src Frag rate exceed:''),
     (''src_frag_drop'', ''Src Frag drop:''),
     (''dst_frag_timeout_drop'', ''Frag timeout drop:''),
     (''dst_tcp_invalid_syn'', ''TCP Invalid SYN Received:'')]"

definition readCounters_DDOS_L4_EXT_IP_COUNTER_T2 :: "string \<Rightarrow> unit dec" where
  "readCounters_DDOS_L4_EXT_IP_COUNTER_T2 ddos_stat_t2 =
     bnd (gets now64) (\<lambda>now.
     bnd (populate_sflow_struct_u64 ddos_stat_t2 sflow_ddos_ip_counter_l4_ext_t2_v1) (\<lambda>_.
     bnd (fields_of ddos_stat_t2) (\<lambda>ddos_stat_t2.
     bnd (fields_of ''l4_ext_perip'') (\<lambda>perip.
     bnd (entry_ip ''l4_ext_perip.common'') (\<lambda>i.
     bnd agent_id (\<lambda>agent.
     (let tbuf = (if perip ''common.ip_type'' = 1
            then (''ip=%08x prefix=%d agent=%08x type=%x\<newline>'',
              [A32 (union_v4 i), num32 (perip ''common.subnet_mask''), A32 agent, num32 (perip ''common.ip_type'')])
            else (''ip=%02x%02x%02x%02x%02x%02x%02x%02x%02x%02x%02x%02x%02x%02x%02x%02x prefix=%d agent=%08x\<newline>'',
              map A8 (take 16 i) @ [num32 (perip ''common.subnet_mask''), A32 agent]))
     in block [
     send_tsdb [
       tsdb_put now tbuf ''dst_fwd_bytes_sent'' (ddos_stat_t2 ''dst_fwd_bytes_sent''),
       tsdb_put now tbuf ''dst_rev_bytes_sent'' (ddos_stat_t2 ''dst_rev_bytes_sent''),
       tsdb_put now tbuf ''tcp_l4_syn_cookie_fail'' (ddos_stat_t2 ''tcp_l4_syn_cookie_fail''),
       tsdb_put now tbuf ''tcp_l4_rst_cookie_fail'' (ddos_stat_t2 ''tcp_l4_rst_cookie_fail''),
       tsdb_put now tbuf ''tcp_l4_unauth_drop'' (ddos_stat_t2 ''tcp_l4_unauth_drop''),
       tsdb_put now tbuf ''dst_l4_tcp_auth'' (ddos_stat_t2 ''dst_l4_tcp_auth''),
       tsdb_put now tbuf ''src_frag_pkt_rate_exceed'' (ddos_stat_t2 ''src_frag_pkt_rate_exceed''),
       tsdb_put now tbuf ''src_frag_drop'' (ddos_stat_t2 ''src_frag_drop''),
       tsdb_put now tbuf ''dst_frag_timeout_drop'' (ddos_stat_t2 ''dst_frag_timeout_drop''),
       tsdb_put now tbuf ''dst_tcp_invalid_syn'' (ddos_stat_t2 ''dst_tcp_invalid_syn'')],
     log_u64s ddos_stat_t2 DDOS_L4_EXT_IP_COUNTER_T2_printed])))))))"

definition readCounters_DDOS_ICMP_IP_COUNTER :: "unit dec" where
  "readCounters_DDOS_ICMP_IP_COUNTER = block [
     readCounters_DDOS_IP_COUNTER_COMMON ''icmp_perip.common'',
     readCounters_DDOS_ICMP_COUNTER_T2 ''icmp_perip.icmp'']"

definition readCounters_DDOS_L4_IP_COUNTER :: "unit dec" where
  "readCounters_DDOS_L4_IP_COUNTER = block [
     readCounters_DDOS_IP_COUNTER_COMMON ''l4_perip.common'',
     readCounters_DDOS_L4_IP_COUNTER_T2 ''l4_perip.l4'']"

section \<open>Limits per protocol and application\<close>

text \<open>
  The arrays \<open>stat\<close> and \<open>app_stat\<close> have four and three elements, and the loops over them run as
  far as the datagram says. A pointer to an element is \<open>None\<close> when the index is outside the
  array: the first access through it is undefined.
\<close>

definition array_elem :: "string \<Rightarrow> nat \<Rightarrow> u32 \<Rightarrow> string option" where
  "array_elem a n i = (if unat i < n then Some (elem_name a (unat i)) else None)"

definition deref :: "string option \<Rightarrow> (string \<Rightarrow> unit dec) \<Rightarrow> unit dec" where
  "deref p m = (case p of None \<Rightarrow> fail Undef | Some q \<Rightarrow> m q)"

definition readCounters_DDOS_IP_COUNTER_RES_STAT :: "string \<Rightarrow> unit dec" where
  "readCounters_DDOS_IP_COUNTER_RES_STAT stat = block [
     read_items stat [
       N32 ''curr_conn'' ''Curr Conn:'', N32 ''conn_limit'' ''Conn Limit:'',
       N32 ''curr_conn_rate'' ''Curr ConnR:'', N32 ''conn_rate_limit'' ''ConnR Limit:'',
       N32 ''curr_pkt_rate'' ''Curr PktR:'', N32 ''pkt_rate_limit'' ''PktR Limit:''],
     bnd getData32 (\<lambda>v. set_ddos stat ''curr_syn_cookie'' (ucast v)),
     bnd getData32 (\<lambda>v. set_ddos stat ''syn_cookie_thr'' (ucast v)),
     read_items stat [
       N64 ''bl_drop_ct'' ''BL Drop:'', N64 ''conn_rate_exceed_ct'' ''CRate Drop:'',
       N64 ''pkt_rate_exceed_ct'' ''PRate Drop:'', N64 ''conn_limit_exceed_ct'' ''CLimit Drop:'']]"

definition readCounters_DDOS_PORT_IP_COUNTER :: "unit dec" where
  "readCounters_DDOS_PORT_IP_COUNTER = block [
     readCounters_DDOS_IP_COUNTER_COMMON ''port.common'',
     read_items ''port'' [N32 ''port'' ''Port:''],
     bnd getData32 (\<lambda>app_type. block [
       set_ddos ''port'' ''app_type'' (ucast app_type),
       only_if (unat app_type \<le> DDOS_TOTAL_APP_TYPE_SIZE)
         (bnd (index_table ddos_proto_str app_type) (\<lambda>name.
          sfl_log_ex_string_fmt name ''App type:''))]),
     read_items ''port'' [N32 ''port_exceed_check'' ''Exceed:'', N32 ''lockup_period'' ''LockU Time:''],
     readCounters_DDOS_IP_COUNTER_RES_STAT ''port.port_stat'']"

definition readCounters_DDOS_PROTOCOL :: "string option \<Rightarrow> unit dec" where
  "readCounters_DDOS_PROTOCOL stat =
     bnd getData32 (\<lambda>proto.
     bnd (log_table_entry ''%-35s %s[%u]\<newline>'' ''Protocol:'' ddos_proto_str proto) (\<lambda>_.
     deref stat (\<lambda>p.
     bnd (set_ddos p ''protocol'' (ucast proto)) (\<lambda>_.
     bnd getData32 (\<lambda>state. block [
       log_table_entry ''%-35s %s[%u]\<newline>'' ''State:'' ddos_state_flag state,
       set_ddos p ''state'' (ucast state),
       read_items p [N32 ''exceed_byte'' ''Exceed:'', N32 ''lockup_period'' ''LockU Time:''],
       readCounters_DDOS_IP_COUNTER_RES_STAT (p @ ''.stat'')])))))"

definition readCounters_DDOS_APP :: "string option \<Rightarrow> unit dec" where
  "readCounters_DDOS_APP stat =
     bnd getData32 (\<lambda>app.
     bnd (log_table_entry ''%s %s[%u]\<newline>'' ''App:'' ddos_proto_str app) (\<lambda>_.
     deref stat (\<lambda>p.
     bnd (set_ddos p ''app'' (ucast app)) (\<lambda>_.
     bnd getData32 (\<lambda>state. block [
       log_table_entry ''%s %s[%u]\<newline>'' ''State:'' ddos_state_flag state,
       set_ddos p ''state'' (ucast state),
       read_items p [
         N32 ''exceed_byte'' ''Exceed:'', N32 ''lockup_period'' ''LockU Time:'',
         N32 ''app_rate1'' ''App rate1:'', N32 ''config_app_rate1'' ''Config app rate1:'',
         N32 ''app_rate2'' ''App rate2:'', N32 ''config_app_rate2'' ''Config app rate2:'',
         N32 ''app_rate3'' ''App rate3:'', N32 ''config_app_rate3'' ''Config app rate3:'',
         N32 ''app_rate4'' ''App rate4:'', N32 ''config_app_rate4'' ''Config app rate4:'',
         N32 ''app_rate5'' ''App rate5:'', N32 ''config_app_rate5'' ''Config app rate5:'',
         N32 ''app_rate6'' ''App rate6:'', N32 ''config_app_rate6'' ''Config app rate6:'',
         N32 ''app_rate7'' ''App rate7:'', N32 ''config_app_rate7'' ''Config app rate7:'',
         N32 ''app_rate8'' ''App rate8:'', N32 ''config_app_rate8'' ''Config app rate8:'']])))))"

text \<open>The head is the one of the other tables, with the two addresses stored after both are read.\<close>

definition readCounters_DDOS_IP_COUNTER_head :: "unit dec" where
  "readCounters_DDOS_IP_COUNTER_head =
     bnd getData32 (\<lambda>table_type.
     bnd (block [
       set_ddos ''entry.common'' ''table_type'' (ucast table_type),
       log_table_entry ''%-35s %s[%u]\<newline>'' ''Table Type:'' ddos_table_type table_type]) (\<lambda>_.
     bnd getData32 (\<lambda>ip_type.
     bnd (block [
       set_ddos ''entry.common'' ''ip_type'' (ucast ip_type),
       log_table_entry ''%-35s %s[%u]\<newline>'' ''IP Type:'' ddos_ip_type ip_type,
       read_items ''entry.common'' [N32 ''static_entry'' ''Static:'']]) (\<lambda>_.
     bnd (getDDoSAddress (ucast ip_type) zero_address) (\<lambda>addr.
     bnd (sf_log ''%-35s %s\<newline>'' [AStr ''Address:'', AStr (printAddress_no_conversion addr)]) (\<lambda>_.
     bnd (getDDoSAddress (ucast ip_type) zero_address) (\<lambda>daddr. block [
       only_if (table_type = 2) (sf_log ''%-35s %s\<newline>''
         [AStr ''Dst Address:'', AStr (printAddress_no_conversion daddr)]),
       set_entry_address ''entry.common.ip_addr'' ip_type addr,
       set_entry_address ''entry.common.dst_ip_addr'' ip_type daddr,
       read_items ''entry.common'' [N16 ''subnet_mask'' ''Subnet/Prefix:'', N16 ''age'' ''Age:'']])))))))"

definition readCounters_DDOS_IP_COUNTER :: "unit dec" where
  "readCounters_DDOS_IP_COUNTER = block [
     readCounters_DDOS_IP_COUNTER_head,
     bnd getData32 (\<lambda>num. block [
       sf_log ''%-35s %u\<newline>'' [AStr ''Protocol Num:'', A32 num],
       set_ddos ''entry'' ''proto_num'' (ucast num),
       for_u32 num (\<lambda>i.
         readCounters_DDOS_PROTOCOL (array_elem ''entry.stat'' DDOS_TOTAL_L4_TYPE_SIZE i))]),
     bnd getData32 (\<lambda>num. block [
       sf_log ''%-35s %u\<newline>'' [AStr ''App Num:'', A32 num],
       set_ddos ''entry'' ''app_num'' (ucast num),
       for_u32 num (\<lambda>i.
         readCounters_DDOS_APP (array_elem ''entry.app_stat''
           (DDOS_TOTAL_APP_TYPE_SIZE - DDOS_TOTAL_L4_TYPE_SIZE) i))])]"

section \<open>Printing an entry on a line\<close>

definition sfl_log_32_ex :: "u32 \<Rightarrow> string \<Rightarrow> unit dec" where
  "sfl_log_32_ex data description = printf ''%s %u,'' [AStr description, A32 data]"

definition sfl_log_16_ex :: "u16 \<Rightarrow> string \<Rightarrow> unit dec" where
  "sfl_log_16_ex data description = printf ''%s %u,'' [AStr description, A32 (ucast data)]"

definition sfl_log_64_ex :: "u64 \<Rightarrow> string \<Rightarrow> unit dec" where
  "sfl_log_64_ex data description = printf ''%s %lu,'' [AStr description, A64 data]"

definition sfl_log_32s :: "(string \<Rightarrow> u64) \<Rightarrow> (string \<times> string) list \<Rightarrow> unit dec" where
  "sfl_log_32s v fs = block (map (\<lambda>(f, label). sfl_log_32_ex (ucast (v f)) label) fs)"

definition sfl_log_64s :: "(string \<Rightarrow> u64) \<Rightarrow> (string \<times> string) list \<Rightarrow> unit dec" where
  "sfl_log_64s v fs = block (map (\<lambda>(f, label). sfl_log_64_ex (v f) label) fs)"

definition print_table_entry :: "string \<Rightarrow> string \<Rightarrow> string list \<Rightarrow> u64 \<Rightarrow> unit dec" where
  "print_table_entry fmt label table v =
     bnd (index_table table (ucast v)) (\<lambda>name. printf fmt [AStr label, AStr name, A32 (ucast v)])"

definition sflow_ddos_write_res_stat_line :: "string \<Rightarrow> unit dec" where
  "sflow_ddos_write_res_stat_line stat =
     bnd (fields_of stat) (\<lambda>v. block [
       sfl_log_32s v [
         (''curr_conn'', ''Curr Conn:''), (''conn_limit'', ''Conn Limit:''),
         (''curr_conn_rate'', ''Curr ConnR:''), (''conn_rate_limit'', ''ConnR Limit:''),
         (''curr_pkt_rate'', ''Curr PktR:''), (''pkt_rate_limit'', ''PktR Limit:'')],
       sfl_log_64s v [
         (''bl_drop_ct'', ''BL Drop:''), (''conn_rate_exceed_ct'', ''CRate Drop:''),
         (''pkt_rate_exceed_ct'', ''PRate Drop:''), (''conn_limit_exceed_ct'', ''CLimit Drop:'')]])"

definition sflow_ddos_write_proto_line :: "string option \<Rightarrow> unit dec" where
  "sflow_ddos_write_proto_line stat = deref stat (\<lambda>p.
     bnd (fields_of p) (\<lambda>v. block [
       print_table_entry ''%s %s[%u],'' ''Protocol:'' ddos_proto_str (v ''protocol''),
       print_table_entry ''%s %s[%u],'' ''State:'' ddos_state_flag (v ''state''),
       sfl_log_32s v [(''exceed_byte'', ''Exceed:''), (''lockup_period'', ''LockU Time:'')],
       sflow_ddos_write_res_stat_line (p @ ''.stat'')]))"

definition sflow_ddos_write_app_line :: "string option \<Rightarrow> unit dec" where
  "sflow_ddos_write_app_line stat = deref stat (\<lambda>p.
     bnd (fields_of p) (\<lambda>v. block [
       print_table_entry ''%s %s[%u]\<newline>'' ''App:'' ddos_proto_str (v ''app''),
       print_table_entry ''%s %s[%u]\<newline>'' ''State:'' ddos_state_flag (v ''state''),
       sfl_log_32s v [
         (''exceed_byte'', ''Exceed:''), (''lockup_period'', ''LockU Time:''),
         (''app_rate1'', ''App rate1:''), (''config_app_rate1'', ''Config app rate1:''),
         (''app_rate2'', ''App rate2:''), (''config_app_rate2'', ''Config app rate2:''),
         (''app_rate3'', ''App rate3:''), (''config_app_rate3'', ''Config app rate3:''),
         (''app_rate4'', ''App rate4:''), (''config_app_rate4'', ''Config app rate4:''),
         (''app_rate5'', ''App rate5:''), (''config_app_rate5'', ''Config app rate5:''),
         (''app_rate6'', ''App rate6:''), (''config_app_rate6'', ''Config app rate6:''),
         (''app_rate7'', ''App rate7:''), (''config_app_rate7'', ''Config app rate7:''),
         (''app_rate8'', ''App rate8:''), (''config_app_rate8'', ''Config app rate8:'')]]))"

definition sflow_ddos_write_ip_counter_common_line :: "string \<Rightarrow> unit dec" where
  "sflow_ddos_write_ip_counter_common_line hdr =
     bnd (fields_of hdr) (\<lambda>v.
     bnd (entry_ip hdr) (\<lambda>src.
     bnd (fetch (\<lambda>x. ddos_addr x (hdr @ ''.dst_ip_addr''))) (\<lambda>dst.
     let v4 = (v ''ip_type'' = 1);
         addr = (if v4 then set_ip_v4 (union_v4 src) (zero_address\<lparr>addr_type := SFLADDRESSTYPE_IP_V4\<rparr>)
                 else set_ip_v6 (take 16 src) (zero_address\<lparr>addr_type := SFLADDRESSTYPE_IP_V6\<rparr>));
         daddr = (if v4 then set_ip_v4 (union_v4 dst) addr else set_ip_v6 (take 16 dst) addr)
     in block [
       print_table_entry ''%s %s[%u],'' ''Table Type:'' ddos_table_type (v ''table_type''),
       print_table_entry ''%s %s[%u],'' ''IP Type:'' ddos_ip_type (v ''ip_type''),
       sfl_log_32_ex (ucast (v ''static_entry'')) ''Static:'',
       printf ''%-35s %s,'' [AStr ''Address:'', AStr (printAddress addr)],
       only_if (v ''table_type'' = 2)
         (printf ''%s %s,'' [AStr ''Dst Address:'', AStr (printAddress daddr)]),
       sfl_log_16_ex (ucast (v ''subnet_mask'')) ''Subnet/Prefix:'',
       sfl_log_32_ex (ucast (v ''age'')) ''Age:''])))"

definition sflow_ddos_write_ip_counters_line :: "string \<Rightarrow> unit dec" where
  "sflow_ddos_write_ip_counters_line entry =
     bnd (fields_of entry) (\<lambda>v. block [
       sflow_ddos_write_ip_counter_common_line (entry @ ''.common''),
       sfl_log_32_ex (ucast (v ''proto_num'')) ''Protocol Num:'',
       for_u32 (ucast (v ''proto_num'')) (\<lambda>i. sflow_ddos_write_proto_line
         (array_elem (entry @ ''.stat'') DDOS_TOTAL_L4_TYPE_SIZE i)),
       sfl_log_32_ex (ucast (v ''app_num'')) ''App Num:'',
       for_u32 (ucast (v ''app_num'')) (\<lambda>i. sflow_ddos_write_app_line
         (array_elem (entry @ ''.app_stat'') (DDOS_TOTAL_APP_TYPE_SIZE - DDOS_TOTAL_L4_TYPE_SIZE) i))])"

section \<open>Contracts\<close>

context checked_reader
begin

lemma sat_getDDoSAddress [contract_intro]: "sat R (getDDoSAddress t a)"
  unfolding getDDoSAddress_def by (intro contract_intro)

lemma sat_entry_ip [contract_intro]: "sat R (entry_ip p)"
  unfolding entry_ip_def by (intro contract_intro)

lemma sat_set_entry_address [contract_intro]: "sat R (set_entry_address p t a)"
  unfolding set_entry_address_def by (intro contract_intro)

lemma sat_log_table_entry [contract_intro]: "sat R (log_table_entry fmt l t i)"
  unfolding log_table_entry_def by (intro contract_intro)

lemma sat_read_port_and_app_type [contract_intro]: "sat R (read_port_and_app_type p)"
  unfolding read_port_and_app_type_def by (intro contract_intro)

lemma sat_deref [contract_intro]: "(\<And>q. sat R (m q)) \<Longrightarrow> sat R (deref p m)"
  unfolding deref_def by (intro contract_intro)

lemma sat_readCounters_DDOS_IP_COUNTER_COMMON [contract_intro]: "sat R (readCounters_DDOS_IP_COUNTER_COMMON p)"
  unfolding readCounters_DDOS_IP_COUNTER_COMMON_def by (intro contract_intro)

lemma sat_readCounters_DDOS_HTTP_IP_COUNTER [contract_intro]: "sat R readCounters_DDOS_HTTP_IP_COUNTER"
  unfolding readCounters_DDOS_HTTP_IP_COUNTER_def by (intro contract_intro)

lemma sat_readCounters_DDOS_SSL_L4_IP_COUNTER [contract_intro]: "sat R readCounters_DDOS_SSL_L4_IP_COUNTER"
  unfolding readCounters_DDOS_SSL_L4_IP_COUNTER_def by (intro contract_intro)

lemma sat_readCounters_DDOS_UDP_IP_COUNTER [contract_intro]: "sat R readCounters_DDOS_UDP_IP_COUNTER"
  unfolding readCounters_DDOS_UDP_IP_COUNTER_def by (intro contract_intro)

lemma sat_readCounters_DDOS_TCP_IP_COUNTER [contract_intro]: "sat R readCounters_DDOS_TCP_IP_COUNTER"
  unfolding readCounters_DDOS_TCP_IP_COUNTER_def by (intro contract_intro)

lemma sat_readCounters_DDOS_OTHER_IP_COUNTER [contract_intro]: "sat R readCounters_DDOS_OTHER_IP_COUNTER"
  unfolding readCounters_DDOS_OTHER_IP_COUNTER_def by (intro contract_intro)

lemma sat_readCounters_DDOS_DNS_IP_COUNTER [contract_intro]: "sat R readCounters_DDOS_DNS_IP_COUNTER"
  unfolding readCounters_DDOS_DNS_IP_COUNTER_def by (intro contract_intro)

lemma sat_readCounters_DDOS_IP_COUNTER_RES_STAT [contract_intro]: "sat R (readCounters_DDOS_IP_COUNTER_RES_STAT p)"
  unfolding readCounters_DDOS_IP_COUNTER_RES_STAT_def by (intro contract_intro)

lemma sat_readCounters_DDOS_PORT_IP_COUNTER [contract_intro]: "sat R readCounters_DDOS_PORT_IP_COUNTER"
  unfolding readCounters_DDOS_PORT_IP_COUNTER_def by (intro contract_intro)

lemma sat_readCounters_DDOS_PROTOCOL [contract_intro]: "sat R (readCounters_DDOS_PROTOCOL p)"
  unfolding readCounters_DDOS_PROTOCOL_def by (intro contract_intro)

lemma sat_readCounters_DDOS_APP [contract_intro]: "sat R (readCounters_DDOS_APP p)"
  unfolding readCounters_DDOS_APP_def by (intro contract_intro)

lemma sat_readCounters_DDOS_IP_COUNTER_head [contract_intro]: "sat R readCounters_DDOS_IP_COUNTER_head"
  unfolding readCounters_DDOS_IP_COUNTER_head_def by (intro contract_intro)

lemma sat_readCounters_DDOS_IP_COUNTER [contract_intro]: "sat R readCounters_DDOS_IP_COUNTER"
  unfolding readCounters_DDOS_IP_COUNTER_def by (intro contract_intro)

end

context unchecked_reader
begin

lemma sat_readCounters_DDOS_HTTP_T2_COUNTER [contract_intro]: "sat R (readCounters_DDOS_HTTP_T2_COUNTER p)"
  unfolding readCounters_DDOS_HTTP_T2_COUNTER_def by (intro contract_intro)

lemma sat_readCounters_DDOS_UDP_T2_COUNTER [contract_intro]: "sat R (readCounters_DDOS_UDP_T2_COUNTER p)"
  unfolding readCounters_DDOS_UDP_T2_COUNTER_def by (intro contract_intro)

lemma sat_readCounters_DDOS_TCP_T2_COUNTER [contract_intro]: "sat R (readCounters_DDOS_TCP_T2_COUNTER p)"
  unfolding readCounters_DDOS_TCP_T2_COUNTER_def by (intro contract_intro)

lemma sat_readCounters_DDOS_OTHER_T2_COUNTER [contract_intro]: "sat R (readCounters_DDOS_OTHER_T2_COUNTER p)"
  unfolding readCounters_DDOS_OTHER_T2_COUNTER_def by (intro contract_intro)

lemma sat_readCounters_DDOS_SSL_L4_T2_COUNTER [contract_intro]: "sat R (readCounters_DDOS_SSL_L4_T2_COUNTER p)"
  unfolding readCounters_DDOS_SSL_L4_T2_COUNTER_def by (intro contract_intro)

lemma sat_readCounters_DDOS_DNS_COUNTER_T2 [contract_intro]: "sat R (readCounters_DDOS_DNS_COUNTER_T2 p)"
  unfolding readCounters_DDOS_DNS_COUNTER_T2_def by (intro contract_intro)

lemma sat_readCounters_DDOS_ICMP_COUNTER_T2 [contract_intro]: "sat R (readCounters_DDOS_ICMP_COUNTER_T2 p)"
  unfolding readCounters_DDOS_ICMP_COUNTER_T2_def by (intro contract_intro)

lemma sat_readCounters_DDOS_L4_IP_COUNTER_T2 [contract_intro]: "sat R (readCounters_DDOS_L4_IP_COUNTER_T2 p)"
  unfolding readCounters_DDOS_L4_IP_COUNTER_T2_def by (intro contract_intro)

lemma sat_readCounters_DDOS_L4_EXT_IP_COUNTER_T2 [contract_intro]: "sat R (readCounters_DDOS_L4_EXT_IP_COUNTER_T2 p)"
  unfolding readCounters_DDOS_L4_EXT_IP_COUNTER_T2_def by (intro contract_intro)

lemma sat_readCounters_DDOS_ICMP_IP_COUNTER [contract_intro]: "sat R readCounters_DDOS_ICMP_IP_COUNTER"
  unfolding readCounters_DDOS_ICMP_IP_COUNTER_def by (intro contract_intro)

lemma sat_readCounters_DDOS_L4_IP_COUNTER [contract_intro]: "sat R readCounters_DDOS_L4_IP_COUNTER"
  unfolding readCounters_DDOS_L4_IP_COUNTER_def by (intro contract_intro)

end

end
