(* ===== verification/CountersSample.thy ===== *)
theory CountersSample
  imports DdosEntry Counters
begin

text \<open>
  Counters samples of version 5 (\<open>readCountersSample\<close>, \<open>sflowtool.c\<close> 7164-7510) and the vendor's
  records of named counters, which are stored in a key-value database
  (\<open>readCounters_a10_generic\<close>, \<open>readCounters_a10_4_1_n_generic\<close>, \<open>write_object_id\<close>, 3288-3418).

  The database library is not part of the repository. The functions here that call it
  (\<open>leveldb_simple_write_data\<close>, \<open>leveldb_simple_read_data\<close>, 8527-8600) have what it answers as the
  parameter \<open>lv\<close>: whether a database opens, whether a record is stored, and what is stored under a
  key. Each answer may depend on all that was emitted before.
\<close>

section \<open>Records of named counters\<close>

text \<open>The error text of a failed opening; whether a store fails; an error of a lookup, or the
  text stored under the key, or nothing (a null pointer, which prints as \<open>(null)\<close>).\<close>

record store_client =
  ldb_open :: "event list \<Rightarrow> string \<Rightarrow> string option"
  ldb_put_fails :: "event list \<Rightarrow> string \<Rightarrow> string \<Rightarrow> bool"
  ldb_get :: "event list \<Rightarrow> string \<Rightarrow> string \<Rightarrow> unit + string option"

definition UUID_SIZE :: nat where "UUID_SIZE = 37"

text \<open>The packed structs: 37 bytes of uuid and two words, and a word and a 64-bit number.\<close>

definition sizeof_sfl_a10_custom_info :: nat where "sizeof_sfl_a10_custom_info = UUID_SIZE + 4 + 4"
definition sizeof_sflow_flex_kv :: nat where "sizeof_sflow_flex_kv = 4 + 8"

definition load64 :: "memory \<Rightarrow> addr \<Rightarrow> u64" where
  "load64 m p = ucast (load32 m p) OR push_bit 32 (ucast (load32 m (p + 4)))"

definition ntohll :: "u64 \<Rightarrow> u64" where
  "ntohll val = push_bit 32 (ucast (ntohl (ucast val))) + ucast (ntohl (ucast (drop_bit 32 val)))"

text \<open>The key and the value of record \<open>i\<close> of the array at \<open>kv\<close>.\<close>

definition flex_kv :: "memory \<Rightarrow> addr \<Rightarrow> nat \<Rightarrow> u32 \<times> u64" where
  "flex_kv m kv i =
     (let p = kv + int (i * sizeof_sflow_flex_kv)
      in (ntohl (load32 m p), ntohll (load64 m (p + 4))))"

definition show_int :: "u32 \<Rightarrow> string" where
  "show_int w = (if sint w < 0 then ''-'' @ show_dec (nat (- sint w)) else show_dec (nat (sint w)))"

text \<open>\<open>strlen(uuid) == 36\<close>.\<close>

definition uuid_complete :: "u8 list \<Rightarrow> bool" where
  "uuid_complete uuid \<longleftrightarrow> list_all (\<lambda>b. b \<noteq> 0) (take 36 uuid) \<and> uuid ! 36 = 0"

text \<open>
  What both readers begin with: the head of the record printed, the cursor moved over it without
  a check, and the length of the rest. The result is the object id, the uuid, where the counters
  start and how many there are.
\<close>

definition read_a10_head :: "(u32 \<times> u8 list \<times> addr \<times> nat) dec" where
  "read_a10_head =
     bnd (gets datap) (\<lambda>a10_custom.
     bnd (gets rawSample) (\<lambda>m.
     bnd (advance (int sizeof_sfl_a10_custom_info)) (\<lambda>_.
     let uuid = load_bytes m a10_custom UUID_SIZE;
         obj_stats_oid = ntohl (load32 m (a10_custom + int UUID_SIZE));
         vnp_id = ntohl (load32 m (a10_custom + int UUID_SIZE + 4))
     in bnd (block [
       printf ''uuid = %s\<newline>'' [APtr a10_custom],
       printf ''obj_stats_oid = %d \<newline>'' [A32 obj_stats_oid],
       printf ''schema oid = %d\<newline>'' [A32 obj_stats_oid],
       printf ''vnp_id of ctr = %d\<newline>'' [A32 vnp_id]]) (\<lambda>_.
     bnd (fetch current_context_length) (\<lambda>cl.
     let rest = cl - of_nat sizeof_sfl_a10_custom_info;
         number_of_counters = unat rest div sizeof_sflow_flex_kv
     in bnd (block [
       put current_context_length_update rest,
       printf ''Number of counters = %d\<newline>'' [A32 (of_nat number_of_counters)]]) (\<lambda>_.
     bnd (gets datap) (\<lambda>kv. ret (obj_stats_oid, uuid, kv, number_of_counters))))))))"

definition print_counters :: "(u32 \<times> u64) list \<Rightarrow> unit dec" where
  "print_counters kvs =
     emit (map (\<lambda>(k, v). Out ''key = %d value  = %ld\<newline>'' [A32 k, A64 v]) kvs)"

definition skip_context :: "unit dec" where
  "skip_context = bnd (fetch current_context_length) skipBytes"

definition readCounters_a10_generic :: "unit dec" where
  "readCounters_a10_generic =
     bnd (printf ''\<newline><<Inside readCounters_a10_generic>>>\<newline>'' []) (\<lambda>_.
     bnd read_a10_head (\<lambda>(obj_stats_oid, uuid, kv, n).
     bnd (gets rawSample) (\<lambda>m.
     if \<not> uuid_complete uuid then ret ()
     else block [print_counters (map (flex_kv m kv) [0..<n]), skip_context])))"

text \<open>Storing is the event \<open>put_event\<close>: the record is a JSON text, kept as what it is made of. Both
  functions return 0 for success and 1 for a failure.\<close>

definition leveldb_simple_write_data :: "store_client \<Rightarrow> string \<Rightarrow> event \<Rightarrow> string \<Rightarrow> int dec" where
  "leveldb_simple_write_data lv key put_event db_name =
     bnd (gets (\<lambda>s. ldb_open lv (out s) db_name)) (\<lambda>err.
     case err of
       Some e \<Rightarrow> bnd (eprintf ''Open fail: %s.\<newline>'' [AStr e]) (\<lambda>_. ret 1)
     | None \<Rightarrow>
         bnd (gets (\<lambda>s. ldb_put_fails lv (out s) db_name key)) (\<lambda>bad.
         if bad then bnd (eprintf ''Write fail.\<newline>'' []) (\<lambda>_. ret 1)
         else bnd (emit [put_event]) (\<lambda>_. ret 0)))"

definition leveldb_simple_read_data :: "store_client \<Rightarrow> string \<Rightarrow> string \<Rightarrow> int dec" where
  "leveldb_simple_read_data lv key db_name =
     bnd (gets (\<lambda>s. ldb_open lv (out s) db_name)) (\<lambda>err.
     case err of
       Some e \<Rightarrow> bnd (eprintf ''Open fail.\<newline>'' []) (\<lambda>_. ret 1)
     | None \<Rightarrow>
         bnd (gets (\<lambda>s. ldb_get lv (out s) db_name key)) (\<lambda>answer.
         case answer of
           Inl _ \<Rightarrow> bnd (eprintf ''Read fail.\<newline>'' []) (\<lambda>_. ret 1)
         | Inr v \<Rightarrow>
             bnd (printf ''The value of key: %s\<newline>''
               [AStr (case v of None \<Rightarrow> ''(null)'' | Some t \<Rightarrow> t)]) (\<lambda>_. ret 0)))"

definition write_object_id :: "store_client \<Rightarrow> string \<Rightarrow> u32 \<Rightarrow> string \<Rightarrow> unit dec" where
  "write_object_id lv obj_id oid uuid =
     bnd (leveldb_simple_read_data lv obj_id ''obj_db'') (\<lambda>r.
     only_if (r = 0) (drop_value
       (leveldb_simple_write_data lv obj_id (DbPutObject ''obj_db'' obj_id (sint oid) uuid) ''obj_db'')))"

text \<open>A null \<open>header\<close> (no packet header seen in this datagram) prints as \<open>(null)\<close>.\<close>

definition readCounters_a10_4_1_n_generic :: "store_client \<Rightarrow> unit dec" where
  "readCounters_a10_4_1_n_generic lv =
     bnd read_a10_head (\<lambda>(obj_stats_oid, uuid, kv, n).
     bnd (gets rawSample) (\<lambda>m.
     if \<not> uuid_complete uuid then ret ()
     else
       bnd (fetch header) (\<lambda>h.
       bnd (gets clock) (\<lambda>now.
       let data = map (flex_kv m kv) [0..<n];
           obj_key = ''.obj.'' @ show_int obj_stats_oid @ ''.'' @ cstr uuid;
           key = ''.time.'' @ show_int obj_stats_oid @ ''.'' @ cstr uuid @ ''.'' @ show_dec (unat now)
       in block [
         printf ''smaple-> datap = %s\<newline>'' [if h = 0 then AStr ''(null)'' else APtr h],
         print_counters data,
         skip_context,
         drop_value (leveldb_simple_write_data lv key
           (DbPut ''raw_db'' key (map (\<lambda>(k, v). (show_int k, v)) data)) ''raw_db''),
         printf ''Test for obj key = %s\<newline>'' [AStr obj_key],
         write_object_id lv obj_key obj_stats_oid (cstr uuid),
         printf ''Test for key = %s\<newline>'' [AStr key],
         drop_value (leveldb_simple_read_data lv key ''raw_db'')]))))"

section \<open>Tags of counter records\<close>

abbreviation SFLCOUNTERS_GENERIC :: u32 where "SFLCOUNTERS_GENERIC \<equiv> 1"
abbreviation SFLCOUNTERS_ETHERNET :: u32 where "SFLCOUNTERS_ETHERNET \<equiv> 2"
abbreviation SFLCOUNTERS_TOKENRING :: u32 where "SFLCOUNTERS_TOKENRING \<equiv> 3"
abbreviation SFLCOUNTERS_VG :: u32 where "SFLCOUNTERS_VG \<equiv> 4"
abbreviation SFLCOUNTERS_VLAN :: u32 where "SFLCOUNTERS_VLAN \<equiv> 5"
abbreviation SFLCOUNTERS_80211 :: u32 where "SFLCOUNTERS_80211 \<equiv> 6"
abbreviation SFLCOUNTERS_LACP :: u32 where "SFLCOUNTERS_LACP \<equiv> 7"
abbreviation SFLCOUNTERS_PROCESSOR :: u32 where "SFLCOUNTERS_PROCESSOR \<equiv> 1001"
abbreviation SFLCOUNTERS_RADIO :: u32 where "SFLCOUNTERS_RADIO \<equiv> 1002"
abbreviation SFLCOUNTERS_HOST_HID :: u32 where "SFLCOUNTERS_HOST_HID \<equiv> 2000"
abbreviation SFLCOUNTERS_ADAPTORS :: u32 where "SFLCOUNTERS_ADAPTORS \<equiv> 2001"
abbreviation SFLCOUNTERS_HOST_PAR :: u32 where "SFLCOUNTERS_HOST_PAR \<equiv> 2002"
abbreviation SFLCOUNTERS_HOST_CPU :: u32 where "SFLCOUNTERS_HOST_CPU \<equiv> 2003"
abbreviation SFLCOUNTERS_HOST_MEM :: u32 where "SFLCOUNTERS_HOST_MEM \<equiv> 2004"
abbreviation SFLCOUNTERS_HOST_DSK :: u32 where "SFLCOUNTERS_HOST_DSK \<equiv> 2005"
abbreviation SFLCOUNTERS_HOST_NIO :: u32 where "SFLCOUNTERS_HOST_NIO \<equiv> 2006"
abbreviation SFLCOUNTERS_HOST_VRT_NODE :: u32 where "SFLCOUNTERS_HOST_VRT_NODE \<equiv> 2100"
abbreviation SFLCOUNTERS_HOST_VRT_CPU :: u32 where "SFLCOUNTERS_HOST_VRT_CPU \<equiv> 2101"
abbreviation SFLCOUNTERS_HOST_VRT_MEM :: u32 where "SFLCOUNTERS_HOST_VRT_MEM \<equiv> 2102"
abbreviation SFLCOUNTERS_HOST_VRT_DSK :: u32 where "SFLCOUNTERS_HOST_VRT_DSK \<equiv> 2103"
abbreviation SFLCOUNTERS_HOST_VRT_NIO :: u32 where "SFLCOUNTERS_HOST_VRT_NIO \<equiv> 2104"
abbreviation SFLCOUNTERS_HOST_GPU_NVML :: u32 where "SFLCOUNTERS_HOST_GPU_NVML \<equiv> 23359489"
abbreviation SFLCOUNTERS_MEMCACHE :: u32 where "SFLCOUNTERS_MEMCACHE \<equiv> 2200"
abbreviation SFLCOUNTERS_MEMCACHE2 :: u32 where "SFLCOUNTERS_MEMCACHE2 \<equiv> 2204"
abbreviation SFLCOUNTERS_HTTP :: u32 where "SFLCOUNTERS_HTTP \<equiv> 2201"
abbreviation SFLCOUNTERS_JVM :: u32 where "SFLCOUNTERS_JVM \<equiv> 2105"
abbreviation SFLCOUNTERS_JMX :: u32 where "SFLCOUNTERS_JMX \<equiv> 2106"
abbreviation SFLCOUNTERS_APP :: u32 where "SFLCOUNTERS_APP \<equiv> 2202"
abbreviation SFLCOUNTERS_APP_RESOURCE :: u32 where "SFLCOUNTERS_APP_RESOURCE \<equiv> 2203"
abbreviation SFLCOUNTERS_APP_WORKERS :: u32 where "SFLCOUNTERS_APP_WORKERS \<equiv> 2206"
abbreviation SFLCOUNTERS_VDI :: u32 where "SFLCOUNTERS_VDI \<equiv> 2205"
abbreviation SFLCOUNTERS_DDOS_COUNTER :: u32 where "SFLCOUNTERS_DDOS_COUNTER \<equiv> 167288833"
abbreviation SFLCOUNTERS_DDOS_IP_COUNTER :: u32 where "SFLCOUNTERS_DDOS_IP_COUNTER \<equiv> 167288834"
abbreviation SFLCOUNTERS_DDOS_HTTP_COUNTER :: u32 where "SFLCOUNTERS_DDOS_HTTP_COUNTER \<equiv> 167288835"
abbreviation SFLCOUNTERS_DDOS_DNS_COUNTER :: u32 where "SFLCOUNTERS_DDOS_DNS_COUNTER \<equiv> 167288836"
abbreviation SFLCOUNTERS_DDOS_FPGA_ANOMALY_COUNTER :: u32 where "SFLCOUNTERS_DDOS_FPGA_ANOMALY_COUNTER \<equiv> 167288841"
abbreviation SFLCOUNTERS_DDOS_HTTP_IP_COUNTER :: u32 where "SFLCOUNTERS_DDOS_HTTP_IP_COUNTER \<equiv> 167288837"
abbreviation SFLCOUNTERS_DDOS_DNS_IP_COUNTER :: u32 where "SFLCOUNTERS_DDOS_DNS_IP_COUNTER \<equiv> 167288838"
abbreviation SFLCOUNTERS_DDOS_L4_IP_COUNTER :: u32 where "SFLCOUNTERS_DDOS_L4_IP_COUNTER \<equiv> 167288839"
abbreviation SFLCOUNTERS_DDOS_L4_EXT_IP_COUNTER :: u32 where "SFLCOUNTERS_DDOS_L4_EXT_IP_COUNTER \<equiv> 167288848"
abbreviation SFLCOUNTERS_DDOS_PORT_IP_COUNTER :: u32 where "SFLCOUNTERS_DDOS_PORT_IP_COUNTER \<equiv> 167288840"
abbreviation SFLCOUNTERS_DDOS_ENTRY_MAP :: u32 where "SFLCOUNTERS_DDOS_ENTRY_MAP \<equiv> 167288892"
abbreviation SFLCOUNTERS_DDOS_POLLING_PACKETS_COUNTER :: u32 where "SFLCOUNTERS_DDOS_POLLING_PACKETS_COUNTER \<equiv> 167288896"
abbreviation SFLCOUNTERS_DDOS_POLLING_L4_COUNTER :: u32 where "SFLCOUNTERS_DDOS_POLLING_L4_COUNTER \<equiv> 167288897"
abbreviation SFLCOUNTERS_DDOS_POLLING_TCP_BASIC_COUNTER :: u32 where "SFLCOUNTERS_DDOS_POLLING_TCP_BASIC_COUNTER \<equiv> 167288898"
abbreviation SFLCOUNTERS_DDOS_POLLING_TCP_STATEFUL_COUNTER :: u32 where "SFLCOUNTERS_DDOS_POLLING_TCP_STATEFUL_COUNTER \<equiv> 167288899"
abbreviation SFLCOUNTERS_DDOS_POLLING_HTTP_COUNTER :: u32 where "SFLCOUNTERS_DDOS_POLLING_HTTP_COUNTER \<equiv> 167288900"
abbreviation SFLCOUNTERS_DDOS_SSL_L4_COUNTER :: u32 where "SFLCOUNTERS_DDOS_SSL_L4_COUNTER \<equiv> 167288842"
abbreviation SFLCOUNTERS_DDOS_SSL_L4_T2_COUNTER :: u32 where "SFLCOUNTERS_DDOS_SSL_L4_T2_COUNTER \<equiv> 167288843"
abbreviation SFLCOUNTERS_DDOS_ICMP_T2_COUNTER :: u32 where "SFLCOUNTERS_DDOS_ICMP_T2_COUNTER \<equiv> 167288844"
abbreviation SFLCOUNTERS_DDOS_UDP_T2_COUNTER :: u32 where "SFLCOUNTERS_DDOS_UDP_T2_COUNTER \<equiv> 167288845"
abbreviation SFLCOUNTERS_DDOS_TCP_T2_COUNTER :: u32 where "SFLCOUNTERS_DDOS_TCP_T2_COUNTER \<equiv> 167288846"
abbreviation SFLCOUNTERS_DDOS_OTHER_T2_COUNTER :: u32 where "SFLCOUNTERS_DDOS_OTHER_T2_COUNTER \<equiv> 167288847"
abbreviation SFLCOUNTERS_DDOS_L4_TCP_COUNTER :: u32 where "SFLCOUNTERS_DDOS_L4_TCP_COUNTER \<equiv> 167288853"
abbreviation SFLCOUNTERS_DDOS_L4_UDP_COUNTER :: u32 where "SFLCOUNTERS_DDOS_L4_UDP_COUNTER \<equiv> 167288854"
abbreviation SFLCOUNTERS_DDOS_L4_ICMP_COUNTER :: u32 where "SFLCOUNTERS_DDOS_L4_ICMP_COUNTER \<equiv> 167288855"
abbreviation SFLCOUNTERS_DDOS_L4_OTHER_COUNTER :: u32 where "SFLCOUNTERS_DDOS_L4_OTHER_COUNTER \<equiv> 167288856"
abbreviation SFLCOUNTERS_DDOS_L4_SWITCH_COUNTER :: u32 where "SFLCOUNTERS_DDOS_L4_SWITCH_COUNTER \<equiv> 167288857"
abbreviation SFLCOUNTERS_DDOS_L4_SYNC_COUNTER :: u32 where "SFLCOUNTERS_DDOS_L4_SYNC_COUNTER \<equiv> 167288858"
abbreviation SFLCOUNTERS_DDOS_L4_TUNNEL_COUNTER :: u32 where "SFLCOUNTERS_DDOS_L4_TUNNEL_COUNTER \<equiv> 167288859"
abbreviation SFLCOUNTERS_DDOS_L4_SESSION_COUNTER :: u32 where "SFLCOUNTERS_DDOS_L4_SESSION_COUNTER \<equiv> 167288860"
abbreviation SFLCOUNTERS_DDOS_L4_TABLE_COUNTER :: u32 where "SFLCOUNTERS_DDOS_L4_TABLE_COUNTER \<equiv> 167288861"
abbreviation SFLCOUNTERS_DDOS_STATS_BRIEF_COUNTER :: u32 where "SFLCOUNTERS_DDOS_STATS_BRIEF_COUNTER \<equiv> 167288862"
abbreviation SFLCOUNTERS_DDOS_STATS_LONG_COUNTER :: u32 where "SFLCOUNTERS_DDOS_STATS_LONG_COUNTER \<equiv> 167288863"
abbreviation SFL_COUNTER_DDOS_DST_INDICATORS :: u32 where "SFL_COUNTER_DDOS_DST_INDICATORS \<equiv> 167288912"
abbreviation SFL_COUNTER_DDOS_DST_TCP_INDICATORS :: u32 where "SFL_COUNTER_DDOS_DST_TCP_INDICATORS \<equiv> 167288913"
abbreviation SFL_COUNTER_DDOS_DST_UDP_INDICATORS :: u32 where "SFL_COUNTER_DDOS_DST_UDP_INDICATORS \<equiv> 167288914"
abbreviation SFL_COUNTER_DDOS_DST_ICMP_INDICATORS :: u32 where "SFL_COUNTER_DDOS_DST_ICMP_INDICATORS \<equiv> 167288915"
abbreviation SFL_COUNTER_DDOS_DST_OTHER_INDICATORS :: u32 where "SFL_COUNTER_DDOS_DST_OTHER_INDICATORS \<equiv> 167288916"
abbreviation SFL_COUNTER_REC_GENERIC_A10 :: u32 where "SFL_COUNTER_REC_GENERIC_A10 \<equiv> 167291832"

section \<open>Dispatch\<close>

definition sizeof_common :: u16 where
  "sizeof_common = 4 + 4 + 4 + 16 + 16 + 2 + 2"

definition standard_counter_readers :: "store_client \<Rightarrow> u32 \<Rightarrow> (u32 \<times> unit dec) list" where
  "standard_counter_readers lv len = [
     (SFLCOUNTERS_GENERIC, block [
        printf ''\<newline>hit SFLCOUNTERS_GENERIC_41n:\<newline>'' [],
        readCounters_a10_4_1_n_generic lv]),
     (SFLCOUNTERS_ETHERNET, readCounters_ethernet),
     (SFLCOUNTERS_TOKENRING, readCounters_tokenring),
     (SFLCOUNTERS_VG, readCounters_vg),
     (SFLCOUNTERS_VLAN, readCounters_vlan),
     (SFLCOUNTERS_80211, readCounters_80211),
     (SFLCOUNTERS_LACP, readCounters_LACP),
     (SFLCOUNTERS_PROCESSOR, readCounters_a10_4_1_n_generic lv),
     (SFLCOUNTERS_RADIO, readCounters_radio),
     (SFLCOUNTERS_HOST_HID, readCounters_host_hid),
     (SFLCOUNTERS_ADAPTORS, readCounters_adaptors),
     (SFLCOUNTERS_HOST_PAR, readCounters_host_parent),
     (SFLCOUNTERS_HOST_CPU, readCounters_host_cpu),
     (SFLCOUNTERS_HOST_MEM, readCounters_host_mem),
     (SFLCOUNTERS_HOST_DSK, readCounters_host_dsk),
     (SFLCOUNTERS_HOST_NIO, readCounters_host_nio),
     (SFLCOUNTERS_HOST_VRT_NODE, readCounters_host_vnode),
     (SFLCOUNTERS_HOST_VRT_CPU, readCounters_host_vcpu),
     (SFLCOUNTERS_HOST_VRT_MEM, readCounters_host_vmem),
     (SFLCOUNTERS_HOST_VRT_DSK, readCounters_host_vdsk),
     (SFLCOUNTERS_HOST_VRT_NIO, readCounters_host_vnio),
     (SFLCOUNTERS_HOST_GPU_NVML, readCounters_host_gpu_nvml),
     (SFLCOUNTERS_MEMCACHE, readCounters_memcache),
     (SFLCOUNTERS_MEMCACHE2, readCounters_memcache2),
     (SFLCOUNTERS_HTTP, readCounters_http),
     (SFLCOUNTERS_JVM, readCounters_JVM),
     (SFLCOUNTERS_JMX, readCounters_JMX len),
     (SFLCOUNTERS_APP, readCounters_APP),
     (SFLCOUNTERS_APP_RESOURCE, readCounters_APP_RESOURCE),
     (SFLCOUNTERS_APP_WORKERS, readCounters_APP_WORKERS),
     (SFLCOUNTERS_VDI, readCounters_VDI)]"

definition vendor_counter_readers :: "store_client \<Rightarrow> (u32 \<times> unit dec) list" where
  "vendor_counter_readers lv = [
     (SFLCOUNTERS_DDOS_COUNTER, block [
        sfl_ddos_description ''Sflow DDoS generic Global Ctrs'',
        readCounters_DDOS_COUNTER]),
     (SFLCOUNTERS_DDOS_IP_COUNTER, block [
        sfl_ddos_description ''Sflow DDoS Entry Ctrs'',
        readCounters_DDOS_IP_COUNTER]),
     (SFLCOUNTERS_DDOS_HTTP_COUNTER, block [
        sfl_ddos_description ''Sflow DDoS HTTP Global Ctrs'',
        readCounters_DDOS_HTTP_COUNTER ''http'']),
     (SFLCOUNTERS_DDOS_DNS_COUNTER, block [
        sfl_ddos_description ''Sflow DDoS DNS Global Ctrs'',
        readCounters_DDOS_DNS_COUNTER]),
     (SFLCOUNTERS_DDOS_FPGA_ANOMALY_COUNTER, block [
        sfl_ddos_description ''Sflow DDoS Anomaly Global Ctrs'',
        readCounters_DDOS_FPGA_ANOMALY_COUNTER]),
     (SFLCOUNTERS_DDOS_HTTP_IP_COUNTER, block [
        sfl_ddos_description ''Sflow DDoS HTTP Per-entry Ctrs'',
        readCounters_DDOS_IP_COUNTER_COMMON ''http_perip.common'',
        readCounters_DDOS_HTTP_IP_COUNTER,
        sfl_ddos_update_ctx_len (sizeof_common + 4),
        readCounters_DDOS_HTTP_T2_COUNTER ''http_perip.http.stats'']),
     (SFLCOUNTERS_DDOS_DNS_IP_COUNTER, block [
        sfl_ddos_description ''Sflow DDoS DNS Per-entry Ctrs'',
        readCounters_DDOS_IP_COUNTER_COMMON ''dns_perip.common'',
        readCounters_DDOS_DNS_IP_COUNTER,
        sfl_ddos_update_ctx_len (sizeof_common + 4),
        readCounters_DDOS_DNS_COUNTER_T2 ''dns_perip.dns.stats'']),
     (SFLCOUNTERS_DDOS_L4_IP_COUNTER, block [
        sfl_ddos_description ''Sflow DDoS General Per-entry Ctrs'',
        readCounters_DDOS_IP_COUNTER_COMMON ''l4_perip.common'',
        sfl_ddos_update_ctx_len (sizeof_common),
        readCounters_DDOS_L4_IP_COUNTER_T2 ''l4_perip.l4'']),
     (SFLCOUNTERS_DDOS_L4_EXT_IP_COUNTER, block [
        sfl_ddos_description ''Sflow DDoS Extended Per-entry Ctrs'',
        readCounters_DDOS_IP_COUNTER_COMMON ''l4_ext_perip.common'',
        sfl_ddos_update_ctx_len (sizeof_common),
        readCounters_DDOS_L4_EXT_IP_COUNTER_T2 ''l4_ext_perip.l4_ext'']),
     (SFLCOUNTERS_DDOS_PORT_IP_COUNTER, block [
        sfl_ddos_description ''Sflow DDoS Entry Port Ctrs'',
        readCounters_DDOS_PORT_IP_COUNTER]),
     (SFLCOUNTERS_DDOS_ENTRY_MAP, block [
        sfl_ddos_description ''Sflow DDoS Entry Map Ctrs'',
        readCounters_DDOS_POLLING_ENTRY_MAP]),
     (SFLCOUNTERS_DDOS_POLLING_PACKETS_COUNTER, block [
        sfl_ddos_description ''Sflow DDoS Polling Packet Ctrs'',
        readCounters_DDOS_POLLING_PACKETS]),
     (SFLCOUNTERS_DDOS_POLLING_L4_COUNTER, block [
        sfl_ddos_description ''Sflow DDoS Polling L4 protocol Ctrs'',
        readCounters_DDOS_POLLING_L4_PROTOCOL]),
     (SFLCOUNTERS_DDOS_POLLING_TCP_BASIC_COUNTER, block [
        sfl_ddos_description ''Sflow DDoS Polling TCP basic Ctrs'',
        readCounters_DDOS_POLLING_TCP_BASIC]),
     (SFLCOUNTERS_DDOS_POLLING_TCP_STATEFUL_COUNTER, block [
        sfl_ddos_description ''Sflow DDoS Polling TCP stateful Ctrs'',
        readCounters_DDOS_POLLING_TCP_STATEFUL]),
     (SFLCOUNTERS_DDOS_POLLING_HTTP_COUNTER, block [
        sfl_ddos_description ''Sflow DDoS Polling HTTP Ctrs'',
        readCounters_DDOS_POLLING_HTTP]),
     (SFLCOUNTERS_DDOS_SSL_L4_COUNTER, block [
        sfl_ddos_description ''Sflow DDoS SSL-L4 Global Ctrs'',
        readCounters_DDOS_SSL_L4_COUNTER]),
     (SFLCOUNTERS_DDOS_SSL_L4_T2_COUNTER, block [
        sfl_ddos_description ''Sflow DDoS SSL-L4 Per-entry Ctrs'',
        readCounters_DDOS_IP_COUNTER_COMMON ''ssl_l4_perip.common'',
        readCounters_DDOS_SSL_L4_IP_COUNTER,
        sfl_ddos_update_ctx_len (sizeof_common + 4),
        readCounters_DDOS_SSL_L4_T2_COUNTER ''ssl_l4_perip.ssl_l4.stats'']),
     (SFLCOUNTERS_DDOS_ICMP_T2_COUNTER, block [
        sfl_ddos_description ''Sflow DDoS ICMP Per-entry Ctrs'',
        readCounters_DDOS_IP_COUNTER_COMMON ''icmp_perip.common'',
        sfl_ddos_update_ctx_len (sizeof_common),
        readCounters_DDOS_ICMP_COUNTER_T2 ''icmp_perip.icmp'']),
     (SFLCOUNTERS_DDOS_UDP_T2_COUNTER, block [
        sfl_ddos_description ''Sflow DDoS UDP Per-entry Ctrs'',
        readCounters_DDOS_IP_COUNTER_COMMON ''udp_perip.common'',
        readCounters_DDOS_UDP_IP_COUNTER,
        sfl_ddos_update_ctx_len (sizeof_common + 4),
        readCounters_DDOS_UDP_T2_COUNTER ''udp_perip.udp.stats'']),
     (SFLCOUNTERS_DDOS_TCP_T2_COUNTER, block [
        sfl_ddos_description ''Sflow DDoS TCP Per-entry Ctrs'',
        readCounters_DDOS_IP_COUNTER_COMMON ''tcp_perip.common'',
        readCounters_DDOS_TCP_IP_COUNTER,
        sfl_ddos_update_ctx_len (sizeof_common + 4),
        readCounters_DDOS_TCP_T2_COUNTER ''tcp_perip.tcp.stats'']),
     (SFLCOUNTERS_DDOS_OTHER_T2_COUNTER, block [
        sfl_ddos_description ''Sflow DDoS OTHER Per-entry Ctrs'',
        readCounters_DDOS_IP_COUNTER_COMMON ''other_perip.common'',
        readCounters_DDOS_OTHER_IP_COUNTER,
        sfl_ddos_update_ctx_len (sizeof_common + 4),
        readCounters_DDOS_OTHER_T2_COUNTER ''other_perip.other.stats'']),
     (SFLCOUNTERS_DDOS_L4_TCP_COUNTER, block [
        sfl_ddos_description ''Sflow DDoS L4 TCP Global Ctrs'',
        readCounters_DDOS_L4_TCP_COUNTER]),
     (SFLCOUNTERS_DDOS_L4_UDP_COUNTER, block [
        sfl_ddos_description ''Sflow DDoS L4 UDP Global Ctrs'',
        readCounters_DDOS_L4_UDP_COUNTER]),
     (SFLCOUNTERS_DDOS_L4_ICMP_COUNTER, block [
        sfl_ddos_description ''Sflow DDoS L4 ICMP Global Ctrs'',
        readCounters_DDOS_L4_ICMP_COUNTER]),
     (SFLCOUNTERS_DDOS_L4_OTHER_COUNTER, block [
        sfl_ddos_description ''Sflow DDoS L4 Other Global Ctrs'',
        readCounters_DDOS_L4_OTHER_COUNTER]),
     (SFLCOUNTERS_DDOS_L4_SWITCH_COUNTER, block [
        sfl_ddos_description ''Sflow DDoS Switch Global Ctrs'',
        readCounters_DDOS_L4_SWITCH_COUNTER]),
     (SFLCOUNTERS_DDOS_L4_SYNC_COUNTER, block [
        sfl_ddos_description ''Sflow DDoS Sync Global Ctrs'',
        readCounters_DDOS_L4_SYNC_COUNTER]),
     (SFLCOUNTERS_DDOS_L4_TUNNEL_COUNTER, block [
        sfl_ddos_description ''Sflow DDoS Tunnel Global Ctrs'',
        readCounters_DDOS_L4_TUNNEL_COUNTER]),
     (SFLCOUNTERS_DDOS_L4_SESSION_COUNTER, block [
        sfl_ddos_description ''Sflow DDoS session Global Ctrs'',
        readCounters_DDOS_L4_SESSION_COUNTER]),
     (SFLCOUNTERS_DDOS_L4_TABLE_COUNTER, block [
        sfl_ddos_description ''Sflow DDoS Table Global Ctrs'',
        readCounters_DDOS_ENTRY_TABLE_COUNTER]),
     (SFLCOUNTERS_DDOS_STATS_BRIEF_COUNTER, block [
        sfl_ddos_description ''Sflow DDoS Brief Global Ctrs'',
        readCounters_DDOS_BRIEF_STATS_COUNTER]),
     (SFLCOUNTERS_DDOS_STATS_LONG_COUNTER, block [
        sfl_ddos_description ''Sflow DDoS Detailed Global Ctrs'',
        readCounters_DDOS_LONG_STATS_COUNTER]),
     (SFL_COUNTER_DDOS_DST_INDICATORS, readCounters_DDOS_DST_INDICATORS),
     (SFL_COUNTER_DDOS_DST_TCP_INDICATORS, readCounters_DDOS_DST_TCP_INDICATORS),
     (SFL_COUNTER_DDOS_DST_UDP_INDICATORS, readCounters_DDOS_DST_UDP_INDICATORS),
     (SFL_COUNTER_DDOS_DST_ICMP_INDICATORS, readCounters_DDOS_DST_ICMP_INDICATORS),
     (SFL_COUNTER_DDOS_DST_OTHER_INDICATORS, readCounters_DDOS_DST_OTHER_INDICATORS),
     (SFL_COUNTER_REC_GENERIC_A10, block [
        printf ''\<newline>hit SFL_COUNTER_REC_GENERIC_A10_41n:\<newline>'' [],
        readCounters_a10_4_1_n_generic lv])]"

definition counter_element_readers :: "store_client \<Rightarrow> u32 \<Rightarrow> (u32 \<times> unit dec) list" where
  "counter_element_readers lv len =
     standard_counter_readers lv len @ vendor_counter_readers lv"

text \<open>\<open>struct sflow_enterprise\<close>: the format is the low twelve bits, the enterprise the rest.\<close>

definition print_enterprise :: "u32 \<Rightarrow> unit dec" where
  "print_enterprise w =
     printf ''format %lu == id ==%lu \<newline>'' [A32 (w AND 0x00000FFF), A32 (drop_bit 12 w)]"

text \<open>One element. The check of its declared length is in the code, under a condition that is
  always false.\<close>

definition read_counter_element :: "store_client \<Rightarrow> unit dec" where
  "read_counter_element lv =
     bnd getData32 (\<lambda>tag.
     bnd (sf_log ''%-35s %s\<newline>'' [AStr ''counterBlock_tag'', AStr (printTag tag)]) (\<lambda>_.
     bnd getData32 (\<lambda>len.
     bnd (put current_context_length_update len) (\<lambda>_.
     bnd (gets datap) (\<lambda>start. block [
       print_enterprise (ntohl tag),
       print_enterprise tag,
       printf ''!!!!!!!!!!!tag == %lu; tag1 = %lu\<newline>'' [A32 tag, A32 (ntohl tag)],
       switch tag (counter_element_readers lv len)
         (skipTLVRecord tag len ''Skip_counters_sample_element''),
       only_if (tag \<noteq> SFLCOUNTERS_GENERIC \<and> (1 :: int) = 0)
         (lengthCheck ''44length_check_counters_sample_element'' start len)])))))"

definition read_counters_source :: "bool \<Rightarrow> unit dec" where
  "read_counters_source expanded =
     (if expanded then block [store ds_class_update getData32, store ds_index_update getData32]
      else bnd getData32 put_source_id)"

definition readCountersSample :: "store_client \<Rightarrow> bool \<Rightarrow> unit dec" where
  "readCountersSample lv expanded =
     bnd (sf_log ''%-35s COUNTERSSAMPLE\<newline>'' [AStr ''sampleType:'']) (\<lambda>_.
     bnd getData32 (\<lambda>sampleLength.
     bnd (gets datap) (\<lambda>sampleStart. block [
       store samplesGenerated_update getData32,
       bnd (fetch samplesGenerated) (\<lambda>n. sf_log ''%-35s %u\<newline>'' [AStr ''sampleSequenceNo'', A32 n]),
       read_counters_source expanded,
       bnd (gets smp) (\<lambda>x. sf_log ''%-35s %u:%u\<newline>''
         [AStr ''sourceId'', A32 (ds_class x), A32 (ds_index x)]),
       bnd getData32 (\<lambda>num_elements. for_u32 num_elements (\<lambda>el. read_counter_element lv)),
       lengthCheck ''length_check_2_counters_sample'' sampleStart sampleLength,
       bnd (gets cfg) (\<lambda>c. only_if (outputFormat c = SFLFMT_LINE) writeCountersLine)])))"

section \<open>Contracts\<close>

context unchecked_reader
begin

lemma sat_advance_45 [contract_intro]: "sat R (advance (int sizeof_sfl_a10_custom_info))"
  by (simp add: sat_def advance_def jumped)

lemma sat_read_a10_head [contract_intro]: "sat R read_a10_head"
  unfolding read_a10_head_def by (intro contract_intro)

lemma sat_print_counters [contract_intro]: "sat R (print_counters kvs)"
  unfolding print_counters_def by (rule sat_emit) (auto simp: list_all_iff)

lemma sat_skip_context [contract_intro]: "sat R skip_context"
  unfolding skip_context_def by (intro contract_intro)

lemma sat_readCounters_a10_generic [contract_intro]: "sat R readCounters_a10_generic"
  unfolding readCounters_a10_generic_def by (intro contract_intro)

lemma sat_leveldb_write [contract_intro]:
  "\<not> is_export e \<Longrightarrow> sat R (leveldb_simple_write_data lv key e db)"
  unfolding leveldb_simple_write_data_def by (intro contract_intro)

lemma sat_sum [contract_intro]:
  "(\<And>x. sat R (f x)) \<Longrightarrow> (\<And>y. sat R (g y)) \<Longrightarrow> sat R (case v of Inl x \<Rightarrow> f x | Inr y \<Rightarrow> g y)"
  by (cases v) simp_all

lemma sat_leveldb_read [contract_intro]: "sat R (leveldb_simple_read_data lv key db)"
  unfolding leveldb_simple_read_data_def by (intro contract_intro)

lemma sat_write_object_id [contract_intro]: "sat R (write_object_id lv i oid uuid)"
  unfolding write_object_id_def by (intro contract_intro)

lemma sat_readCounters_a10_4_1_n [contract_intro]: "sat R (readCounters_a10_4_1_n_generic lv)"
  unfolding readCounters_a10_4_1_n_generic_def by (intro contract_intro)

lemma all_standard_counter_readers: "all_cases (sat R) (standard_counter_readers lv len)"
  unfolding standard_counter_readers_def by (intro contract_intro)

lemma all_vendor_counter_readers: "all_cases (sat R) (vendor_counter_readers lv)"
  unfolding vendor_counter_readers_def by (intro contract_intro)

lemma all_counter_element_readers [contract_intro]:
  "all_cases (sat R) (counter_element_readers lv len)"
  unfolding counter_element_readers_def
  by (simp add: all_cases_append all_standard_counter_readers all_vendor_counter_readers)

lemma sat_print_enterprise [contract_intro]: "sat R (print_enterprise w)"
  unfolding print_enterprise_def by (intro contract_intro)

lemma sat_read_counter_element [contract_intro]: "sat R (read_counter_element lv)"
  unfolding read_counter_element_def by (intro contract_intro)

lemma sat_read_counters_source [contract_intro]: "sat R (read_counters_source b)"
  unfolding read_counters_source_def by (intro contract_intro)

lemma sat_readCountersSample [contract_intro]: "sat R (readCountersSample lv expanded)"
  unfolding readCountersSample_def by (intro contract_intro)

end

end
