(* ===== verification/Datagram.thy ===== *)
theory Datagram
  imports FlowSample CountersSample
begin

text \<open>
  A datagram from the wire to the end of its decoding (\<open>sflowtool.c\<close> 7518-7645, 7727-7778):
  \<open>readSFlowDatagram\<close> reads the head and the samples, \<open>receiveSFlowDatagram\<close> catches the aborts or
  forwards the datagram undecoded, \<open>readPacket\<close> sets the sample up for a packet that came in on a
  socket; and the collector, which handles one packet after the other.

  The collector's contracts are those that survive the reset of the cursor between packets:
  output, exit codes, NetFlow numbering, configuration.
\<close>

section \<open>The samples of a datagram\<close>

abbreviation SFLFLOW_SAMPLE :: u32 where "SFLFLOW_SAMPLE \<equiv> 1"
abbreviation SFLCOUNTERS_SAMPLE :: u32 where "SFLCOUNTERS_SAMPLE \<equiv> 2"
abbreviation SFLFLOW_SAMPLE_EXPANDED :: u32 where "SFLFLOW_SAMPLE_EXPANDED \<equiv> 3"
abbreviation SFLCOUNTERS_SAMPLE_EXPANDED :: u32 where "SFLCOUNTERS_SAMPLE_EXPANDED \<equiv> 4"
abbreviation FLOWSAMPLE :: u32 where "FLOWSAMPLE \<equiv> 1"
abbreviation COUNTERSSAMPLE :: u32 where "COUNTERSSAMPLE \<equiv> 2"

definition sample_readers_v5 :: "store_client \<Rightarrow> (u32 \<times> unit dec) list" where
  "sample_readers_v5 lv = [
     (SFLFLOW_SAMPLE, readFlowSample False),
     (SFLCOUNTERS_SAMPLE, readCountersSample lv False),
     (SFLFLOW_SAMPLE_EXPANDED, readFlowSample True),
     (SFLCOUNTERS_SAMPLE_EXPANDED, readCountersSample lv True)]"

definition sample_readers_v2v4 :: "(u32 \<times> unit dec) list" where
  "sample_readers_v2v4 = [
     (FLOWSAMPLE, readFlowSample_v2v4),
     (COUNTERSSAMPLE, readCountersSample_v2v4)]"

definition read_sample :: "store_client \<Rightarrow> unit dec" where
  "read_sample lv = block [
     store sampleType_update getData32,
     sf_log ''==================== StartSample ======================\<newline>'' [],
     bnd (fetch sampleType) (\<lambda>ty. block [
       sf_log ''%-35s %s\<newline>'' [AStr ''sampleType_tag'', AStr (printTag ty)],
       bnd (fetch datagramVersion) (\<lambda>v.
         if v \<ge> 5 then
           switch ty (sample_readers_v5 lv) (bnd getData32 (\<lambda>len. skipTLVRecord ty len ''sample''))
         else
           switch ty sample_readers_v2v4 (receiveError ''unexpected sample type'' True))]),
     sf_log ''==================== EndSample ========================\<newline>'' []]"

text \<open>No sample is begun at or past the end of the datagram.\<close>

definition read_samples :: "store_client \<Rightarrow> u32 \<Rightarrow> unit dec" where
  "read_samples lv samplesInPacket =
     for_u32 samplesInPacket (\<lambda>samp.
       bnd (gets (\<lambda>s. datap s \<ge> endp s)) (\<lambda>over. block [
         only_if over (block [
           eprintf ''unexpected end of datagram after sample %d of %d\<newline>''
             [A32 samp, A32 samplesInPacket],
           SFABORT SF_ABORT_EOS]),
         read_sample lv]))"

text \<open>The local time of a packet from a capture is printed as the time stamp itself.\<close>

definition readSFlowDatagram :: "store_client \<Rightarrow> unit dec" where
  "readSFlowDatagram lv = block [
     bnd (fetch sourceIP) (\<lambda>a.
       sf_log ''%-35s %s\<newline>'' [AStr ''datagramSourceIP'', AStr (printAddress a)]),
     bnd (gets rawSampleLen) (\<lambda>n. sf_log ''%-35s %u\<newline>'' [AStr ''datagramSize'', A32 n]),
     bnd (gets clock) (\<lambda>now. sf_log ''%-35s %u\<newline>'' [AStr ''unixSecondsUTC'', A32 now]),
     bnd (fetch pcapTimestamp) (\<lambda>ts. only_if (ts \<noteq> 0) (sf_log ''pcapTimestamp %s\<newline>'' [A32 ts])),
     store datagramVersion_update getData32,
     bnd (fetch datagramVersion) (\<lambda>v. block [
       sf_log ''%-35s %d\<newline>'' [AStr ''datagramVersion'', A32 v],
       only_if (v \<noteq> 2 \<and> v \<noteq> 4 \<and> v \<noteq> 5)
         (receiveError ''unexpected datagram version number\<newline>'' True)]),
     getAddress_field agent_addr agent_addr_update,
     bnd (fetch datagramVersion) (\<lambda>v. only_if (v \<ge> 5) (block [
       store agentSubId_update getData32,
       bnd (fetch agentSubId) (\<lambda>n. sf_log ''%-35s %u\<newline>'' [AStr ''AgentSubId'', A32 n])])),
     store sequenceNo_update getData32,
     store sysUpTime_update getData32,
     bnd getData32 (\<lambda>samplesInPacket. block [
       bnd (gets smp) (\<lambda>x. block [
         sf_log ''%-35s %s\<newline>'' [AStr ''Agent'', AStr (printAddress (agent_addr x))],
         sf_log ''%-35s %u\<newline>'' [AStr ''PacketSequenceNo'', A32 (sequenceNo x)],
         sf_log ''%-35s %u\<newline>'' [AStr ''SysUpTime'', A32 (sysUpTime x)],
         sf_log ''%-35s %u\<newline>'' [AStr ''samplesInPacket'', A32 samplesInPacket]]),
       read_samples lv samplesInPacket])]"

section \<open>Receiving a datagram\<close>

text \<open>
  What the operating system and the database answer: the count \<open>sendto\<close> returns for a packet, the
  text of the last error, and the database client of \<open>CountersSample\<close>.
\<close>

record services =
  leveldb :: store_client
  sendto :: "SFForwardingTarget \<Rightarrow> u8 list \<Rightarrow> int"
  strerror :: string

definition forward_to :: "services \<Rightarrow> SFForwardingTarget \<Rightarrow> unit dec" where
  "forward_to sv tgt =
     bnd (gets (\<lambda>s. load_bytes (rawSample s) 0 (unat (rawSampleLen s)))) (\<lambda>raw.
     bnd (gets rawSampleLen) (\<lambda>len.
     let bytesSent = word_of_int (sendto sv tgt raw) :: u32
     in block [
       emit [Forward tgt raw],
       only_if (bytesSent \<noteq> len) (eprintf ''sendto returned %d (expected %d): %s\<newline>''
         [A32 bytesSent, A32 len, AStr (strerror sv)])]))"

definition abort_number :: "abort_code \<Rightarrow> u32" where
  "abort_number a = (case a of SF_ABORT_EOS \<Rightarrow> 1 | SF_ABORT_DECODE_ERROR \<Rightarrow> 2 | SF_ABORT_LENGTH_ERROR \<Rightarrow> 3)"

text \<open>\<open>setjmp\<close>: an abort returns to the handler with all that was written before.\<close>

definition catch_abort :: "unit dec \<Rightarrow> (abort_code \<Rightarrow> unit dec) \<Rightarrow> unit dec" where
  "catch_abort m h = (\<lambda>s. case m s of (Inl (Abort a), t) \<Rightarrow> h a t | rt \<Rightarrow> rt)"

definition begin_datagram :: "unit dec" where
  "begin_datagram = (\<lambda>s. (Inr (), s\<lparr>datap := 0, endp := uint (rawSampleLen s)\<rparr>))"

definition receiveSFlowDatagram :: "services \<Rightarrow> unit dec" where
  "receiveSFlowDatagram sv =
     bnd (gets (\<lambda>s. forwardingTargets (cfg s))) (\<lambda>targets.
     if targets \<noteq> [] then block (map (forward_to sv) targets)
     else block [
       sf_log ''==================== StartDatagram ====================\<newline>\<newline>'' [],
       catch_abort (block [begin_datagram, readSFlowDatagram (leveldb sv)])
         (\<lambda>a. eprintf ''caught exception: %d\<newline>'' [A32 (abort_number a)]),
       sf_log ''==================== EndDatagram ======================\<newline>\<newline>'' []])"

text \<open>The four bytes of an IPv4 address inside an IPv6 address.\<close>

definition ipv4MappedAddress :: "u8 list \<Rightarrow> u8 list option" where
  "ipv4MappedAddress ipv6addr =
     (if take 12 ipv6addr = [0, 0, 0, 0, 0, 0, 0, 0, 0, 0, 0xFF, 0xFF] \<or>
         take 12 ipv6addr = [0, 0, 0, 0, 0, 0, 0, 0, 0, 0, 0, 0]
      then Some (take 4 (drop 12 ipv6addr)) else None)"

text \<open>A peer's socket address: the 4 or 16 bytes of its IP address.\<close>

datatype sockaddr = Sockaddr_in "u8 list" | Sockaddr_in6 "u8 list"

definition source_address :: "sockaddr \<Rightarrow> SFLAddress" where
  "source_address peer =
     (case peer of
        Sockaddr_in sin \<Rightarrow>
          zero_address\<lparr>addr_type := SFLADDRESSTYPE_IP_V4,
                       addr_bytes := overwrite (replicate 16 0) (take 4 sin)\<rparr>
      | Sockaddr_in6 sin6 \<Rightarrow>
          (let a = set_ip_v6 (take 16 sin6) (zero_address\<lparr>addr_type := SFLADDRESSTYPE_IP_V6\<rparr>)
           in case ipv4MappedAddress (addr_bytes a) of
                None \<Rightarrow> a
              | Some v4src \<Rightarrow> a\<lparr>addr_type := SFLADDRESSTYPE_IP_V4,
                                addr_bytes := overwrite (addr_bytes a) v4src\<rparr>))"

text \<open>
  \<open>readPacket\<close>, with what \<open>recvfrom\<close> gave: the peer, the receive buffer and the count. The sample is a
  cleared local variable.
\<close>

definition MAX_PKT_SIZ :: int where "MAX_PKT_SIZ = 65536"

definition start_sample :: "memory \<Rightarrow> u32 \<Rightarrow> SFSample \<Rightarrow> unit dec" where
  "start_sample m n x = (\<lambda>s. (Inr (), s\<lparr>rawSample := m, rawSampleLen := n, endp := 0, datap := 0, smp := x\<rparr>))"

definition readPacket :: "services \<Rightarrow> sockaddr \<Rightarrow> memory \<Rightarrow> int \<Rightarrow> unit dec" where
  "readPacket sv peer buf cc =
     (if cc \<le> 0 then eprintf ''recvfrom() failed, %s\<newline>'' [AStr (strerror sv)]
      else block [
        start_sample buf (word_of_int cc) (zero_sample\<lparr>sourceIP := source_address peer\<rparr>),
        receiveSFlowDatagram sv])"

section \<open>The collector\<close>

text \<open>
  The packets that come in, at their times, in order; the collector ends with the first fault that
  is not caught. \<open>serves sv s r t\<close>: starting from \<open>s\<close> some packets were handled, the last one
  ended with \<open>r\<close>, and the state is \<open>t\<close>.
\<close>

definition tick :: "u32 \<Rightarrow> state \<Rightarrow> state" where
  "tick now s = s\<lparr>clock := now\<rparr>"

inductive serves :: "services \<Rightarrow> state \<Rightarrow> fault option \<Rightarrow> state \<Rightarrow> bool" for sv s where
  serves_start: "serves sv s None s"
| serves_packet: "serves sv s None t \<Longrightarrow> cc \<le> MAX_PKT_SIZ \<Longrightarrow>
    readPacket sv peer buf cc (tick now t) = (r, u) \<Longrightarrow> serves sv s (ending r) u"

section \<open>Contracts\<close>

locale datagram_reader = unchecked_reader + flow_writer
begin

lemma all_sample_readers [contract_intro]:
  "all_cases (sat R) (sample_readers_v5 lv)" "all_cases (sat R) sample_readers_v2v4"
  unfolding sample_readers_v5_def sample_readers_v2v4_def by (intro contract_intro)+

lemma sat_read_sample [contract_intro]: "sat R (read_sample lv)"
  unfolding read_sample_def by (intro contract_intro)

lemma sat_read_samples [contract_intro]: "sat R (read_samples lv n)"
  unfolding read_samples_def by (intro contract_intro)

lemma sat_readSFlowDatagram [contract_intro]: "sat R (readSFlowDatagram lv)"
  unfolding readSFlowDatagram_def by (intro contract_intro)

lemma sat_forward_to [contract_intro]: "sat R (forward_to sv tgt)"
  unfolding forward_to_def by (intro contract_intro)

end

locale collector = datagram_reader +
  assumes loaded: "R s None (s\<lparr>rawSample := m, rawSampleLen := n, endp := e, datap := p, smp := x\<rparr>)"
    and ticked: "R s None (s\<lparr>clock := now\<rparr>)"
    and caught: "R s (Some (Abort a)) t \<Longrightarrow> R s None t"
begin

lemma sat_begin_datagram: "sat R begin_datagram"
proof (rule satI)
  fix s r t assume "begin_datagram s = (r, t)"
  then have "r = Inr ()" "t = s\<lparr>rawSample := rawSample s, rawSampleLen := rawSampleLen s,
      endp := uint (rawSampleLen s), datap := 0, smp := smp s\<rparr>"
    by (auto simp: begin_datagram_def)
  then show "R s (ending r) t" by (simp only: loaded ending_simps)
qed

lemma sat_start_sample: "sat R (start_sample m n x)"
  by (simp add: sat_def start_sample_def loaded)

lemma sat_catch_abort:
  assumes "sat R m" and "\<And>a. sat R (h a)"
  shows "sat R (catch_abort m h)"
proof (rule satI)
  fix s r u assume run: "catch_abort m h s = (r, u)"
  obtain q t where m: "m s = (q, t)" by (cases "m s")
  with assms(1) have q: "R s (ending q) t" by (rule satD)
  show "R s (ending r) u"
  proof (cases "\<exists>a. q = Inl (Abort a)")
    case True
    then obtain a where a: "q = Inl (Abort a)" by blast
    with run m have "h a t = (r, u)" by (simp add: catch_abort_def)
    with assms(2) have "R t (ending r) u" by (rule satD)
    moreover from q a have "R s None t" by (simp add: caught)
    ultimately show ?thesis by (blast intro: compose)
  next
    case False
    with run m have "r = q" "u = t"
      by (auto simp: catch_abort_def split: sum.splits fault.splits)
    with q show ?thesis by simp
  qed
qed

lemma sat_receiveSFlowDatagram: "sat R (receiveSFlowDatagram sv)"
proof -
  have "list_all (sat R) (map (forward_to sv) tgts)" for tgts
    by (auto simp: list_all_iff intro: sat_forward_to)
  then show ?thesis
    unfolding receiveSFlowDatagram_def
    by (intro contract_intro sat_catch_abort sat_begin_datagram)
qed

lemma sat_readPacket: "sat R (readPacket sv peer buf cc)"
  unfolding readPacket_def
  by (intro contract_intro sat_start_sample sat_receiveSFlowDatagram)

lemma served: "serves sv s r t \<Longrightarrow> R s r t"
proof (induction rule: serves.induct)
  case serves_start
  then show ?case by (rule stutter)
next
  case (serves_packet t cc peer buf now r u)
  have "R t None (tick now t)" by (simp add: tick_def ticked)
  moreover have "R (tick now t) (ending r) u"
    by (rule satD [OF sat_readPacket serves_packet.hyps(3)])
  ultimately show ?case using serves_packet.IH by (blast intro: compose)
qed

end

text \<open>The configuration is never written while packets are handled.\<close>

definition config_rel :: contract where
  "config_rel s r t \<longleftrightarrow> cfg t = cfg s"

interpretation frame: datagram_reader frame_rel ..
interpretation forward: datagram_reader forward_rel ..

interpretation append: collector append_rel
  by unfold_locales (auto simp: append_rel_def)

interpretation exits: collector exits_rel
  by unfold_locales (auto simp: exits_rel_def)

interpretation seqno: collector numbered_rel
  by unfold_locales (auto simp: numbered_rel_def numbered_nil)

interpretation config: collector config_rel
  by unfold_locales (auto simp: config_rel_def)

end
