(* ===== verification/DatagramSpec.thy ===== *)
theory DatagramSpec
  imports Datagram Reading
begin

text \<open>
  What a datagram and a run of the collector amount to: aborts are always caught, NetFlow packets
  are numbered consecutively over all datagrams, the loop over samples is bounded by the datagram,
  and a forwarding collector passes datagrams on unread.
\<close>

section \<open>Aborts are caught\<close>

definition no_abort_rel :: contract where
  "no_abort_rel s r t \<longleftrightarrow> (\<forall>a. r \<noteq> Some (Abort a))"

interpretation calm: contract_law no_abort_rel
  by unfold_locales (auto simp: no_abort_rel_def)

lemma calm_outputs [contract_intro]:
  "sat no_abort_rel (sf_log fmt args)" "sat no_abort_rel (eprintf fmt args)"
  "sat no_abort_rel (emit es)" "sat no_abort_rel (start_sample m n x)"
  by (simp_all add: sat_def no_abort_rel_def start_sample_def dec_defs)

lemma calm_forward_to [contract_intro]: "sat no_abort_rel (forward_to sv tgt)"
  unfolding forward_to_def Let_def
  by (intro contract_intro calm.sat_bnd calm.sat_gets calm.sat_block calm.sat_only_if)

lemma calm_catch_abort:
  assumes "\<And>a. sat no_abort_rel (h a)"
  shows "sat no_abort_rel (catch_abort m h)"
proof (rule satI)
  fix s r u assume run: "catch_abort m h s = (r, u)"
  show "no_abort_rel s (ending r) u"
  proof (cases "\<exists>a t. m s = (Inl (Abort a), t)")
    case True
    then obtain a t where "m s = (Inl (Abort a), t)" by blast
    with run have "h a t = (r, u)" by (simp add: catch_abort_def)
    with satD [OF assms [of a]] show ?thesis by (auto simp: no_abort_rel_def)
  next
    case False
    with run show ?thesis
      by (auto simp: catch_abort_def no_abort_rel_def split: prod.splits sum.splits fault.splits)
  qed
qed

lemma calm_receive: "sat no_abort_rel (receiveSFlowDatagram sv)"
proof -
  have "list_all (sat no_abort_rel) (map (forward_to sv) tgts)" for tgts
    by (auto simp: list_all_iff intro: calm_forward_to)
  then show ?thesis
    unfolding receiveSFlowDatagram_def
    by (intro contract_intro calm.sat_bnd calm.sat_gets calm.sat_if calm.sat_block calm_catch_abort)
qed

lemma calm_readPacket: "sat no_abort_rel (readPacket sv peer buf cc)"
  unfolding readPacket_def
  by (intro contract_intro calm.sat_if calm.sat_block calm_receive)

lemma fault_cases:
  assumes "\<forall>a. r \<noteq> Some (Abort a)" "\<forall>n. r = Some (Exit n) \<longrightarrow> n = -12"
  shows "r = None \<or> r = Some (Exit (-12)) \<or> r = Some Undef"
  using assms by (cases r) (auto, metis fault.exhaust)

text \<open>An environment in which nothing fails and the database is empty, a packet of four bytes that
  announces version 9, and the run that handles it.\<close>

definition calm_services :: services where
  "calm_services =
     \<lparr>leveldb = \<lparr>ldb_open = \<lambda>_ _. None, ldb_put_fails = \<lambda>_ _ _. False, ldb_get = \<lambda>_ _ _. Inr None\<rparr>,
      sendto = \<lambda>_ raw. int (length raw), strerror = ''''\<rparr>"

definition bad_version_run :: "(fault + unit) \<times> state" where
  "bad_version_run = readPacket calm_services (Sockaddr_in [10, 0, 0, 1]) (mem_of [0, 0, 0, 9]) 4
     (tick 1000 (zero_state (\<lambda>_. 0) 0))"

lemma serves_bad_version:
  "serves calm_services (zero_state (\<lambda>_. 0) 0) (ending (fst bad_version_run)) (snd bad_version_run)"
  by (rule serves_packet [OF serves_start, where cc = 4])
    (simp_all add: MAX_PKT_SIZ_def bad_version_run_def)



section \<open>NetFlow packets are numbered\<close>

text \<open>
  C6. Over a whole run of the collector the NetFlow packets it sends, spoofed or not, carry
  consecutive sequence numbers in the order they are sent, starting at the counter, and the
  counter ends one past the last (modulo \<open>2 ^ 32\<close>): none is skipped or repeated, whatever aborts
  happened in between.
\<close>

theorem netflow_packets_numbered:
  assumes "serves sv s r t"
  shows "\<exists>es. out t = out s @ es \<and>
    map sequence_of (filter is_export es) =
      map (\<lambda>i. NFFlowSequenceNo s + of_nat i) [0..<length (filter is_export es)] \<and>
    NFFlowSequenceNo t = NFFlowSequenceNo s + of_nat (length (filter is_export es))"
  using seqno.served [OF assms]
  by (simp add: numbered_rel_def numbered_def consecutive_def)

theorem netflow_packets_numbered_witness:
  "\<exists>es. out (snd bad_version_run) = es \<and>
     NFFlowSequenceNo (snd bad_version_run) = of_nat (length (filter is_export es))"
  using netflow_packets_numbered [OF serves_bad_version] by simp

section \<open>The loop over samples\<close>

lemma getData32_result:
  "getData32 s = (Inr v, t) \<Longrightarrow>
   v = ntohl (load32 (rawSample s) (datap s)) \<and> t = s\<lparr>datap := datap s + 4\<rparr> \<and> datap s + 4 \<le> endp s"
  by (auto simp: getData32_def getData32_nobswap_eq bnd_def ret_def split: if_splits)

lemma read_sample_advances:
  assumes "read_sample lv s = (Inr (), t)"
  shows "datap s + 4 \<le> datap t \<and> endp t = endp s"
proof -
  obtain ms where ms: "read_sample lv = block (store sampleType_update getData32 # ms)"
    and all: "list_all (sat forward_rel) ms" "list_all (sat frame_rel) ms"
    unfolding read_sample_def
    by (rule that [unfolded read_sample_def, OF refl]) (intro contract_intro)+
  obtain u where "store sampleType_update getData32 s = (Inr (), u)" "block ms u = (Inr (), t)"
    using assms by (auto simp: ms elim: bnd_InrE)
  moreover from this have "datap u = datap s + 4" "endp u = endp s"
    by (auto simp: store_def put_def elim!: bnd_InrE dest!: getData32_result)
  ultimately show ?thesis
    using satD [OF forward.sat_block [OF all(1)], of u "Inr ()" t]
      satD [OF frame.sat_block [OF all(2)], of u "Inr ()" t]
    by (simp add: forward_rel_def frame_rel_def)
qed

lemma samples_loop:
  assumes "for_from i n (\<lambda>k. bnd (gets (\<lambda>s. datap s \<ge> endp s)) (\<lambda>over.
             block [only_if over (block [f k, SFABORT SF_ABORT_EOS]), read_sample lv])) s = (Inr (), t)"
    and "\<And>k s. fst (f k s) = Inr ()"
  shows "n = 0 \<or> datap s + 4 * (int n - 1) < endp s"
  using assms(1)
proof (induction n arbitrary: i s)
  case (Suc n)
  let ?b = "\<lambda>k. bnd (gets (\<lambda>s. datap s \<ge> endp s)) (\<lambda>over.
             block [only_if over (block [f k, SFABORT SF_ABORT_EOS]), read_sample lv])"
  from Suc.prems obtain x u where "?b i s = (Inr x, u)" "for_from (Suc i) n ?b u = (Inr (), t)"
    unfolding for_from.simps by (rule bnd_InrE)
  then have u: "?b i s = (Inr (), u)" "for_from (Suc i) n ?b u = (Inr (), t)" by simp_all
  have inside: "datap s < endp s"
  proof (rule ccontr)
    assume out: "\<not> datap s < endp s"
    obtain s' where "f i s = (Inr (), s')"
      using assms(2) [of i s] by (cases "f i s") auto
    moreover have "?b i s = block [block [f i, SFABORT SF_ABORT_EOS], read_sample lv] s"
      using out by (simp add: only_if_def)
    ultimately have "fst (?b i s) = Inl (Abort SF_ABORT_EOS)"
      by (simp add: bnd_def fail_def)
    with u(1) show False by simp
  qed
  with u(1) have "read_sample lv s = (Inr (), u)"
    by (simp add: only_if_def)
  from read_sample_advances [OF this] Suc.IH [OF u(2)] inside show ?case by auto
qed simp

text \<open>
  C7. However many samples a datagram announces, each one begun takes four bytes of it and none is
  begun at its end: if the loop over samples runs to its end, the datagram holds at least
  \<open>4 * (n - 1) + 1\<close> bytes from the first sample on. This holds although the vendor's tables may
  move the cursor without a check.
\<close>

theorem sample_loop_bounded:
  assumes "read_samples lv n s = (Inr (), t)"
  shows "n = 0 \<or> datap s + 4 * (int (unat n) - 1) < endp s"
proof -
  have "unat n = 0 \<or> datap s + 4 * (int (unat n) - 1) < endp s"
    using assms unfolding read_samples_def for_u32_def
    by (rule samples_loop) (simp add: eprintf_def emit_def)
  then show ?thesis by (simp add: unat_eq_zero)
qed

text \<open>One sample of a type that version 5 does not know, of length zero.\<close>

definition one_sample_state :: state where
  "one_sample_state =
     (zero_state (mem_of [0, 0, 0, 99, 0, 0, 0, 0]) 8)\<lparr>smp := zero_sample\<lparr>datagramVersion := 5\<rparr>\<rparr>"

lemma one_sample_words:
  "ntohl (load32 (mem_of [0, 0, 0, 99, 0, 0, 0, 0]) 0) = 99"
  "ntohl (load32 (mem_of [0, 0, 0, 99, 0, 0, 0, 0]) 4) = 0"
  by code_simp+

lemma one_sample_read: "fst (read_samples lv 1 one_sample_state) = Inr ()"
  by (simp add: read_samples_def for_u32_def read_sample_def sample_readers_v5_def one_sample_state_def
      getData32_def getData32_nobswap_eq skipTLVRecord_def skipBytes_eq one_sample_words dec_defs)

theorem sample_loop_bounded_witness:
  "(1 :: u32) = 0 \<or> datap one_sample_state + 4 * (int (unat (1 :: u32)) - 1) < endp one_sample_state"
proof -
  let ?run = "read_samples (leveldb calm_services) 1 one_sample_state"
  have "?run = (Inr (), snd ?run)"
    by (rule prod_eqI) (simp_all add: one_sample_read)
  then show ?thesis by (rule sample_loop_bounded)
qed

section \<open>Forwarding\<close>

definition forward_events :: "services \<Rightarrow> u8 list \<Rightarrow> u32 \<Rightarrow> SFForwardingTarget \<Rightarrow> event list" where
  "forward_events sv raw len tgt =
     Forward tgt raw #
     (if word_of_int (sendto sv tgt raw) \<noteq> len
      then [Err ''sendto returned %d (expected %d): %s\<newline>''
              [A32 (word_of_int (sendto sv tgt raw)), A32 len, AStr (strerror sv)]]
      else [])"

lemma forward_to_eq:
  "forward_to sv tgt s = (Inr (), s\<lparr>out := out s @
     forward_events sv (load_bytes (rawSample s) 0 (unat (rawSampleLen s))) (rawSampleLen s) tgt\<rparr>)"
  by (simp add: forward_to_def forward_events_def Let_def dec_defs)

lemma forward_all:
  "block (map (forward_to sv) tgts) s = (Inr (), s\<lparr>out := out s @ concat (map
     (forward_events sv (load_bytes (rawSample s) 0 (unat (rawSampleLen s))) (rawSampleLen s)) tgts)\<rparr>)"
  by (induction tgts arbitrary: s) (simp_all add: ret_def bnd_def forward_to_eq)

lemma receive_forwards:
  assumes "forwardingTargets (cfg s) \<noteq> []"
  shows "receiveSFlowDatagram sv s = (Inr (), s\<lparr>out := out s @ concat (map
     (forward_events sv (load_bytes (rawSample s) 0 (unat (rawSampleLen s))) (rawSampleLen s))
     (forwardingTargets (cfg s)))\<rparr>)"
  using assms by (simp add: receiveSFlowDatagram_def forward_all)

text \<open>
  C18. When forwarding targets are configured, a datagram is passed on to each of them byte for byte,
  in order, a failed or short send to one (which is reported) does not keep it from the next, and
  nothing is decoded: the sample and everything else stay as they are.
\<close>

theorem datagram_forwarded_raw:
  assumes "forwardingTargets (cfg s) = tgts" "tgts \<noteq> []"
  shows "receiveSFlowDatagram sv s = (Inr (), s\<lparr>out := out s @ concat (map
     (forward_events sv (load_bytes (rawSample s) 0 (unat (rawSampleLen s))) (rawSampleLen s)) tgts)\<rparr>)"
  using assms receive_forwards [of s] by simp

theorem datagram_forwarded_raw_witness:
  "let s = (zero_state (mem_of [1, 2, 3]) 3)\<lparr>cfg := zero_config\<lparr>forwardingTargets :=
         [\<lparr>target_host = 1, target_port = 6343, target_sock = 3\<rparr>]\<rparr>\<rparr>
   in out (snd (receiveSFlowDatagram calm_services s)) =
        [Forward \<lparr>target_host = 1, target_port = 6343, target_sock = 3\<rparr> [1, 2, 3]]"
  by (simp add: Let_def datagram_forwarded_raw [OF refl] forward_events_def calm_services_def
      load_bytes_def mem_of_def upt_conv_Cons)

lemma readPacket_forwards:
  assumes "forwardingTargets (cfg t) \<noteq> []"
  shows "\<exists>u. readPacket sv peer buf cc (tick now t) = (Inr (), u) \<and> cfg u = cfg t \<and>
    (0 < cc \<and> cc \<le> MAX_PKT_SIZ \<longrightarrow> out u = out t @ concat (map
       (forward_events sv (load_bytes buf 0 (nat cc)) (word_of_int cc)) (forwardingTargets (cfg t))))"
proof (cases "cc \<le> 0")
  case True
  then show ?thesis by (simp add: readPacket_def eprintf_def emit_def tick_def)
next
  case False
  then have "cc \<le> MAX_PKT_SIZ \<Longrightarrow> unat (word_of_int cc :: u32) = nat cc"
    by (simp add: MAX_PKT_SIZ_def unsigned_of_int take_bit_int_eq_self)
  with False assms show ?thesis
    by (simp add: readPacket_def start_sample_def bnd_def ret_def receive_forwards tick_def)
qed

text \<open>
  C11. A collector with forwarding targets never stops: in every state a run reaches it has not
  ended, it can take any next packet, whatever its bytes, sender and time, and a packet with
  content is passed on to every target in that very step.
\<close>

theorem forwarding_collector_lives:
  assumes "serves sv s r t" "forwardingTargets (cfg s) = tgts" "tgts \<noteq> []"
  shows "r = None \<and> (\<forall>peer buf cc now. 0 < cc \<and> cc \<le> MAX_PKT_SIZ \<longrightarrow>
    (\<exists>u. serves sv s None u \<and> readPacket sv peer buf cc (tick now t) = (Inr (), u) \<and>
      out u = out t @ concat (map (forward_events sv (load_bytes buf 0 (nat cc)) (word_of_int cc)) tgts)))"
proof -
  have alive: "r = None \<and> forwardingTargets (cfg t) = tgts"
    using assms(1)
  proof induction
    case serves_start
    with assms(2) show ?case by simp
  next
    case (serves_packet t cc peer buf now r u)
    with assms(3) readPacket_forwards [of t sv peer buf cc now] show ?case by auto
  qed
  show ?thesis
  proof (intro conjI allI impI)
    show "r = None" using alive by simp
  next
    fix peer buf cc now assume cc: "0 < cc \<and> cc \<le> MAX_PKT_SIZ"
    obtain u where u: "readPacket sv peer buf cc (tick now t) = (Inr (), u)"
      "out u = out t @ concat (map (forward_events sv (load_bytes buf 0 (nat cc)) (word_of_int cc)) tgts)"
      using readPacket_forwards [of t sv peer buf cc now] alive assms(3) cc by auto
    moreover have "serves sv s (ending (Inr ())) u"
      using assms(1) alive cc u(1) by (intro serves_packet) auto
    ultimately show "\<exists>u. serves sv s None u \<and> readPacket sv peer buf cc (tick now t) = (Inr (), u) \<and>
      out u = out t @ concat (map (forward_events sv (load_bytes buf 0 (nat cc)) (word_of_int cc)) tgts)"
      by auto
  qed
qed

theorem forwarding_collector_lives_witness:
  "let s = (zero_state (\<lambda>_. 0) 0)\<lparr>cfg := zero_config\<lparr>forwardingTargets :=
         [\<lparr>target_host = 1, target_port = 6343, target_sock = 3\<rparr>]\<rparr>\<rparr>
   in \<exists>u. serves calm_services s None u \<and>
        out u = [Forward \<lparr>target_host = 1, target_port = 6343, target_sock = 3\<rparr> [7, 8]]"
proof -
  let ?tgt = "\<lparr>target_host = 1, target_port = 6343, target_sock = 3\<rparr>"
  let ?s = "(zero_state (\<lambda>_. 0) 0)\<lparr>cfg := zero_config\<lparr>forwardingTargets := [?tgt]\<rparr>\<rparr>"
  have tgts: "forwardingTargets (cfg ?s) = [?tgt]" "[?tgt] \<noteq> []" by simp_all
  have two: "0 < (2 :: int) \<and> 2 \<le> MAX_PKT_SIZ" by (simp add: MAX_PKT_SIZ_def)
  have "\<exists>u. serves calm_services ?s None u \<and>
      readPacket calm_services (Sockaddr_in []) (mem_of [7, 8]) 2 (tick 0 ?s) = (Inr (), u) \<and>
      out u = out ?s @ concat (map (forward_events calm_services (load_bytes (mem_of [7, 8]) 0 (nat 2))
        (word_of_int 2)) [?tgt])"
    by (rule forwarding_collector_lives [OF serves_start tgts, THEN conjunct2, rule_format, OF two])
  then obtain u where "serves calm_services ?s None u"
    "out u = out ?s @ concat (map (forward_events calm_services (load_bytes (mem_of [7, 8]) 0 (nat 2))
      (word_of_int 2)) [?tgt])"
    by blast
  then show ?thesis
    unfolding Let_def
    by (intro exI [of _ u]) (simp add: forward_events_def calm_services_def load_bytes_def mem_of_def upt_conv_Cons)
qed

end
