(* ===== verification/DdosSpec.thy ===== *)
theory DdosSpec
  imports CountersSample Wp
begin

text \<open>
  The vendor's counter tables: what \<open>populate_sflow_struct_u64\<close> leaves in the structure and where it
  leaves the cursor, how many bytes the head of an entry takes, where the arrays and tables of
  names are left, the context of a table, and the records of named counters.
\<close>

section \<open>Steps that return\<close>

lemma getData32_ok:
  "datap s + 4 \<le> endp s \<Longrightarrow>
   getData32 s = (Inr (ntohl (load32 (rawSample s) (datap s))), s\<lparr>datap := datap s + 4\<rparr>)"
  by (simp add: getData32_def getData32_nobswap_eq bnd_def ret_def)

text \<open>A 64-bit counter of the datagram: two words, high word first.\<close>

definition u64_at :: "memory \<Rightarrow> addr \<Rightarrow> u64" where
  "u64_at m p = push_bit 32 (ucast (ntohl (load32 m p))) + ucast (ntohl (load32 m (p + 4)))"

lemma getData64_ok:
  "datap s + 8 \<le> endp s \<Longrightarrow>
   getData64 s = (Inr (u64_at (rawSample s) (datap s)), s\<lparr>datap := datap s + 8\<rparr>)"
  by (simp add: getData64_def getData32_ok bnd_def ret_def u64_at_def)

section \<open>Filling a structure\<close>

fun stored :: "string \<Rightarrow> string list \<Rightarrow> memory \<Rightarrow> addr \<Rightarrow> (string \<Rightarrow> u64) \<Rightarrow> string \<Rightarrow> u64" where
  "stored p [] m a d = d"
| "stored p (f # fs) m a d = stored p fs m (a + 8) (d(p @ ''.'' @ f := u64_at m a))"

lemma stored_other: "q \<notin> (\<lambda>f. p @ ''.'' @ f) ` set fs \<Longrightarrow> stored p fs m a d q = d q"
  by (induction p fs m a d rule: stored.induct) auto

lemma stored_nth:
  "distinct fs \<Longrightarrow> j < length fs \<Longrightarrow> stored p fs m a d (p @ ''.'' @ fs ! j) = u64_at m (a + 8 * int j)"
proof (induction p fs m a d arbitrary: j rule: stored.induct)
  case (2 p f fs m a d)
  show ?case
  proof (cases j)
    case 0
    with 2 have "p @ ''.'' @ f \<notin> (\<lambda>g. p @ ''.'' @ g) ` set fs" by auto
    with 0 show ?thesis by (simp add: stored_other)
  next
    case (Suc k)
    with 2 show ?thesis by (simp add: algebra_simps del: fun_upd_apply)
  qed
qed simp

lemma populate_loop:
  assumes "datap s + 8 * int n \<le> endp s" "i + n \<le> length layout"
  shows "for_from i n (\<lambda>k. bnd getData64 (set_ddos p (layout ! k))) s =
    (Inr (), s\<lparr>datap := datap s + 8 * int n,
       smp := (smp s)\<lparr>ddos := stored p (take n (drop i layout)) (rawSample s) (datap s) (ddos (smp s))\<rparr>\<rparr>)"
  using assms
proof (induction n arbitrary: i s)
  case 0
  then show ?case by (simp add: ret_def)
next
  case (Suc n)
  have "drop i layout = layout ! i # drop (Suc i) layout"
    using Suc.prems(2) by (simp add: Cons_nth_drop_Suc)
  then show ?case
    using Suc by (simp add: bnd_def getData64_ok set_ddos_def alter_def algebra_simps del: fun_upd_apply)
qed

text \<open>The lengths are computed in 16 bits; for structures below 64 KiB that is exact.\<close>

lemma u16_div8: "unat ((w :: u16) div 8) = unat w div 8"
  by (simp add: unat_div)

lemma u16_struct:
  assumes "8 * n < 65536"
  shows "unat (8 * of_nat n :: u16) = 8 * n"
proof -
  have "unat (of_nat (8 * n) :: u16) = 8 * n"
    using assms by (subst unsigned_of_nat) (simp add: take_bit_nat_eq_self)
  then show ?thesis by simp
qed

text \<open>Counters read and bytes skipped together are the length announced.\<close>

lemma populate_lengths:
  fixes parse size :: u16
  assumes "unat size = 8 * l" "8 dvd unat parse" "k = min (unat parse div 8) l"
  shows "8 * int k + uint (if size < parse then parse - size else 0) = int (unat parse)"
proof (cases "size < parse")
  case True
  then have "8 * l < unat parse" using assms(1) by (simp add: word_less_nat_alt)
  then have "k = l" using assms(2, 3) by auto
  moreover have "unat (parse - size) = unat parse - 8 * l"
    using True assms(1) by (simp add: unat_sub word_less_nat_alt order.strict_implies_order)
  then have "uint (parse - size) = int (unat parse - 8 * l)" by (metis uint_nat)
  ultimately show ?thesis using True \<open>8 * l < unat parse\<close> by simp
next
  case False
  then have "unat parse \<le> 8 * l" using assms(1) by (simp add: word_less_nat_alt)
  then have "k = unat parse div 8" using assms(3) by auto
  then have "8 * k = unat parse" using assms(2) by simp
  then have "8 * int k = int (unat parse)" by presburger
  with False show ?thesis by simp
qed

lemma populate_run:
  fixes parse size :: u16
  assumes parse_def: "parse = (ucast (current_context_length (smp s)) :: u16)"
    and size_def: "size = (8 * of_nat (length layout) :: u16)" and fits: "8 * length layout < 65536"
    and ok: "parse \<noteq> 0" "8 dvd unat parse" and k_def: "k = min (unat parse div 8) (length layout)"
    and inside: "datap s + 8 * int k \<le> endp s"
  shows "\<exists>t. populate_sflow_struct_u64 p layout s = (Inr (), t) \<and>
    datap t = datap s + 8 * int k + uint (if size < parse then parse - size else 0) \<and> endp t = endp s \<and>
    smp t = (smp s)\<lparr>ddos := stored p (take k layout) (rawSample s) (datap s) (ddos (smp s))\<rparr>"
proof -
  have "unat (parse mod 8) = 0" using ok(2) by (simp add: unat_mod)
  then have "parse mod 8 = 0" by (simp only: unat_eq_zero)
  then have guard: "only_if (parse = 0 \<or> parse mod 8 \<noteq> 0) m = ret ()" for m
    using ok(1) by (simp add: only_if_def)
  have iter: "unat (if parse div 8 < size div 8 then parse div 8 else size div 8) = k"
    using fits by (auto simp: k_def size_def u16_struct word_less_nat_alt u16_div8)
  define u where "u = s\<lparr>datap := datap s + 8 * int k,
       smp := (smp s)\<lparr>ddos := stored p (take k layout) (rawSample s) (datap s) (ddos (smp s))\<rparr>\<rparr>"
  have loop: "for_from 0 k (\<lambda>i. bnd getData64 (set_ddos p (layout ! i))) s = (Inr (), u)"
    using populate_loop [of s k 0 layout p] inside by (simp add: u_def k_def)
  have run: "populate_sflow_struct_u64 p layout s =
      only_if (size < parse) (bnd (fetch sfl_ddos_desc) (\<lambda>desc. block [
        sf_log ''Counter Length mismatch detected for %s, continuing...\<newline>'' [AStr (cstr desc)],
        advance (uint (if size < parse then parse - size else size - parse))])) u"
    unfolding populate_sflow_struct_u64_def fetch_def bnd_gets Let_def
    by (simp only: parse_def [symmetric] size_def [symmetric] iter guard block.simps ret_bnd bnd_ret)
      (simp add: bnd_def [of "for_from 0 k f" for f] loop)
  show ?thesis
    unfolding run u_def
    by (cases "size < parse"; cases "outputFormat (cfg s) = SFLFMT_FULL")
      (auto simp: dec_defs advance_def)
qed

text \<open>
  C19. A table of 64-bit counters. Let the record announce \<open>n\<close> bytes, a positive multiple of eight,
  and let the structure have \<open>k\<close> counters. The first \<open>min (n div 8) k\<close> counters of the structure
  become the big-endian numbers of the datagram, in order, every other number of the tables stays
  as it was, and the cursor ends exactly \<open>n\<close> bytes on. Nothing is required of the end of the
  datagram beyond the counters that were read: the rest of a longer record is skipped without a
  check, and the cursor may end behind the datagram.
\<close>

theorem populate_u64_result:
  assumes n_def: "n = unat (ucast (current_context_length (smp s)) :: u16)"
    and k_def: "k = min (n div 8) (length layout)"
    and "n \<noteq> 0" "8 dvd n" "distinct layout" "8 * length layout < 65536"
    and "datap s + 8 * int k \<le> endp s"
  shows "\<exists>t. populate_sflow_struct_u64 p layout s = (Inr (), t) \<and>
    datap t = datap s + int n \<and> endp t = endp s \<and>
    (\<forall>j. j < k \<longrightarrow> ddos (smp t) (p @ ''.'' @ layout ! j) = u64_at (rawSample s) (datap s + 8 * int j)) \<and>
    (\<forall>q. q \<notin> (\<lambda>f. p @ ''.'' @ f) ` set (take k layout) \<longrightarrow> ddos (smp t) q = ddos (smp s) q)"
proof -
  define parse where "parse = (ucast (current_context_length (smp s)) :: u16)"
  define size where "size = (8 * of_nat (length layout) :: u16)"
  have n: "n = unat parse" by (simp add: n_def parse_def)
  have "parse \<noteq> 0" "8 dvd unat parse" using assms(3, 4) n by auto
  with populate_run [OF parse_def size_def assms(6)] k_def assms(7) n
  obtain t where t: "populate_sflow_struct_u64 p layout s = (Inr (), t)" "endp t = endp s"
    "datap t = datap s + 8 * int k + uint (if size < parse then parse - size else 0)"
    "smp t = (smp s)\<lparr>ddos := stored p (take k layout) (rawSample s) (datap s) (ddos (smp s))\<rparr>"
    by metis
  have "8 * int k + uint (if size < parse then parse - size else 0) = int n"
    unfolding n using assms(6) k_def \<open>8 dvd unat parse\<close> n
    by (intro populate_lengths) (simp_all add: size_def u16_struct)
  moreover have "distinct (take k layout)" "k \<le> length layout" using assms by (simp_all add: k_def)
  then have "stored p (take k layout) m a d (p @ ''.'' @ layout ! j) = u64_at m (a + 8 * int j)"
    if "j < k" for j m a d
    using stored_nth [of "take k layout" j p m a d] that by simp
  ultimately show ?thesis
    using t by (intro exI [of _ t]) (simp add: stored_other)
qed

definition packet_counters_state :: state where
  "packet_counters_state =
     (zero_state (\<lambda>a. word_of_int a) 40)\<lparr>smp := zero_sample\<lparr>current_context_length := 48\<rparr>\<rparr>"

theorem populate_u64_result_witness:
  "\<exists>t. populate_sflow_struct_u64 ''polling_packets'' sflow_ddos_packet_counters_v1
         packet_counters_state = (Inr (), t) \<and> datap t = 48 \<and> endp t = 40 \<and>
    (\<forall>j. j < 5 \<longrightarrow> ddos (smp t) (''polling_packets'' @ ''.'' @ sflow_ddos_packet_counters_v1 ! j) =
       u64_at (\<lambda>a. word_of_int a) (8 * int j))"
  using populate_u64_result [of 48 packet_counters_state 5 sflow_ddos_packet_counters_v1 "''polling_packets''"]
  by (fastforce simp: packet_counters_state_def sflow_ddos_packet_counters_v1_def)

section \<open>The head of an entry's table\<close>

lemma skipBytes_ok:
  assumes "n \<le> rawSampleLen s" "datap s + 4 * sint ((n + 3) div 4) \<le> endp s"
  shows "skipBytes n s = (Inr (), s\<lparr>datap := datap s + 4 * sint ((n + 3) div 4)\<rparr>)"
  using assms leD [OF assms(1)]
  by (simp add: skipBytes_def advance_def Let_def bnd_def only_if_def gets_def ret_def)

lemma getData16_ok:
  "datap s + 2 \<le> endp s \<Longrightarrow>
   getData16 s = (Inr (ntohs (load16 (rawSample s) (datap s))), s\<lparr>datap := datap s + 2\<rparr>)"
  by (simp add: getData16_def advance_def check_end_def bnd_def only_if_def gets_def ret_def)

text \<open>An address takes sixteen bytes, whichever kind it is.\<close>

definition ddos_address :: "memory \<Rightarrow> addr \<Rightarrow> u8 \<Rightarrow> SFLAddress \<Rightarrow> SFLAddress" where
  "ddos_address m p ip a =
     (if ip = 1 then set_ip_v4 (ntohl (load32 m p)) (a\<lparr>addr_type := SFLADDRESSTYPE_IP_V4\<rparr>)
      else set_ip_v6 (load_bytes m p 16) (a\<lparr>addr_type := SFLADDRESSTYPE_IP_V6\<rparr>))"

lemma getDDoSAddress_ok:
  assumes "datap s + 16 \<le> endp s" "16 \<le> rawSampleLen s"
  shows "getDDoSAddress ip a s =
    (Inr (ddos_address (rawSample s) (datap s) ip a), s\<lparr>datap := datap s + 16\<rparr>)"
proof -
  have four: "sint ((15 :: u32) div 4) = 3" "sint ((19 :: u32) div 4) = 4" by code_simp+
  have twelve: "12 \<le> rawSampleLen s"
    using assms(2) by (rule order_trans [rotated]) simp
  show ?thesis
    using assms twelve by (simp add: getDDoSAddress_def getData32_ok skipBytes_ok four peek_bytes_def
      bnd_def ret_def gets_def ddos_address_def)
qed

lemma log_table_entry_run:
  "log_table_entry fmt label table i s =
     (if unat i < length table
      then (Inr (), s\<lparr>out := out s @ logged s fmt [AStr label, AStr (table ! unat i), A32 i]\<rparr>)
      else (Inl Undef, s))"
  by (simp add: log_table_entry_def index_table_def bnd_def sf_log_run ret_def fail_def)

lemma set_ddos_run:
  "set_ddos p f v s = (Inr (), s\<lparr>smp := (smp s)\<lparr>ddos := (ddos (smp s))(p @ ''.'' @ f := v)\<rparr>\<rparr>)"
  by (simp add: set_ddos_def alter_def)



section \<open>The text that names a table\<close>

lemma char_of_byte [simp]: "char_of (unat (of_char c :: u8)) = c"
  by (cases c) (simp only: of_char_def char_of_def bit_unsigned_iff bit_horner_sum_bit_iff, simp)

lemma takeWhile_drop:
  "n \<le> length (takeWhile P xs) \<Longrightarrow> takeWhile P (drop n xs) = drop n (takeWhile P xs)"
proof (induction xs arbitrary: n)
  case (Cons x xs)
  then show ?case by (cases n) (auto split: if_splits)
qed simp

text \<open>
  The text that names the current table is stored without a terminating zero: when a name
  without zero bytes is stored over one that is at least as long, the text that is printed is the
  new name followed by the rest of the old one.
\<close>

theorem description_keeps_old_tail:
  assumes "length new \<le> length (cstr (sfl_ddos_desc (smp s)))" "CHR 0x00 \<notin> set new"
  shows "\<exists>t. sfl_ddos_description new s = (Inr (), t) \<and>
    cstr (sfl_ddos_desc (smp t)) = new @ drop (length new) (cstr (sfl_ddos_desc (smp s)))"
proof -
  let ?b = "sfl_ddos_desc (smp s)"
  let ?n = "map (\<lambda>c. of_char c :: u8) new"
  have "length new \<le> length (takeWhile (\<lambda>b. b \<noteq> 0) ?b)"
    using assms(1) by (simp add: cstr_def chars_def)
  note rest = takeWhile_drop [OF this]
  have "of_char c \<noteq> (0 :: u8)" if "c \<in> set new" for c
  proof
    assume "of_char c = (0 :: u8)"
    then have "char_of (unat (0 :: u8)) = c" by (metis char_of_byte)
    with that assms(2) show False by (simp add: char_of_def)
  qed
  then have "takeWhile (\<lambda>b. b \<noteq> 0) ?n = ?n" by (simp add: takeWhile_eq_all_conv)
  then have "takeWhile (\<lambda>b. b \<noteq> 0) (overwrite ?b ?n) = ?n @ drop (length new) (takeWhile (\<lambda>b. b \<noteq> 0) ?b)"
    using rest by (simp add: overwrite_def takeWhile_append takeWhile_eq_all_conv)
  then show ?thesis
    by (simp add: sfl_ddos_description_def alter_def cstr_def chars_def drop_map comp_def)
qed

theorem description_keeps_old_tail_witness:
  "\<exists>t. sfl_ddos_description ''Sflow''
       ((zero_state (\<lambda>_. 0) 0)\<lparr>smp := zero_sample\<lparr>sfl_ddos_desc := map of_char ''table A10'' @ [0]\<rparr>\<rparr>) =
     (Inr (), t) \<and> cstr (sfl_ddos_desc (smp t)) = ''Sflow A10''"
proof -
  have old: "cstr (map of_char ''table A10'' @ [0]) = ''table A10''" by code_simp
  show ?thesis
    using description_keeps_old_tail [of "''Sflow''"
      "(zero_state (\<lambda>_. 0) 0)\<lparr>smp := zero_sample\<lparr>sfl_ddos_desc := map of_char ''table A10'' @ [0]\<rparr>\<rparr>"]
    by (simp add: old del: list.map)
qed

text \<open>
  Taking \<open>len\<close> bytes off the context succeeds exactly when something is left; then the context
  is what is left, and otherwise the datagram is given up, except for a context of more than
  2 GiB, where the difference overflows an \<open>int\<close>.
\<close>

theorem update_ctx_len_result:
  assumes "current_context_length (smp s) < 0x80000000"
  shows "if ucast len < current_context_length (smp s)
    then sfl_ddos_update_ctx_len len s =
      (Inr (), s\<lparr>smp := (smp s)\<lparr>current_context_length := current_context_length (smp s) - ucast len\<rparr>\<rparr>)
    else fst (sfl_ddos_update_ctx_len len s) = Inl (Abort SF_ABORT_EOS)"
proof -
  let ?c = "current_context_length (smp s)"
  have small: "uint ?c < 2 ^ 31" using assms by (simp add: word_less_def)
  then have sint: "sint ?c = uint ?c"
    unfolding sint_uint
    by (intro signed_take_bit_int_eq_self) (simp_all add: order_trans [of _ 0])
  have "0 \<le> uint ?c" "uint len < 2 ^ 16" "0 \<le> uint len" "uint (ucast len :: u32) = uint len"
    using unsigned_less [of len, where ?'a = int]
    by (simp_all add: unsigned_ucast_eq take_bit_int_eq_self)
  then show ?thesis using small
    by (auto simp: sfl_ddos_update_ctx_len_def word_less_def sint dec_defs)
qed

section \<open>Records of named counters\<close>

fun is_put :: "event \<Rightarrow> bool" where
  "is_put (DbPut db key pairs) = True"
| "is_put (DbPutObject db key oid uuid) = True"
| "is_put _ = False"

text \<open>What a record of named counters holds.\<close>

definition a10_uuid :: "memory \<Rightarrow> addr \<Rightarrow> u8 list" where
  "a10_uuid m p = load_bytes m p 37"

definition a10_oid :: "memory \<Rightarrow> addr \<Rightarrow> u32" where
  "a10_oid m p = ntohl (load32 m (p + 37))"

definition a10_pairs :: "memory \<Rightarrow> addr \<Rightarrow> u32 \<Rightarrow> (string \<times> u64) list" where
  "a10_pairs m p rest =
     map (\<lambda>i. (show_int (ntohl (load32 m (p + 45 + 12 * int i))), u64_at m (p + 45 + 12 * int i + 4)))
       [0..<unat rest div 12]"

lemma ntohll_load64: "ntohll (load64 m p) = u64_at m p"
proof -
  have "ucast (load64 m p) = load32 m p" "ucast (drop_bit 32 (load64 m p)) = load32 m (p + 4)"
    unfolding load64_def
    by (rule bit_word_eqI; auto simp: bit_simps dest: bit_imp_le_length)+
  then show ?thesis by (simp add: ntohll_def u64_at_def)
qed

text \<open>
  The program has two readers of big-endian numbers of 64 bits, and two swaps of its own beside
  the library's: \<open>getData64\<close>, which reads two words, and \<open>ntohll\<close> of a loaded number agree, and
  \<open>MyByteSwap32\<close> and \<open>MyByteSwap16\<close>, which are sums and shifts, are \<open>ntohl\<close> and \<open>ntohs\<close>.
\<close>

theorem big_endian_readers_agree:
  assumes "datap s + 8 \<le> endp s"
  shows "getData64 s = (Inr (ntohll (load64 (rawSample s) (datap s))), s\<lparr>datap := datap s + 8\<rparr>) \<and>
    MyByteSwap32 w = ntohl w \<and> MyByteSwap16 v = ntohs v"
  using assms by (simp add: getData64_ok ntohll_load64 MyByteSwap32_ntohl MyByteSwap16_ntohs)

theorem big_endian_readers_agree_witness:
  "fst (getData64 (zero_state (mem_of [0, 0, 0, 0, 0, 0, 1, 2]) 8)) =
     Inr (ntohll (load64 (mem_of [0, 0, 0, 0, 0, 0, 1, 2]) 0)) \<and>
   MyByteSwap32 0x01020304 = ntohl 0x01020304"
  using big_endian_readers_agree [of "zero_state (mem_of [0, 0, 0, 0, 0, 0, 1, 2]) 8" "0x01020304" 0]
  by simp

lemma wp_write_data:
  "wp (leveldb_simple_write_data lv key e db) Q s =
     (case ldb_open lv (out s) db of
        Some err \<Rightarrow> Q 1 (s\<lparr>out := out s @ [Err ''Open fail: %s.\<newline>'' [AStr err]]\<rparr>)
      | None \<Rightarrow> if ldb_put_fails lv (out s) db key then Q 1 (s\<lparr>out := out s @ [Err ''Write fail.\<newline>'' []]\<rparr>)
               else Q 0 (s\<lparr>out := out s @ [e]\<rparr>))"
  by (simp add: leveldb_simple_write_data_def wp_simps split: option.split)

lemma wp_read_data:
  assumes "\<And>r es. list_all (\<lambda>e. \<not> is_put e) es \<Longrightarrow> Q r (s\<lparr>out := out s @ es\<rparr>)"
  shows "wp (leveldb_simple_read_data lv key db) Q s"
  using assms [of "[Err f as]" for f as] assms [of "[Out f as]" for f as]
  by (simp add: leveldb_simple_read_data_def wp_simps split: option.split sum.split)

lemma wp_write_object:
  assumes "\<And>es. set (filter is_put es) \<subseteq> {DbPutObject ''obj_db'' k (sint oid) u} \<Longrightarrow>
    Q () (s\<lparr>out := out s @ es\<rparr>)"
  shows "wp (write_object_id lv k oid u) Q s"
proof -
  have none: "set (filter is_put es) \<subseteq> X" if "list_all (\<lambda>e. \<not> is_put e) es" for es X
    using that by (auto simp: list_all_iff)
  note Q = assms [of "es @ es'" for es es', simplified, folded append_assoc]
  show ?thesis
    unfolding write_object_id_def wp_simps
  proof (rule wp_read_data)
    fix r es assume "list_all (\<lambda>e. \<not> is_put e) es"
    note es = none [OF this]
    show "if r = 0
        then wp (leveldb_simple_write_data lv k (DbPutObject ''obj_db'' k (sint oid) u) ''obj_db'')
               (\<lambda>_. Q ()) (s\<lparr>out := out s @ es\<rparr>)
        else Q () (s\<lparr>out := out s @ es\<rparr>)"
      using es Q [of es "[Err f as]" for f as] Q [of es "[DbPutObject ''obj_db'' k (sint oid) u]"] assms [OF es]
      by (simp add: wp_write_data Collect_conv_if split: option.split)
  qed
qed

lemma skipBytesD:
  "skipBytes n s = (Inr (), t) \<Longrightarrow> t = s\<lparr>datap := datap s + 4 * sint ((n + 3) div 4)\<rparr>"
  by (auto simp: skipBytes_def advance_def Let_def dec_defs split: if_splits)

lemma wp_skipBytes:
  "Q () (s\<lparr>datap := datap s + 4 * sint ((n + 3) div 4)\<rparr>) \<Longrightarrow> wp (skipBytes n) Q s"
  by (rule wpI) (auto dest: skipBytesD)

lemma read_a10_head_run:
  fixes s :: state
  defines "m \<equiv> rawSample s" and "p \<equiv> datap s" and "rest \<equiv> current_context_length (smp s) - 45"
  shows "\<exists>es. filter is_put es = [] \<and>
    read_a10_head s = (Inr (a10_oid m p, a10_uuid m p, p + 45, unat rest div 12),
      s\<lparr>datap := p + 45, smp := (smp s)\<lparr>current_context_length := rest\<rparr>, out := out s @ es\<rparr>)"
  by (rule exI conjI)+
    (auto simp: m_def p_def rest_def read_a10_head_def Let_def advance_def dec_defs UUID_SIZE_def
      sizeof_sfl_a10_custom_info_def sizeof_sflow_flex_kv_def a10_oid_def a10_uuid_def)

lemma a10_pairs_flex:
  "map (\<lambda>(k, v). (show_int k, v)) (map (flex_kv m (p + 45)) [0..<unat rest div 12]) = a10_pairs m p rest"
  by (simp add: a10_pairs_def flex_kv_def Let_def ntohll_load64 sizeof_sflow_flex_kv_def algebra_simps)

lemma printed_quiet:
  "filter is_put (map (\<lambda>(k, v). Out f [A32 k, A64 v]) xs) = []"
  by (auto simp: filter_empty_conv)

text \<open>The stores of the second half, from a state where \<open>n\<close> events were there before the record.\<close>

lemma wp_a10_store:
  assumes db: "\<forall>es. ldb_open lv es ''raw_db'' = None" "\<forall>es k. \<not> ldb_put_fails lv es ''raw_db'' k"
    and es: "out u = old @ es" "filter is_put es = []"
  shows "wp (block [
      printf f [x], print_counters data, skip_context,
      drop_value (leveldb_simple_write_data lv key (DbPut ''raw_db'' key pairs) ''raw_db''),
      printf g [y], write_object_id lv obj oid uuid, printf h [z],
      drop_value (leveldb_simple_read_data lv key ''raw_db'')])
    (\<lambda>_ t. datap t = datap u + 4 * sint ((current_context_length (smp u) + 3) div 4) \<and>
      (\<exists>objs. filter is_put (drop (length old) (out t)) = DbPut ''raw_db'' key pairs # objs \<and>
        set objs \<subseteq> {DbPutObject ''obj_db'' obj (sint oid) uuid})) u"
  unfolding wp_simps print_counters_def skip_context_def
proof (rule wp_skipBytes, simp only: wp_simps wp_write_data db option.case if_False,
    rule wp_write_object, rule wp_read_data)
qed (simp add: es printed_quiet list_all_iff filter_empty_conv)

text \<open>They return when the context ends inside the datagram.\<close>

lemma returns_ret: "returns (ret v) s"
  by (simp add: returns_def ret_def)

lemma returns_bnd:
  "returns m s \<Longrightarrow> (\<And>v t. m s = (Inr v, t) \<Longrightarrow> returns (f v) t) \<Longrightarrow> returns (bnd m f) s"
  by (fastforce simp: returns_def bnd_def)

lemma returns_leveldb:
  "returns (leveldb_simple_write_data lv key e db) s"
  "returns (leveldb_simple_read_data lv key db) s"
  by (auto simp: leveldb_simple_write_data_def leveldb_simple_read_data_def returns_def dec_defs
    split: option.split sum.split)

lemma returns_drop: "returns m s \<Longrightarrow> returns (drop_value m) s"
  unfolding drop_value_def by (intro returns_bnd returns_ret)

lemma returns_object: "returns (write_object_id lv obj oid uuid) s"
  unfolding write_object_id_def only_if_def
  by (intro returns_bnd) (auto intro: returns_ret returns_drop returns_leveldb)

lemma returns_a10_store:
  assumes "current_context_length (smp u) \<le> rawSampleLen u"
    "datap u + 4 * sint ((current_context_length (smp u) + 3) div 4) \<le> endp u"
  shows "returns (block [
      printf f [x], print_counters data, skip_context,
      drop_value (leveldb_simple_write_data lv key e db),
      printf g [y], write_object_id lv obj oid uuid, printf h [z],
      drop_value (leveldb_simple_read_data lv key' db')]) u"
proof -
  have "returns (printf f [x]) s" for f x s by (simp add: returns_def dec_defs)
  with assms show ?thesis unfolding block.simps
    by (intro returns_bnd returns_drop returns_leveldb returns_object)
      (auto simp: print_counters_def skip_context_def dec_defs returns_def skipBytes_ok)
qed


definition working_store :: store_client where
  "working_store = \<lparr>ldb_open = \<lambda>_ _. None, ldb_put_fails = \<lambda>_ _ _. False, ldb_get = \<lambda>_ _ _. Inr None\<rparr>"

definition a10_record :: "u8 list" where
  "a10_record = replicate 36 97 @ [0, 0, 0, 0, 7, 0, 0, 0, 1, 0, 0, 0, 5, 0, 0, 0, 0, 0, 0, 0, 9]"

definition a10_state :: state where
  "a10_state = (zero_state (mem_of a10_record) 57)\<lparr>smp := zero_sample\<lparr>current_context_length := 57\<rparr>\<rparr>"


end
