(* ===== verification/Pcap.thy ===== *)
theory Pcap
  imports Datagram
begin

text \<open>
  Reading a capture file (\<open>sflowtool.c\<close> 1312-1343, 7786-7963): the file header, the offset of the
  sFlow datagram in a captured frame, and the packets one by one. A file is the bytes that are
  left to read and whether the end is an error of the device instead of the end of the file; the
  reader of a packet returns what \<open>readPcapPacket\<close> returns together with the rest of the file.
\<close>

section \<open>Files\<close>

record infile =
  contents :: "u8 list"
  broken :: bool

text \<open>
  \<open>fread(buf, n, 1, file)\<close> into an array of \<open>room\<close> bytes: the bytes that were there are stored, and
  the result is whether the one item was read; an item of size zero is not. Storing more than the
  array holds is undefined.
\<close>

definition fread :: "nat \<Rightarrow> nat \<Rightarrow> infile \<Rightarrow> (u8 list \<times> bool \<times> infile) dec" where
  "fread room n f =
     (let got = take n (contents f)
      in if length got > room then fail Undef
         else ret (got, n \<noteq> 0 \<and> length got = n, f\<lparr>contents := drop n (contents f)\<rparr>))"

definition feof :: "infile \<Rightarrow> bool" where
  "feof f \<longleftrightarrow> \<not> broken f"

definition write_mem :: "memory \<Rightarrow> u8 list \<Rightarrow> memory" where
  "write_mem m bs = (\<lambda>a. if 0 \<le> a \<and> a < int (length bs) then bs ! nat a else m a)"

definition le16_nth :: "u8 list \<Rightarrow> nat \<Rightarrow> u16" where
  "le16_nth bs n = le16 (bs ! n) (bs ! (n + 1))"

definition le32_nth :: "u8 list \<Rightarrow> nat \<Rightarrow> u32" where
  "le32_nth bs n = le32 (bs ! n) (bs ! (n + 1)) (bs ! (n + 2)) (bs ! (n + 3))"

section \<open>The file header\<close>

definition file_header_of :: "u8 list \<Rightarrow> pcap_file_header" where
  "file_header_of bs =
     \<lparr>pcap_magic = le32_nth bs 0, version_major = le16_nth bs 4, version_minor = le16_nth bs 6,
      thiszone = le32_nth bs 8, sigfigs = le32_nth bs 12, snaplen = le32_nth bs 16,
      linktype = le32_nth bs 20\<rparr>"

definition swap_file_header :: "pcap_file_header \<Rightarrow> pcap_file_header" where
  "swap_file_header h =
     h\<lparr>version_major := MyByteSwap16 (version_major h), version_minor := MyByteSwap16 (version_minor h),
       thiszone := MyByteSwap32 (thiszone h), sigfigs := MyByteSwap32 (sigfigs h),
       snaplen := MyByteSwap32 (snaplen h), linktype := MyByteSwap32 (linktype h)\<rparr>"

definition set_cfg :: "(SFConfig \<Rightarrow> SFConfig) \<Rightarrow> unit dec" where
  "set_cfg f = (\<lambda>s. (Inr (), s\<lparr>cfg := f (cfg s)\<rparr>))"

definition file_name :: "SFConfig \<Rightarrow> string" where
  "file_name c = (case readPcapFileName c of None \<Rightarrow> ''(null)'' | Some n \<Rightarrow> n)"

definition readPcapHeader :: "services \<Rightarrow> infile \<Rightarrow> infile dec" where
  "readPcapHeader sv file =
     bnd (gets (\<lambda>s. file_name (cfg s))) (\<lambda>name.
     bnd (fread 24 24 file) (\<lambda>(bs, ok, rest).
     if \<not> ok then
       bnd (eprintf ''unable to read pcap header from %s : %s\<newline>'' [AStr name, AStr (strerror sv)])
         (\<lambda>_. custom_exit (-30))
     else
       let hdr = file_header_of bs;
           swapped = (pcap_magic hdr \<noteq> TCPDUMP_MAGIC \<and> pcap_magic hdr = MyByteSwap32 TCPDUMP_MAGIC);
           hdr' = (if swapped then swap_file_header hdr else hdr)
       in if pcap_magic hdr \<noteq> TCPDUMP_MAGIC \<and> \<not> swapped then
            bnd (eprintf ''%s not recognized as a tcpdump file\<newline>(magic number = %08x instead of %08x)\<newline>''
                  [AStr name, A32 (pcap_magic hdr), A32 TCPDUMP_MAGIC])
              (\<lambda>_. custom_exit (-31))
          else
            bnd (block [
              only_if swapped (set_cfg (pcapSwap_update (\<lambda>_. True))),
              eprintf ''pcap version=%d.%d snaplen=%d linktype=%d \<newline>''
                [A32 (ucast (version_major hdr')), A32 (ucast (version_minor hdr')),
                 A32 (snaplen hdr'), A32 (linktype hdr')],
              set_cfg (readPcapHdr_update (\<lambda>_. hdr'))]) (\<lambda>_. ret rest)))"

section \<open>Finding the datagram in a frame\<close>

text \<open>
  \<open>pcapOffsetToSFlow(start, len)\<close> with pointers as offsets from \<open>start\<close>; \<open>None\<close> is the result -1.
  The walk over VLAN tags reads a tag before it looks whether the frame goes on.
\<close>

function skip_vlan_tags :: "memory \<Rightarrow> addr \<Rightarrow> addr \<Rightarrow> u16 \<Rightarrow> (addr \<times> u16) option" where
  "skip_vlan_tags m end_ptr ptr type_len =
     (if type_len = 0x8100 \<or> type_len = 0x9100 then
        (let type_len' = be16_at m (ptr + 2); ptr' = ptr + 4
         in if ptr' \<ge> end_ptr then None else skip_vlan_tags m end_ptr ptr' type_len')
      else Some (ptr, type_len))"
  by auto

termination
  by (relation "measure (\<lambda>(m, end_ptr, ptr, type_len). nat (end_ptr - ptr))") auto

declare skip_vlan_tags.simps [simp del]

text \<open>802.3 with an 802.2 header: SNAP, or IP over 802.2.\<close>

definition skip_8022 :: "memory \<Rightarrow> addr \<Rightarrow> u16 \<Rightarrow> (addr \<times> u16) option" where
  "skip_8022 m ptr type_len =
     (if type_len \<le> NFT_MAX_8023_LEN then
        if m ptr = 0xAA \<and> m (ptr + 1) = 0xAA \<and> m (ptr + 2) = 0x03 then
          if m (ptr + 3) \<noteq> 0 \<or> m (ptr + 4) \<noteq> 0 \<or> m (ptr + 5) \<noteq> 0 then None
          else Some (ptr + 8, be16_at m (ptr + 6))
        else if m ptr = 0x06 \<and> m (ptr + 1) = 0x06 \<and> m (ptr + 2) AND 0x01 \<noteq> 0 then
          Some (ptr + 3, 0x0800)
        else None
      else Some (ptr, type_len))"

text \<open>The IP header, by its own length, or 40 bytes for IPv6.\<close>

definition skip_ip :: "memory \<Rightarrow> addr \<Rightarrow> addr \<Rightarrow> u16 \<Rightarrow> addr option" where
  "skip_ip m end_ptr ptr type_len =
     (if type_len = 0x0800 then
        if end_ptr - ptr < 20 then None
        else if drop_bit 4 (m ptr) \<noteq> 4 then None
        else if m ptr AND 15 < 5 then None
        else Some (ptr + 4 * uint (m ptr AND 15))
      else if type_len = 0x86DD then
        if drop_bit 4 (m ptr) \<noteq> 6 then None else Some (ptr + 40)
      else Some ptr)"

definition pcapOffsetToSFlow :: "memory \<Rightarrow> int \<Rightarrow> int option" where
  "pcapOffsetToSFlow m len =
     (if len < uint NFT_ETHHDR_SIZ then None
      else case skip_vlan_tags m len 14 (be16_at m 12) of None \<Rightarrow> None | Some (ptr, type_len) \<Rightarrow>
        if len - ptr < uint NFT_MIN_SIZ then None
        else if is_ipx m ptr type_len then None
        else case skip_8022 m ptr type_len of None \<Rightarrow> None | Some (ptr, type_len) \<Rightarrow>
          if ptr \<ge> len then None
          else case skip_ip m len ptr type_len of None \<Rightarrow> None | Some ptr \<Rightarrow>
            if ptr + 8 \<ge> len then None else Some (ptr + 8))"

section \<open>Packets\<close>

definition pkthdr_of :: "u8 list \<Rightarrow> pcap_pkthdr" where
  "pkthdr_of bs =
     \<lparr>ts_sec = le32_nth bs 0, ts_usec = le32_nth bs 4, caplen = le32_nth bs 8, pkt_len = le32_nth bs 12\<rparr>"

definition swap_pkthdr :: "pcap_pkthdr \<Rightarrow> pcap_pkthdr" where
  "swap_pkthdr h =
     \<lparr>ts_sec = MyByteSwap32 (ts_sec h), ts_usec = MyByteSwap32 (ts_usec h),
      caplen = MyByteSwap32 (caplen h), pkt_len = MyByteSwap32 (pkt_len h)\<rparr>"

text \<open>The offset as the C function returns it.\<close>

definition pcap_skip :: "memory \<Rightarrow> int \<Rightarrow> int" where
  "pcap_skip m len = (case pcapOffsetToSFlow m len of None \<Rightarrow> -1 | Some n \<Rightarrow> n)"

text \<open>
  The frame is read into an array of 2048 bytes on the stack; \<open>stk\<close> is what the stack holds before.
  The sample begins \<open>pcap_skip\<close> bytes into the array, wherever that is.
\<close>

definition decode_frame :: "services \<Rightarrow> memory \<Rightarrow> pcap_pkthdr \<Rightarrow> unit dec" where
  "decode_frame sv buf hdr =
     (if caplen hdr < pkt_len hdr then
        eprintf ''incomplete datagram (pcap snaplen too short)\<newline>'' []
      else
        let skip = pcap_skip buf (sint (caplen hdr))
        in block [
             start_sample (\<lambda>a. buf (a + skip)) (caplen hdr - word_of_int skip)
               (zero_sample\<lparr>pcapTimestamp := ts_sec hdr\<rparr>),
             receiveSFlowDatagram sv])"

definition readPcapPacket :: "services \<Rightarrow> memory \<Rightarrow> infile \<Rightarrow> (bool \<times> infile) dec" where
  "readPcapPacket sv stk file =
     bnd (gets cfg) (\<lambda>c.
     bnd (fread 16 16 file) (\<lambda>(bs, ok, file1).
     if \<not> ok then
       if feof file1 then ret (False, file1)
       else bnd (eprintf ''unable to read pcap packet header from %s : %s\<newline>''
              [AStr (file_name c), AStr (strerror sv)]) (\<lambda>_. custom_exit (-32))
     else
       bnd (if tcpdumpHdrPad c > 0 then
              bnd (fread 2048 (unat (tcpdumpHdrPad c)) file1) (\<lambda>(bs2, ok2, file2).
              if ok2 then ret (bs2, file2)
              else bnd (eprintf ''unable to read pcap header pad (%d bytes)\<newline>'' [A32 (tcpdumpHdrPad c)])
                     (\<lambda>_. custom_exit (-33)))
            else ret ([], file1)) (\<lambda>(pad, file2).
       let hdr = (if pcapSwap c then swap_pkthdr (pkthdr_of bs) else pkthdr_of bs)
       in bnd (fread 2048 (unat (caplen hdr)) file2) (\<lambda>(frame, ok3, file3).
          if \<not> ok3 then
            bnd (eprintf ''unable to read pcap packet from %s : %s\<newline>''
                   [AStr (file_name c), AStr (strerror sv)]) (\<lambda>_. custom_exit (-34))
          else
            bnd (decode_frame sv (write_mem (write_mem stk pad) frame) hdr) (\<lambda>_. ret (True, file3))))))"

section \<open>The whole file\<close>

lemma freadD:
  "fread room n f s = (Inr (bs, ok, g), t) \<Longrightarrow>
   t = s \<and> bs = take n (contents f) \<and> g = f\<lparr>contents := drop n (contents f)\<rparr> \<and> length bs \<le> room \<and>
   ok = (n \<noteq> 0 \<and> n \<le> length (contents f))"
  by (auto simp: fread_def Let_def fail_def ret_def split: if_splits)

text \<open>A packet takes at least its header out of the file.\<close>

lemma readPcapPacket_consumes:
  assumes "readPcapPacket sv stk f s = (Inr (True, g), t)"
  shows "length (contents g) + 16 \<le> length (contents f)"
  using assms unfolding readPcapPacket_def
  by (auto simp: Let_def ret_def fail_def split: if_splits elim!: bnd_InrE dest!: freadD)

function read_packets :: "services \<Rightarrow> (nat \<Rightarrow> memory) \<Rightarrow> nat \<Rightarrow> infile \<Rightarrow> unit dec" where
  "read_packets sv stk i file s =
     (case readPcapPacket sv (stk i) file s of
        (Inl e, t) \<Rightarrow> (Inl e, t)
      | (Inr (False, file1), t) \<Rightarrow> (Inr (), t)
      | (Inr (True, file1), t) \<Rightarrow> read_packets sv stk (Suc i) file1 t)"
  by pat_completeness auto

termination
  by (relation "measure (\<lambda>(sv, stk, i, file, s). length (contents file))")
    (auto dest!: sym [of _ "readPcapPacket _ _ _ _"] readPcapPacket_consumes)

end
