(* ===== verification/PcapSpec.thy ===== *)
theory PcapSpec
  imports Pcap DatagramSpec
begin

text \<open>
  Capture files: headers that are written and read back, in either byte order, the record of a
  packet in a file, and where in a frame the datagram is looked for.
\<close>

section \<open>Headers\<close>

lemma length_bytes_of_headers [simp]:
  "length (bytes_of_file_header h) = 24" "length (bytes_of_pkthdr q) = 16"
  by (simp_all add: bytes_of_file_header_def bytes_of_pkthdr_def)

lemma file_header_of_bytes [simp]: "file_header_of (bytes_of_file_header h) = h"
  by (cases h) (simp add: file_header_of_def bytes_of_file_header_def le32_nth_def le16_nth_def
    bytes_of_u32_def bytes_of_u16_def)

lemma pkthdr_of_bytes [simp]: "pkthdr_of (bytes_of_pkthdr h) = h"
  by (cases h) (simp add: pkthdr_of_def bytes_of_pkthdr_def le32_nth_def bytes_of_u32_def)

lemma MyByteSwap_twice [simp]:
  "MyByteSwap32 (MyByteSwap32 w) = w" "MyByteSwap16 (MyByteSwap16 v) = v"
  by (simp_all add: MyByteSwap32_ntohl MyByteSwap16_ntohs)

text \<open>The bytes of the headers as a machine of the other byte order writes them.\<close>

definition foreign_file_header :: "pcap_file_header \<Rightarrow> u8 list" where
  "foreign_file_header h =
     rev (bytes_of_u32 (pcap_magic h)) @ rev (bytes_of_u16 (version_major h)) @
     rev (bytes_of_u16 (version_minor h)) @ rev (bytes_of_u32 (thiszone h)) @
     rev (bytes_of_u32 (sigfigs h)) @ rev (bytes_of_u32 (snaplen h)) @ rev (bytes_of_u32 (linktype h))"

definition foreign_pkthdr :: "pcap_pkthdr \<Rightarrow> u8 list" where
  "foreign_pkthdr h =
     rev (bytes_of_u32 (ts_sec h)) @ rev (bytes_of_u32 (ts_usec h)) @
     rev (bytes_of_u32 (caplen h)) @ rev (bytes_of_u32 (pkt_len h))"

lemma length_foreign_headers [simp]:
  "length (foreign_file_header h) = 24" "length (foreign_pkthdr q) = 16"
  by (simp_all add: foreign_file_header_def foreign_pkthdr_def)

lemma file_header_of_foreign:
  "file_header_of (foreign_file_header h) =
     \<lparr>pcap_magic = MyByteSwap32 (pcap_magic h), version_major = MyByteSwap16 (version_major h),
      version_minor = MyByteSwap16 (version_minor h), thiszone = MyByteSwap32 (thiszone h),
      sigfigs = MyByteSwap32 (sigfigs h), snaplen = MyByteSwap32 (snaplen h),
      linktype = MyByteSwap32 (linktype h)\<rparr>"
  by (simp add: file_header_of_def foreign_file_header_def le32_nth_def le16_nth_def
    bytes_of_u32_def bytes_of_u16_def MyByteSwap32_ntohl MyByteSwap16_ntohs ntohl_def ntohs_def)

lemma swap_pkthdr_of_foreign: "swap_pkthdr (pkthdr_of (foreign_pkthdr h)) = h"
proof -
  have "pkthdr_of (foreign_pkthdr h) = swap_pkthdr h"
    by (simp add: pkthdr_of_def foreign_pkthdr_def swap_pkthdr_def le32_nth_def bytes_of_u32_def
      MyByteSwap32_ntohl ntohl_def)
  then show ?thesis by (cases h) (simp add: swap_pkthdr_def)
qed

lemma fread_all:
  "length bs = n \<Longrightarrow> n \<le> room \<Longrightarrow> n \<noteq> 0 \<Longrightarrow> contents f = bs @ rest \<Longrightarrow>
   fread room n f s = (Inr (bs, True, f\<lparr>contents := rest\<rparr>), s)"
  by (auto simp: fread_def Let_def ret_def)

text \<open>
  C22. The header of a capture file, as \<open>writePcapHeader\<close> or any other program lays it out, is read
  back whole, in either byte order: the fields end up in the configuration with their values, a
  file of the other byte order is remembered as one (its magic number is kept as it was read), and
  the 24 bytes are taken off the file.
\<close>

theorem pcap_header_roundtrip:
  assumes "pcap_magic h = TCPDUMP_MAGIC"
    and "contents f = (if swapped then foreign_file_header h else bytes_of_file_header h) @ rest"
  shows "\<exists>t. readPcapHeader sv f s = (Inr (f\<lparr>contents := rest\<rparr>), t) \<and> smp t = smp s \<and>
    cfg t = (cfg s)\<lparr>
      readPcapHdr := (if swapped then h\<lparr>pcap_magic := MyByteSwap32 TCPDUMP_MAGIC\<rparr> else h),
      pcapSwap := pcapSwap (cfg s) \<or> swapped\<rparr>"
proof -
  have magic: "MyByteSwap32 TCPDUMP_MAGIC \<noteq> TCPDUMP_MAGIC" by code_simp
  have h: "h = h\<lparr>pcap_magic := TCPDUMP_MAGIC\<rparr>" using assms(1) by (cases h) simp
  let ?h = "if swapped then foreign_file_header h else bytes_of_file_header h"
  have swap: "swap_file_header (file_header_of (foreign_file_header h)) = h\<lparr>pcap_magic := MyByteSwap32 TCPDUMP_MAGIC\<rparr>"
    "pcap_magic (file_header_of (foreign_file_header h)) = MyByteSwap32 TCPDUMP_MAGIC"
    using assms(1) by (cases h, simp add: file_header_of_foreign swap_file_header_def)+
  have "fread 24 24 f s = (Inr (?h, True, f\<lparr>contents := rest\<rparr>), s)"
    using assms(2) by (intro fread_all) simp_all
  then show ?thesis
    using assms(1) magic swap
    by (cases swapped) (simp_all add: readPcapHeader_def bnd_def Let_def set_cfg_def dec_defs)
qed

theorem pcap_header_roundtrip_witness:
  "\<exists>t. readPcapHeader calm_services
       \<lparr>contents = foreign_file_header pcap_header_written, broken = False\<rparr>
       (zero_state (\<lambda>_. 0) 0) = (Inr \<lparr>contents = [], broken = False\<rparr>, t) \<and>
     pcapSwap (cfg t) \<and> snaplen (readPcapHdr (cfg t)) = 128"
  using pcap_header_roundtrip [of pcap_header_written
      "\<lparr>contents = foreign_file_header pcap_header_written, broken = False\<rparr>" True "[]"
      calm_services "zero_state (\<lambda>_. 0) 0"]
  by (auto simp: pcap_header_written_def)

section \<open>Packets\<close>

text \<open>
  C32. The record of a packet. When the file goes on with a record header, the padding the command
  line announced and as many bytes as the header says, at most the 2048 of the array, the header
  being in the byte order of the file, exactly this record is taken off the file and its bytes are
  decoded as a frame.
\<close>

theorem packet_record_read:
  assumes "contents f = (if pcapSwap (cfg s) then foreign_pkthdr h else bytes_of_pkthdr h) @ pad @ frame @ rest"
    and "length pad = unat (tcpdumpHdrPad (cfg s))" "length pad \<le> 2048"
    and "length frame = unat (caplen h)" "length frame \<le> 2048" "frame \<noteq> []"
  shows "readPcapPacket sv stk f s =
    bnd (decode_frame sv (write_mem (write_mem stk pad) frame) h)
      (\<lambda>_. ret (True, f\<lparr>contents := rest\<rparr>)) s"
proof -
  let ?q = "if pcapSwap (cfg s) then foreign_pkthdr h else bytes_of_pkthdr h"
  let ?f1 = "f\<lparr>contents := pad @ frame @ rest\<rparr>" and ?f2 = "f\<lparr>contents := frame @ rest\<rparr>"
  have "fread 16 16 f s = (Inr (?q, True, ?f1), s)"
    using assms(1) by (intro fread_all) simp_all
  moreover have "(if tcpdumpHdrPad (cfg s) > 0 then
       bnd (fread 2048 (unat (tcpdumpHdrPad (cfg s))) ?f1) (\<lambda>(bs2, ok2, file2).
         if ok2 then ret (bs2, file2)
         else bnd (eprintf ''unable to read pcap header pad (%d bytes)\<newline>'' [A32 (tcpdumpHdrPad (cfg s))])
                (\<lambda>_. custom_exit (-33)))
     else ret ([], ?f1)) s = (Inr (pad, ?f2), s)"
  proof (cases "tcpdumpHdrPad (cfg s) > 0")
    case True
    then have "fread 2048 (unat (tcpdumpHdrPad (cfg s))) ?f1 s = (Inr (pad, True, ?f2), s)"
      using assms(2, 3) by (subst fread_all [of pad]) (auto simp: unat_gt_0 word_neq_0_conv unat_eq_zero)
    with True show ?thesis by (simp add: bnd_def ret_def)
  next
    case False
    then have "tcpdumpHdrPad (cfg s) = 0" by (simp flip: word_neq_0_conv)
    with assms(2) show ?thesis by (simp add: ret_def)
  qed
  moreover have "fread 2048 (unat (caplen h)) ?f2 s = (Inr (frame, True, f\<lparr>contents := rest\<rparr>), s)"
    using assms(4-6) by (subst fread_all [of frame]) (auto simp flip: length_0_conv)
  moreover have "(if pcapSwap (cfg s) then swap_pkthdr (pkthdr_of ?q) else pkthdr_of ?q) = h"
    by (simp add: swap_pkthdr_of_foreign)
  ultimately show ?thesis
    unfolding readPcapPacket_def
    by (simp only: bnd_gets bnd_def [of "fread _ _ _"] bnd_def [of "if _ then _ else _"] Let_def prod.case
      sum.case not_True_eq_False if_False)
qed

definition short_packet :: pcap_pkthdr where
  "short_packet = \<lparr>ts_sec = 5, ts_usec = 0, caplen = 2, pkt_len = 9\<rparr>"

text \<open>A packet the capture cut off is taken off the file and only reported.\<close>

theorem packet_record_read_witness:
  "readPcapPacket calm_services (\<lambda>_. 0) \<lparr>contents = bytes_of_pkthdr short_packet @ [1, 2, 3], broken = False\<rparr>
     (zero_state (\<lambda>_. 0) 0) =
   (Inr (True, \<lparr>contents = [3], broken = False\<rparr>),
    (zero_state (\<lambda>_. 0) 0)\<lparr>out := [Err ''incomplete datagram (pcap snaplen too short)\<newline>'' []]\<rparr>)"
  using packet_record_read [of "\<lparr>contents = bytes_of_pkthdr short_packet @ [1, 2, 3], broken = False\<rparr>"
      "zero_state (\<lambda>_. 0) 0" short_packet "[]" "[1, 2]" "[3]" calm_services "\<lambda>_. 0"]
  by (simp add: short_packet_def decode_frame_def bnd_def dec_defs zero_config_def)

section \<open>The datagram in a frame\<close>

lemma skip_vlan_tags_le:
  "skip_vlan_tags m e p ty = Some (q, ty') \<Longrightarrow> p \<le> q \<and> (p < e \<longrightarrow> q < e) \<and> ty' \<noteq> 0x8100 \<and> ty' \<noteq> 0x9100"
proof (induction m e p ty rule: skip_vlan_tags.induct)
  case (1 m e p ty)
  show ?case
  proof (cases "ty = 0x8100 \<or> ty = 0x9100")
    case True
    with "1.prems" have "\<not> p + 4 \<ge> e" "skip_vlan_tags m e (p + 4) (be16_at m (p + 2)) = Some (q, ty')"
      by (subst (asm) skip_vlan_tags.simps, simp add: Let_def split: if_splits)+
    with "1.IH" [OF True refl refl] show ?thesis by auto
  next
    case False
    with "1.prems" show ?thesis by (subst (asm) skip_vlan_tags.simps) auto
  qed
qed

lemma skip_8022_le: "skip_8022 m p ty = Some (q, ty') \<Longrightarrow> p \<le> q"
  by (auto simp: skip_8022_def split: if_splits)

lemma skip_ip_le: "skip_ip m e p ty = Some q \<Longrightarrow> p \<le> q"
  by (auto simp: skip_ip_def split: if_splits)

text \<open>
  C34. Where the datagram is looked for. An offset that is found is behind an Ethernet header and a
  UDP header and before the end of the frame, so at least one byte of the datagram was captured.
  In an untagged frame that carries IPv4 without options the datagram is looked for at 42, whatever
  the rest of the frame holds, when the frame has at least 34 bytes behind the Ethernet header.
\<close>

theorem pcap_offset_in_frame:
  "(\<forall>n. pcapOffsetToSFlow m len = Some n \<longrightarrow> 22 \<le> n \<and> n < len) \<and>
   (be16_at m 12 = 0x0800 \<and> m 14 = 0x45 \<longrightarrow>
      pcapOffsetToSFlow m len = (if 48 \<le> len then Some 42 else None))"
proof (intro conjI allI impI)
  fix n
  assume "pcapOffsetToSFlow m len = Some n"
  then have "22 \<le> n \<and> n < len"
    by (auto simp: pcapOffsetToSFlow_def split: if_splits option.splits prod.splits
      dest!: skip_vlan_tags_le skip_8022_le skip_ip_le)
  then show "22 \<le> n" "n < len" by simp_all
next
  assume "be16_at m 12 = 0x0800 \<and> m 14 = 0x45"
  moreover have "drop_bit 4 (0x45 :: u8) = 4" "(0x45 :: u8) AND 15 = 5" by code_simp+
  ultimately show "pcapOffsetToSFlow m len = (if 48 \<le> len then Some 42 else None)"
    by (simp add: pcapOffsetToSFlow_def skip_vlan_tags.simps [of _ _ _ "0x0800"] is_ipx_def
      skip_8022_def skip_ip_def)
qed

theorem pcap_offset_in_frame_witness:
  "pcapOffsetToSFlow (mem_of (replicate 12 0 @ [8, 0, 0x45])) 60 = Some 42 \<and> (22 :: int) \<le> 42 \<and> (42 :: int) < 60"
proof -
  have "be16_at (mem_of (replicate 12 0 @ [8, 0, 0x45])) 12 = 0x0800"
    "mem_of (replicate 12 0 @ [8, 0, 0x45]) 14 = 0x45" by code_simp+
  then have "pcapOffsetToSFlow (mem_of (replicate 12 0 @ [8, 0, 0x45])) 60 = Some 42"
    by (simp add: pcap_offset_in_frame)
  then show ?thesis by simp
qed

end
