(* ===== verification/CommandLine.thy ===== *)
theory CommandLine
  imports Pcap
begin

text \<open>
  The command line and the start of the program (\<open>sflowtool.c\<close> 1441-1473, 1562-1589, 7647-7725,
  7965-8340): the VLAN filter language, forwarding targets, the options, the sockets, and \<open>main\<close>.
  What the operating system answers is the parameter \<open>os\<close>. When \<open>main\<close> reads a capture it
  handles the whole file; when it listens, \<open>MainLoop\<close> takes over.
\<close>

section \<open>Numbers in text\<close>

definition char_code :: "char \<Rightarrow> nat" where
  "char_code c = of_char c"

definition is_digit :: "char \<Rightarrow> bool" where
  "is_digit c \<longleftrightarrow> 48 \<le> char_code c \<and> char_code c \<le> 57"

definition white :: "char \<Rightarrow> bool" where
  "white c \<longleftrightarrow> char_code c = 32 \<or> (9 \<le> char_code c \<and> char_code c \<le> 13)"

definition digit_value :: "char \<Rightarrow> nat option" where
  "digit_value c =
     (let n = char_code c
      in if 48 \<le> n \<and> n \<le> 57 then Some (n - 48)
         else if 65 \<le> n \<and> n \<le> 90 then Some (n - 55)
         else if 97 \<le> n \<and> n \<le> 122 then Some (n - 87)
         else None)"

fun read_digits :: "nat \<Rightarrow> nat \<Rightarrow> string \<Rightarrow> nat \<times> string" where
  "read_digits b acc [] = (acc, [])"
| "read_digits b acc (c # s) =
     (case digit_value c of
        None \<Rightarrow> (acc, c # s)
      | Some d \<Rightarrow> if d < b then read_digits b (acc * b + d) s else (acc, c # s))"

text \<open>The base a number is read in when \<open>strtol\<close> is called with base 0, and where its digits begin.\<close>

definition radix :: "nat \<Rightarrow> string \<Rightarrow> nat \<times> string" where
  "radix base s =
     (if base \<noteq> 0 then (base, s)
      else case s of
        z # x # h # r \<Rightarrow>
          if char_code z = 48 \<and> char_code x \<in> {88, 120} \<and>
             (case digit_value h of None \<Rightarrow> False | Some d \<Rightarrow> d < 16)
          then (16, h # r)
          else if char_code z = 48 then (8, s) else (10, s)
      | z # r \<Rightarrow> if char_code z = 48 then (8, s) else (10, s)
      | [] \<Rightarrow> (10, s))"

definition sign :: "string \<Rightarrow> bool \<times> string" where
  "sign s =
     (case s of [] \<Rightarrow> (False, [])
      | c # r \<Rightarrow> if char_code c = 45 then (True, r) else if char_code c = 43 then (False, r) else (False, s))"

text \<open>\<open>strtol(nptr, &end, base)\<close> of 64 bits: the value, saturated, and what is left.\<close>

definition strtol :: "nat \<Rightarrow> string \<Rightarrow> int \<times> string" where
  "strtol base nptr =
     (let (neg, s1) = sign (dropWhile white nptr);
          (b, s2) = radix base s1;
          (n, rest) = read_digits b 0 s2;
          v = (if neg then - int n else int n)
      in if rest = s2 then (0, nptr) else (max (- (2 ^ 63)) (min (2 ^ 63 - 1) v), rest))"

definition atoi :: "string \<Rightarrow> int" where
  "atoi s = fst (strtol 10 s)"

text \<open>\<open>sscanf(p, "%u", &n)\<close>; \<open>n\<close> keeps its value when there is no number.\<close>

definition sscanf_u :: "string \<Rightarrow> u32 \<Rightarrow> u32" where
  "sscanf_u p old =
     (let (neg, s1) = sign (dropWhile white p);
          (n, rest) = read_digits 10 0 s1
      in if rest = s1 then old
         else if n \<ge> 2 ^ 64 then -1
         else word_of_int (if neg then - int n else int n))"

section \<open>The VLAN filter\<close>

datatype vlan_error = Not_a_number string | Out_of_range u32

definition peekForNumber :: "string \<Rightarrow> vlan_error + unit" where
  "peekForNumber p =
     (case p of [] \<Rightarrow> Inl (Not_a_number [])
      | c # r \<Rightarrow> if is_digit c then Inr () else Inl (Not_a_number [c]))"

definition testVlan :: "u32 \<Rightarrow> vlan_error + unit" where
  "testVlan num = (if unat num > FILTER_MAX_VLAN then Inl (Out_of_range num) else Inr ())"

text \<open>One number of the filter: look, read, test.\<close>

definition read_vlan :: "string \<Rightarrow> vlan_error + (nat \<times> string)" where
  "read_vlan p =
     (case peekForNumber p of Inl e \<Rightarrow> Inl e | Inr _ \<Rightarrow>
        let (v, rest) = strtol 0 p; num = word_of_int v :: u32
        in case testVlan num of Inl e \<Rightarrow> Inl e | Inr _ \<Rightarrow> Inr (unat num, rest))"

definition separator :: "char \<Rightarrow> bool" where
  "separator c \<longleftrightarrow> char_code c = 32 \<or> char_code c = 44"

text \<open>\<open>for (i = first; i <= last; i++) array[i] = flag\<close>.\<close>

fun set_range :: "bool \<Rightarrow> nat \<Rightarrow> nat \<Rightarrow> bool list \<Rightarrow> bool list" where
  "set_range flag i 0 tab = tab"
| "set_range flag i (Suc n) tab = set_range flag (Suc i) n (tab[i := flag])"

definition parse_item :: "bool \<Rightarrow> bool list \<Rightarrow> string \<Rightarrow> vlan_error + (bool list \<times> string)" where
  "parse_item flag tab p =
     (case read_vlan (dropWhile separator p) of Inl e \<Rightarrow> Inl e | Inr (first, p1) \<Rightarrow>
        let tab1 = tab[first := flag]
        in case p1 of
             [] \<Rightarrow> Inr (tab1, p1)
           | c # p2 \<Rightarrow>
               if char_code c \<noteq> 45 then Inr (tab1, p1)
               else case read_vlan p2 of Inl e \<Rightarrow> Inl e | Inr (upper, p3) \<Rightarrow>
                 Inr (if upper > first then set_range flag first (Suc upper - first) tab1 else tab1, p3))"

lemma read_digits_shorter: "length (snd (read_digits b acc s)) \<le> length s"
  by (induction b acc s rule: read_digits.induct) (auto split: option.split)

lemma radix_shorter: "length (snd (radix b s)) \<le> length s"
  by (auto simp: radix_def split: list.split)

lemma sign_shorter: "length (snd (sign s)) \<le> length s"
  by (auto simp: sign_def split: list.split)

lemma radix_starts_with_digit:
  assumes "radix 0 (c # q) = (b, s2)" "is_digit c"
  obtains d x s3 where "s2 = x # s3" "digit_value x = Some d" "d < b"
  using assms
  by (auto simp: radix_def is_digit_def digit_value_def Let_def
      split: list.splits if_splits option.splits)

lemma read_vlan_shorter:
  assumes "read_vlan p = Inr (n, r)" shows "length r < length p"
proof -
  obtain c q where c: "p = c # q" "is_digit c"
    using assms by (auto simp: read_vlan_def peekForNumber_def split: list.splits if_splits sum.splits)
  then have start: "sign (dropWhile white p) = (False, p)"
    by (auto simp: white_def is_digit_def sign_def)
  obtain b s2 where s2: "radix 0 p = (b, s2)" by (cases "radix 0 p")
  with c obtain d x s3 where x: "s2 = x # s3" "digit_value x = Some d" "d < b"
    by (auto elim: radix_starts_with_digit)
  obtain m rest where m: "read_digits b 0 s2 = (m, rest)" by (cases "read_digits b 0 s2")
  then have "length rest < length s2"
    using x read_digits_shorter [of b d s3] by simp
  moreover from this have "r = rest"
    using assms start s2 m
    by (auto simp: read_vlan_def strtol_def Let_def split: sum.splits if_splits)
  ultimately show ?thesis using radix_shorter [of 0 p] s2 by simp
qed

lemma parse_item_shorter: "parse_item flag tab p = Inr (tab', r) \<Longrightarrow> length r < length p"
proof -
  assume run: "parse_item flag tab p = Inr (tab', r)"
  then obtain first p1 where r1: "read_vlan (dropWhile separator p) = Inr (first, p1)"
    by (auto simp: parse_item_def split: sum.splits)
  have "length p1 < length p"
    using read_vlan_shorter [OF r1] length_dropWhile_le [of separator p] by linarith
  moreover have "length r \<le> length p1"
    using run r1
    by (auto simp: parse_item_def Let_def split: list.splits if_splits sum.splits
        dest!: read_vlan_shorter)
  ultimately show ?thesis by simp
qed

function parse_vlans :: "bool \<Rightarrow> bool list \<Rightarrow> string \<Rightarrow> vlan_error + bool list" where
  "parse_vlans flag tab p =
     (case parse_item flag tab p of
        Inl e \<Rightarrow> Inl e
      | Inr (tab1, p1) \<Rightarrow> if p1 = [] then Inr tab1 else parse_vlans flag tab1 p1)"
  by pat_completeness auto

termination
  by (relation "measure (\<lambda>(flag, tab, p). length p)") (auto dest: parse_item_shorter)

declare parse_vlans.simps [simp del]

text \<open>A mistake ends the program, so that what was set before it does not matter.\<close>

definition parseVlanFilter :: "bool \<Rightarrow> string \<Rightarrow> unit dec" where
  "parseVlanFilter flag start =
     bnd (gets (\<lambda>s. vlanFilter (cfg s))) (\<lambda>tab.
     case parse_vlans flag tab start of
       Inl (Not_a_number c) \<Rightarrow>
         bnd (eprintf ''error parsing vlan filter ranges (next char = <%c>)\<newline>'' [AStr c])
           (\<lambda>_. custom_exit (-19))
     | Inl (Out_of_range num) \<Rightarrow>
         bnd (eprintf ''error parsing vlan filter (vlan = <%d> out of range)\<newline>'' [A32 num])
           (\<lambda>_. custom_exit (-20))
     | Inr tab' \<Rightarrow> set_cfg (vlanFilter_update (\<lambda>_. tab')))"

section \<open>The operating system\<close>

text \<open>
  A socket is asked for by what it is for: \<open>''udp4''\<close> and \<open>''udp6''\<close> to receive on, \<open>''netflow''\<close> (raw when
  spoofed) to export on, or a forwarding target by its text.
\<close>

record os =
  gethostbyname :: "string \<Rightarrow> u32 option"
  open_socket :: "string \<Rightarrow> int"
  bind_socket :: "string \<Rightarrow> bool"
  set_option :: "string \<Rightarrow> bool"
  connect_socket :: bool
  stdin_file :: infile
  fopen :: "string \<Rightarrow> infile option"
  os_error :: string

section \<open>Forwarding targets\<close>

definition addForwardingTarget :: "os \<Rightarrow> string \<Rightarrow> bool dec" where
  "addForwardingTarget os hostandport =
     (if length hostandport > 100 then ret False
      else
        let hoststr = takeWhile (\<lambda>c. char_code c \<noteq> 47) hostandport;
            p = dropWhile (\<lambda>c. char_code c \<noteq> 47) hostandport
        in if p = [] then
             bnd (eprintf ''host/port - no '/' found\<newline>'' []) (\<lambda>_. ret False)
           else case gethostbyname os hoststr of
             None \<Rightarrow> bnd (eprintf ''hostname %s lookup failed\<newline>'' [AStr hoststr]) (\<lambda>_. ret False)
           | Some ip \<Rightarrow>
               let port = sscanf_u (tl p) 0
               in if port \<le> 0 \<or> port \<ge> 65535 then
                    bnd (eprintf ''invalid port: %u\<newline>'' [A32 port]) (\<lambda>_. ret False)
                  else if open_socket os hostandport = -1 then
                    bnd (eprintf ''socket open (for %s) failed: %s'' [AStr hostandport, AStr (os_error os)])
                      (\<lambda>_. ret False)
                  else
                    bnd (set_cfg (forwardingTargets_update (\<lambda>ts.
                      \<lparr>target_host = ip, target_port = port, target_sock = open_socket os hostandport\<rparr> # ts)))
                      (\<lambda>_. ret True))"

section \<open>Options\<close>

definition VERSION :: string where "VERSION = ''3.30''"

definition usage :: "string \<Rightarrow> (string \<times> arg list) list" where
  "usage command = [
     (''Copyright (c) InMon Corporation 2000-2011 ALL RIGHTS RESERVED\<newline>'', []),
     (''This software provided with NO WARRANTY WHATSOEVER\<newline>'', []),
     (''\<newline>'', []),
     (''Usage: %s [-p port]\<newline>'', [AStr command]),
     (''\<newline>'', []),
     (''%s version: %s\<newline>'', [AStr command, AStr VERSION]),
     (''\<newline>'', []),
     (''forwarding:\<newline>'', []),
     (''   -f host/port       -  (forward sflow to another collector\<newline>'', []),
     (''                      -   ...repeat for multiple collectors)\<newline>'', []),
     (''\<newline>'', []),
     (''csv output:\<newline>'', []),
     (''   -l                 -  (output in line-by-line format)\<newline>'', []),
     (''   -H                 -  (output HTTP common log file format)\<newline>'', []),
     (''\<newline>'', []),
     (''tcpdump output:\<newline>'', []),
     (''   -t                 -  (output in binary tcpdump(1) format)\<newline>'', []),
     (''   -r file            -  (read binary tcpdump(1) format)\<newline>'', []),
     (''   -x                 -  (remove all IPV4 content)\<newline>'', []),
     (''   -z pad             -  (extend tcpdump pkthdr with this many zeros\<newline>'', []),
     (''                          e.g. try -z 8 for tcpdump on Red Hat Linux 6.2)\<newline>'', []),
     (''\<newline>'', []),
     (''NetFlow output:\<newline>'', []),
     (''   -c hostname_or_IP  -  (netflow collector host)\<newline>'', []),
     (''   -d port            -  (netflow collector UDP port)\<newline>'', []),
     (''   -e                 -  (netflow collector peer_as (default = origin_as))\<newline>'', []),
     (''   -s                 -  (disable scaling of netflow output by sampling rate)\<newline>'', []),
     (''   -S                 -  spoof source of netflow packets to input agent IP\<newline>'', []),
     (''\<newline>'', []),
     (''Filters:\<newline>'', []),
     (''   +v <vlans>         -  include vlans (e.g. +v 0-20,4091)\<newline>'', []),
     (''   -v <vlans>         -  exclude vlans\<newline>'', []),
     (''   -4                 -  listen on IPv4 socket only\<newline>'', []),
     (''   -6                 -  listen on IPv6 socket only\<newline>'', []),
     (''   +4                 -  listen on both IPv4 and IPv6 sockets\<newline>'', []),
     (''\<newline>'', []),
     (''=============== Advanced Tools ==============================================\<newline>'', []),
     (''| sFlowTrend (FREE)     - http://www.inmon.com/products/sFlowTrend.php      |\<newline>'', []),
     (''| Traffic Sentinel      - http://www.inmon.com/support/sentinel_release.php |\<newline>'', []),
     (''=============================================================================\<newline>'', [])]"

definition instructions :: "string \<Rightarrow> unit dec" where
  "instructions command =
     block [emit (map (\<lambda>(fmt, args). Err fmt args) (usage command)), custom_exit 1]"

text \<open>\<open>s[i]\<close> of a C string, zero at its end.\<close>

definition char_at :: "string \<Rightarrow> nat \<Rightarrow> nat" where
  "char_at s i = (if i < length s then char_code (s ! i) else 0)"

definition exclude_default :: "SFConfig \<Rightarrow> SFConfig" where
  "exclude_default c =
     (if gotVlanFilter c then c
      else c\<lparr>vlanFilter := set_range True 0 FILTER_MAX_VLAN (vlanFilter c), gotVlanFilter := True\<rparr>)"

text \<open>Options that take a value; letters as their codes.\<close>

abbreviation "opt_p \<equiv> 112 :: nat"
abbreviation "opt_r \<equiv> 114 :: nat"
abbreviation "opt_z \<equiv> 122 :: nat"
abbreviation "opt_c \<equiv> 99 :: nat"
abbreviation "opt_d \<equiv> 100 :: nat"
abbreviation "opt_f \<equiv> 102 :: nat"
abbreviation "opt_v \<equiv> 118 :: nat"

definition takes_value :: "nat \<Rightarrow> bool" where
  "takes_value opt \<longleftrightarrow> opt \<in> {opt_p, opt_r, opt_z, opt_c, opt_d, opt_f, opt_v}"

definition valued_option :: "os \<Rightarrow> bool \<Rightarrow> nat \<Rightarrow> string \<Rightarrow> unit dec" where
  "valued_option os isplus opt v = switch opt [
     (opt_p, set_cfg (sFlowInputPort_update (\<lambda>_. word_of_int (atoi v)))),
     (opt_r, set_cfg (readPcapFileName_update (\<lambda>_. Some v))),
     (opt_z, set_cfg (tcpdumpHdrPad_update (\<lambda>_. word_of_int (atoi v)))),
     (opt_c, case gethostbyname os v of
        None \<Rightarrow> bnd (eprintf ''netflow collector hostname lookup failed\<newline>'' []) (\<lambda>_. custom_exit (-8))
      | Some ip \<Rightarrow> set_cfg (\<lambda>c. c\<lparr>netFlowOutputIP := ip, outputFormat := SFLFMT_NETFLOW\<rparr>)),
     (opt_d, set_cfg (\<lambda>c. c\<lparr>netFlowOutputPort := word_of_int (atoi v), outputFormat := SFLFMT_NETFLOW\<rparr>)),
     (opt_f, bnd (addForwardingTarget os v) (\<lambda>ok. block [
        only_if (\<not> ok) (custom_exit (-35)),
        set_cfg (outputFormat_update (\<lambda>_. SFLFMT_FWD))])),
     (opt_v,
        if isplus then block [set_cfg (gotVlanFilter_update (\<lambda>_. True)), parseVlanFilter True v]
        else block [set_cfg exclude_default, parseVlanFilter False v])]
     (ret ())"

definition flag_option :: "string \<Rightarrow> bool \<Rightarrow> nat \<Rightarrow> unit dec" where
  "flag_option command isplus opt = switch opt [
     (116, set_cfg (outputFormat_update (\<lambda>_. SFLFMT_PCAP))),
     (108, set_cfg (outputFormat_update (\<lambda>_. SFLFMT_LINE))),
     (72, set_cfg (outputFormat_update (\<lambda>_. SFLFMT_CLF))),
     (84, set_cfg (outputFormat_update (\<lambda>_. SFLFMT_TSD))),
     (120, set_cfg (removeContent_update (\<lambda>_. True))),
     (101, set_cfg (netFlowPeerAS_update (\<lambda>_. True))),
     (115, set_cfg (disableNetFlowScale_update (\<lambda>_. True))),
     (83, set_cfg (spoofSource_update (\<lambda>_. True))),
     (52, set_cfg (\<lambda>c. c\<lparr>listenControlled := True, listen4 := True, listen6 := isplus\<rparr>)),
     (54, set_cfg (\<lambda>c. c\<lparr>listenControlled := True, listen4 := False, listen6 := True\<rparr>))]
     (instructions command)"

fun process_options :: "os \<Rightarrow> string \<Rightarrow> string list \<Rightarrow> unit dec" where
  "process_options os command [] = ret ()"
| "process_options os command (a # args) =
     (let isplus = (char_at a 0 = 43); isminus = (char_at a 0 = 45); opt = char_at a 1
      in if \<not> isplus \<and> \<not> isminus then instructions command
         else if takes_value opt then
           (case args of
              [] \<Rightarrow> instructions command
            | v # rest \<Rightarrow>
                bnd (valued_option os isplus opt v) (\<lambda>_. process_options os command rest))
         else bnd (flag_option command isplus opt) (\<lambda>_. process_options os command args))"

definition process_command_line :: "os \<Rightarrow> string \<Rightarrow> string list \<Rightarrow> unit dec" where
  "process_command_line os command args = block [
     set_cfg (\<lambda>c. c\<lparr>sFlowInputPort := 6343, listen4 := True, listen6 := False\<rparr>),
     process_options os command args]"

section \<open>Sockets\<close>

definition openInputUDPSocket :: "os \<Rightarrow> u16 \<Rightarrow> int dec" where
  "openInputUDPSocket os port =
     (if open_socket os ''udp4'' = -1 then
        bnd (eprintf ''v4 socket() creation failed, %s\<newline>'' [AStr (os_error os)]) (\<lambda>_. ret (-1))
      else if \<not> bind_socket os ''udp4'' then
        bnd (eprintf ''v4 bind() failed, port = %d : %s\<newline>'' [A32 (ucast port), AStr (os_error os)])
          (\<lambda>_. ret (-1))
      else ret (open_socket os ''udp4''))"

definition openInputUDP6Socket :: "os \<Rightarrow> u16 \<Rightarrow> int dec" where
  "openInputUDP6Socket os port =
     (if open_socket os ''udp6'' = -1 then
        bnd (eprintf ''v6 socket() creation failed, %s\<newline>'' [AStr (os_error os)])
          (\<lambda>_. custom_exit (-6))
      else if \<not> bind_socket os ''udp6'' then
        bnd (eprintf ''v6 bind() failed, port = %d : %s\<newline>'' [A32 (ucast port), AStr (os_error os)])
          (\<lambda>_. ret (-1))
      else ret (open_socket os ''udp6''))"

definition fail_with :: "string \<Rightarrow> int \<Rightarrow> unit dec" where
  "fail_with msg n = bnd (eprintf msg []) (\<lambda>_. custom_exit n)"

definition openNetFlowSocket_spoof :: "os \<Rightarrow> unit dec" where
  "openNetFlowSocket_spoof os = block [
     set_cfg (netFlowOutputSocket_update (\<lambda>_. open_socket os ''netflow'')),
     only_if (open_socket os ''netflow'' = -1) (fail_with ''netflow output raw socket open failed\<newline>'' (-11)),
     only_if (\<not> set_option os ''IP_HDRINCL'') (fail_with ''setsockopt( IP_HDRINCL ) failed\<newline>'' (-13)),
     only_if (\<not> set_option os ''SO_REUSEADDR'') (fail_with ''setsockopt( SO_REUSEADDR ) failed\<newline>'' (-14)),
     (\<lambda>s. (Inr (), s\<lparr>spoof := spoof_template (cfg s)\<rparr>))]"

definition openNetFlowSocket :: "os \<Rightarrow> unit dec" where
  "openNetFlowSocket os =
     bnd (gets (\<lambda>s. spoofSource (cfg s))) (\<lambda>spoofed.
     if spoofed then openNetFlowSocket_spoof os
     else block [
       set_cfg (netFlowOutputSocket_update (\<lambda>_. open_socket os ''netflow'')),
       only_if (open_socket os ''netflow'' = -1) (fail_with ''netflow output socket open failed\<newline>'' (-4)),
       only_if (\<not> connect_socket os) (fail_with ''connect() to netflow output socket failed\<newline>'' (-5))])"

section \<open>Starting\<close>

definition open_input_sockets :: "os \<Rightarrow> (int \<times> int) dec" where
  "open_input_sockets os =
     bnd (gets cfg) (\<lambda>c.
     bnd (if listen6 c then openInputUDP6Socket os (sFlowInputPort c) else ret (-1)) (\<lambda>soc6.
     bnd (if listen4 c \<or> (soc6 = -1 \<and> \<not> listenControlled c)
          then openInputUDPSocket os (sFlowInputPort c) else ret (-1)) (\<lambda>soc4.
     bnd (only_if (soc4 = -1 \<and> soc6 = -1) (fail_with ''unable to open UDP read socket\<newline>'' (-7)))
       (\<lambda>_. ret (soc4, soc6)))))"

text \<open>The input, as the rest of a capture file or the two sockets.\<close>

definition open_input :: "services \<Rightarrow> os \<Rightarrow> (infile + int \<times> int) dec" where
  "open_input sv os =
     bnd (gets (\<lambda>s. readPcapFileName (cfg s))) (\<lambda>name.
     case name of
       None \<Rightarrow> bnd (open_input_sockets os) (\<lambda>socs. ret (Inr socs))
     | Some n \<Rightarrow>
         (case if n = ''-'' then Some (stdin_file os) else fopen os n of
            None \<Rightarrow> bnd (eprintf ''cannot open %s : %s\<newline>'' [AStr n, AStr (os_error os)])
                      (\<lambda>_. custom_exit (-1))
          | Some f \<Rightarrow> bnd (readPcapHeader sv f) (\<lambda>rest. ret (Inl rest))))"

definition start_output :: "os \<Rightarrow> unit dec" where
  "start_output os =
     bnd (gets cfg) (\<lambda>c. block [
       only_if (netFlowOutputPort c \<noteq> 0 \<and> netFlowOutputIP c \<noteq> 0) (openNetFlowSocket os),
       only_if (outputFormat c = SFLFMT_PCAP) writePcapHeader])"

text \<open>
  \<open>main\<close>: a capture file is read to its end, after which the result is \<open>None\<close>; otherwise the result is
  the two sockets to receive packets on, which \<open>MainLoop\<close> goes on with.
\<close>

definition main_until_receiving ::
  "services \<Rightarrow> os \<Rightarrow> (nat \<Rightarrow> memory) \<Rightarrow> string \<Rightarrow> string list \<Rightarrow> (int \<times> int) option dec" where
  "main_until_receiving sv os stk command args =
     bnd (process_command_line os command args) (\<lambda>_.
     bnd (open_input sv os) (\<lambda>input.
     bnd (start_output os) (\<lambda>_.
     case input of
       Inr socs \<Rightarrow> ret (Some socs)
     | Inl file \<Rightarrow> bnd (read_packets sv stk 0 file) (\<lambda>_. ret None))))"

end
