(* ===== verification/CommandSpec.thy ===== *)
theory CommandSpec
  imports CommandLine
begin

text \<open>
  The command line: a list of VLAN ranges written in the filter language is read back, what the
  two filter options leave in the configuration, and how the handling of the options can end.
\<close>

section \<open>Numbers\<close>

lemma char_code_digit: "n < 10 \<Longrightarrow> char_code (char_of (48 + n)) = 48 + n"
  by (simp add: char_code_def)

lemma digit_value_digit: "n < 10 \<Longrightarrow> digit_value (char_of (48 + n)) = Some n"
  by (simp add: digit_value_def char_code_digit Let_def)

lemma read_digits_show:
  "read_digits 10 acc (show_dec n @ rest) = read_digits 10 (acc * 10 ^ length (show_dec n) + n) rest"
proof (induction n arbitrary: acc rest rule: show_dec.induct)
  case (1 n)
  show ?case
  proof (cases "n < 10")
    case True
    then show ?thesis by (simp add: show_dec.simps [of n] digit_value_digit)
  next
    case False
    then have "show_dec n = show_dec (n div 10) @ [char_of (48 + n mod 10)]"
      by (simp add: show_dec.simps [of n])
    moreover have "read_digits 10 acc (show_dec (n div 10) @ char_of (48 + n mod 10) # rest) =
        read_digits 10 ((acc * 10 ^ length (show_dec (n div 10)) + n div 10) * 10 + n mod 10) rest"
      by (simp add: "1.IH" [OF False] digit_value_digit)
    ultimately show ?thesis by (simp add: algebra_simps)
  qed
qed

lemma show_dec_starts:
  obtains c r where "show_dec n = c # r" "is_digit c" "n \<noteq> 0 \<Longrightarrow> char_code c \<noteq> 48"
proof -
  have "\<exists>c r. show_dec n = c # r \<and> is_digit c \<and> (n \<noteq> 0 \<longrightarrow> char_code c \<noteq> 48)"
  proof (induction n rule: show_dec.induct)
    case (1 n)
    show ?case
    proof (cases "n < 10")
      case True
      then show ?thesis by (simp add: show_dec.simps [of n] is_digit_def char_code_digit)
    next
      case False
      then show ?thesis using "1.IH" [OF False] by (auto simp: show_dec.simps [of n])
    qed
  qed
  with that show ?thesis by blast
qed

text \<open>What may follow a number: the end, a comma or a dash.\<close>

fun number_ends :: "string \<Rightarrow> bool" where
  "number_ends [] = True"
| "number_ends (c # r) = (char_code c = 44 \<or> char_code c = 45)"

lemma read_digits_end: "number_ends rest \<Longrightarrow> read_digits b n rest = (n, rest)"
  by (cases rest) (auto simp: digit_value_def)

lemma radix_show:
  assumes "number_ends rest"
  shows "radix 0 (show_dec n @ rest) = (if n = 0 then 8 else 10, show_dec n @ rest)"
proof (cases "n = 0")
  case True
  have zero: "show_dec 0 = [char_of (48 :: nat)]" by (simp add: show_dec.simps [of 0])
  show ?thesis
    using assms True by (cases rest) (auto simp: zero radix_def char_code_def split: list.split)
next
  case False
  obtain c r where "show_dec n = c # r" "is_digit c" "char_code c \<noteq> 48"
    using show_dec_starts [of n] False by metis
  with False show ?thesis by (auto simp: radix_def split: list.split)
qed

lemma read_digits_number:
  assumes "number_ends rest"
  shows "read_digits (if n = 0 then 8 else 10) 0 (show_dec n @ rest) = (n, rest)"
proof (cases "n = 0")
  case True
  moreover have "digit_value (char_of (48 :: nat)) = Some 0" using digit_value_digit [of 0] by simp
  ultimately show ?thesis using assms by (simp add: show_dec.simps [of 0] read_digits_end)
next
  case False
  with assms show ?thesis by (simp add: read_digits_show read_digits_end)
qed

lemma read_vlan_show:
  assumes "number_ends rest" "n \<le> 4096"
  shows "read_vlan (show_dec n @ rest) = Inr (n, rest)"
proof -
  obtain c r where c: "show_dec n = c # r" "is_digit c" by (metis show_dec_starts)
  then have "sign (dropWhile white (show_dec n @ rest)) = (False, show_dec n @ rest)"
    by (auto simp: white_def is_digit_def sign_def)
  moreover have "rest \<noteq> show_dec n @ rest" using c by simp
  ultimately have "strtol 0 (show_dec n @ rest) = (int n, rest)"
    using assms by (simp add: strtol_def radix_show read_digits_number)
  moreover have "unat (word_of_int (int n) :: u32) = n"
    using assms(2) by (simp add: unat_of_nat take_bit_nat_eq_self)
  ultimately show ?thesis
    using c assms(2) by (simp add: read_vlan_def peekForNumber_def testVlan_def)
qed

section \<open>Lists of ranges\<close>

text \<open>A list of ranges in the filter language, and the vlans it means.\<close>

definition show_range :: "nat \<times> nat \<Rightarrow> string" where
  "show_range r = show_dec (fst r) @ (if fst r < snd r then ''-'' @ show_dec (snd r) else [])"

fun show_ranges :: "(nat \<times> nat) list \<Rightarrow> string" where
  "show_ranges [] = []"
| "show_ranges [r] = show_range r"
| "show_ranges (r # q # rs) = show_range r @ '','' @ show_ranges (q # rs)"

definition in_ranges :: "(nat \<times> nat) list \<Rightarrow> nat \<Rightarrow> bool" where
  "in_ranges rs j \<longleftrightarrow> list_ex (\<lambda>(a, b). a \<le> j \<and> j \<le> b) rs"

definition apply_ranges :: "bool \<Rightarrow> (nat \<times> nat) list \<Rightarrow> bool list \<Rightarrow> bool list" where
  "apply_ranges flag rs tab = map (\<lambda>j. if in_ranges rs j then flag else tab ! j) [0..<length tab]"

lemma set_range_nth:
  "length (set_range flag i n tab) = length tab \<and>
   (\<forall>j < length tab. set_range flag i n tab ! j = (if i \<le> j \<and> j < i + n then flag else tab ! j))"
  by (induction flag i n tab rule: set_range.induct) (auto simp: nth_list_update)

lemma parse_item_show:
  assumes "a \<le> b" "b \<le> 4096" "rest = [] \<or> (\<exists>r. rest = CHR '','' # r)"
  shows "parse_item flag tab (show_range (a, b) @ rest) = Inr (apply_ranges flag [(a, b)] tab, rest)"
proof -
  have ends: "number_ends rest" and no_dash: "rest = c # r \<Longrightarrow> char_code c \<noteq> 45" for c r
    using assms(3) by (auto simp: char_code_def)
  obtain c r where c: "show_dec a = c # r" "is_digit c" by (metis show_dec_starts)
  have start: "dropWhile separator (show_dec a @ q) = show_dec a @ q" for q
    using c by (simp add: separator_def is_digit_def)
  show ?thesis
  proof (cases "a < b")
    case True
    have "read_vlan (show_dec a @ CHR ''-'' # show_dec b @ rest) = Inr (a, CHR ''-'' # show_dec b @ rest)"
      using assms by (intro read_vlan_show) (simp_all add: char_code_def)
    moreover have "read_vlan (show_dec b @ rest) = Inr (b, rest)"
      using assms ends by (intro read_vlan_show)
    moreover have "set_range flag a (Suc b - a) (tab[a := flag]) = apply_ranges flag [(a, b)] tab"
      using True set_range_nth [of flag a "Suc b - a" "tab[a := flag]"]
      by (intro nth_equalityI) (auto simp: apply_ranges_def in_ranges_def nth_list_update)
    ultimately show ?thesis
      using True start [of "CHR ''-'' # show_dec b @ rest"]
      by (simp add: parse_item_def show_range_def char_code_def)
  next
    case False
    then have "tab[a := flag] = apply_ranges flag [(a, b)] tab"
      using assms(1) by (intro nth_equalityI) (auto simp: apply_ranges_def in_ranges_def nth_list_update)
    moreover have "read_vlan (show_dec a @ rest) = Inr (a, rest)"
      using assms ends by (intro read_vlan_show) simp_all
    ultimately show ?thesis
      using False start [of rest] no_dash
      by (cases rest) (auto simp: parse_item_def show_range_def Let_def)
  qed
qed

lemma parse_item_comma: "parse_item flag tab (CHR '','' # p) = parse_item flag tab p"
  by (simp add: parse_item_def separator_def char_code_def)

lemma parse_vlans_comma: "parse_vlans flag tab (CHR '','' # p) = parse_vlans flag tab p"
  by (simp add: parse_vlans.simps [of _ _ "_ # _"] parse_vlans.simps [of _ _ p] parse_item_comma)

lemma apply_ranges_Cons:
  "apply_ranges flag rs (apply_ranges flag [r] tab) = apply_ranges flag (r # rs) tab"
  by (cases r) (auto simp: apply_ranges_def in_ranges_def)

lemma parse_vlans_show:
  "rs \<noteq> [] \<Longrightarrow> list_all (\<lambda>(a, b). a \<le> b \<and> b \<le> 4096) rs \<Longrightarrow>
   parse_vlans flag tab (show_ranges rs) = Inr (apply_ranges flag rs tab)"
proof (induction rs arbitrary: tab rule: show_ranges.induct)
  case (2 r)
  then show ?case
    using parse_item_show [of "fst r" "snd r" "[]" flag tab]
    by (cases r) (simp add: parse_vlans.simps)
next
  case (3 r q rs)
  then have "parse_item flag tab (show_range r @ CHR '','' # show_ranges (q # rs)) =
      Inr (apply_ranges flag [r] tab, CHR '','' # show_ranges (q # rs))"
    by (cases r) (simp add: parse_item_show)
  then show ?case
    using 3 by (simp add: parse_vlans.simps [of _ _ "show_range r @ _"] parse_vlans_comma apply_ranges_Cons)
qed simp

text \<open>
  C21. The options \<open>+v\<close> and \<open>-v\<close>. For any list of ranges of vlans up to 4096, given in the language
  of the filter, the vlans of the list are included (\<open>+v\<close>) or excluded (\<open>-v\<close>) and the others stay as
  they were, except that the first filter option, when it is an exclusion, includes the vlans below
  4096 first: vlan 4096 is not included by default.
\<close>

theorem vlan_option_result:
  assumes "rs \<noteq> []" "list_all (\<lambda>(a, b). a \<le> b \<and> b \<le> 4096) rs"
    and "tab = vlanFilter (cfg s)" "length tab = 4097"
  shows "\<exists>tab'. valued_option os isplus opt_v (show_ranges rs) s =
      (Inr (), s\<lparr>cfg := (cfg s)\<lparr>gotVlanFilter := True, vlanFilter := tab'\<rparr>\<rparr>) \<and> length tab' = 4097 \<and>
    (\<forall>j \<le> 4096. tab' ! j =
       (if in_ranges rs j then isplus
        else if isplus \<or> gotVlanFilter (cfg s) then tab ! j
        else j < 4096 \<or> tab ! j))"
proof -
  define start where "start = (if isplus \<or> gotVlanFilter (cfg s) then tab else set_range True 0 4096 tab)"
  have start: "length start = 4097" "\<forall>j \<le> 4096. start ! j =
      (if isplus \<or> gotVlanFilter (cfg s) then tab ! j else j < 4096 \<or> tab ! j)"
    using set_range_nth [of True 0 4096 tab] assms(4) by (auto simp: start_def)
  have "valued_option os isplus opt_v (show_ranges rs) s =
      (Inr (), s\<lparr>cfg := (cfg s)\<lparr>gotVlanFilter := True, vlanFilter := apply_ranges isplus rs start\<rparr>\<rparr>)"
    using parse_vlans_show [OF assms(1, 2)] assms(3)
    by (auto simp: valued_option_def parseVlanFilter_def set_cfg_def bnd_def exclude_default_def
      start_def gets_def ret_def)
  moreover have "length (apply_ranges isplus rs start) = 4097"
    "\<forall>j \<le> 4096. apply_ranges isplus rs start ! j = (if in_ranges rs j then isplus else start ! j)"
    using start by (auto simp: apply_ranges_def)
  ultimately show ?thesis using start(2) by auto
qed

definition quiet_os :: os where
  "quiet_os = \<lparr>gethostbyname = \<lambda>_. None, open_socket = \<lambda>_. 3, bind_socket = \<lambda>_. True, set_option = \<lambda>_. True,
     connect_socket = True, stdin_file = \<lparr>contents = [], broken = False\<rparr>, fopen = \<lambda>_. None, os_error = []\<rparr>"

theorem vlan_option_result_witness:
  "let s = zero_state (\<lambda>_. 0) 0 in
   \<exists>tab'. valued_option quiet_os False opt_v (show_ranges [(0, 20), (4091, 4091)]) s =
      (Inr (), s\<lparr>cfg := (cfg s)\<lparr>gotVlanFilter := True, vlanFilter := tab'\<rparr>\<rparr>) \<and>
     \<not> tab' ! 7 \<and> tab' ! 21 \<and> \<not> tab' ! 4091 \<and> \<not> tab' ! 4096"
proof -
  let ?s = "zero_state (\<lambda>_. 0) 0" and ?rs = "[(0, 20), (4091, 4091)]"
  have s: "vlanFilter (cfg ?s) = replicate 4097 False" "\<not> gotVlanFilter (cfg ?s)"
    unfolding zero_state_simps zero_config_def by simp_all
  have "length (vlanFilter (cfg ?s)) = 4097" unfolding s by simp
  then obtain tab' where run: "valued_option quiet_os False opt_v (show_ranges ?rs) ?s =
      (Inr (), ?s\<lparr>cfg := (cfg ?s)\<lparr>gotVlanFilter := True, vlanFilter := tab'\<rparr>\<rparr>)"
    and flags: "\<And>j. j \<le> 4096 \<Longrightarrow> tab' ! j = (if in_ranges ?rs j then False
      else if False \<or> gotVlanFilter (cfg ?s) then vlanFilter (cfg ?s) ! j
      else j < 4096 \<or> vlanFilter (cfg ?s) ! j)"
    using vlan_option_result [of ?rs "vlanFilter (cfg ?s)" ?s quiet_os False] by auto
  have "replicate 4097 False ! 4096 = False" by (rule nth_replicate) simp
  then have "\<not> tab' ! 7" "tab' ! 21" "\<not> tab' ! 4091" "\<not> tab' ! 4096"
    using s flags [of 7] flags [of 21] flags [of 4091] flags [of 4096] by (simp_all add: in_ranges_def)
  with run show ?thesis unfolding Let_def by blast
qed

section \<open>How the options end\<close>

text \<open>What the rest of the program relies on of the configuration: a flag for every vlan, and
  forwarding targets with a port that is neither 0 nor 65535.\<close>

definition config_ok :: "SFConfig \<Rightarrow> bool" where
  "config_ok c \<longleftrightarrow> length (vlanFilter c) = FILTER_MAX_VLAN + 1 \<and>
     list_all (\<lambda>t. 0 < target_port t \<and> target_port t < 65535) (forwardingTargets c)"

definition option_exits :: "int set" where
  "option_exits = {1, -8, -19, -20, -35}"

definition options_rel :: contract where
  "options_rel s r t \<longleftrightarrow> (\<forall>e. r = Some e \<longrightarrow> e \<in> Exit ` option_exits) \<and>
     (config_ok (cfg s) \<longrightarrow> config_ok (cfg t)) \<and> smp t = smp s"

interpretation options: contract_law options_rel
  by unfold_locales (auto simp: options_rel_def)

lemma options_exit: "n \<in> option_exits \<Longrightarrow> sat options_rel (custom_exit n)"
  by (simp add: sat_def options_rel_def fail_def)

lemma options_emit: "sat options_rel (emit es)"
  by (simp add: sat_def options_rel_def emit_def)

lemma options_eprintf: "sat options_rel (eprintf fmt args)"
  unfolding eprintf_def by (rule options_emit)

lemma options_set: "(\<And>c. config_ok c \<Longrightarrow> config_ok (f c)) \<Longrightarrow> sat options_rel (set_cfg f)"
  by (simp add: sat_def options_rel_def set_cfg_def)

lemma length_set_range [simp]: "length (set_range flag i n tab) = length tab"
  using set_range_nth by blast

lemma parse_item_length: "parse_item flag tab p = Inr (tab', r) \<Longrightarrow> length tab' = length tab"
  by (auto simp: parse_item_def Let_def split: sum.splits list.splits if_splits)

lemma parse_vlans_length: "parse_vlans flag tab p = Inr tab' \<Longrightarrow> length tab' = length tab"
proof (induction flag tab p rule: parse_vlans.induct)
  case (1 flag tab p)
  then show ?case
    by (subst (asm) (2) parse_vlans.simps) (auto split: sum.splits if_splits dest: parse_item_length)
qed

lemma options_parseVlanFilter: "sat options_rel (parseVlanFilter flag p)"
proof (rule satI)
  fix s r t assume "parseVlanFilter flag p s = (r, t)"
  then show "options_rel s (ending r) t"
    by (auto simp: parseVlanFilter_def bnd_def eprintf_def emit_def fail_def set_cfg_def gets_def
      options_rel_def option_exits_def config_ok_def dest: parse_vlans_length
      split: sum.splits vlan_error.splits)
qed

lemma options_cond:
  "(c \<Longrightarrow> sat options_rel m) \<Longrightarrow> (\<not> c \<Longrightarrow> sat options_rel n) \<Longrightarrow> sat options_rel (if c then m else n)"
  by simp

lemma options_addForwardingTarget: "sat options_rel (addForwardingTarget os v)"
  unfolding addForwardingTarget_def Let_def
  by (intro options_cond options.sat_option options.sat_bnd options.sat_ret options_eprintf options_set)
    (auto simp: config_ok_def word_neq_0_conv not_le)

lemma options_instructions: "sat options_rel (instructions command)"
  unfolding instructions_def
  by (intro options.sat_block) (simp add: options_emit options_exit option_exits_def)

lemma options_valued: "sat options_rel (valued_option os isplus opt v)"
  unfolding valued_option_def
  by (intro options.sat_switch)
    (simp_all, (intro conjI options_set options.sat_option options.sat_bnd options_eprintf options_exit
        options_addForwardingTarget options.sat_block options.sat_only_if options_parseVlanFilter
        options.sat_ret impI | simp add: option_exits_def config_ok_def exclude_default_def)+)

lemma options_flag: "sat options_rel (flag_option command isplus opt)"
  unfolding flag_option_def
  by (intro options.sat_switch options_instructions) (auto intro!: options_set simp: config_ok_def)

lemma options_process: "sat options_rel (process_options os command args)"
proof (induction os command args rule: process_options.induct)
  case (2 os command a args)
  show ?case
    unfolding process_options.simps Let_def
  proof (intro options_cond options_instructions)
    assume plus: "\<not> (char_at a 0 \<noteq> 43 \<and> char_at a 0 \<noteq> 45)" and opt: "takes_value (char_at a 1)"
    show "sat options_rel (case args of [] \<Rightarrow> instructions command
      | v # rest \<Rightarrow> bnd (valued_option os (char_at a 0 = 43) (char_at a 1) v)
          (\<lambda>_. process_options os command rest))"
    proof (cases args)
      case Nil
      then show ?thesis by (simp add: options_instructions)
    next
      case (Cons v rest)
      then show ?thesis
        using "2.IH"(1) [OF refl refl refl plus opt Cons] by (simp add: options.sat_bnd options_valued)
    qed
  next
    assume "\<not> (char_at a 0 \<noteq> 43 \<and> char_at a 0 \<noteq> 45)" "\<not> takes_value (char_at a 1)"
    then show "sat options_rel (bnd (flag_option command (char_at a 0 = 43) (char_at a 1))
        (\<lambda>_. process_options os command args))"
      using "2.IH"(2) by (intro options.sat_bnd options_flag) blast
  qed
qed (simp add: options.sat_ret)

lemma options_command_line: "sat options_rel (process_command_line os command args)"
proof -
  have "sat options_rel (set_cfg (\<lambda>c. c\<lparr>sFlowInputPort := 6343, listen4 := True, listen6 := False\<rparr>))"
    by (rule options_set) (simp add: config_ok_def)
  then show ?thesis
    unfolding process_command_line_def by (intro options.sat_block) (simp add: options_process)
qed

text \<open>
  Reading the command line. It returns, or ends the program with one of five codes: 1 with the
  instructions, -8 for an unknown collector, -19 and -20 for a mistake in a filter, -35 for a bad
  forwarding target.
\<close>

theorem command_line_endings:
  "ending (fst (process_command_line os command args s)) \<in>
     insert None (Some ` Exit ` {1, -8, -19, -20, -35})"
proof -
  note options_command_line [of os command args]
  then show ?thesis
    by (cases "process_command_line os command args s")
      (auto dest!: satD simp: options_rel_def option_exits_def)
qed

text \<open>
  The configuration stays well formed: whatever is given on the command line, if the filter has
  a flag for each of the vlans 0 to 4096 and every forwarding target a port strictly between 0 and
  65535, then so it is afterwards.
\<close>

theorem command_line_keeps_config_ok:
  assumes "config_ok (cfg s)"
  shows "config_ok (cfg (snd (process_command_line os command args s)))"
proof -
  note options_command_line [of os command args]
  with assms show ?thesis
    by (cases "process_command_line os command args s") (auto dest!: satD simp: options_rel_def)
qed

theorem command_line_keeps_config_ok_witness:
  "config_ok (cfg (snd (process_command_line quiet_os ''sflowtool'' [''-v'', ''0-20,4091'', ''-l'']
     (zero_state (\<lambda>_. 0) 0))))"
proof -
  have "config_ok (cfg (zero_state (\<lambda>_. 0) 0))"
    unfolding zero_state_simps zero_config_def by (simp add: config_ok_def)
  then show ?thesis by (rule command_line_keeps_config_ok)
qed

end
