(* ===== verification/MainLoop.thy ===== *)
theory MainLoop
  imports CommandLine
begin

text \<open>
  The loop of \<open>main\<close> over \<open>select\<close> (\<open>sflowtool.c\<close> 8342-8379) and the program as a whole. What \<open>select\<close>
  answers and what then lies on the sockets comes from outside: a round is given an answer and a
  packet for each socket, a run is any sequence of rounds.
\<close>

section \<open>Rounds\<close>

text \<open>\<open>select\<close>: the number it returns, whether the error is \<open>EINTR\<close>, and which sockets are readable;
  \<open>recvfrom\<close>: the peer, the buffer, the count, and the time.\<close>

record select_answer =
  nfds :: int
  eintr :: bool
  readable4 :: bool
  readable6 :: bool

record packet =
  packet_peer :: sockaddr
  packet_buf :: memory
  packet_count :: int
  packet_time :: u32

definition receive_packet :: "services \<Rightarrow> packet \<Rightarrow> unit dec" where
  "receive_packet sv p =
     (\<lambda>s. readPacket sv (packet_peer p) (packet_buf p) (packet_count p) (tick (packet_time p) s))"

definition select_round ::
  "services \<Rightarrow> int \<times> int \<Rightarrow> select_answer \<Rightarrow> packet \<Rightarrow> packet \<Rightarrow> unit dec" where
  "select_round sv socs a p4 p6 = block [
     only_if (nfds a < 0 \<and> \<not> eintr a) (block [
       eprintf ''select() returned %d\<newline>'' [A32 (word_of_int (nfds a))],
       custom_exit (-9)]),
     only_if (nfds a > 0) (block [
       only_if (fst socs \<noteq> -1 \<and> readable4 a) (receive_packet sv p4),
       only_if (snd socs \<noteq> -1 \<and> readable6 a) (receive_packet sv p6)])]"

definition packet_ok :: "packet \<Rightarrow> bool" where
  "packet_ok p \<longleftrightarrow> packet_count p \<le> MAX_PKT_SIZ"

inductive select_loop ::
  "services \<Rightarrow> int \<times> int \<Rightarrow> state \<Rightarrow> fault option \<Rightarrow> state \<Rightarrow> bool" for sv socs s where
  select_start: "select_loop sv socs s None s"
| select_next: "select_loop sv socs s None t \<Longrightarrow> packet_ok p4 \<Longrightarrow> packet_ok p6 \<Longrightarrow>
    select_round sv socs a p4 p6 t = (r, u) \<Longrightarrow> select_loop sv socs s (ending r) u"

section \<open>The program\<close>

text \<open>
  \<open>program sv os stk command args s r t\<close>: a run of \<open>main\<close> from \<open>s\<close> is in \<open>t\<close>. It was ended by the fault
  \<open>r\<close>; or \<open>r\<close> is \<open>Some (Exit 0)\<close>, as \<open>main\<close> returned 0 at the end of a capture file; or \<open>r\<close> is \<open>None\<close> and it
  goes on to receive.
\<close>

inductive program ::
  "services \<Rightarrow> os \<Rightarrow> (nat \<Rightarrow> memory) \<Rightarrow> string \<Rightarrow> string list \<Rightarrow> state \<Rightarrow> fault option \<Rightarrow> state \<Rightarrow> bool"
  for sv os stk command args s where
  program_fails: "main_until_receiving sv os stk command args s = (Inl e, t) \<Longrightarrow>
    program sv os stk command args s (Some e) t"
| program_reads_file: "main_until_receiving sv os stk command args s = (Inr None, t) \<Longrightarrow>
    program sv os stk command args s (Some (Exit 0)) t"
| program_receives: "main_until_receiving sv os stk command args s = (Inr (Some socs), t) \<Longrightarrow>
    select_loop sv socs t r u \<Longrightarrow> program sv os stk command args s r u"

inductive_cases programE: "program sv os stk command args s r t"
inductive_cases select_endsE: "select_loop sv socs s (Some e) t"

end
