(* ===== verification/MainSpec.thy ===== *)
theory MainSpec
  imports MainLoop CommandSpec DatagramSpec
begin

text \<open>
  The program as a whole: the loop over \<open>select\<close> is the collector of \<open>Datagram\<close>, how a run of \<open>main\<close>
  can end, and that the configuration stays well formed throughout.
\<close>

section \<open>The select loop is the collector\<close>

text \<open>The packets of one round, as steps of the collector.\<close>

lemma serves_receive:
  assumes "serves sv s None t" "packet_ok p" "receive_packet sv p t = (r, u)"
  shows "serves sv s (ending r) u"
  using assms by (auto simp: receive_packet_def packet_ok_def intro: serves_packet)

lemma serves_optional:
  assumes "serves sv s None t" "packet_ok p" "only_if b (receive_packet sv p) t = (r, u)"
  shows "serves sv s (ending r) u"
  using assms by (auto simp: only_if_def ret_def serves_receive split: if_splits)

lemma serves_both:
  assumes "serves sv s None t" "packet_ok p" "packet_ok q"
    and "block [only_if b (receive_packet sv p), only_if c (receive_packet sv q)] t = (r, u)"
  shows "serves sv s (ending r) u"
proof -
  obtain r1 t1 where first: "only_if b (receive_packet sv p) t = (r1, t1)" by fastforce
  then have t1: "serves sv s (ending r1) t1" using assms(1,2) by (blast intro: serves_optional)
  show ?thesis
  proof (cases r1)
    case (Inl e)
    with first assms(4) t1 show ?thesis by (simp add: bnd_def)
  next
    case (Inr v)
    with first assms(4) have "bnd (only_if c (receive_packet sv q)) ret t1 = (r, u)"
      by (simp add: bnd_def [of "only_if b _"])
    then have "only_if c (receive_packet sv q) t1 = (r, u)" by simp
    moreover have "serves sv s None t1" using t1 Inr by simp
    ultimately show ?thesis using assms(3) by (blast intro: serves_optional)
  qed
qed

definition select_failed :: "int \<Rightarrow> state \<Rightarrow> state" where
  "select_failed n s = s\<lparr>out := out s @ [Err ''select() returned %d\<newline>'' [A32 (word_of_int n)]]\<rparr>"

lemma select_round_fails:
  "nfds a < 0 \<Longrightarrow> \<not> eintr a \<Longrightarrow>
   select_round sv socs a p q s = (Inl (Exit (-9)), select_failed (nfds a) s)"
  by (simp add: select_round_def select_failed_def dec_defs)

lemma select_round_works:
  "\<not> (nfds a < 0 \<and> \<not> eintr a) \<Longrightarrow> select_round sv socs a p q =
   (if nfds a > 0 then block [only_if (fst socs \<noteq> -1 \<and> readable4 a) (receive_packet sv p),
      only_if (snd socs \<noteq> -1 \<and> readable6 a) (receive_packet sv q)] else ret ())"
  by (rule ext) (auto simp: select_round_def only_if_def)



section \<open>How the program ends, and its configuration\<close>

text \<open>A step that ends, if it does, with a fault of \<open>E\<close>, and keeps the configuration well formed.\<close>

definition main_rel :: "fault set \<Rightarrow> contract" where
  "main_rel E s r t \<longleftrightarrow> (\<forall>e. r = Some e \<longrightarrow> e \<in> E) \<and> (config_ok (cfg s) \<longrightarrow> config_ok (cfg t))"

interpretation program: contract_law "main_rel E" for E
  by unfold_locales (auto simp: main_rel_def)

lemma main_emit: "sat (main_rel E) (emit es)"
  by (simp add: sat_def main_rel_def emit_def)

lemma main_eprintf: "sat (main_rel E) (eprintf fmt args)"
  unfolding eprintf_def by (rule main_emit)

lemma main_fail: "e \<in> E \<Longrightarrow> sat (main_rel E) (fail e)"
  by (simp add: sat_def main_rel_def fail_def)

lemma main_set: "(\<And>c. config_ok c \<Longrightarrow> config_ok (f c)) \<Longrightarrow> sat (main_rel E) (set_cfg f)"
  by (simp add: sat_def main_rel_def set_cfg_def)

lemma main_weaken: "sat (main_rel E) m \<Longrightarrow> E \<subseteq> F \<Longrightarrow> sat (main_rel F) m"
  by (auto simp: sat_def main_rel_def)

lemma main_fread: "Undef \<in> E \<Longrightarrow> sat (main_rel E) (fread room n f)"
  by (auto simp: sat_def main_rel_def fread_def Let_def fail_def ret_def)

lemmas main_intro = program.sat_ret program.sat_gets program.sat_bnd program.sat_block
  program.sat_only_if program.sat_if program.sat_option program.sat_prod list_all_step list_all_nil
  main_emit main_eprintf main_fail main_set main_fread

text \<open>Decoding a datagram, by the contracts of the collector.\<close>

definition decode_faults :: "fault set" where
  "decode_faults = {Exit (-12), Undef}"

lemma main_of_collector:
  assumes "sat exits_rel m" "sat no_abort_rel m" "sat config_rel m"
  shows "sat (main_rel decode_faults) m"
proof (rule satI)
  fix s r t assume run: "m s = (r, t)"
  from satD [OF assms(2) run] satD [OF assms(1) run]
  have "ending r = None \<or> ending r = Some (Exit (-12)) \<or> ending r = Some Undef"
    by (intro fault_cases) (simp_all add: no_abort_rel_def exits_rel_def)
  moreover from satD [OF assms(3) run] have "cfg t = cfg s" by (simp add: config_rel_def)
  ultimately show "main_rel decode_faults s (ending r) t"
    by (auto simp: main_rel_def decode_faults_def)
qed

lemma main_receive: "decode_faults \<subseteq> E \<Longrightarrow> sat (main_rel E) (receiveSFlowDatagram sv)"
  by (intro main_weaken [OF main_of_collector] exits.sat_receiveSFlowDatagram calm_receive
    config.sat_receiveSFlowDatagram)

text \<open>The command line.\<close>

lemma main_command_line:
  "Exit ` option_exits \<subseteq> E \<Longrightarrow> sat (main_rel E) (process_command_line os command args)"
  using options_command_line [of os command args]
  by (auto simp: sat_def options_rel_def main_rel_def)

text \<open>Opening the input and the output.\<close>

lemma main_sockets:
  "sat (main_rel E) (openInputUDPSocket os port)"
  "Exit (-6) \<in> E \<Longrightarrow> sat (main_rel E) (openInputUDP6Socket os port)"
  unfolding openInputUDPSocket_def openInputUDP6Socket_def by (intro main_intro | assumption)+

lemma main_fail_with: "Exit n \<in> E \<Longrightarrow> sat (main_rel E) (fail_with msg n)"
  unfolding fail_with_def by (intro main_intro)

lemma main_readPcapHeader:
  "{Exit (-30), Exit (-31), Undef} \<subseteq> E \<Longrightarrow> sat (main_rel E) (readPcapHeader sv file)"
  unfolding readPcapHeader_def Let_def
  by (intro main_intro) (auto simp: config_ok_def)

lemma main_open_input:
  assumes "{Exit (-1), Exit (-6), Exit (-7), Exit (-30), Exit (-31), Undef} \<subseteq> E"
  shows "sat (main_rel E) (open_input sv os)"
  using assms unfolding open_input_def open_input_sockets_def
  by (intro main_intro main_sockets main_fail_with main_readPcapHeader) auto

lemma main_spoof_template: "sat (main_rel E) (\<lambda>s. (Inr (), s\<lparr>spoof := spoof_template (cfg s)\<rparr>))"
  by (simp add: sat_def main_rel_def)

lemma main_openNetFlowSocket:
  assumes "{Exit (-4), Exit (-5), Exit (-11), Exit (-13), Exit (-14)} \<subseteq> E"
  shows "sat (main_rel E) (openNetFlowSocket os)"
  using assms unfolding openNetFlowSocket_def openNetFlowSocket_spoof_def
  by (intro main_intro main_fail_with main_spoof_template) (auto simp: config_ok_def)

lemma main_start_output:
  assumes "{Exit (-4), Exit (-5), Exit (-11), Exit (-13), Exit (-14)} \<subseteq> E"
  shows "sat (main_rel E) (start_output os)"
  using main_openNetFlowSocket [OF assms] unfolding start_output_def writePcapHeader_def
  by (intro main_intro)

text \<open>The capture file.\<close>

definition capture_faults :: "fault set" where
  "capture_faults = insert (Exit (-32)) (insert (Exit (-33)) (insert (Exit (-34)) decode_faults))"

lemma main_start_sample: "sat (main_rel E) (start_sample m n x)"
  by (simp add: sat_def main_rel_def start_sample_def)

lemma main_decode_frame: "decode_faults \<subseteq> E \<Longrightarrow> sat (main_rel E) (decode_frame sv buf hdr)"
  unfolding decode_frame_def Let_def
  by (intro main_intro main_start_sample main_receive)

lemma main_readPcapPacket: "sat (main_rel capture_faults) (readPcapPacket sv stk file)"
  unfolding readPcapPacket_def Let_def
  by (intro main_intro main_decode_frame) (auto simp: capture_faults_def decode_faults_def)

declare read_packets.simps [simp del]

lemma main_read_packets: "main_rel capture_faults s (ending (fst (read_packets sv stk i f s)))
    (snd (read_packets sv stk i f s))"
proof (induction sv stk i f s rule: read_packets.induct)
  case (1 sv stk i f s)
  obtain r t where run: "readPcapPacket sv (stk i) f s = (r, t)" by fastforce
  note packet = satD [OF main_readPcapPacket run]
  show ?case
  proof (cases r)
    case (Inl e)
    with run packet show ?thesis by (subst (1 2) read_packets.simps) simp
  next
    case (Inr v)
    obtain more rest where v: "v = (more, rest)" by fastforce
    show ?thesis
    proof (cases more)
      case True
      with run Inr v have "main_rel capture_faults t (ending (fst (read_packets sv stk (Suc i) rest t)))
          (snd (read_packets sv stk (Suc i) rest t))"
        by (intro 1) auto
      moreover have "main_rel capture_faults s None t" using packet Inr by simp
      ultimately show ?thesis
        using True run Inr v by (subst (1 2) read_packets.simps) (auto intro: program.compose)
    next
      case False
      with run Inr v packet show ?thesis by (subst (1 2) read_packets.simps) simp
    qed
  qed
qed

lemma main_sat_read_packets: "sat (main_rel capture_faults) (read_packets sv stk i file)"
  by (simp add: sat_def main_read_packets)

text \<open>Everything up to the loop over \<open>select\<close>.\<close>

definition start_faults :: "fault set" where
  "start_faults = Exit ` {1, -8, -19, -20, -35} \<union>
     Exit ` {-1, -6, -7, -30, -31} \<union> Exit ` {-4, -5, -11, -13, -14} \<union> capture_faults"

lemma main_until_receiving_sat: "sat (main_rel start_faults) (main_until_receiving sv os stk command args)"
proof -
  have "capture_faults \<subseteq> start_faults" "Undef \<in> start_faults"
    by (auto simp: start_faults_def capture_faults_def decode_faults_def)
  then have parts: "sat (main_rel start_faults) (process_command_line os command args)"
    "sat (main_rel start_faults) (open_input sv os)" "sat (main_rel start_faults) (start_output os)"
    "\<And>file. sat (main_rel start_faults) (read_packets sv stk 0 file)"
    by (auto intro!: main_command_line main_open_input main_start_output
        main_weaken [OF main_sat_read_packets] simp: start_faults_def option_exits_def)
  have "sat (main_rel start_faults)
      (case input of Inr socs \<Rightarrow> ret (Some socs) | Inl file \<Rightarrow> bnd (read_packets sv stk 0 file) (\<lambda>_. ret None))"
    for input
    by (cases input) (simp_all add: program.sat_ret program.sat_bnd parts)
  with parts show ?thesis
    unfolding main_until_receiving_def by (intro program.sat_bnd)
qed

lemma main_served:
  assumes "serves sv s r t"
  shows "main_rel decode_faults s r t"
proof -
  have "r = None \<or> r = Some (Exit (-12)) \<or> r = Some Undef"
  proof (rule fault_cases)
    show "\<forall>a. r \<noteq> Some (Abort a)"
      using assms satD [OF calm_readPacket]
      by (cases rule: serves.cases) (auto simp: no_abort_rel_def)
    show "\<forall>n. r = Some (Exit n) \<longrightarrow> n = -12"
      using exits.served [OF assms] by (simp add: exits_rel_def)
  qed
  with config.served [OF assms] show ?thesis
    by (auto simp: main_rel_def config_rel_def decode_faults_def)
qed

lemma select_loop_sat: "select_loop sv socs s r t \<Longrightarrow> main_rel (insert (Exit (-9)) decode_faults) s r t"
proof (induction rule: select_loop.induct)
  case select_start
  show ?case by (rule program.stutter)
next
  case (select_next t p q a r u)
  have packet: "sat (main_rel (insert (Exit (-9)) decode_faults)) (receive_packet sv p)" for p
  proof (rule satI)
    fix s r t assume "receive_packet sv p s = (r, t)"
    moreover have "sat (main_rel decode_faults) (readPacket sv peer buf cc)" for peer buf cc
      by (intro main_of_collector exits.sat_readPacket calm_readPacket config.sat_readPacket)
    ultimately have "main_rel decode_faults (tick (packet_time p) s) (ending r) t"
      unfolding receive_packet_def by (rule satD [rotated])
    then show "main_rel (insert (Exit (-9)) decode_faults) s (ending r) t"
      by (auto simp: main_rel_def tick_def)
  qed
  have "sat (main_rel (insert (Exit (-9)) decode_faults)) (select_round sv socs a p q)"
    unfolding select_round_def by (intro main_intro packet) simp_all
  from program.compose [OF select_next.IH satD [OF this select_next.hyps(4)]] show ?case .
qed


text \<open>
  C10. The configuration is well formed at every moment of a run: from the cleared one \<open>main\<close> begins
  with, through any command line, input and packets, the filter has a flag for each of the vlans 0
  to 4096, and every forwarding target has a port strictly between 0 and 65535.
\<close>

theorem program_config_ok:
  assumes "program sv os stk command args s r t" "cfg s = zero_config"
  shows "length (vlanFilter (cfg t)) = 4097 \<and>
    (\<forall>target \<in> set (forwardingTargets (cfg t)). 0 < target_port target \<and> target_port target < 65535)"
proof -
  have "config_ok (cfg s)"
    unfolding assms(2) by (simp add: config_ok_def zero_config_def)
  then have start: "config_ok (cfg u)"
    if "main_until_receiving sv os stk command args s = (q, u)" for q u
    using satD [OF main_until_receiving_sat that] by (simp add: main_rel_def)
  have loop: "config_ok (cfg u) \<Longrightarrow> config_ok (cfg t)" if "select_loop sv socs u r t" for socs u
    using select_loop_sat [OF that] by (simp add: main_rel_def)
  have "config_ok (cfg t)"
    using assms(1) by (rule programE) (auto dest: start loop)
  then show ?thesis by (simp add: config_ok_def list_all_iff)
qed

text \<open>A run that is ended by its command line, and one that listens.\<close>

lemma usage_run:
  "program calm_services quiet_os stk ''sflowtool'' [''help''] s (Some (Exit 1))
     (snd (main_until_receiving calm_services quiet_os stk ''sflowtool'' [''help''] s))"
proof (rule program_fails, rule prod_eqI)
  show "fst (main_until_receiving calm_services quiet_os stk ''sflowtool'' [''help''] s) =
      fst (Inl (Exit 1), snd (main_until_receiving calm_services quiet_os stk ''sflowtool'' [''help''] s))"
    by (simp add: main_until_receiving_def process_command_line_def instructions_def set_cfg_def
      char_at_def char_code_def dec_defs)
qed simp


theorem program_config_ok_witness:
  "length (vlanFilter (cfg (snd (main_until_receiving calm_services quiet_os (\<lambda>_ _. 0) ''sflowtool''
     [''help''] (zero_state (\<lambda>_. 0) 0))))) = 4097"
  using program_config_ok [OF usage_run [of "\<lambda>_ _. 0" "zero_state (\<lambda>_. 0) 0"]] by simp

end
