(* ===== verification/TsdbClient.thy ===== *)
theory TsdbClient
  imports CountersSample
begin

text \<open>
  The clients of the two databases and the rest of the file (\<open>sflowtool.c\<close> 531-573, 8382-8626): the
  connection to the time-series database over which the text of the \<open>Tsdb\<close> events goes, the
  connection to the key-value database that nothing opens, the system log, \<open>strlen\<close>, and the test
  with a thread.

  A client is the two globals and the static flag of its functions, and the calls it has made; what
  the operating system answers to a call is the parameter \<open>net\<close> and may depend on all calls so far.
\<close>

section \<open>Calls and answers\<close>

type_synonym tsdb_text = "(string \<times> arg list) list"

datatype net_call =
    Socket int
  | Setsockopt int string u32
  | Connect int string u16 bool
  | SendText int tsdb_text int
  | Close int
  | Syslog int string "arg list"

record net =
  net_socket :: "net_call list \<Rightarrow> int"
  net_connect :: "net_call list \<Rightarrow> int \<Rightarrow> bool"
  net_send :: "net_call list \<Rightarrow> int \<Rightarrow> tsdb_text \<Rightarrow> int"

record tcp_client =
  client_sock :: int
  client_connected :: bool
  error_flag :: bool
  calls :: "net_call list"

definition new_client :: tcp_client where
  "new_client = \<lparr>client_sock = 0, client_connected = False, error_flag = False, calls = []\<rparr>"

definition call :: "net_call \<Rightarrow> tcp_client \<Rightarrow> tcp_client" where
  "call e c = c\<lparr>calls := calls c @ [e]\<rparr>"

abbreviation LOG_ERR :: int where "LOG_ERR \<equiv> 3"
abbreviation LOG_INFO :: int where "LOG_INFO \<equiv> 6"

definition dump_syslog :: "int \<Rightarrow> string \<Rightarrow> arg list \<Rightarrow> tcp_client \<Rightarrow> tcp_client" where
  "dump_syslog level fmt args = call (Syslog level fmt args)"

section \<open>Connecting\<close>

text \<open>The two functions differ in the name in their messages.\<close>

definition servIP :: string where "servIP = ''127.0.0.1''"
definition echoServPort :: u16 where "echoServPort = 4242"

definition connect_client :: "string \<Rightarrow> net \<Rightarrow> tcp_client \<Rightarrow> int \<times> tcp_client" where
  "connect_client name net c =
     (let sock = net_socket net (calls c);
          c1 = call (Socket sock) (c\<lparr>client_sock := sock\<rparr>)
      in if sock < 0 then (1, dump_syslog LOG_ERR (''Unable to create '' @ name @ '' socket\<newline>'') [] c1)
         else
           let c2 = call (Setsockopt sock ''TCP_MAXSEG'' 4024) (call (Setsockopt sock ''TCP_NODELAY'' 1) c1);
               ok = net_connect net (calls c2) sock;
               c3 = call (Connect sock servIP echoServPort ok) c2
           in if \<not> ok then
                (let c4 = (if error_flag c3 then c3
                           else dump_syslog LOG_ERR
                             (''Unable to connect to '' @ name @ '' server %s port %d\<newline>'')
                             [AStr servIP, A32 (ucast echoServPort)] c3)
                 in (1, call (Close sock) (c4\<lparr>error_flag := True\<rparr>)))
              else
                (0, (dump_syslog LOG_INFO (''Connected to '' @ name @ '' server %s port %d\<newline>'')
                       [AStr servIP, A32 (ucast echoServPort)]
                       (c3\<lparr>client_connected := True\<rparr>))\<lparr>error_flag := False\<rparr>))"

definition opentsdb_connect_socket :: "net \<Rightarrow> tcp_client \<Rightarrow> int \<times> tcp_client" where
  "opentsdb_connect_socket = connect_client ''opentsdb''"

definition leveldb_connect_socket :: "net \<Rightarrow> tcp_client \<Rightarrow> int \<times> tcp_client" where
  "leveldb_connect_socket = connect_client ''leveldb''"

section \<open>Sending\<close>

text \<open>\<open>send(sock, data, strlen(data), MSG_DONTWAIT)\<close> and the client after it.\<close>

definition send_text :: "net \<Rightarrow> tsdb_text \<Rightarrow> tcp_client \<Rightarrow> int \<times> tcp_client" where
  "send_text net data c =
     (let n = net_send net (calls c) (client_sock c) data
      in (n, call (SendText (client_sock c) data n) c))"

definition close_client :: "tcp_client \<Rightarrow> tcp_client" where
  "close_client c = (call (Close (client_sock c)) c)\<lparr>client_connected := False\<rparr>"

definition opentsdb_simple_connect :: "net \<Rightarrow> tsdb_text \<Rightarrow> tcp_client \<Rightarrow> int \<times> tcp_client" where
  "opentsdb_simple_connect net data c =
     (let (failed, c0) = (if client_connected c then (0, c) else opentsdb_connect_socket net c)
      in if failed \<noteq> 0 then (1, c0)
         else let (n, c1) = send_text net data c0
         in if n \<ge> 0 then (0, c1)
         else let (failed, c2) = opentsdb_connect_socket net (close_client c1)
         in if failed \<noteq> 0 then (1, c2)
         else let (n, c3) = send_text net data c2
         in if n \<ge> 0 then (0, c3)
         else (1, dump_syslog LOG_ERR ''Unable to send data to opentsdb server\<newline>'' [] (close_client c3)))"

text \<open>What the readers of the tables hand over one after the other; they ignore the result.\<close>

fun send_all :: "net \<Rightarrow> tsdb_text list \<Rightarrow> tcp_client \<Rightarrow> int list \<times> tcp_client" where
  "send_all net [] c = ([], c)"
| "send_all net (d # ds) c =
     (let (r, c1) = opentsdb_simple_connect net d c; (rs, c2) = send_all net ds c1 in (r # rs, c2))"

section \<open>The unused client of the key-value database\<close>

definition leveldb_simple_connect :: "store_client \<Rightarrow> int dec" where
  "leveldb_simple_connect lv =
     bnd (gets (\<lambda>s. ldb_open lv (out s) ''testdb'')) (\<lambda>err.
     case err of
       Some e \<Rightarrow> bnd (eprintf ''Open fail.\<newline>'' []) (\<lambda>_. ret 1)
     | None \<Rightarrow> ret 0)"

section \<open>The test with a thread\<close>

text \<open>\<open>while (i--) printf(...)\<close>; the thread's lines come out before \<open>pthread_join\<close> returns. Joining a
  thread that was not created is undefined.\<close>

fun pthread_loop :: "nat \<Rightarrow> unit dec" where
  "pthread_loop 0 = ret ()"
| "pthread_loop (Suc i) = bnd (printf ''pthread: %d\<newline>'' [A32 (of_nat i)]) (\<lambda>_. pthread_loop i)"

definition pthread_func :: "unit dec" where
  "pthread_func = pthread_loop 10"

definition reduce_data_function :: "bool \<Rightarrow> int dec" where
  "reduce_data_function created =
     (if created then bnd pthread_func (\<lambda>_. ret 0) else fail Undef)"

section \<open>Length of a string\<close>

text \<open>\<open>strlen\<close> of the file: it may run for ever, so that its result is an option.\<close>

partial_function (option) strlen_loop :: "memory \<Rightarrow> addr \<Rightarrow> addr \<Rightarrow> int option" where
  "strlen_loop m str s = (if m s = 0 then Some (s - str) else strlen_loop m str (s + 1))"

definition strlen :: "memory \<Rightarrow> addr \<Rightarrow> int option" where
  "strlen m str = strlen_loop m str str"

end
