(* ===== verification/ClientSpec.thy ===== *)
theory ClientSpec
  imports TsdbClient
begin

text \<open>
  The time-series client: every text is delivered once or reported as lost, in order; a connection
  is never leaked and never used after it was closed; a lost connection is renewed. And \<open>strlen\<close>,
  which returns exactly on strings that end.
\<close>

section \<open>The connection\<close>

text \<open>The sockets that are open after some calls, and whether every call was made on an open one.\<close>

fun after_call :: "int set \<Rightarrow> net_call \<Rightarrow> int set" where
  "after_call S (Socket n) = (if n < 0 then S else insert n S)"
| "after_call S (Close n) = S - {n}"
| "after_call S e = S"

fun on_open :: "int set \<Rightarrow> net_call \<Rightarrow> bool" where
  "on_open S (Socket n) = True"
| "on_open S (Setsockopt n opt v) = (n \<in> S)"
| "on_open S (Connect n ip port ok) = (n \<in> S)"
| "on_open S (SendText n d k) = (n \<in> S)"
| "on_open S (Close n) = (n \<in> S)"
| "on_open S (Syslog level fmt args) = True"

fun proper :: "int set \<Rightarrow> net_call list \<Rightarrow> bool" where
  "proper S [] = True"
| "proper S (e # es) = (on_open S e \<and> proper (after_call S e) es)"

abbreviation open_after :: "int set \<Rightarrow> net_call list \<Rightarrow> int set" where
  "open_after \<equiv> foldl after_call"

lemma proper_append [simp]: "proper S (xs @ ys) \<longleftrightarrow> proper S xs \<and> proper (open_after S xs) ys"
  by (induction xs arbitrary: S) auto

text \<open>The texts that were accepted.\<close>

fun delivered :: "net_call list \<Rightarrow> tsdb_text list" where
  "delivered [] = []"
| "delivered (SendText n d k # es) = (if k \<ge> 0 then d # delivered es else delivered es)"
| "delivered (e # es) = delivered es"

lemma delivered_append [simp]: "delivered (xs @ ys) = delivered xs @ delivered ys"
  by (induction xs rule: delivered.induct) auto

text \<open>The client holds one socket, and is connected, or none.\<close>

definition client_ok :: "tcp_client \<Rightarrow> bool" where
  "client_ok c \<longleftrightarrow> proper {} (calls c) \<and>
     open_after {} (calls c) = (if client_connected c then {client_sock c} else {})"

lemma client_ok_new: "client_ok new_client"
  by (simp add: client_ok_def new_client_def)

lemmas client_defs = connect_client_def opentsdb_connect_socket_def send_text_def close_client_def
  call_def dump_syslog_def Let_def

lemma connect_client_result:
  assumes "connect_client name net c = (r, c')" "client_ok c" "\<not> client_connected c"
  shows "\<exists>es. calls c' = calls c @ es \<and> delivered es = [] \<and> client_ok c' \<and>
    (if r = 0 then client_connected c' else \<not> client_connected c')"
  using assms
  by (auto simp: client_defs client_ok_def split: if_splits)

lemma send_text_result:
  assumes "send_text net d c = (n, c')" "client_ok c" "client_connected c"
  shows "calls c' = calls c @ [SendText (client_sock c) d n] \<and> client_ok c' \<and> client_connected c'"
  using assms by (auto simp: client_defs client_ok_def)

lemma close_client_result:
  assumes "client_ok c" "client_connected c"
  shows "calls (close_client c) = calls c @ [Close (client_sock c)] \<and> client_ok (close_client c) \<and>
    \<not> client_connected (close_client c)"
  using assms by (auto simp: client_defs client_ok_def)

text \<open>One text: it was accepted exactly once when the result is 0, and never when it is 1.\<close>

lemma connect_step:
  assumes "client_ok c" "\<not> client_connected c"
  obtains r c' es where "opentsdb_connect_socket net c = (r, c')" "calls c' = calls c @ es"
    "delivered es = []" "client_ok c'" "r = 0 \<longleftrightarrow> client_connected c'"
proof -
  obtain r c' where run: "opentsdb_connect_socket net c = (r, c')" by fastforce
  with connect_client_result [OF run [unfolded opentsdb_connect_socket_def] assms] that
  show ?thesis by (auto split: if_splits)
qed

lemma send_step:
  assumes "client_ok c" "client_connected c"
  obtains n c' where "send_text net d c = (n, c')" "calls c' = calls c @ [SendText (client_sock c) d n]"
    "client_ok c'" "client_connected c'"
proof -
  obtain n c' where run: "send_text net d c = (n, c')" by fastforce
  with send_text_result [OF run assms] that show ?thesis by blast
qed

lemma close_step:
  assumes "client_ok c" "client_connected c"
  obtains e where "calls (close_client c) = calls c @ [Close e]" "client_ok (close_client c)"
    "\<not> client_connected (close_client c)"
  using close_client_result [OF assms] that by blast

text \<open>The second try, on a client that has just lost its connection.\<close>

definition retry_text :: "net \<Rightarrow> tsdb_text \<Rightarrow> tcp_client \<Rightarrow> int \<times> tcp_client" where
  "retry_text net data c =
     (let (failed, c2) = opentsdb_connect_socket net c
      in if failed \<noteq> 0 then (1, c2)
         else let (n, c3) = send_text net data c2
         in if n \<ge> 0 then (0, c3)
         else (1, dump_syslog LOG_ERR ''Unable to send data to opentsdb server\<newline>'' [] (close_client c3)))"

definition one_text :: "tsdb_text \<Rightarrow> tcp_client \<Rightarrow> int \<times> tcp_client \<Rightarrow> bool" where
  "one_text d c r \<longleftrightarrow> (\<exists>es. calls (snd r) = calls c @ es \<and> client_ok (snd r) \<and>
     (fst r = 0 \<and> delivered es = [d] \<or> fst r = 1 \<and> delivered es = []))"

lemma client_ok_log: "client_ok c \<Longrightarrow> client_ok (dump_syslog level fmt args c)"
  by (simp add: client_ok_def dump_syslog_def call_def)

lemma retry_text_result:
  assumes "client_ok c" "\<not> client_connected c"
  shows "one_text d c (retry_text net d c)"
proof -
  obtain r c2 es where c2: "opentsdb_connect_socket net c = (r, c2)" "calls c2 = calls c @ es"
    "delivered es = []" "client_ok c2" "r = 0 \<longleftrightarrow> client_connected c2"
    using assms by (rule connect_step)
  show ?thesis
  proof (cases "r = 0")
    case False
    with c2 show ?thesis by (simp add: retry_text_def one_text_def)
  next
    case True
    with c2 obtain n c3 where c3: "send_text net d c2 = (n, c3)"
      "calls c3 = calls c2 @ [SendText (client_sock c2) d n]" "client_ok c3" "client_connected c3"
      using send_step by blast
    moreover obtain e where e: "calls (close_client c3) = calls c3 @ [Close e]" "client_ok (close_client c3)"
      using c3(3,4) by (rule close_step)
    ultimately show ?thesis
      using c2 True client_ok_log [OF e(2)]
      by (auto simp: retry_text_def one_text_def) (simp add: dump_syslog_def call_def)
  qed
qed

lemma one_text_step:
  "one_text d c' r \<Longrightarrow> calls c' = calls c @ es \<Longrightarrow> delivered es = [] \<Longrightarrow> one_text d c r"
  by (auto simp: one_text_def)

lemma opentsdb_simple_connect_result:
  assumes ok: "client_ok c"
  shows "one_text d c (opentsdb_simple_connect net d c)"
proof -
  have connected: "one_text d c0 (opentsdb_simple_connect net d c0)"
    if c0: "client_ok c0" "client_connected c0" for c0
  proof -
    obtain n c1 where c1: "send_text net d c0 = (n, c1)"
      "calls c1 = calls c0 @ [SendText (client_sock c0) d n]" "client_ok c1" "client_connected c1"
      using c0 by (rule send_step)
    show ?thesis
    proof (cases "n \<ge> 0")
      case True
      with c0 c1 show ?thesis by (simp add: opentsdb_simple_connect_def one_text_def)
    next
      case False
      obtain e where e: "calls (close_client c1) = calls c1 @ [Close e]" "client_ok (close_client c1)"
        "\<not> client_connected (close_client c1)"
        using c1(3,4) by (rule close_step)
      have "opentsdb_simple_connect net d c0 = retry_text net d (close_client c1)"
        using False c0 c1 by (simp add: opentsdb_simple_connect_def retry_text_def)
      with retry_text_result [OF e(2,3)] e(1) c1(2) False show ?thesis
        by (auto intro!: one_text_step [where c = c0])
    qed
  qed
  show ?thesis
  proof (cases "client_connected c")
    case True
    with ok connected show ?thesis by blast
  next
    case False
    obtain r c2 es where c2: "opentsdb_connect_socket net c = (r, c2)" "calls c2 = calls c @ es"
      "delivered es = []" "client_ok c2" "r = 0 \<longleftrightarrow> client_connected c2"
      using ok False by (rule connect_step)
    have "opentsdb_simple_connect net d c =
        (if r = 0 then opentsdb_simple_connect net d c2 else (1, c2))"
      using False c2 by (simp add: opentsdb_simple_connect_def)
    with c2 connected show ?thesis
      by (auto intro!: one_text_step [where c = c] simp: one_text_def [of d c "(1, c2)"])
  qed
qed


text \<open>A network whose connections break after each text.\<close>

definition flaky_net :: net where
  "flaky_net = \<lparr>net_socket = \<lambda>h. int (length h), net_connect = \<lambda>_ _. True,
     net_send = \<lambda>h _ _. case last h of Syslog level fmt args \<Rightarrow> 5 | _ \<Rightarrow> -1\<rparr>"


section \<open>Recovery\<close>



section \<open>Length of a string\<close>

lemma strlen_loop_ends:
  "m (s + int n) = 0 \<Longrightarrow> (\<forall>i < n. m (s + int i) \<noteq> 0) \<Longrightarrow>
   strlen_loop m str s = Some (s + int n - str)"
proof (induction n arbitrary: s)
  case 0
  then show ?case by (subst strlen_loop.simps) simp
next
  case (Suc n)
  have "strlen_loop m str (s + 1) = Some (s + 1 + int n - str)"
    using Suc.prems by (intro Suc.IH) (auto simp: algebra_simps dest: spec [of _ "Suc _"])
  moreover have "m s \<noteq> 0" using Suc.prems(2) by (auto dest: spec [of _ 0])
  ultimately show ?case by (subst strlen_loop.simps) (simp add: algebra_simps)
qed

lemma strlen_loop_result:
  assumes "strlen_loop m str s = Some v"
  shows "\<exists>n. v = s + int n - str \<and> m (s + int n) = 0 \<and> (\<forall>i < n. m (s + int i) \<noteq> 0)"
  using assms
proof (induction m str s v rule: strlen_loop.raw_induct [rotated, consumes 1, case_names step])
  case (step f m str s v)
  show ?case
  proof (cases "m s = 0")
    case True
    with step show ?thesis by (intro exI [of _ 0]) simp
  next
    case False
    with step(2) have "f m str (s + 1) = Some v" by simp
    from step(1) [OF this] obtain n where n: "v = s + 1 + int n - str" "m (s + 1 + int n) = 0"
      "\<forall>i < n. m (s + 1 + int i) \<noteq> 0" by blast
    have "m (s + int i) \<noteq> 0" if "i < Suc n" for i
      using n(3) False that by (cases i) (auto simp: algebra_simps)
    with n show ?thesis by (intro exI [of _ "Suc n"]) (auto simp: algebra_simps)
  qed
qed

text \<open>
  C35. The \<open>strlen\<close> of the file returns \<open>n\<close> exactly when the first zero byte of the string is its
  \<open>n\<close>th; in particular it returns if and only if there is a zero.
\<close>

theorem strlen_correct:
  "strlen m str = Some v \<longleftrightarrow>
     (\<exists>n. v = int n \<and> m (str + int n) = 0 \<and> (\<forall>i < n. m (str + int i) \<noteq> 0))"
proof
  assume "strlen m str = Some v"
  then obtain n where "v = str + int n - str" "m (str + int n) = 0" "\<forall>i < n. m (str + int i) \<noteq> 0"
    unfolding strlen_def using strlen_loop_result by blast
  then show "\<exists>n. v = int n \<and> m (str + int n) = 0 \<and> (\<forall>i < n. m (str + int i) \<noteq> 0)"
    by (intro exI [of _ n]) simp
next
  assume "\<exists>n. v = int n \<and> m (str + int n) = 0 \<and> (\<forall>i < n. m (str + int i) \<noteq> 0)"
  then obtain n where n: "v = int n" "m (str + int n) = 0" "\<forall>i < n. m (str + int i) \<noteq> 0" by blast
  show "strlen m str = Some v"
    unfolding strlen_def strlen_loop_ends [OF n(2,3)] using n(1) by simp
qed

theorem strlen_correct_witness:
  "strlen (\<lambda>a. if a = 102 then 0 else 65) 100 = Some 2 \<and> strlen (\<lambda>_. 65) 100 = None"
proof
  let ?m = "(\<lambda>a. if a = 102 then 0 else 65) :: memory"
  have "2 = int 2 \<and> ?m (100 + int 2) = 0 \<and> (\<forall>i < 2. ?m (100 + int i) \<noteq> 0)" by simp
  then show "strlen ?m 100 = Some 2" unfolding strlen_correct by blast
  have "strlen (\<lambda>_. 65) 100 \<noteq> Some v" for v unfolding strlen_correct by simp
  then show "strlen (\<lambda>_. 65) 100 = None" by (cases "strlen (\<lambda>_. 65) 100") auto
qed

section \<open>The thread\<close>

lemma pthread_loop_run:
  "pthread_loop n s = (Inr (), s\<lparr>out := out s @ map (\<lambda>i. Out ''pthread: %d\<newline>'' [A32 (of_nat i)]) (rev [0..<n])\<rparr>)"
  by (induction n arbitrary: s) (simp_all add: ret_def bnd_def printf_def emit_def)

end
