(* ===== verification/Agent.thy ===== *)
theory Agent
  imports Datagram
begin

text \<open>
  The sender's side of the protocol: the structures of \<open>sflow.h\<close> for flow data (lines 54-515,
  536-733), counters (735-1434) and datagrams (1440-1454) as records, the unions \<open>SFLFlow_type\<close> and
  \<open>SFLCounters_type\<close> as datatypes, and their encoding on the wire as XDR. The readers never see these
  structures, they work on the bytes; \<open>AgentSpec\<close> relates the two.

  A pointer to an array with its length is a list, as is \<open>SFLString\<close>. Numbers are numbers (the
  encoding makes them big-endian), the bytes of addresses are kept in the order of the network.
\<close>

section \<open>XDR\<close>

definition enc32 :: "u32 \<Rightarrow> u8 list" where
  "enc32 w = rev (bytes_of_u32 w)"

definition enc64 :: "u64 \<Rightarrow> u8 list" where
  "enc64 w = enc32 (ucast (drop_bit 32 w)) @ enc32 (ucast w)"

definition enc_opaque :: "u8 list \<Rightarrow> u8 list" where
  "enc_opaque bs = bs @ replicate (pad4 (length bs) - length bs) 0"

text \<open>A counted array: of bytes, padded, or of words.\<close>

type_synonym SFLString = "u8 list"
type_synonym SFLLabelStack = "u32 list"
type_synonym SFLVlanStack = SFLLabelStack
type_synonym SFLCipherSuite = u32

definition enc_string :: "SFLString \<Rightarrow> u8 list" where
  "enc_string t = enc32 (of_nat (length t)) @ enc_opaque t"

definition enc_words :: "u32 list \<Rightarrow> u8 list" where
  "enc_words ws = concat (map enc32 ws)"

definition enc_stack :: "SFLLabelStack \<Rightarrow> u8 list" where
  "enc_stack ws = enc32 (of_nat (length ws)) @ enc_words ws"

definition address_size :: "SFLAddress \<Rightarrow> nat" where
  "address_size a = (if addr_type a = SFLADDRESSTYPE_IP_V4 then 4 else 16)"

definition enc_address :: "SFLAddress \<Rightarrow> u8 list" where
  "enc_address a = enc32 (addr_type a) @ take (address_size a) (addr_bytes a)"

section \<open>Packet headers and packets decoded by the agent\<close>

record SFLSampled_header =
  sh_header_protocol :: u32
  sh_frame_length :: u32
  sh_stripped :: u32
  sh_header_bytes :: "u8 list"

definition enc_header :: "SFLSampled_header \<Rightarrow> u8 list" where
  "enc_header h = enc_words [sh_header_protocol h, sh_frame_length h, sh_stripped h] @
     enc_string (sh_header_bytes h)"

record SFLSampled_ethernet =
  se_eth_len :: u32
  se_src_mac :: "u8 list"
  se_dst_mac :: "u8 list"
  se_eth_type :: u32

definition enc_ethernet :: "SFLSampled_ethernet \<Rightarrow> u8 list" where
  "enc_ethernet e = enc32 (se_eth_len e) @ se_src_mac e @ se_dst_mac e @ enc32 (se_eth_type e)"

definition enc_ipv4 :: "SFLSampled_ipv4 \<Rightarrow> u8 list" where
  "enc_ipv4 k = enc32 (v4_length k) @ enc32 (v4_protocol k) @ bytes_of_u32 (v4_src_ip k) @
     bytes_of_u32 (v4_dst_ip k) @ enc32 (v4_src_port k) @ enc32 (v4_dst_port k) @
     enc32 (v4_tcp_flags k) @ enc32 (v4_tos k)"

definition enc_ipv6 :: "SFLSampled_ipv6 \<Rightarrow> u8 list" where
  "enc_ipv6 k = enc32 (v6_length k) @ enc32 (v6_protocol k) @ v6_src_ip k @ v6_dst_ip k @
     enc32 (v6_src_port k) @ enc32 (v6_dst_port k) @ enc32 (v6_tcp_flags k) @ enc32 (v6_priority k)"

section \<open>Extended data\<close>

record SFLExtended_switch =
  sw_src_vlan :: u32
  sw_src_priority :: u32
  sw_dst_vlan :: u32
  sw_dst_priority :: u32

definition enc_switch :: "SFLExtended_switch \<Rightarrow> u8 list" where
  "enc_switch w = enc_words [sw_src_vlan w, sw_src_priority w, sw_dst_vlan w, sw_dst_priority w]"

record SFLExtended_router =
  rt_nexthop :: SFLAddress
  rt_src_mask :: u32
  rt_dst_mask :: u32

definition enc_router :: "SFLExtended_router \<Rightarrow> u8 list" where
  "enc_router r = enc_address (rt_nexthop r) @ enc_words [rt_src_mask r, rt_dst_mask r]"

record SFLExtended_as_path_segment =
  seg_type :: u32
  seg_as :: "u32 list"

definition enc_segment :: "SFLExtended_as_path_segment \<Rightarrow> u8 list" where
  "enc_segment g = enc32 (seg_type g) @ enc_stack (seg_as g)"

record SFLExtended_gateway =
  gw_nexthop :: SFLAddress
  gw_as :: u32
  gw_src_as :: u32
  gw_src_peer_as :: u32
  gw_dst_as_path :: "SFLExtended_as_path_segment list"
  gw_communities :: "u32 list"
  gw_localpref :: u32

definition enc_gateway :: "SFLExtended_gateway \<Rightarrow> u8 list" where
  "enc_gateway g = enc_address (gw_nexthop g) @ enc_words [gw_as g, gw_src_as g, gw_src_peer_as g] @
     enc32 (of_nat (length (gw_dst_as_path g))) @ concat (map enc_segment (gw_dst_as_path g)) @
     enc_stack (gw_communities g) @ enc32 (gw_localpref g)"

record SFLExtended_user =
  us_src_charset :: u32
  us_src_user :: SFLString
  us_dst_charset :: u32
  us_dst_user :: SFLString

definition enc_user :: "SFLExtended_user \<Rightarrow> u8 list" where
  "enc_user u = enc32 (us_src_charset u) @ enc_string (us_src_user u) @
     enc32 (us_dst_charset u) @ enc_string (us_dst_user u)"

record SFLExtended_url =
  ur_direction :: u32
  ur_url :: SFLString
  ur_host :: SFLString

definition enc_url :: "SFLExtended_url \<Rightarrow> u8 list" where
  "enc_url u = enc32 (ur_direction u) @ enc_string (ur_url u) @ enc_string (ur_host u)"

record SFLExtended_mpls =
  mp_nextHop :: SFLAddress
  mp_in_stack :: SFLLabelStack
  mp_out_stack :: SFLLabelStack

definition enc_mpls :: "SFLExtended_mpls \<Rightarrow> u8 list" where
  "enc_mpls m = enc_address (mp_nextHop m) @ enc_stack (mp_in_stack m) @ enc_stack (mp_out_stack m)"

record SFLExtended_nat =
  nt_src :: SFLAddress
  nt_dst :: SFLAddress

definition enc_nat :: "SFLExtended_nat \<Rightarrow> u8 list" where
  "enc_nat n = enc_address (nt_src n) @ enc_address (nt_dst n)"

record SFLExtended_nat_port =
  np_src_port :: u32
  np_dst_port :: u32

definition enc_nat_port :: "SFLExtended_nat_port \<Rightarrow> u8 list" where
  "enc_nat_port n = enc_words [np_src_port n, np_dst_port n]"

record SFLExtended_mpls_tunnel =
  tunnel_lsp_name :: SFLString
  tunnel_id :: u32
  tunnel_cos :: u32

definition enc_mpls_tunnel :: "SFLExtended_mpls_tunnel \<Rightarrow> u8 list" where
  "enc_mpls_tunnel t = enc_string (tunnel_lsp_name t) @ enc_words [tunnel_id t, tunnel_cos t]"

record SFLExtended_mpls_vc =
  vc_instance_name :: SFLString
  vll_vc_id :: u32
  vc_label_cos :: u32

definition enc_mpls_vc :: "SFLExtended_mpls_vc \<Rightarrow> u8 list" where
  "enc_mpls_vc v = enc_string (vc_instance_name v) @ enc_words [vll_vc_id v, vc_label_cos v]"

record SFLExtended_mpls_FTN =
  mplsFTNDescr :: SFLString
  mplsFTNMask :: u32

definition enc_mpls_FTN :: "SFLExtended_mpls_FTN \<Rightarrow> u8 list" where
  "enc_mpls_FTN f = enc_string (mplsFTNDescr f) @ enc32 (mplsFTNMask f)"

record SFLExtended_mpls_LDP_FEC =
  mplsFecAddrPrefixLength :: u32

record SFLExtended_vlan_tunnel =
  vlan_stack :: SFLVlanStack

section \<open>802.11\<close>

record SFLExtended_wifi_payload =
  wp_cipherSuite :: SFLCipherSuite
  wp_header :: SFLSampled_header

record SFLExtended_wifi_rx =
  rx_ssid :: SFLString
  rx_bssid :: "u8 list"
  rx_version :: u32
  rx_channel :: u32
  rx_speed :: u64
  rx_rsni :: u32
  rx_rcpi :: u32
  rx_packet_duration_us :: u32

definition enc_wifi_rx :: "SFLExtended_wifi_rx \<Rightarrow> u8 list" where
  "enc_wifi_rx w = enc_string (rx_ssid w) @ enc_opaque (rx_bssid w) @
     enc_words [rx_version w, rx_channel w] @ enc64 (rx_speed w) @
     enc_words [rx_rsni w, rx_rcpi w, rx_packet_duration_us w]"

record SFLExtended_wifi_tx =
  tx_ssid :: SFLString
  tx_bssid :: "u8 list"
  tx_version :: u32
  tx_transmissions :: u32
  tx_packet_duration_us :: u32
  tx_retrans_duration_us :: u32
  tx_channel :: u32
  tx_speed :: u64
  tx_power_mw :: u32

definition enc_wifi_tx :: "SFLExtended_wifi_tx \<Rightarrow> u8 list" where
  "enc_wifi_tx w = enc_string (tx_ssid w) @ enc_opaque (tx_bssid w) @
     enc_words [tx_version w, tx_transmissions w, tx_packet_duration_us w, tx_retrans_duration_us w,
       tx_channel w] @ enc64 (tx_speed w) @ enc32 (tx_power_mw w)"

section \<open>Sockets and transactions\<close>

record SFLExtended_socket_ipv4 =
  s4_protocol :: u32
  s4_local_ip :: u32
  s4_remote_ip :: u32
  s4_local_port :: u32
  s4_remote_port :: u32

definition enc_socket_ipv4 :: "SFLExtended_socket_ipv4 \<Rightarrow> u8 list" where
  "enc_socket_ipv4 k = enc32 (s4_protocol k) @ bytes_of_u32 (s4_local_ip k) @
     bytes_of_u32 (s4_remote_ip k) @ enc_words [s4_local_port k, s4_remote_port k]"

record SFLExtended_socket_ipv6 =
  s6_protocol :: u32
  s6_local_ip :: "u8 list"
  s6_remote_ip :: "u8 list"
  s6_local_port :: u32
  s6_remote_port :: u32

definition enc_socket_ipv6 :: "SFLExtended_socket_ipv6 \<Rightarrow> u8 list" where
  "enc_socket_ipv6 k = enc32 (s6_protocol k) @ s6_local_ip k @ s6_remote_ip k @
     enc_words [s6_local_port k, s6_remote_port k]"

record SFLSampled_memcache =
  mc_protocol :: u32
  mc_command :: u32
  mc_key :: SFLString
  mc_nkeys :: u32
  mc_value_bytes :: u32
  mc_duration_uS :: u32
  mc_status :: u32

definition enc_memcache :: "SFLSampled_memcache \<Rightarrow> u8 list" where
  "enc_memcache m = enc_words [mc_protocol m, mc_command m] @ enc_string (mc_key m) @
     enc_words [mc_nkeys m, mc_value_bytes m, mc_duration_uS m, mc_status m]"

record SFLSampled_http =
  ht_method :: u32
  ht_protocol :: u32
  ht_uri :: SFLString
  ht_host :: SFLString
  ht_referrer :: SFLString
  ht_useragent :: SFLString
  ht_xff :: SFLString
  ht_authuser :: SFLString
  ht_mimetype :: SFLString
  ht_req_bytes :: u64
  ht_resp_bytes :: u64
  ht_uS :: u32
  ht_status :: u32

text \<open>The second version of the record has the forwarded-for field and the size of the request.\<close>

definition enc_http :: "bool \<Rightarrow> SFLSampled_http \<Rightarrow> u8 list" where
  "enc_http v2 h = enc_words [ht_method h, ht_protocol h] @ enc_string (ht_uri h) @
     enc_string (ht_host h) @ enc_string (ht_referrer h) @ enc_string (ht_useragent h) @
     (if v2 then enc_string (ht_xff h) else []) @ enc_string (ht_authuser h) @
     enc_string (ht_mimetype h) @ (if v2 then enc64 (ht_req_bytes h) else []) @
     enc64 (ht_resp_bytes h) @ enc_words [ht_uS h, ht_status h]"

record SFLSampled_APP_CTXT =
  ctxt_application :: SFLString
  ctxt_operation :: SFLString
  ctxt_attributes :: SFLString

definition enc_app_ctxt :: "SFLSampled_APP_CTXT \<Rightarrow> u8 list" where
  "enc_app_ctxt c = enc_string (ctxt_application c) @ enc_string (ctxt_operation c) @
     enc_string (ctxt_attributes c)"

record SFLSampled_APP =
  app_context :: SFLSampled_APP_CTXT
  app_status_descr :: SFLString
  app_req_bytes :: u64
  app_resp_bytes :: u64
  app_duration_uS :: u32
  app_status :: u32

definition enc_app :: "SFLSampled_APP \<Rightarrow> u8 list" where
  "enc_app a = enc_app_ctxt (app_context a) @ enc_string (app_status_descr a) @
     enc64 (app_req_bytes a) @ enc64 (app_resp_bytes a) @ enc_words [app_duration_uS a, app_status a]"

record SFLSampled_APP_ACTOR =
  app_actor :: SFLString

record SFLExtended_vni =
  vni :: u32

record SFLExtended_decap =
  innerHeaderOffset :: u32

section \<open>Elements, samples and datagrams\<close>

text \<open>
  The union with the tag that selects its member: a constructor for each tag except
  \<open>SFLFLOW_EX_AGGREGATION\<close> (whose structure holds pointers to further elements), and one for the tags
  that \<open>sflow.h\<close> does not define.
\<close>

datatype (plugins only: code size) SFLFlow_type =
    El_HEADER SFLSampled_header
  | El_ETHERNET SFLSampled_ethernet
  | El_IPV4 SFLSampled_ipv4
  | El_IPV6 SFLSampled_ipv6
  | El_MEMCACHE SFLSampled_memcache
  | El_HTTP SFLSampled_http
  | El_HTTP2 SFLSampled_http
  | El_APP SFLSampled_APP
  | El_APP_CTXT SFLSampled_APP_CTXT
  | El_APP_ACTOR_INIT SFLSampled_APP_ACTOR
  | El_APP_ACTOR_TGT SFLSampled_APP_ACTOR
  | El_EX_SWITCH SFLExtended_switch
  | El_EX_ROUTER SFLExtended_router
  | El_EX_GATEWAY SFLExtended_gateway
  | El_EX_USER SFLExtended_user
  | El_EX_URL SFLExtended_url
  | El_EX_MPLS SFLExtended_mpls
  | El_EX_NAT SFLExtended_nat
  | El_EX_NAT_PORT SFLExtended_nat_port
  | El_EX_MPLS_TUNNEL SFLExtended_mpls_tunnel
  | El_EX_MPLS_VC SFLExtended_mpls_vc
  | El_EX_MPLS_FTN SFLExtended_mpls_FTN
  | El_EX_MPLS_LDP_FEC SFLExtended_mpls_LDP_FEC
  | El_EX_VLAN_TUNNEL SFLExtended_vlan_tunnel
  | El_EX_80211_PAYLOAD SFLExtended_wifi_payload
  | El_EX_80211_RX SFLExtended_wifi_rx
  | El_EX_80211_TX SFLExtended_wifi_tx
  | El_EX_SOCKET4 SFLExtended_socket_ipv4
  | El_EX_SOCKET6 SFLExtended_socket_ipv6
  | El_EX_PROXYSOCKET4 SFLExtended_socket_ipv4
  | El_EX_PROXYSOCKET6 SFLExtended_socket_ipv6
  | El_EX_L2_TUNNEL_OUT SFLSampled_ethernet
  | El_EX_L2_TUNNEL_IN SFLSampled_ethernet
  | El_EX_IPV4_TUNNEL_OUT SFLSampled_ipv4
  | El_EX_IPV4_TUNNEL_IN SFLSampled_ipv4
  | El_EX_IPV6_TUNNEL_OUT SFLSampled_ipv6
  | El_EX_IPV6_TUNNEL_IN SFLSampled_ipv6
  | El_EX_DECAP_OUT SFLExtended_decap
  | El_EX_DECAP_IN SFLExtended_decap
  | El_EX_VNI_OUT SFLExtended_vni
  | El_EX_VNI_IN SFLExtended_vni
  | El_OTHER u32 "u8 list"

primrec element_tag :: "SFLFlow_type \<Rightarrow> u32" where
  "element_tag (El_HEADER v) = SFLFLOW_HEADER"
| "element_tag (El_ETHERNET v) = SFLFLOW_ETHERNET"
| "element_tag (El_IPV4 v) = SFLFLOW_IPV4"
| "element_tag (El_IPV6 v) = SFLFLOW_IPV6"
| "element_tag (El_MEMCACHE v) = SFLFLOW_MEMCACHE"
| "element_tag (El_HTTP v) = SFLFLOW_HTTP"
| "element_tag (El_HTTP2 v) = SFLFLOW_HTTP2"
| "element_tag (El_APP v) = SFLFLOW_APP"
| "element_tag (El_APP_CTXT v) = SFLFLOW_APP_CTXT"
| "element_tag (El_APP_ACTOR_INIT v) = SFLFLOW_APP_ACTOR_INIT"
| "element_tag (El_APP_ACTOR_TGT v) = SFLFLOW_APP_ACTOR_TGT"
| "element_tag (El_EX_SWITCH v) = SFLFLOW_EX_SWITCH"
| "element_tag (El_EX_ROUTER v) = SFLFLOW_EX_ROUTER"
| "element_tag (El_EX_GATEWAY v) = SFLFLOW_EX_GATEWAY"
| "element_tag (El_EX_USER v) = SFLFLOW_EX_USER"
| "element_tag (El_EX_URL v) = SFLFLOW_EX_URL"
| "element_tag (El_EX_MPLS v) = SFLFLOW_EX_MPLS"
| "element_tag (El_EX_NAT v) = SFLFLOW_EX_NAT"
| "element_tag (El_EX_NAT_PORT v) = SFLFLOW_EX_NAT_PORT"
| "element_tag (El_EX_MPLS_TUNNEL v) = SFLFLOW_EX_MPLS_TUNNEL"
| "element_tag (El_EX_MPLS_VC v) = SFLFLOW_EX_MPLS_VC"
| "element_tag (El_EX_MPLS_FTN v) = SFLFLOW_EX_MPLS_FTN"
| "element_tag (El_EX_MPLS_LDP_FEC v) = SFLFLOW_EX_MPLS_LDP_FEC"
| "element_tag (El_EX_VLAN_TUNNEL v) = SFLFLOW_EX_VLAN_TUNNEL"
| "element_tag (El_EX_80211_PAYLOAD v) = SFLFLOW_EX_80211_PAYLOAD"
| "element_tag (El_EX_80211_RX v) = SFLFLOW_EX_80211_RX"
| "element_tag (El_EX_80211_TX v) = SFLFLOW_EX_80211_TX"
| "element_tag (El_EX_SOCKET4 v) = SFLFLOW_EX_SOCKET4"
| "element_tag (El_EX_SOCKET6 v) = SFLFLOW_EX_SOCKET6"
| "element_tag (El_EX_PROXYSOCKET4 v) = SFLFLOW_EX_PROXYSOCKET4"
| "element_tag (El_EX_PROXYSOCKET6 v) = SFLFLOW_EX_PROXYSOCKET6"
| "element_tag (El_EX_L2_TUNNEL_OUT v) = SFLFLOW_EX_L2_TUNNEL_OUT"
| "element_tag (El_EX_L2_TUNNEL_IN v) = SFLFLOW_EX_L2_TUNNEL_IN"
| "element_tag (El_EX_IPV4_TUNNEL_OUT v) = SFLFLOW_EX_IPV4_TUNNEL_OUT"
| "element_tag (El_EX_IPV4_TUNNEL_IN v) = SFLFLOW_EX_IPV4_TUNNEL_IN"
| "element_tag (El_EX_IPV6_TUNNEL_OUT v) = SFLFLOW_EX_IPV6_TUNNEL_OUT"
| "element_tag (El_EX_IPV6_TUNNEL_IN v) = SFLFLOW_EX_IPV6_TUNNEL_IN"
| "element_tag (El_EX_DECAP_OUT v) = SFLFLOW_EX_DECAP_OUT"
| "element_tag (El_EX_DECAP_IN v) = SFLFLOW_EX_DECAP_IN"
| "element_tag (El_EX_VNI_OUT v) = SFLFLOW_EX_VNI_OUT"
| "element_tag (El_EX_VNI_IN v) = SFLFLOW_EX_VNI_IN"
| "element_tag (El_OTHER tag bs) = tag"

primrec element_bytes :: "SFLFlow_type \<Rightarrow> u8 list" where
  "element_bytes (El_HEADER v) = enc_header v"
| "element_bytes (El_ETHERNET v) = enc_ethernet v"
| "element_bytes (El_IPV4 v) = enc_ipv4 v"
| "element_bytes (El_IPV6 v) = enc_ipv6 v"
| "element_bytes (El_MEMCACHE v) = enc_memcache v"
| "element_bytes (El_HTTP v) = enc_http False v"
| "element_bytes (El_HTTP2 v) = enc_http True v"
| "element_bytes (El_APP v) = enc_app v"
| "element_bytes (El_APP_CTXT v) = enc_app_ctxt v"
| "element_bytes (El_APP_ACTOR_INIT v) = enc_string (app_actor v)"
| "element_bytes (El_APP_ACTOR_TGT v) = enc_string (app_actor v)"
| "element_bytes (El_EX_SWITCH v) = enc_switch v"
| "element_bytes (El_EX_ROUTER v) = enc_router v"
| "element_bytes (El_EX_GATEWAY v) = enc_gateway v"
| "element_bytes (El_EX_USER v) = enc_user v"
| "element_bytes (El_EX_URL v) = enc_url v"
| "element_bytes (El_EX_MPLS v) = enc_mpls v"
| "element_bytes (El_EX_NAT v) = enc_nat v"
| "element_bytes (El_EX_NAT_PORT v) = enc_nat_port v"
| "element_bytes (El_EX_MPLS_TUNNEL v) = enc_mpls_tunnel v"
| "element_bytes (El_EX_MPLS_VC v) = enc_mpls_vc v"
| "element_bytes (El_EX_MPLS_FTN v) = enc_mpls_FTN v"
| "element_bytes (El_EX_MPLS_LDP_FEC v) = enc32 (mplsFecAddrPrefixLength v)"
| "element_bytes (El_EX_VLAN_TUNNEL v) = enc_stack (vlan_stack v)"
| "element_bytes (El_EX_80211_PAYLOAD v) = enc32 (wp_cipherSuite v) @ enc_header (wp_header v)"
| "element_bytes (El_EX_80211_RX v) = enc_wifi_rx v"
| "element_bytes (El_EX_80211_TX v) = enc_wifi_tx v"
| "element_bytes (El_EX_SOCKET4 v) = enc_socket_ipv4 v"
| "element_bytes (El_EX_SOCKET6 v) = enc_socket_ipv6 v"
| "element_bytes (El_EX_PROXYSOCKET4 v) = enc_socket_ipv4 v"
| "element_bytes (El_EX_PROXYSOCKET6 v) = enc_socket_ipv6 v"
| "element_bytes (El_EX_L2_TUNNEL_OUT v) = enc_ethernet v"
| "element_bytes (El_EX_L2_TUNNEL_IN v) = enc_ethernet v"
| "element_bytes (El_EX_IPV4_TUNNEL_OUT v) = enc_ipv4 v"
| "element_bytes (El_EX_IPV4_TUNNEL_IN v) = enc_ipv4 v"
| "element_bytes (El_EX_IPV6_TUNNEL_OUT v) = enc_ipv6 v"
| "element_bytes (El_EX_IPV6_TUNNEL_IN v) = enc_ipv6 v"
| "element_bytes (El_EX_DECAP_OUT v) = enc32 (innerHeaderOffset v)"
| "element_bytes (El_EX_DECAP_IN v) = enc32 (innerHeaderOffset v)"
| "element_bytes (El_EX_VNI_OUT v) = enc32 (vni v)"
| "element_bytes (El_EX_VNI_IN v) = enc32 (vni v)"
| "element_bytes (El_OTHER tag bs) = enc_opaque bs"

text \<open>The length of an element is that of its data, without the padding.\<close>

definition element_length :: "SFLFlow_type \<Rightarrow> nat" where
  "element_length el = (case el of El_OTHER tag bs \<Rightarrow> length bs | _ \<Rightarrow> length (element_bytes el))"

definition enc_element :: "SFLFlow_type \<Rightarrow> u8 list" where
  "enc_element el = enc32 (element_tag el) @ enc32 (of_nat (element_length el)) @ element_bytes el"

definition enc_elements :: "SFLFlow_type list \<Rightarrow> u8 list" where
  "enc_elements els = enc32 (of_nat (length els)) @ concat (map enc_element els)"

record SFLFlow_sample =
  fs_sequence_number :: u32
  fs_source_id :: u32
  fs_sampling_rate :: u32
  fs_sample_pool :: u32
  fs_drops :: u32
  fs_input :: u32
  fs_output :: u32
  fs_elements :: "SFLFlow_type list"

definition enc_flow_sample :: "SFLFlow_sample \<Rightarrow> u8 list" where
  "enc_flow_sample f = enc_words [fs_sequence_number f, fs_source_id f, fs_sampling_rate f,
     fs_sample_pool f, fs_drops f, fs_input f, fs_output f] @ enc_elements (fs_elements f)"

record SFLFlow_sample_expanded =
  fx_sequence_number :: u32
  fx_ds_class :: u32
  fx_ds_index :: u32
  fx_sampling_rate :: u32
  fx_sample_pool :: u32
  fx_drops :: u32
  fx_inputFormat :: u32
  fx_input :: u32
  fx_outputFormat :: u32
  fx_output :: u32
  fx_elements :: "SFLFlow_type list"

definition enc_flow_sample_expanded :: "SFLFlow_sample_expanded \<Rightarrow> u8 list" where
  "enc_flow_sample_expanded f = enc_words [fx_sequence_number f, fx_ds_class f, fx_ds_index f,
     fx_sampling_rate f, fx_sample_pool f, fx_drops f, fx_inputFormat f, fx_input f,
     fx_outputFormat f, fx_output f] @ enc_elements (fx_elements f)"

section \<open>Counters\<close>

text \<open>
  The members of the union \<open>SFLCounters_type\<close> that hold only numbers, by their tags: a block is the
  numbers, one for each field of the structure, each in four or eight bytes.
\<close>

definition counter_layouts :: "(u32 \<times> struct_layout) list" where
  "counter_layouts = [
     (SFLCOUNTERS_GENERIC, SFLIf_counters_layout),
     (SFLCOUNTERS_ETHERNET, SFLEthernet_counters_layout),
     (SFLCOUNTERS_TOKENRING, SFLTokenring_counters_layout),
     (SFLCOUNTERS_VG, SFLVg_counters_layout),
     (SFLCOUNTERS_VLAN, SFLVlan_counters_layout),
     (SFLCOUNTERS_80211, SFLWifi_counters_layout),
     (SFLCOUNTERS_PROCESSOR, SFLProcessor_counters_layout),
     (SFLCOUNTERS_RADIO, SFLRadio_counters_layout),
     (SFLCOUNTERS_HOST_PAR, SFLHost_parent_layout),
     (SFLCOUNTERS_HOST_CPU, SFLHost_cpu_counters_layout),
     (SFLCOUNTERS_HOST_MEM, SFLHost_mem_counters_layout),
     (SFLCOUNTERS_HOST_DSK, SFLHost_dsk_counters_layout),
     (SFLCOUNTERS_HOST_NIO, SFLHost_nio_counters_layout),
     (SFLCOUNTERS_HOST_VRT_NODE, SFLHost_vrt_node_counters_layout),
     (SFLCOUNTERS_HOST_VRT_CPU, SFLHost_vrt_cpu_counters_layout),
     (SFLCOUNTERS_HOST_VRT_MEM, SFLHost_vrt_mem_counters_layout),
     (SFLCOUNTERS_HOST_VRT_DSK, SFLHost_vrt_dsk_counters_layout),
     (SFLCOUNTERS_HOST_VRT_NIO, SFLHost_vrt_nio_counters_layout),
     (SFLCOUNTERS_HOST_GPU_NVML, SFLHost_gpu_nvml_layout),
     (SFLCOUNTERS_MEMCACHE2, SFLMemcache_counters_layout),
     (SFLCOUNTERS_HTTP, SFLHTTP_counters_layout),
     (SFLCOUNTERS_JMX, SFLJMX_counters_layout),
     (SFLCOUNTERS_APP_RESOURCE, SFLAPP_resources_layout),
     (SFLCOUNTERS_APP_WORKERS, SFLAPP_workers_layout),
     (SFLCOUNTERS_VDI, SFLVdi_counters_layout)]"

definition enc_field :: "nat \<Rightarrow> u64 \<Rightarrow> u8 list" where
  "enc_field n v = (if n = 8 then enc64 v else enc32 (ucast v))"

definition enc_fields :: "struct_layout \<Rightarrow> u64 list \<Rightarrow> u8 list" where
  "enc_fields l vs = concat (map2 (\<lambda>(name, n) v. enc_field n v) l vs)"

text \<open>The members with texts, addresses or counted arrays.\<close>

record SFLHostId =
  hid_hostname :: SFLString
  hid_uuid :: "u8 list"
  hid_machine_type :: u32
  hid_os_name :: u32
  hid_os_release :: SFLString

definition enc_hostid :: "SFLHostId \<Rightarrow> u8 list" where
  "enc_hostid h = enc_string (hid_hostname h) @ hid_uuid h @
     enc_words [hid_machine_type h, hid_os_name h] @ enc_string (hid_os_release h)"

type_synonym SFLMacAddress = "u8 list"

record SFLAdaptor =
  ad_ifIndex :: u32
  ad_macs :: "SFLMacAddress list"

definition enc_adaptor :: "SFLAdaptor \<Rightarrow> u8 list" where
  "enc_adaptor a = enc32 (ad_ifIndex a) @ enc32 (of_nat (length (ad_macs a))) @ concat (ad_macs a)"

definition enc_adaptors :: "SFLAdaptor list \<Rightarrow> u8 list" where
  "enc_adaptors as = enc32 (of_nat (length as)) @ concat (map enc_adaptor as)"

record SFLJVM_ID =
  vm_name :: SFLString
  vm_vendor :: SFLString
  vm_version :: SFLString

definition enc_jvm :: "SFLJVM_ID \<Rightarrow> u8 list" where
  "enc_jvm j = enc_string (vm_name j) @ enc_string (vm_vendor j) @ enc_string (vm_version j)"

record SFLAPP_counters =
  ac_application :: SFLString
  ac_status_OK :: u32
  ac_errors_OTHER :: u32
  ac_errors_TIMEOUT :: u32
  ac_errors_INTERNAL_ERROR :: u32
  ac_errors_BAD_REQUEST :: u32
  ac_errors_FORBIDDEN :: u32
  ac_errors_TOO_LARGE :: u32
  ac_errors_NOT_IMPLEMENTED :: u32
  ac_errors_NOT_FOUND :: u32
  ac_errors_UNAVAILABLE :: u32
  ac_errors_UNAUTHORIZED :: u32

definition enc_app_counters :: "SFLAPP_counters \<Rightarrow> u8 list" where
  "enc_app_counters a = enc_string (ac_application a) @ enc_words [ac_status_OK a, ac_errors_OTHER a,
     ac_errors_TIMEOUT a, ac_errors_INTERNAL_ERROR a, ac_errors_BAD_REQUEST a, ac_errors_FORBIDDEN a,
     ac_errors_TOO_LARGE a, ac_errors_NOT_IMPLEMENTED a, ac_errors_NOT_FOUND a, ac_errors_UNAVAILABLE a,
     ac_errors_UNAUTHORIZED a]"

text \<open>The port state is a union of a word and its four bytes; the addresses have two bytes of padding.\<close>

record SFLLACP_portState =
  lacp_actorAdmin :: u8
  lacp_actorOper :: u8
  lacp_partnerAdmin :: u8
  lacp_partnerOper :: u8

record SFLLACP_counters =
  lacp_actorSystemID :: "u8 list"
  lacp_partnerSystemID :: "u8 list"
  lacp_attachedAggID :: u32
  lacp_portState :: SFLLACP_portState
  lacp_LACPDUsRx :: u32
  lacp_markerPDUsRx :: u32
  lacp_markerResponsePDUsRx :: u32
  lacp_unknownRx :: u32
  lacp_illegalRx :: u32
  lacp_LACPDUsTx :: u32
  lacp_markerPDUsTx :: u32
  lacp_markerResponsePDUsTx :: u32

definition enc_lacp :: "SFLLACP_counters \<Rightarrow> u8 list" where
  "enc_lacp k = lacp_actorSystemID k @ lacp_partnerSystemID k @ enc32 (lacp_attachedAggID k) @
     (let p = lacp_portState k in
      [lacp_actorAdmin p, lacp_actorOper p, lacp_partnerAdmin p, lacp_partnerOper p]) @
     enc_words [lacp_LACPDUsRx k, lacp_markerPDUsRx k, lacp_markerResponsePDUsRx k, lacp_unknownRx k,
       lacp_illegalRx k, lacp_LACPDUsTx k, lacp_markerPDUsTx k, lacp_markerResponsePDUsTx k]"

datatype SFLCounters_type =
    Ct_NUMBERS u32 "u64 list"
  | Ct_HOST_HID SFLHostId
  | Ct_ADAPTORS "SFLAdaptor list"
  | Ct_JVM SFLJVM_ID
  | Ct_APP SFLAPP_counters
  | Ct_LACP SFLLACP_counters
  | Ct_OTHER u32 "u8 list"

primrec counter_tag :: "SFLCounters_type \<Rightarrow> u32" where
  "counter_tag (Ct_NUMBERS tag vs) = tag"
| "counter_tag (Ct_HOST_HID v) = SFLCOUNTERS_HOST_HID"
| "counter_tag (Ct_ADAPTORS v) = SFLCOUNTERS_ADAPTORS"
| "counter_tag (Ct_JVM v) = SFLCOUNTERS_JVM"
| "counter_tag (Ct_APP v) = SFLCOUNTERS_APP"
| "counter_tag (Ct_LACP v) = SFLCOUNTERS_LACP"
| "counter_tag (Ct_OTHER tag bs) = tag"

primrec counter_bytes :: "SFLCounters_type \<Rightarrow> u8 list" where
  "counter_bytes (Ct_NUMBERS tag vs) =
     (case map_of counter_layouts tag of Some l \<Rightarrow> enc_fields l vs | None \<Rightarrow> [])"
| "counter_bytes (Ct_HOST_HID v) = enc_hostid v"
| "counter_bytes (Ct_ADAPTORS v) = enc_adaptors v"
| "counter_bytes (Ct_JVM v) = enc_jvm v"
| "counter_bytes (Ct_APP v) = enc_app_counters v"
| "counter_bytes (Ct_LACP v) = enc_lacp v"
| "counter_bytes (Ct_OTHER tag bs) = enc_opaque bs"

definition counter_length :: "SFLCounters_type \<Rightarrow> nat" where
  "counter_length el = (case el of Ct_OTHER tag bs \<Rightarrow> length bs | _ \<Rightarrow> length (counter_bytes el))"

definition enc_counter_element :: "SFLCounters_type \<Rightarrow> u8 list" where
  "enc_counter_element el =
     enc32 (counter_tag el) @ enc32 (of_nat (counter_length el)) @ counter_bytes el"

definition enc_counter_elements :: "SFLCounters_type list \<Rightarrow> u8 list" where
  "enc_counter_elements els = enc32 (of_nat (length els)) @ concat (map enc_counter_element els)"

record SFLCounters_sample =
  cs_sequence_number :: u32
  cs_source_id :: u32
  cs_elements :: "SFLCounters_type list"

definition enc_counters_sample :: "SFLCounters_sample \<Rightarrow> u8 list" where
  "enc_counters_sample c =
     enc_words [cs_sequence_number c, cs_source_id c] @ enc_counter_elements (cs_elements c)"

record SFLCounters_sample_expanded =
  cx_sequence_number :: u32
  cx_ds_class :: u32
  cx_ds_index :: u32
  cx_elements :: "SFLCounters_type list"

definition enc_counters_sample_expanded :: "SFLCounters_sample_expanded \<Rightarrow> u8 list" where
  "enc_counters_sample_expanded c =
     enc_words [cx_sequence_number c, cx_ds_class c, cx_ds_index c] @ enc_counter_elements (cx_elements c)"

section \<open>Samples and datagrams\<close>

text \<open>A sample with its tag.\<close>

datatype agent_sample =
    Sample_FLOW SFLFlow_sample
  | Sample_FLOW_EXPANDED SFLFlow_sample_expanded
  | Sample_COUNTERS SFLCounters_sample
  | Sample_COUNTERS_EXPANDED SFLCounters_sample_expanded
  | Sample_OTHER u32 "u8 list"

primrec enc_sample :: "agent_sample \<Rightarrow> u8 list" where
  "enc_sample (Sample_FLOW f) = enc32 SFLFLOW_SAMPLE @
     enc32 (of_nat (length (enc_flow_sample f))) @ enc_flow_sample f"
| "enc_sample (Sample_FLOW_EXPANDED f) = enc32 SFLFLOW_SAMPLE_EXPANDED @
     enc32 (of_nat (length (enc_flow_sample_expanded f))) @ enc_flow_sample_expanded f"
| "enc_sample (Sample_COUNTERS c) = enc32 SFLCOUNTERS_SAMPLE @
     enc32 (of_nat (length (enc_counters_sample c))) @ enc_counters_sample c"
| "enc_sample (Sample_COUNTERS_EXPANDED c) = enc32 SFLCOUNTERS_SAMPLE_EXPANDED @
     enc32 (of_nat (length (enc_counters_sample_expanded c))) @ enc_counters_sample_expanded c"
| "enc_sample (Sample_OTHER tag bs) = enc32 tag @ enc_string bs"

record SFLSample_datagram_hdr =
  hd_datagram_version :: u32
  hd_agent_address :: SFLAddress
  hd_sub_agent_id :: u32
  hd_sequence_number :: u32
  hd_uptime :: u32
  hd_num_records :: u32

definition enc_datagram :: "SFLSample_datagram_hdr \<Rightarrow> agent_sample list \<Rightarrow> u8 list" where
  "enc_datagram h ss = enc32 (hd_datagram_version h) @ enc_address (hd_agent_address h) @
     enc_words [hd_sub_agent_id h, hd_sequence_number h, hd_uptime h, hd_num_records h] @
     concat (map enc_sample ss)"

end
