(* ===== verification/Achieves.thy ===== *)
theory Achieves
  imports Agent Wp
begin

text \<open>
  Total correctness of single readers: \<open>achieves m Q s\<close> says that \<open>m\<close> returns from \<open>s\<close>, with a value
  and a state that satisfy \<open>Q\<close>. As for \<open>wp\<close>, the equations in \<open>run_simps\<close> push \<open>Q\<close> back over the
  statements; a read is replaced by the bytes the agent wrote (\<open>holds\<close>).
\<close>

definition achieves :: "'a dec \<Rightarrow> ('a \<Rightarrow> state \<Rightarrow> bool) \<Rightarrow> state \<Rightarrow> bool" where
  "achieves m Q s \<longleftrightarrow> (case m s of (Inl e, t) \<Rightarrow> False | (Inr v, t) \<Rightarrow> Q v t)"

lemma achievesD: "achieves m Q s \<Longrightarrow> \<exists>v t. m s = (Inr v, t) \<and> Q v t"
  by (auto simp: achieves_def split: prod.splits sum.splits)

lemma achieves_eqD: "achieves m (\<lambda>v t. v = w \<and> t = u) s \<Longrightarrow> m s = (Inr w, u)"
  by (auto simp: achieves_def split: prod.splits sum.splits)

lemma achievesI: "m s = (Inr v, t) \<Longrightarrow> Q v t \<Longrightarrow> achieves m Q s"
  by (simp add: achieves_def)

lemma achieves_mono: "achieves m P s \<Longrightarrow> (\<And>v t. P v t \<Longrightarrow> Q v t) \<Longrightarrow> achieves m Q s"
  by (auto simp: achieves_def split: prod.splits sum.splits)

named_theorems run_simps \<open>equations for what a statement achieves\<close>

section \<open>Statements\<close>

lemma achieves_ret [run_simps]: "achieves (ret v) Q s = Q v s"
  by (simp add: achieves_def ret_def)

lemma achieves_bnd [run_simps]: "achieves (bnd m f) Q s = achieves m (\<lambda>v. achieves (f v) Q) s"
  by (simp add: achieves_def bnd_def split: prod.split sum.split)

lemma achieves_gets [run_simps]: "achieves (gets f) Q s = Q (f s) s"
  by (simp add: achieves_def gets_def)

lemma achieves_fetch [run_simps]: "achieves (fetch f) Q s = Q (f (smp s)) s"
  by (simp add: achieves_def fetch_def gets_def)

lemma achieves_put [run_simps]: "achieves (put upd v) Q s = Q () (s\<lparr>smp := upd (\<lambda>_. v) (smp s)\<rparr>)"
  by (simp add: achieves_def put_def)

lemma achieves_alter [run_simps]: "achieves (alter f) Q s = Q () (s\<lparr>smp := f (smp s)\<rparr>)"
  by (simp add: achieves_def alter_def)

lemma achieves_store [run_simps]:
  "achieves (store upd m) Q s = achieves m (\<lambda>v t. Q () (t\<lparr>smp := upd (\<lambda>_. v) (smp t)\<rparr>)) s"
  by (simp add: store_def achieves_def bnd_def put_def split: prod.split sum.split)

lemma achieves_drop_value [run_simps]: "achieves (drop_value m) Q s = achieves m (\<lambda>_. Q ()) s"
  by (simp add: drop_value_def achieves_def bnd_def ret_def split: prod.split sum.split)

lemma achieves_block [run_simps]:
  "achieves (block []) Q s = Q () s"
  "achieves (block (m # ms)) Q s = achieves m (\<lambda>_. achieves (block ms) Q) s"
  by (simp_all add: run_simps)

lemma achieves_if [run_simps]:
  "achieves (if b then m else n) Q s = (if b then achieves m Q s else achieves n Q s)"
  by simp

lemma achieves_only_if [run_simps]: "achieves (only_if b m) Q s = (if b then achieves m Q s else Q () s)"
  by (simp add: only_if_def run_simps)

lemma achieves_case_prod [run_simps]:
  "achieves (case p of (a, b) \<Rightarrow> f a b) Q s = (case p of (a, b) \<Rightarrow> achieves (f a b) Q s)"
  by (cases p) simp

lemma achieves_switch [run_simps]:
  "achieves (switch k [] d) Q s = achieves d Q s"
  "achieves (switch k ((c, m) # cs) d) Q s = (if k = c then achieves m Q s else achieves (switch k cs d) Q s)"
  by simp_all

section \<open>Output in full detail\<close>

type_synonym line = "string \<times> arg list"

definition print_lines :: "line list \<Rightarrow> event list" where
  "print_lines ls = map (\<lambda>(fmt, args). Out fmt args) ls"

lemma print_lines_simps [simp]:
  "print_lines [] = []" "print_lines ((fmt, args) # ls) = Out fmt args # print_lines ls"
  "print_lines (xs @ ys) = print_lines xs @ print_lines ys"
  by (simp_all add: print_lines_def)

abbreviation full_detail :: "state \<Rightarrow> bool" where
  "full_detail s \<equiv> outputFormat (cfg s) = SFLFMT_FULL"

lemma achieves_sf_log [run_simps]:
  "full_detail s \<Longrightarrow> achieves (sf_log fmt args) Q s = Q () (s\<lparr>out := out s @ [Out fmt args]\<rparr>)"
  by (simp add: achieves_def sf_log_run logged_def)

lemma achieves_log_field [run_simps]:
  "full_detail s \<Longrightarrow> achieves (log_field fmt f) Q s = Q () (s\<lparr>out := out s @ [Out fmt [A32 (f (smp s))]]\<rparr>)"
  by (simp add: log_field_def run_simps)

lemma achieves_log_address [run_simps]:
  "full_detail s \<Longrightarrow> achieves (log_address fmt f) Q s =
     Q () (s\<lparr>out := out s @ [Out fmt [AStr (printAddress (f (smp s)))]]\<rparr>)"
  by (simp add: log_address_def run_simps)

lemma achieves_log_text [run_simps]:
  "full_detail s \<Longrightarrow> achieves (log_text fmt f) Q s =
     Q () (s\<lparr>out := out s @ [Out fmt [AStr (cstr (f (smp s)))]]\<rparr>)"
  by (simp add: log_text_def run_simps)

lemma achieves_set_client [run_simps]: "full_detail s \<Longrightarrow> achieves (set_client c) Q s = Q () s"
  by (simp add: achieves_def set_client_def)

lemma achieves_tag_extended [run_simps]:
  "achieves (tag_extended b) Q s = Q () (s\<lparr>smp := extended_data_tag_update (\<lambda>t. t OR b) (smp s)\<rparr>)"
  by (simp add: tag_extended_def run_simps)

section \<open>Bytes in memory\<close>

definition holds :: "memory \<Rightarrow> addr \<Rightarrow> u8 list \<Rightarrow> bool" where
  "holds m p bs \<longleftrightarrow> load_bytes m p (length bs) = bs"

lemma holds_nil [simp]: "holds m p []"
  by (simp add: holds_def load_bytes_def)

lemma load_bytes_append: "load_bytes m p (k + n) = load_bytes m p k @ load_bytes m (p + int k) n"
  by (rule nth_equalityI) (auto simp: nth_append algebra_simps)

lemma holds_append: "holds m p (xs @ ys) \<longleftrightarrow> holds m p xs \<and> holds m (p + int (length xs)) ys"
  by (simp add: holds_def load_bytes_append)

lemma length_enc32 [simp]: "length (enc32 w) = 4"
  by (simp add: enc32_def)

lemma length_enc_words [simp]: "length (enc_words ws) = 4 * length ws"
  by (induction ws) (simp_all add: enc_words_def)

lemma length_encs [simp]:
  "length (enc64 v) = 8" "length (enc_opaque bs) = pad4 (length bs)"
  "length (enc_string t) = 4 + pad4 (length t)" "length (enc_stack ws) = 4 + 4 * length ws"
  by (simp_all add: enc64_def enc_opaque_def enc_string_def enc_stack_def pad4_ge)

lemma holds_raw32: "holds m p (bytes_of_u32 w) \<longleftrightarrow> load32 m p = w"
  by (auto simp: holds_def bytes_of_u32_def load_bytes_def load32_def upt_conv_Cons)

lemma enc32_bytes: "enc32 w = bytes_of_u32 (ntohl w)"
  by (simp add: enc32_def bytes_of_u32_def ntohl_def)

lemma holds_enc32: "holds m p (enc32 w) \<longleftrightarrow> ntohl (load32 m p) = w"
  unfolding enc32_bytes holds_raw32 by (metis ntohl_ntohl)

lemma holds_bytes: "holds m p bs \<Longrightarrow> n \<le> length bs \<Longrightarrow> load_bytes m p n = take n bs"
  unfolding holds_def by (metis load_bytes_append take_append length_load_bytes le_add_diff_inverse append_eq_conv_conj)

text \<open>The cursor stands before some bytes of the datagram.\<close>

definition ahead :: "state \<Rightarrow> u8 list \<Rightarrow> bool" where
  "ahead s bs \<longleftrightarrow> holds (rawSample s) (datap s) bs \<and> datap s + int (length bs) \<le> endp s"


lemma ahead_append: "ahead s (xs @ ys) \<longleftrightarrow>
    ahead s xs \<and> ahead (s\<lparr>datap := datap s + int (length xs)\<rparr>) ys \<and>
    datap s + int (length xs) + int (length ys) \<le> endp s"
  by (auto simp: ahead_def holds_append)

section \<open>Readers\<close>

lemma achieves_getData32_nobswap [run_simps]: "achieves getData32_nobswap Q s =
    (datap s + 4 \<le> endp s \<and> Q (load32 (rawSample s) (datap s)) (s\<lparr>datap := datap s + 4\<rparr>))"
  by (simp add: achieves_def getData32_nobswap_eq)

lemma achieves_getData32 [run_simps]: "achieves getData32 Q s =
    (datap s + 4 \<le> endp s \<and> Q (ntohl (load32 (rawSample s) (datap s))) (s\<lparr>datap := datap s + 4\<rparr>))"
  by (simp add: getData32_def run_simps)

lemma achieves_getData64 [run_simps]: "achieves getData64 Q s =
    (datap s + 8 \<le> endp s \<and>
     Q (push_bit 32 (ucast (ntohl (load32 (rawSample s) (datap s)))) +
        ucast (ntohl (load32 (rawSample s) (datap s + 4)))) (s\<lparr>datap := datap s + 8\<rparr>))"
  by (auto simp: getData64_def run_simps ac_simps)

lemma achieves_peek_bytes [run_simps]:
  "achieves (peek_bytes n) Q s = Q (load_bytes (rawSample s) (datap s) n) s"
  by (simp add: peek_bytes_def run_simps)

text \<open>A skip that stays in the datagram. (A count that does not fit in the datagram is refused.)\<close>

definition bounded :: "state \<Rightarrow> bool" where
  "bounded s \<longleftrightarrow> endp s = uint (rawSampleLen s) \<and> rawSampleLen s \<le> 65536"

lemma bounded_small: "bounded s \<Longrightarrow> endp s \<le> 65536"
  by (simp add: bounded_def word_le_def)

lemma bounded_update [simp]:
  "bounded (s\<lparr>smp := x\<rparr>) = bounded s" "bounded (s\<lparr>out := es\<rparr>) = bounded s"
  "bounded (s\<lparr>clf := c\<rparr>) = bounded s" "bounded (s\<lparr>datap := p\<rparr>) = bounded s"
  by (simp_all add: bounded_def)

lemma skipBytes_skips:
  assumes "bounded s" "0 \<le> datap s" "datap s + int (pad4 (unat n)) \<le> endp s"
  shows "skipBytes n s = (Inr (), s\<lparr>datap := datap s + int (pad4 (unat n))\<rparr>)"
proof -
  have "uint n \<le> endp s"
    using assms pad4_ge [of "unat n"] unfolding uint_nat by linarith
  then have "n \<le> rawSampleLen s" using assms(1) by (simp add: bounded_def word_le_def)
  moreover have "unat (rawSampleLen s) \<le> 65536"
    using assms(1) by (simp add: bounded_def word_le_nat_alt)
  ultimately have "4 * sint ((n + 3) div 4) = int (pad4 (unat n))" by (rule quads_pad4)
  with assms(3) \<open>n \<le> rawSampleLen s\<close> show ?thesis by (simp add: skipBytes_eq)
qed

lemma achieves_skipBytes [run_simps]:
  "bounded s \<Longrightarrow> 0 \<le> datap s \<Longrightarrow> datap s + int (pad4 (unat n)) \<le> endp s \<Longrightarrow>
   achieves (skipBytes n) Q s = Q () (s\<lparr>datap := datap s + int (pad4 (unat n))\<rparr>)"
  by (simp add: achieves_def skipBytes_skips)

lemma achieves_next32 [run_simps]: "full_detail s \<Longrightarrow> achieves (sf_log_next32 name) Q s =
    (datap s + 4 \<le> endp s \<and>
     (let v = ntohl (load32 (rawSample s) (datap s)) in
      Q v (s\<lparr>datap := datap s + 4, out := out s @ [Out ''%-35s %-20u\<newline>'' [AStr name, A32 v]]\<rparr>)))"
  by (simp add: sf_log_next32_def run_simps Let_def)

lemma achieves_next64 [run_simps]: "full_detail s \<Longrightarrow> achieves (sf_log_next64 name) Q s =
    (datap s + 8 \<le> endp s \<and>
     (let v = push_bit 32 (ucast (ntohl (load32 (rawSample s) (datap s)))) +
        ucast (ntohl (load32 (rawSample s) (datap s + 4))) in
      Q v (s\<lparr>datap := datap s + 8, out := out s @ [Out ''%-35s %-20lu\<newline>'' [AStr name, A64 v]]\<rparr>)))"
  by (simp add: sf_log_next64_def run_simps Let_def)

lemma enc64_split: "push_bit 32 (ucast (ucast (drop_bit 32 w) :: u32)) + ucast (ucast w :: u32) = (w :: u64)"
proof -
  have "push_bit 32 (ucast (ucast (drop_bit 32 w) :: u32) :: u64) AND ucast (ucast w :: u32) = 0"
    by (rule bit_word_eqI) (auto simp: bit_simps)
  then have "push_bit 32 (ucast (ucast (drop_bit 32 w) :: u32)) + ucast (ucast w :: u32) =
      push_bit 32 (ucast (ucast (drop_bit 32 w) :: u32)) OR (ucast (ucast w :: u32) :: u64)"
    by (rule disjunctive_add_eq_or)
  also have "\<dots> = w"
    by (rule bit_word_eqI) (auto simp: bit_simps)
  finally show ?thesis .
qed

section \<open>Text\<close>

lemma takeWhile_zero: "takeWhile (\<lambda>b. b \<noteq> 0) (xs @ 0 # ys) = takeWhile (\<lambda>b. b \<noteq> (0::u8)) xs"
  by (induction xs) auto

text \<open>What \<open>%s\<close> prints of a text read into a buffer with room for \<open>n\<close> characters.\<close>

definition shown :: "nat \<Rightarrow> u8 list \<Rightarrow> string" where
  "shown n t = cstr (take n t)"

lemma takeWhile_string_into: "length bs < length buf \<Longrightarrow>
   takeWhile (\<lambda>b. b \<noteq> 0) (string_into buf bs) = takeWhile (\<lambda>b. b \<noteq> 0) bs"
proof -
  assume "length bs < length buf"
  then obtain b r where "drop (length bs) buf = b # r" by (metis Cons_nth_drop_Suc)
  then have "string_into buf bs = bs @ 0 # r" by (simp add: string_into_def overwrite_def)
  then show ?thesis by (simp add: takeWhile_zero)
qed

lemma cstr_string_into: "length bs < length buf \<Longrightarrow> cstr (string_into buf bs) = cstr bs"
  by (simp add: cstr_def takeWhile_string_into)

lemma length_string_into: "length bs < length buf \<Longrightarrow> length (string_into buf bs) = length buf"
  by (simp add: string_into_def)

text \<open>The counted text at an address, whatever its length.\<close>

definition text_at :: "memory \<Rightarrow> addr \<Rightarrow> u8 list" where
  "text_at m p = load_bytes m (p + 4) (unat (ntohl (load32 m p)))"

lemma length_text_at: "length (text_at m p) = unat (ntohl (load32 m p))"
  by (simp add: text_at_def)

lemma small_count: "pad4 n \<le> 65536 \<Longrightarrow> unat (of_nat n :: u32) = n"
  using pad4_ge [of n] by (simp add: unat_of_nat)

lemma small_count_pos: "pad4 n \<le> 65536 \<Longrightarrow> (0 :: u32) < of_nat n \<longleftrightarrow> 0 < n"
  by (simp add: word_less_nat_alt small_count)

lemma holds_string: "pad4 (length t) \<le> 65536 \<Longrightarrow> holds m p (enc_string t) \<longleftrightarrow>
    ntohl (load32 m p) = of_nat (length t) \<and> text_at m p = t \<and>
    holds m (p + (4 + int (length t))) (replicate (pad4 (length t) - length t) 0)"
  unfolding enc_string_def enc_opaque_def holds_append holds_enc32
  by (auto simp: text_at_def holds_def small_count ac_simps)

lemma read_len: "unat (if len \<ge> bufLen then bufLen - 1 else len) = min (unat bufLen - 1) (unat (len :: u32))"
  if "0 < bufLen"
  using that unat_minus_one [of bufLen] by (auto simp: word_le_nat_alt word_gt_0)


lemma achieves_getString:
  assumes "0 < bufLen" "bounded s" "0 \<le> datap s"
    "datap s + (4 + int (pad4 (length (text_at (rawSample s) (datap s))))) \<le> endp s"
    "\<And>b u P. achieves (write b) P u = P () (u\<lparr>smp := wr b (smp u)\<rparr>)"
  shows "achieves (getString buf write bufLen) Q s =
    (let buf' = string_into buf (take (unat bufLen - 1) (text_at (rawSample s) (datap s)))
     in Q (ntohl (load32 (rawSample s) (datap s)), buf') (s\<lparr>smp := wr buf' (smp s),
          datap := datap s + (4 + int (pad4 (length (text_at (rawSample s) (datap s)))))\<rparr>))"
proof -
  have t: "load_bytes (rawSample s) (datap s + 4)
      (unat (if ntohl (load32 (rawSample s) (datap s)) \<ge> bufLen then bufLen - 1 else ntohl (load32 (rawSample s) (datap s))))
      = take (unat bufLen - 1) (text_at (rawSample s) (datap s))"
    unfolding read_len [OF assms(1)] text_at_def take_load_bytes ..
  show ?thesis
    using assms(2-4) unfolding getString_def Let_def length_text_at
    by (simp add: run_simps t assms(5)) (simp add: ac_simps)
qed

lemma achieves_getString_field [run_simps]:
  assumes "0 < bufLen" "bounded s" "0 \<le> datap s"
    "datap s + (4 + int (pad4 (length (text_at (rawSample s) (datap s))))) \<le> endp s"
  shows "achieves (getString_field sel upd bufLen) Q s =
    Q (ntohl (load32 (rawSample s) (datap s)))
      (s\<lparr>smp := upd (\<lambda>_. string_into (sel (smp s)) (take (unat bufLen - 1) (text_at (rawSample s) (datap s)))) (smp s),
         datap := datap s + (4 + int (pad4 (length (text_at (rawSample s) (datap s)))))\<rparr>)"
  unfolding getString_field_def achieves_bnd achieves_fetch
  by (subst achieves_getString [OF assms, where wr = "\<lambda>b. upd (\<lambda>_. b)"]) (simp_all add: run_simps Let_def)

lemma achieves_getString_local [run_simps]:
  assumes "0 < bufLen" "bounded s" "0 \<le> datap s"
    "datap s + (4 + int (pad4 (length (text_at (rawSample s) (datap s))))) \<le> endp s"
  shows "achieves (getString_local n bufLen) Q s =
    Q (ntohl (load32 (rawSample s) (datap s)),
       string_into (replicate n 0) (take (unat bufLen - 1) (text_at (rawSample s) (datap s))))
      (s\<lparr>datap := datap s + (4 + int (pad4 (length (text_at (rawSample s) (datap s)))))\<rparr>)"
  unfolding getString_local_def
  by (subst achieves_getString [OF assms, where wr = "\<lambda>_ x. x"]) (simp_all add: run_simps Let_def)

lemma achieves_log_string [run_simps]:
  assumes "0 < bufLen" "bounded s" "0 \<le> datap s" "full_detail s" "unat bufLen \<le> n"
    "datap s + (4 + int (pad4 (length (text_at (rawSample s) (datap s))))) \<le> endp s"
  shows "achieves (log_string n bufLen fmt) Q s =
    (let t = text_at (rawSample s) (datap s) in
     Q (string_into (replicate n 0) (take (unat bufLen - 1) t))
       (s\<lparr>datap := datap s + (4 + int (pad4 (length (text_at (rawSample s) (datap s))))),
          out := out s @ (if t = [] then [] else [Out fmt [AStr (shown (unat bufLen - 1) t)]])\<rparr>))"
proof -
  have "0 < unat bufLen" using assms(1) by (simp add: word_less_nat_alt)
  with assms(5) have "cstr (string_into (replicate n 0) (take (unat bufLen - 1) t)) = shown (unat bufLen - 1) t" for t
    by (simp add: cstr_string_into shown_def)
  moreover have "text_at (rawSample s) (datap s) = [] \<longleftrightarrow> \<not> 0 < ntohl (load32 (rawSample s) (datap s))"
    by (simp add: text_at_def word_less_nat_alt flip: length_0_conv)
  ultimately show ?thesis
    using assms by (simp add: log_string_def run_simps Let_def)
qed

section \<open>Addresses\<close>

lemma bytes_of_load32: "bytes_of_u32 (load32 m p) = load_bytes m p 4"
  by (simp add: bytes_of_u32_def load32_def load_bytes_def upt_conv_Cons)

text \<open>What \<open>getAddress\<close> makes of the bytes at an address, and how many it takes.\<close>

definition address_at :: "memory \<Rightarrow> addr \<Rightarrow> SFLAddress \<Rightarrow> SFLAddress" where
  "address_at m p a = (let ty = ntohl (load32 m p) in
     a\<lparr>addr_type := ty, addr_bytes := overwrite (addr_bytes a)
         (load_bytes m (p + 4) (if ty = SFLADDRESSTYPE_IP_V4 then 4 else 16))\<rparr>)"

definition address_extent :: "memory \<Rightarrow> addr \<Rightarrow> addr" where
  "address_extent m p = (if ntohl (load32 m p) = SFLADDRESSTYPE_IP_V4 then 8 else 20)"

lemma achieves_getAddress_field [run_simps]:
  assumes "bounded s" "0 \<le> datap s" "datap s + address_extent (rawSample s) (datap s) \<le> endp s"
    and "\<And>f g x. upd f (upd g x) = upd (f \<circ> g) x"
  shows "achieves (getAddress_field sel upd) Q s =
     Q () (s\<lparr>datap := datap s + address_extent (rawSample s) (datap s),
            smp := upd (\<lambda>_. address_at (rawSample s) (datap s) (sel (smp s))) (smp s)\<rparr>)"
proof (cases "ntohl (load32 (rawSample s) (datap s)) = SFLADDRESSTYPE_IP_V4")
  case True
  then show ?thesis
    using assms
    by (simp add: getAddress_field_def getAddress_def Let_def run_simps set_ip_v4_def
      bytes_of_load32 address_at_def address_extent_def comp_def add.commute)
next
  case False
  have pad: "pad4 16 = 16" by (simp add: pad4_def)
  have swap: "s\<lparr>smp := x, datap := p\<rparr> = s\<lparr>datap := p, smp := x\<rparr>" for x p by simp
  show ?thesis
    using assms False
    by (simp add: getAddress_field_def getAddress_def Let_def run_simps set_ip_v6_def
      address_at_def address_extent_def comp_def pad) (simp add: swap add.commute)
qed

definition shown_address :: "SFLAddress \<Rightarrow> string" where
  "shown_address a =
     (if addr_type a = SFLADDRESSTYPE_IP_V4 then
        show_dec (unat (addr_bytes a ! 0)) @ ''.'' @ show_dec (unat (addr_bytes a ! 1)) @ ''.'' @
        show_dec (unat (addr_bytes a ! 2)) @ ''.'' @ show_dec (unat (addr_bytes a ! 3))
      else hex_groups (take 16 (addr_bytes a)))"

definition address_ok :: "SFLAddress \<Rightarrow> bool" where
  "address_ok a \<longleftrightarrow> address_size a \<le> length (addr_bytes a)"

lemma length_enc_address [simp]: "address_ok a \<Longrightarrow> length (enc_address a) = 4 + address_size a"
  by (simp add: enc_address_def address_ok_def)

lemma printAddress_shown: "printAddress a = shown_address a"
  by (simp add: printAddress_def IP_to_a_def Let_def shown_address_def ip_v4_def bytes_of_u32_def)

lemma shown_address_at:
  assumes "address_ok a" "holds m p (enc_address a)"
  shows "shown_address (address_at m p b) = shown_address a" "address_extent m p = 4 + int (address_size a)"
proof -
  have ty: "ntohl (load32 m p) = addr_type a" and *: "holds m (p + 4) (take (address_size a) (addr_bytes a))"
    using assms(2) by (simp_all add: enc_address_def holds_append holds_enc32)
  have l: "load_bytes m (p + 4) (address_size a) = take (address_size a) (addr_bytes a)"
    using * assms(1) by (simp add: holds_def address_ok_def min_absorb2)
  have b: "take (address_size a) (addr_bytes (address_at m p b)) = take (address_size a) (addr_bytes a)"
    using l assms(1) by (simp add: address_at_def ty overwrite_def address_ok_def Let_def flip: address_size_def)
  then have "addr_bytes (address_at m p b) ! i = addr_bytes a ! i" if "i < address_size a" for i
    using that by (metis nth_take)
  then show "shown_address (address_at m p b) = shown_address a"
    using b by (simp add: shown_address_def address_at_def ty address_size_def Let_def split: if_splits)
  show "address_extent m p = 4 + int (address_size a)"
    by (simp add: address_extent_def ty address_size_def)
qed

end
