(* ===== verification/AgentReads.thy ===== *)
theory AgentReads
  imports Achieves
begin

text \<open>
  What the program prints of each record an agent sends. \<open>reads_as m bs ls\<close>: in full-detail mode, with
  no VLAN filter, standing before the bytes \<open>bs\<close> in a datagram, the reader \<open>m\<close> returns, consumes exactly
  \<open>bs\<close> and prints exactly the lines \<open>ls\<close>. It composes along statements, so a record whose reader prints
  what it reads is walked through with the rules \<open>reads_intro\<close>; a record that is stored in the sample
  first is run in one step with \<open>run_simps\<close>. For each structure of \<open>Agent\<close> there is the list of lines
  that stands for it, and the lemma that its reader prints them.
\<close>

section \<open>What a reader prints\<close>

definition sample_ok :: "SFSample \<Rightarrow> bool" where
  "sample_ok x \<longleftrightarrow> datagramVersion x = 5 \<and> \<not> gotIPV4 x \<and> \<not> gotIPV6 x \<and>
     length (src_user x) = 201 \<and> length (dst_user x) = 201 \<and> length (url x) = 201 \<and> length (host x) = 201"

definition ready :: "state \<Rightarrow> bool" where
  "ready s \<longleftrightarrow> full_detail s \<and> \<not> gotVlanFilter (cfg s) \<and> bounded s \<and> 0 \<le> datap s \<and> sample_ok (smp s)"

definition printed :: "state \<Rightarrow> nat \<Rightarrow> line list \<Rightarrow> state \<Rightarrow> bool" where
  "printed s n ls t \<longleftrightarrow> datap t = datap s + int n \<and> out t = out s @ print_lines ls \<and>
     rawSample t = rawSample s \<and> rawSampleLen t = rawSampleLen s \<and> endp t = endp s \<and>
     cfg t = cfg s \<and> clock t = clock s \<and> sample_ok (smp t)"

text \<open>The value the reader returns is left open.\<close>

definition reads_as :: "'a dec \<Rightarrow> u8 list \<Rightarrow> line list \<Rightarrow> bool" where
  "reads_as m bs ls \<longleftrightarrow> (\<forall>s. ready s \<and> ahead s bs \<longrightarrow> achieves m (\<lambda>_. printed s (length bs) ls) s)"

lemma reads_asI:
  assumes "\<And>s. full_detail s \<Longrightarrow> \<not> gotVlanFilter (cfg s) \<Longrightarrow> bounded s \<Longrightarrow> 0 \<le> datap s \<Longrightarrow>
    sample_ok (smp s) \<Longrightarrow> length bs \<le> 65536 \<Longrightarrow> holds (rawSample s) (datap s) bs \<Longrightarrow>
    datap s + int (length bs) \<le> endp s \<Longrightarrow> achieves m (\<lambda>_. printed s (length bs) ls) s"
  shows "reads_as m bs ls"
  unfolding reads_as_def
proof (intro allI impI)
  fix s assume s: "ready s \<and> ahead s bs"
  then have "length bs \<le> 65536" using bounded_small [of s] by (auto simp: ready_def ahead_def)
  with s assms [of s] show "achieves m (\<lambda>_. printed s (length bs) ls) s"
    by (simp add: ready_def ahead_def)
qed

abbreviation line32 :: "string \<Rightarrow> u32 \<Rightarrow> line" where
  "line32 name v \<equiv> (''%-35s %-20u\<newline>'', [AStr name, A32 v])"

abbreviation line64 :: "string \<Rightarrow> u64 \<Rightarrow> line" where
  "line64 name v \<equiv> (''%-35s %-20lu\<newline>'', [AStr name, A64 v])"

definition text_lines :: "string \<Rightarrow> nat \<Rightarrow> SFLString \<Rightarrow> line list" where
  "text_lines fmt n t = (if t = [] then [] else [(fmt, [AStr (shown n t)])])"

lemmas layout_simps = ahead_def holds_append holds_enc32 holds_raw32 holds_string enc_words_def
  small_count small_count_pos printed_def sample_ok_def text_lines_def printAddress_shown enc64_def
  enc64_split cstr_string_into length_string_into takeWhile_string_into shown_def shown_address_at

subsection \<open>Sequences\<close>

lemma ready_later: "ready s \<Longrightarrow> printed s n ls t \<Longrightarrow> ready t"
  by (auto simp: ready_def printed_def bounded_def)

lemma ahead_later: "ready s \<Longrightarrow> ahead s (xs @ ys) \<Longrightarrow> printed s (length xs) ls t \<Longrightarrow> ahead t ys"
  by (auto simp: ahead_def printed_def holds_append)

lemma printed_trans: "printed s n ls t \<Longrightarrow> printed t k ls' u \<Longrightarrow> printed s (n + k) (ls @ ls') u"
  by (simp add: printed_def)

lemma reads_asD: "reads_as m bs ls \<Longrightarrow> ready s \<Longrightarrow> ahead s bs \<Longrightarrow>
    (\<And>v t. printed s (length bs) ls t \<Longrightarrow> Q v t) \<Longrightarrow> achieves m Q s"
  unfolding reads_as_def by (blast intro: achieves_mono)

lemma reads_bnd:
  assumes "reads_as m xs ls" and "\<And>v. reads_as (f v) ys ks"
  shows "reads_as (bnd m f) (xs @ ys) (ls @ ks)"
  unfolding reads_as_def achieves_bnd
proof (intro allI impI)
  fix s assume s: "ready s \<and> ahead s (xs @ ys)"
  then have "ahead s xs" by (simp add: ahead_append)
  with assms(1) s show "achieves m (\<lambda>v. achieves (f v) (\<lambda>_. printed s (length (xs @ ys)) (ls @ ks))) s"
  proof (elim conjE reads_asD)
    fix v t assume t: "printed s (length xs) ls t"
    with s have "ready t" "ahead t ys" by (auto intro: ready_later ahead_later)
    with assms(2) show "achieves (f v) (\<lambda>_. printed s (length (xs @ ys)) (ls @ ks)) t"
      by (rule reads_asD) (auto dest: printed_trans [OF t])
  qed
qed

lemma reads_ret [intro]: "reads_as (ret v) [] []"
  by (rule reads_asI) (simp add: run_simps printed_def)

lemma reads_data32:
  assumes "reads_as (f v) bs ls"
  shows "reads_as (bnd getData32 f) (enc32 v @ bs) ls"
proof (rule reads_asI)
  fix s assume s: "full_detail s" "\<not> gotVlanFilter (cfg s)" "bounded s" "0 \<le> datap s"
    "sample_ok (smp s)" "holds (rawSample s) (datap s) (enc32 v @ bs)" "datap s + int (length (enc32 v @ bs)) \<le> endp s"
  have "achieves (f v) (\<lambda>_. printed s (length (enc32 v @ bs)) ls) (s\<lparr>datap := datap s + 4\<rparr>)"
    using s by (intro reads_asD [OF assms]) (auto simp: ready_def ahead_def holds_append printed_def)
  then show "achieves (bnd getData32 f) (\<lambda>_. printed s (length (enc32 v @ bs)) ls) s"
    using s by (simp add: run_simps holds_append holds_enc32)
qed

named_theorems reads_intro \<open>statement by statement\<close>

lemmas [reads_intro] = reads_ret reads_data32

lemma reads_data32_only [reads_intro]:
  "reads_as (f v) [] ls \<Longrightarrow> reads_as (bnd getData32 f) (enc32 v) ls"
  using reads_data32 [of f v "[]" ls] by simp

lemma reads_log [reads_intro]:
  "reads_as (f ()) bs ls \<Longrightarrow> reads_as (bnd (sf_log fmt args) f) bs ((fmt, args) # ls)"
  using reads_bnd [of "sf_log fmt args" "[]" "[(fmt, args)]" f bs ls]
    reads_asI [of "[]" "sf_log fmt args" "[(fmt, args)]"]
  by (simp add: run_simps printed_def)

lemma reads_next32 [reads_intro]:
  assumes "\<And>v. reads_as (f v) bs ls"
  shows "reads_as (bnd (sf_log_next32 name) f) (enc32 v @ bs) (line32 name v # ls)"
proof -
  have "reads_as (sf_log_next32 name) (enc32 v) [line32 name v]"
    by (rule reads_asI) (simp add: run_simps layout_simps)
  then show ?thesis using reads_bnd [OF _ assms] by fastforce
qed

lemma reads_next64 [reads_intro]:
  assumes "\<And>v. reads_as (f v) bs ls"
  shows "reads_as (bnd (sf_log_next64 name) f) (enc64 v @ bs) (line64 name v # ls)"
proof -
  have "reads_as (sf_log_next64 name) (enc64 v) [line64 name v]"
    by (rule reads_asI) (simp add: run_simps layout_simps)
  then show ?thesis using reads_bnd [OF _ assms] by fastforce
qed

lemma reads_text [reads_intro]:
  assumes "\<And>v. reads_as (f v) bs ls" "0 < bufLen" "unat bufLen \<le> n" "k = unat bufLen - 1"
  shows "reads_as (bnd (log_string n bufLen fmt) f) (enc_string t @ bs) (text_lines fmt k t @ ls)"
proof -
  have "reads_as (log_string n bufLen fmt) (enc_string t) (text_lines fmt k t)"
    using assms(2-4) by (intro reads_asI) (simp add: run_simps layout_simps)
  then show ?thesis using reads_bnd [OF _ assms(1)] by fastforce
qed

lemma reads_tag [reads_intro]: "reads_as (f ()) bs ls \<Longrightarrow> reads_as (bnd (tag_extended b) f) bs ls"
  using reads_bnd [of "tag_extended b" "[]" "[]" f bs ls] reads_asI [of "[]" "tag_extended b" "[]"]
  by (simp add: run_simps printed_def sample_ok_def)

lemma reads_no_clf [reads_intro]:
  "reads_as (bnd (gets id) (\<lambda>s. only_if (outputFormat (cfg s) = SFLFMT_CLF) (m s))) [] []"
  by (rule reads_asI) (simp add: run_simps printed_def)

text \<open>The same rules at the end of a record, where nothing follows.\<close>

lemmas reads_last [reads_intro] =
  reads_next32 [where bs = "[]", simplified] reads_next64 [where bs = "[]", simplified]
  reads_text [where bs = "[]" and ls = "[]", simplified]

lemma bnd_unit: "bnd m (\<lambda>_. ret ()) = (m :: unit dec)"
proof -
  have "(\<lambda>_ :: unit. ret ()) = ret" by (rule ext) simp
  then show ?thesis by (simp only: bnd_ret)
qed

lemma only_if_simps: "only_if True m = m" "only_if False m = ret ()"
  by (simp_all add: only_if_def)

lemmas statements = block.simps drop_value_def bnd_assoc ret_bnd only_if_simps
lemmas wire_order = enc_words_def list.map concat.simps append_Nil append_Nil2 append_assoc append_Cons

definition http_lines :: "bool \<Rightarrow> SFLSampled_http \<Rightarrow> line list" where
  "http_lines v2 h = [(''flowSampleType http\<newline>'', []), line32 ''http_method'' (ht_method h),
       line32 ''http_protocol'' (ht_protocol h)] @
     text_lines ''http_uri %s\<newline>'' 254 (ht_uri h) @
     text_lines ''http_host %s\<newline>'' 63 (ht_host h) @
     text_lines ''http_referrer %s\<newline>'' 254 (ht_referrer h) @
     text_lines ''http_useragent %s\<newline>'' 127 (ht_useragent h) @
     (if v2 then text_lines ''http_xff %s\<newline>'' 63 (ht_xff h) else []) @
     text_lines ''http_authuser %s\<newline>'' 31 (ht_authuser h) @
     text_lines ''http_mimetype %s\<newline>'' 63 (ht_mimetype h) @
     (if v2 then [line64 ''http_request_bytes'' (ht_req_bytes h)] else []) @
     [line64 ''http_bytes'' (ht_resp_bytes h), line32 ''http_duration_uS'' (ht_uS h),
      line32 ''http_status'' (ht_status h)]"

lemma reads_http_record:
  "reads_as (readFlowSample_http SFLFLOW_HTTP) (enc_http False h) (http_lines False h)"
  "reads_as (readFlowSample_http SFLFLOW_HTTP2) (enc_http True h) (http_lines True h)"
proof -
  have tag: "(SFLFLOW_HTTP = SFLFLOW_HTTP2) = False" "(SFLFLOW_HTTP2 = SFLFLOW_HTTP2) = True"
    by simp_all
  show "reads_as (readFlowSample_http SFLFLOW_HTTP) (enc_http False h) (http_lines False h)"
    "reads_as (readFlowSample_http SFLFLOW_HTTP2) (enc_http True h) (http_lines True h)"
    unfolding readFlowSample_http_def enc_http_def http_lines_def tag statements wire_order if_False if_True
    by (intro reads_intro; simp)+
qed

definition memcache_lines :: "SFLSampled_memcache \<Rightarrow> line list" where
  "memcache_lines m = [(''flowSampleType memcache\<newline>'', []),
       line32 ''memcache_op_protocol'' (mc_protocol m), line32 ''memcache_op_cmd'' (mc_command m)] @
     (if mc_key m = [] then []
      else [(''memcache_op_key %s\<newline>'', [AStr (urlencoded (take 254 (mc_key m)))])]) @
     [line32 ''memcache_op_nkeys'' (mc_nkeys m), line32 ''memcache_op_value_bytes'' (mc_value_bytes m),
      line32 ''memcache_op_duration_uS'' (mc_duration_uS m), line32 ''memcache_op_status'' (mc_status m)]"

lemma reads_key:
  assumes "reads_as (f ()) bs ls"
  shows "reads_as (bnd (getString_local 256 SFL_MAX_MEMCACHE_KEY) (\<lambda>r.
      bnd (only_if (fst r > 0) (sf_log fmt [AStr (urlencoded (snd r))])) f)) (enc_string k @ bs)
    ((if k = [] then [] else [(fmt, [AStr (urlencoded (take 254 k))])]) @ ls)"
proof -
  have "reads_as (bnd (getString_local 256 SFL_MAX_MEMCACHE_KEY) (\<lambda>r.
      only_if (fst r > 0) (sf_log fmt [AStr (urlencoded (snd r))]))) (enc_string k)
    (if k = [] then [] else [(fmt, [AStr (urlencoded (take 254 k))])])"
    by (rule reads_asI) (simp add: urlencoded_def run_simps layout_simps)
  from reads_bnd [OF this, of f bs ls] assms show ?thesis by (simp add: bnd_assoc)
qed

lemma reads_memcache: "reads_as readFlowSample_memcache (enc_memcache m) (memcache_lines m)"
  unfolding readFlowSample_memcache_def enc_memcache_def memcache_lines_def statements wire_order
  by (intro reads_intro reads_key)

definition app_ctxt_lines :: "SFLSampled_APP_CTXT \<Rightarrow> line list" where
  "app_ctxt_lines c =
     text_lines ''server_context_application %s\<newline>'' 31 (ctxt_application c) @
     text_lines ''server_context_operation %s\<newline>'' 31 (ctxt_operation c) @
     text_lines ''server_context_attributes %s\<newline>'' 254 (ctxt_attributes c)"

lemma reads_app_ctxt: "reads_as readFlowSample_APP_CTXT (enc_app_ctxt c) (app_ctxt_lines c)"
  unfolding readFlowSample_APP_CTXT_def enc_app_ctxt_def app_ctxt_lines_def statements wire_order
  by (intro reads_intro; simp)

lemma reads_app_actors:
  "reads_as readFlowSample_APP_ACTOR_INIT (enc_string t) (text_lines ''actor_initiator %s\<newline>'' 63 t)"
  "reads_as readFlowSample_APP_ACTOR_TGT (enc_string t) (text_lines ''actor_target %s\<newline>'' 63 t)"
  unfolding readFlowSample_APP_ACTOR_INIT_def readFlowSample_APP_ACTOR_TGT_def statements
  by (intro reads_intro; simp)+

text \<open>
  The application record: the structure has the duration before the status, the reader takes the
  first word for the status and prints the second as the duration.
\<close>

definition app_lines :: "SFLSampled_APP \<Rightarrow> line list" where
  "app_lines a = [(''flowSampleType applicationOperation\<newline>'', [])] @
     text_lines ''application %s\<newline>'' 31 (ctxt_application (app_context a)) @
     text_lines ''operation %s\<newline>'' 31 (ctxt_operation (app_context a)) @
     text_lines ''attributes %s\<newline>'' 254 (ctxt_attributes (app_context a)) @
     text_lines ''status_descr %s\<newline>'' 31 (app_status_descr a) @
     [line64 ''request_bytes'' (app_req_bytes a), line64 ''response_bytes'' (app_resp_bytes a),
      (''status %s\<newline>'', [AStr (SFL_APP_STATUS_names ! unat (app_duration_uS a))]),
      line32 ''duration_uS'' (app_status a)]"

lemma index_table_in: "unat i < length xs \<Longrightarrow> index_table xs i = ret (xs ! unat i)"
  by (simp add: index_table_def)

lemma reads_app:
  assumes "unat (app_duration_uS a) < length SFL_APP_STATUS_names"
  shows "reads_as readFlowSample_APP (enc_app a) (app_lines a)"
  unfolding readFlowSample_APP_def enc_app_def enc_app_ctxt_def app_lines_def statements wire_order
  using assms by (intro reads_intro; simp add: index_table_in) (intro reads_intro)

definition user_lines :: "SFLExtended_user \<Rightarrow> line list" where
  "user_lines u = [
     (''extendedType USER\<newline>'', []),
     (''src_user_charset %d\<newline>'', [A32 (us_src_charset u)]),
     (''dst_user_charset %d\<newline>'', [A32 (us_dst_charset u)]),
     (''src_user %s\<newline>'', [AStr (shown 199 (us_src_user u))]),
     (''dst_user %s\<newline>'', [AStr (shown 199 (us_dst_user u))])]"

lemma reads_user: "reads_as readExtendedUser (enc_user u) (user_lines u)"
  by (rule reads_asI)
    (simp add: readExtendedUser_def enc_user_def user_lines_def run_simps layout_simps)

definition url_lines :: "SFLExtended_url \<Rightarrow> line list" where
  "url_lines u = [
     (''extendedType URL\<newline>'', []),
     (''url_direction %u\<newline>'', [A32 (ur_direction u)]),
     (''url %s\<newline>'', [AStr (shown 199 (ur_url u))]),
     (''host %s\<newline>'', [AStr (shown 199 (ur_host u))])]"

lemma reads_url: "reads_as readExtendedUrl (enc_url u) (url_lines u)"
  by (rule reads_asI)
    (simp add: readExtendedUrl_def enc_url_def url_lines_def run_simps layout_simps)

section \<open>Addresses and tunnels\<close>

definition switch_lines :: "SFLExtended_switch \<Rightarrow> line list" where
  "switch_lines w = [
     (''extendedType SWITCH\<newline>'', []),
     (''in_vlan %u\<newline>'', [A32 (sw_src_vlan w)]),
     (''in_priority %u\<newline>'', [A32 (sw_src_priority w)]),
     (''out_vlan %u\<newline>'', [A32 (sw_dst_vlan w)]),
     (''out_priority %u\<newline>'', [A32 (sw_dst_priority w)])]"

lemma reads_switch: "reads_as readExtendedSwitch (enc_switch w) (switch_lines w)"
  by (rule reads_asI)
    (simp add: readExtendedSwitch_def enc_switch_def switch_lines_def run_simps layout_simps)

definition router_lines :: "SFLExtended_router \<Rightarrow> line list" where
  "router_lines r = [
     (''extendedType ROUTER\<newline>'', []),
     (''nextHop %s\<newline>'', [AStr (shown_address (rt_nexthop r))]),
     (''srcSubnetMask %u\<newline>'', [A32 (rt_src_mask r)]),
     (''dstSubnetMask %u\<newline>'', [A32 (rt_dst_mask r)])]"

lemma reads_router:
  "address_ok (rt_nexthop r) \<Longrightarrow> reads_as readExtendedRouter (enc_router r) (router_lines r)"
  by (rule reads_asI)
    (simp add: readExtendedRouter_def enc_router_def router_lines_def run_simps layout_simps)

definition nat_lines :: "SFLExtended_nat \<Rightarrow> line list" where
  "nat_lines n = [
     (''extendedType NAT\<newline>'', []),
     (''nat_src %s\<newline>'', [AStr (shown_address (nt_src n))]),
     (''nat_dst %s\<newline>'', [AStr (shown_address (nt_dst n))])]"

lemma reads_nat:
  "address_ok (nt_src n) \<Longrightarrow> address_ok (nt_dst n) \<Longrightarrow> reads_as readExtendedNat (enc_nat n) (nat_lines n)"
  by (rule reads_asI)
    (simp add: readExtendedNat_def enc_nat_def nat_lines_def run_simps layout_simps)

definition nat_port_lines :: "SFLExtended_nat_port \<Rightarrow> line list" where
  "nat_port_lines n = [
     (''extendedType NAT PORT\<newline>'', []),
     line32 ''nat_src_port'' (np_src_port n), line32 ''nat_dst_port'' (np_dst_port n)]"

lemma reads_nat_port: "reads_as readExtendedNatPort (enc_nat_port n) (nat_port_lines n)"
  unfolding readExtendedNatPort_def enc_nat_port_def nat_port_lines_def statements wire_order
  by (intro reads_intro)

definition mpls_tunnel_lines :: "SFLExtended_mpls_tunnel \<Rightarrow> line list" where
  "mpls_tunnel_lines t = text_lines ''mpls_tunnel_lsp_name %s\<newline>'' 99 (tunnel_lsp_name t) @
     [(''mpls_tunnel_id %u\<newline>'', [A32 (tunnel_id t)]), (''mpls_tunnel_cos %u\<newline>'', [A32 (tunnel_cos t)])]"

definition mpls_vc_lines :: "SFLExtended_mpls_vc \<Rightarrow> line list" where
  "mpls_vc_lines v = text_lines ''mpls_vc_name %s\<newline>'' 99 (vc_instance_name v) @
     [(''mpls_vll_vc_id %u\<newline>'', [A32 (vll_vc_id v)]), (''mpls_vc_cos %u\<newline>'', [A32 (vc_label_cos v)])]"

definition mpls_FTN_lines :: "SFLExtended_mpls_FTN \<Rightarrow> line list" where
  "mpls_FTN_lines f = text_lines ''mpls_ftn_descr %s\<newline>'' 99 (mplsFTNDescr f) @
     [(''mpls_ftn_mask %u\<newline>'', [A32 (mplsFTNMask f)])]"

lemma reads_mpls_names:
  "reads_as readExtendedMplsTunnel (enc_mpls_tunnel t) (mpls_tunnel_lines t)"
  "reads_as readExtendedMplsVC (enc_mpls_vc v) (mpls_vc_lines v)"
  "reads_as readExtendedMplsFTN (enc_mpls_FTN f) (mpls_FTN_lines f)"
  "reads_as readExtendedMplsLDP_FEC (enc32 n) [(''mpls_fec_addr_prefix_len %u\<newline>'', [A32 n])]"
  unfolding readExtendedMplsTunnel_def readExtendedMplsVC_def readExtendedMplsFTN_def
    readExtendedMplsLDP_FEC_def enc_mpls_tunnel_def enc_mpls_vc_def enc_mpls_FTN_def
    mpls_tunnel_lines_def mpls_vc_lines_def mpls_FTN_lines_def statements wire_order
  by (intro reads_intro; simp)+

definition decap_lines :: "string \<Rightarrow> SFLExtended_decap \<Rightarrow> line list" where
  "decap_lines prefix d = [(''extendedType %sdecap\<newline>'', [AStr prefix]),
     (''%sdecap_inner_header_offset %u\<newline>'', [AStr prefix, A32 (innerHeaderOffset d)])]"

definition vni_lines :: "string \<Rightarrow> SFLExtended_vni \<Rightarrow> line list" where
  "vni_lines prefix n = [(''extendedType %sVNI\<newline>'', [AStr prefix]),
     (''%sVNI %u\<newline>'', [AStr prefix, A32 (vni n)])]"

lemma reads_tunnels:
  "reads_as (readExtendedDecap prefix) (enc32 (innerHeaderOffset d)) (decap_lines prefix d)"
  "reads_as (readExtendedVNI prefix) (enc32 (vni n)) (vni_lines prefix n)"
  unfolding readExtendedDecap_def readExtendedVNI_def decap_lines_def vni_lines_def statements
  by (intro reads_intro)+

definition socket4_lines :: "SFLExtended_socket_ipv4 \<Rightarrow> line list" where
  "socket4_lines k = [
     (''extendedType socket4\<newline>'', []),
     line32 ''socket4_ip_protocol'' (s4_protocol k),
     (''socket4_local_ip %s\<newline>'', [AStr (IP_to_a (s4_local_ip k))]),
     (''socket4_remote_ip %s\<newline>'', [AStr (IP_to_a (s4_remote_ip k))]),
     line32 ''socket4_local_port'' (s4_local_port k),
     line32 ''socket4_remote_port'' (s4_remote_port k)]"

definition proxy_socket4_lines :: "SFLExtended_socket_ipv4 \<Rightarrow> line list" where
  "proxy_socket4_lines k = [
     (''extendedType proxy_socket4\<newline>'', []),
     line32 ''proxy_socket4_ip_protocol'' (s4_protocol k),
     (''proxy_socket4_local_ip %s\<newline>'', [AStr (IP_to_a (s4_local_ip k))]),
     (''proxy_socket4_remote_ip %s\<newline>'', [AStr (IP_to_a (s4_remote_ip k))]),
     line32 ''proxy_socket4_local_port'' (s4_local_port k),
     line32 ''proxy_socket4_remote_port'' (s4_remote_port k)]"

lemma shown_set_ip_v4: "addr_type a = SFLADDRESSTYPE_IP_V4 \<Longrightarrow> shown_address (set_ip_v4 w a) = IP_to_a w"
  by (simp add: shown_address_def set_ip_v4_def overwrite_def IP_to_a_def bytes_of_u32_def Let_def)

lemma holds_16: "length bs = 16 \<Longrightarrow> holds m p bs \<longleftrightarrow> load_bytes m p 16 = bs"
  by (simp add: holds_def)

lemma holds_8: "length bs = 8 \<Longrightarrow> holds m p bs \<longleftrightarrow>
    load_bytes m p 6 = take 6 bs \<and> load_bytes m (p + 6) 2 = drop 6 bs"
  using load_bytes_append [of m p 6 2] append_take_drop_id [of 6 bs]
  by (auto simp: holds_def)

lemma shown_set_ip_v6:
  "addr_type a = SFLADDRESSTYPE_IP_V6 \<Longrightarrow> length bs = 16 \<Longrightarrow> shown_address (set_ip_v6 bs a) = hex_groups bs"
  by (simp add: shown_address_def set_ip_v6_def overwrite_def)

lemma reads_socket4: "reads_as readExtendedSocket4 (enc_socket_ipv4 k) (socket4_lines k)"
  by (rule reads_asI)
    (simp add: readExtendedSocket4_def enc_socket_ipv4_def socket4_lines_def run_simps layout_simps
      shown_set_ip_v4)

lemma reads_proxy_socket4: "reads_as readExtendedProxySocket4 (enc_socket_ipv4 k) (proxy_socket4_lines k)"
  by (rule reads_asI)
    (simp add: readExtendedProxySocket4_def enc_socket_ipv4_def proxy_socket4_lines_def run_simps layout_simps)

definition socket6_lines :: "SFLExtended_socket_ipv6 \<Rightarrow> line list" where
  "socket6_lines k = [
     (''extendedType socket6\<newline>'', []),
     line32 ''socket6_ip_protocol'' (s6_protocol k),
     (''socket6_local_ip %s\<newline>'', [AStr (hex_groups (s6_local_ip k))]),
     (''socket6_remote_ip %s\<newline>'', [AStr (hex_groups (s6_remote_ip k))]),
     line32 ''socket6_local_port'' (s6_local_port k),
     line32 ''socket6_remote_port'' (s6_remote_port k)]"

definition proxy_socket6_lines :: "SFLExtended_socket_ipv6 \<Rightarrow> line list" where
  "proxy_socket6_lines k = [
     (''extendedType proxy_socket6\<newline>'', []),
     line32 ''proxy_socket6_ip_protocol'' (s6_protocol k),
     (''proxy_socket6_local_ip %s\<newline>'', [AStr (hex_groups (s6_local_ip k))]),
     (''proxy_socket6_remote_ip %s\<newline>'', [AStr (hex_groups (s6_remote_ip k))]),
     line32 ''proxy_socket6_local_port'' (s6_local_port k),
     line32 ''proxy_socket6_remote_port'' (s6_remote_port k)]"

definition socket6_ok :: "SFLExtended_socket_ipv6 \<Rightarrow> bool" where
  "socket6_ok k \<longleftrightarrow> length (s6_local_ip k) = 16 \<and> length (s6_remote_ip k) = 16"

lemma reads_socket6: "socket6_ok k \<Longrightarrow> reads_as readExtendedSocket6 (enc_socket_ipv6 k) (socket6_lines k)"
  by (rule reads_asI)
    (simp add: readExtendedSocket6_def enc_socket_ipv6_def socket6_lines_def socket6_ok_def run_simps
      layout_simps getIPv6_def shown_set_ip_v6 holds_16)

lemma reads_proxy_socket6:
  "socket6_ok k \<Longrightarrow> reads_as readExtendedProxySocket6 (enc_socket_ipv6 k) (proxy_socket6_lines k)"
  by (rule reads_asI)
    (simp add: readExtendedProxySocket6_def enc_socket_ipv6_def proxy_socket6_lines_def socket6_ok_def
      run_simps layout_simps getIPv6_def holds_16)


section \<open>Packet headers and decoded packets\<close>

definition header_lines :: "SFLSampled_header \<Rightarrow> line list" where
  "header_lines h = [
     (''flowSampleType HEADER\<newline>'', []),
     (''headerProtocol %u\<newline>'', [A32 (sh_header_protocol h)]),
     (''sampledPacketSize %u\<newline>'', [A32 (sh_frame_length h)]),
     (''strippedBytes %u\<newline>'', [A32 (sh_stripped h)]),
     (''headerLen %u\<newline>'', [A32 (of_nat (length (sh_header_bytes h)))]),
     (''headerBytes %s\<newline>'', [AStr (chars (printHex (sh_header_bytes h) 2000 0 2000))]),
     (''NO_DECODE headerProtocol=%d\<newline>'', [A32 (sh_header_protocol h)])]"

lemma small_sint: "pad4 n \<le> 65536 \<Longrightarrow> sint (of_nat n :: u32) = int n"
  using pad4_ge [of n] by (simp add: signed_of_nat signed_take_bit_int_eq_self)

lemma text_at_bytes: "text_at m (12 + p) = t \<Longrightarrow> load_bytes m (16 + p) (length t) = t"
  by (auto simp: text_at_def add.commute)

lemma reads_header:
  assumes "sh_header_protocol h \<in> set no_decode_protocols"
  shows "reads_as readFlowSample_header (enc_header h) (header_lines h)"
  using assms
  by (intro reads_asI)
    (simp add: readFlowSample_header_def enc_header_def header_lines_def log_header_bytes_def
      dispatch_header_def run_simps layout_simps small_sint text_at_bytes)

definition ethernet_lines :: "string \<Rightarrow> SFLSampled_ethernet \<Rightarrow> line list" where
  "ethernet_lines prefix e = [
     (''flowSampleType %sETHERNET\<newline>'', [AStr prefix]),
     (''%sethernet_type %u\<newline>'', [AStr prefix, A32 (se_eth_type e)]),
     (''%sethernet_len %u\<newline>'', [AStr prefix, A32 (se_eth_len e)]),
     (''%sethernet_src %02x%02x%02x%02x%02x%02x\<newline>'', AStr prefix # map A8 (take 6 (se_src_mac e))),
     (''%sethernet_dst %02x%02x%02x%02x%02x%02x\<newline>'', AStr prefix # map A8 (take 6 (se_dst_mac e)))]"

definition ethernet_ok :: "SFLSampled_ethernet \<Rightarrow> bool" where
  "ethernet_ok e \<longleftrightarrow> length (se_src_mac e) = 8 \<and> length (se_dst_mac e) = 8"

lemma pad4_6: "pad4 6 = 8"
  by (simp add: pad4_def)

lemma reads_ethernet_record:
  "ethernet_ok e \<Longrightarrow> reads_as (readFlowSample_ethernet prefix) (enc_ethernet e) (ethernet_lines prefix e)"
  by (rule reads_asI)
    (simp add: readFlowSample_ethernet_def enc_ethernet_def ethernet_lines_def ethernet_ok_def
      log_prefixed_def log_mac_field_def run_simps layout_simps holds_8 pad4_6 overwrite_def)

text \<open>The lines for the ports of a decoded packet, by its protocol.\<close>

definition port_lines :: "string \<Rightarrow> u32 \<Rightarrow> u32 \<Rightarrow> u32 \<Rightarrow> u32 \<Rightarrow> line list" where
  "port_lines prefix proto sport dport flags =
     (if proto = 1 then [(''%sICMPType %u\<newline>'', [AStr prefix, A32 dport])]
      else if proto = 6 then [
        (''%sTCPSrcPort %u\<newline>'', [AStr prefix, A32 sport]),
        (''%sTCPDstPort %u\<newline>'', [AStr prefix, A32 dport]),
        (''%sTCPFlags %u\<newline>'', [AStr prefix, A32 flags])]
      else if proto = 17 then [
        (''%sUDPSrcPort %u\<newline>'', [AStr prefix, A32 sport]),
        (''%sUDPDstPort %u\<newline>'', [AStr prefix, A32 dport])]
      else [])"

definition ipv4_lines :: "string \<Rightarrow> SFLSampled_ipv4 \<Rightarrow> line list" where
  "ipv4_lines prefix k = [
     (''flowSampleType %sIPV4\<newline>'', [AStr prefix]),
     (''%ssampledPacketSize %u\<newline>'', [AStr prefix, A32 (v4_length k)]),
     (''%sIPSize %u\<newline>'', [AStr prefix, A32 (v4_length k)]),
     (''%ssrcIP %s\<newline>'', [AStr prefix, AStr (IP_to_a (v4_src_ip k))]),
     (''%sdstIP %s\<newline>'', [AStr prefix, AStr (IP_to_a (v4_dst_ip k))]),
     (''%sIPProtocol %u\<newline>'', [AStr prefix, A32 (v4_protocol k)]),
     (''%sIPTOS %u\<newline>'', [AStr prefix, A32 (v4_tos k)])] @
     port_lines prefix (v4_protocol k) (v4_src_port k) (v4_dst_port k) (v4_tcp_flags k)"

lemma achieves_log_prefixed [run_simps]:
  "full_detail s \<Longrightarrow> achieves (log_prefixed fmt prefix f) Q s =
     Q () (s\<lparr>out := out s @ [Out fmt [AStr prefix, A32 (f (smp s))]]\<rparr>)"
  by (simp add: log_prefixed_def run_simps)

lemma achieves_log_prefixed_address [run_simps]:
  "full_detail s \<Longrightarrow> achieves (log_prefixed_address fmt prefix f) Q s =
     Q () (s\<lparr>out := out s @ [Out fmt [AStr prefix, AStr (printAddress (f (smp s)))]]\<rparr>)"
  by (simp add: log_prefixed_address_def run_simps)

lemma achieves_log_ports [run_simps]:
  "full_detail s \<Longrightarrow> achieves (log_ports prefix flags) Q s =
     Q () (s\<lparr>smp := (if dcd_ipProtocol (smp s) = 6 then (smp s)\<lparr>dcd_tcpFlags := flags\<rparr> else smp s),
       out := out s @ print_lines (port_lines prefix (dcd_ipProtocol (smp s)) (dcd_sport (smp s))
         (dcd_dport (smp s)) flags)\<rparr>)"
  by (simp add: log_ports_def run_simps port_lines_def)

lemma shown_set_v4: "shown_address (set_v4 w a) = IP_to_a w"
  by (simp add: set_v4_def shown_set_ip_v4)

lemma shown_set_v6: "length bs = 16 \<Longrightarrow> shown_address (set_v6 bs a) = hex_groups bs"
  by (simp add: set_v6_def shown_set_ip_v6)

lemma load_ipv4:
  assumes "holds m p (enc_ipv4 k)"
  shows "ntohl (v4_length (load_sampled_ipv4 m p)) = v4_length k"
    "ntohl (v4_protocol (load_sampled_ipv4 m p)) = v4_protocol k"
    "v4_src_ip (load_sampled_ipv4 m p) = v4_src_ip k" "v4_dst_ip (load_sampled_ipv4 m p) = v4_dst_ip k"
    "ntohl (v4_src_port (load_sampled_ipv4 m p)) = v4_src_port k"
    "ntohl (v4_dst_port (load_sampled_ipv4 m p)) = v4_dst_port k"
    "ntohl (v4_tcp_flags (load_sampled_ipv4 m p)) = v4_tcp_flags k"
    "ntohl (v4_tos (load_sampled_ipv4 m p)) = v4_tos k"
  using assms
  by (simp_all add: enc_ipv4_def load_sampled_ipv4_def holds_append holds_enc32 holds_raw32 add.commute [of p])

lemma pad4_32: "pad4 32 = 32" and pad4_56: "pad4 56 = 56"
  by (simp_all add: pad4_def)

lemma reads_ipv4: "reads_as (readFlowSample_IPv4 prefix) (enc_ipv4 k) (ipv4_lines prefix k)"
proof (rule reads_asI)
  fix s assume "full_detail s" "bounded s" "0 \<le> datap s" "sample_ok (smp s)"
    and h: "holds (rawSample s) (datap s) (enc_ipv4 k)"
    and fits: "datap s + int (length (enc_ipv4 k)) \<le> endp s"
  moreover have "length (enc_ipv4 k) = 32" by (simp add: enc_ipv4_def)
  ultimately show "achieves (readFlowSample_IPv4 prefix)
      (\<lambda>_. printed s (length (enc_ipv4 k)) (ipv4_lines prefix k)) s"
    by (simp add: readFlowSample_IPv4_def ipv4_lines_def run_simps load_ipv4 [OF h] shown_set_v4
      pad4_32 printAddress_shown printed_def sample_ok_def)
qed

definition ipv6_lines :: "string \<Rightarrow> SFLSampled_ipv6 \<Rightarrow> line list" where
  "ipv6_lines prefix k = [
     (''flowSampleType %sIPV6\<newline>'', [AStr prefix]),
     (''%ssampledPacketSize %u\<newline>'', [AStr prefix, A32 (v6_length k)]),
     (''%sIPSize %u\<newline>'', [AStr prefix, A32 (v6_length k)]),
     (''%ssrcIP6 %s\<newline>'', [AStr prefix, AStr (hex_groups (v6_src_ip k))]),
     (''%sdstIP6 %s\<newline>'', [AStr prefix, AStr (hex_groups (v6_dst_ip k))]),
     (''%sIPProtocol %u\<newline>'', [AStr prefix, A32 (v6_protocol k)]),
     (''%spriority %u\<newline>'', [AStr prefix, A32 (v6_priority k)])] @
     port_lines prefix (v6_protocol k) (v6_src_port k) (v6_dst_port k) (v6_tcp_flags k)"

definition ipv6_ok :: "SFLSampled_ipv6 \<Rightarrow> bool" where
  "ipv6_ok k \<longleftrightarrow> length (v6_src_ip k) = 16 \<and> length (v6_dst_ip k) = 16"

lemma load_ipv6:
  assumes "holds m p (enc_ipv6 k)" "ipv6_ok k"
  shows "ntohl (v6_length (load_sampled_ipv6 m p)) = v6_length k"
    "ntohl (v6_protocol (load_sampled_ipv6 m p)) = v6_protocol k"
    "v6_src_ip (load_sampled_ipv6 m p) = v6_src_ip k" "v6_dst_ip (load_sampled_ipv6 m p) = v6_dst_ip k"
    "ntohl (v6_src_port (load_sampled_ipv6 m p)) = v6_src_port k"
    "ntohl (v6_dst_port (load_sampled_ipv6 m p)) = v6_dst_port k"
    "ntohl (v6_tcp_flags (load_sampled_ipv6 m p)) = v6_tcp_flags k"
    "ntohl (v6_priority (load_sampled_ipv6 m p)) = v6_priority k"
  using assms
  by (simp_all add: enc_ipv6_def ipv6_ok_def load_sampled_ipv6_def holds_append holds_enc32 holds_16
      add.commute [of p])

lemma reads_ipv6:
  assumes "ipv6_ok k"
  shows "reads_as (readFlowSample_IPv6 prefix) (enc_ipv6 k) (ipv6_lines prefix k)"
proof (rule reads_asI)
  fix s assume "full_detail s" "bounded s" "0 \<le> datap s" "sample_ok (smp s)"
    and h: "holds (rawSample s) (datap s) (enc_ipv6 k)"
    and fits: "datap s + int (length (enc_ipv6 k)) \<le> endp s"
  moreover have "length (enc_ipv6 k) = 56" using assms by (simp add: enc_ipv6_def ipv6_ok_def)
  ultimately show "achieves (readFlowSample_IPv6 prefix)
      (\<lambda>_. printed s (length (enc_ipv6 k)) (ipv6_lines prefix k)) s"
    using assms
    by (simp add: readFlowSample_IPv6_def ipv6_lines_def run_simps load_ipv6 [OF h assms] shown_set_v6
      ipv6_ok_def pad4_56 printAddress_shown printed_def sample_ok_def)
qed

section \<open>Arrays\<close>

text \<open>Words separated by dashes after a title.\<close>

definition dashed :: "line \<Rightarrow> (u32 \<Rightarrow> line) \<Rightarrow> u32 list \<Rightarrow> line list" where
  "dashed title f ws = (case ws of [] \<Rightarrow> []
     | w # r \<Rightarrow> title # f w # concat (map (\<lambda>v. [(''-'', []), f v]) r) @ [(''\<newline>'', [])])"

lemma achieves_for_from:
  assumes "\<And>i t. a \<le> i \<Longrightarrow> i < a + n \<Longrightarrow> I i t \<Longrightarrow> achieves (body i) (\<lambda>_. I (Suc i)) t" "I a s"
  shows "achieves (for_from a n body) (\<lambda>_. I (a + n)) s"
  using assms
proof (induction n arbitrary: a s)
  case 0
  then show ?case by (simp add: run_simps)
next
  case (Suc n)
  have "achieves (body a) (\<lambda>_. I (Suc a)) s" by (rule Suc.prems) (use Suc.prems in simp_all)
  moreover have "achieves (for_from (Suc a) n body) (\<lambda>_. I (a + Suc n)) t" if "I (Suc a) t" for t
    using Suc.IH [of "Suc a" t] Suc.prems that by simp
  ultimately show ?case by (auto simp: run_simps intro: achieves_mono)
qed

lemma achieves_for_u32:
  assumes "\<And>i t. i < unat n \<Longrightarrow> I i t \<Longrightarrow> achieves (body (of_nat i)) (\<lambda>_. I (Suc i)) t" "I 0 s"
  shows "achieves (for_u32 n body) (\<lambda>_. I (unat n)) s"
  using achieves_for_from [of 0 "unat n" I "\<lambda>i. body (of_nat i)" s] assms by (simp add: for_u32_def)

lemma holds_enc_words: "holds m p (enc_words ws) \<longleftrightarrow> (\<forall>i < length ws. ntohl (load32 m (p + 4 * int i)) = ws ! i)"
proof (induction ws arbitrary: p)
  case (Cons w ws)
  have "enc_words (w # ws) = enc32 w @ enc_words ws" by (simp add: enc_words_def)
  then show ?case
    by (simp add: holds_append holds_enc32 Cons.IH All_less_Suc2 algebra_simps)
qed (simp add: enc_words_def)

lemma dashed_index: "dashed title f ws = (if ws = [] then [] else
    concat (map (\<lambda>j. [if j = 0 then title else (''-'', []), f (ws ! j)]) [0..<length ws]) @ [(''\<newline>'', [])])"
proof (cases ws)
  case (Cons w r)
  have "[0..<length ws] = 0 # map Suc [0..<length r]"
    using Cons by (simp add: upt_conv_Cons map_Suc_upt del: upt_Suc)
  moreover have "map (\<lambda>j. [(''-'', []), f (r ! j)]) [0..<length r] = map (\<lambda>v. [(''-'', []), f v]) r"
    by (rule nth_equalityI) simp_all
  ultimately show ?thesis using Cons by (simp add: dashed_def comp_def)
qed (simp add: dashed_def)

lemma index_u32: "i \<le> 65536 \<Longrightarrow> uint (of_nat i :: u32) = int i"
  by (simp add: uint_nat unat_of_nat)

lemma index_u32_0: "i \<le> 65536 \<Longrightarrow> (of_nat i :: u32) = 0 \<longleftrightarrow> i = 0"
  using index_u32 [of i] by (auto simp: uint_0_iff)

lemma achieves_dashed:
  assumes "full_detail s" "length ws \<le> 65536"
    and "\<And>i. i < length ws \<Longrightarrow> ntohl (load32 (rawSample s) (base + 4 * int i)) = ws ! i"
    and "\<And>w. log_label w = sf_log (fst (f w)) (snd (f w))"
  shows "achieves (for_u32 (of_nat (length ws)) (\<lambda>j. block [
      if j = 0 then sf_log fmt args else sf_log ''-'' [], bnd (word_at base j) log_label])) (\<lambda>_ t.
    t = s\<lparr>out := out s @ print_lines (concat (map (\<lambda>j. [if j = 0 then (fmt, args) else (''-'', []), f (ws ! j)])
      [0..<length ws]))\<rparr>) s"
proof -
  let ?I = "\<lambda>i t. t = s\<lparr>out := out s @ print_lines (concat (map (\<lambda>j. [if j = 0 then (fmt, args) else (''-'', []), f (ws ! j)]) [0..<i]))\<rparr>"
  have n: "unat (of_nat (length ws) :: u32) = length ws"
    using assms(2) by (simp add: unat_of_nat)
  have "achieves (for_u32 (of_nat (length ws)) (\<lambda>j. block [
      if j = 0 then sf_log fmt args else sf_log ''-'' [], bnd (word_at base j) log_label]))
    (\<lambda>_. ?I (unat (of_nat (length ws) :: u32))) s"
  proof (rule achieves_for_u32)
    fix i t assume i: "i < unat (of_nat (length ws) :: u32)" and t: "?I i t"
    with n assms(2) have "i < length ws" "i \<le> 65536" by simp_all
    with assms(3) have w: "rawSample u = rawSample s \<Longrightarrow> achieves (word_at base (of_nat i)) Q u = Q (ws ! i) u" for Q u
      by (simp add: word_at_def index_u32 run_simps)
    obtain a b where fi: "f (ws ! i) = (a, b)" by (cases "f (ws ! i)")
    have dash: "achieves (if of_nat i = (0 :: u32) then sf_log fmt args else sf_log ''-'' []) Q t =
        Q () (t\<lparr>out := out t @ [case if i = 0 then (fmt, args) else (''-'', []) of (x, y) \<Rightarrow> Out x y]\<rparr>)" for Q
      using assms(1) t \<open>i \<le> 65536\<close> by (simp add: index_u32_0 run_simps)
    show "achieves (block [if of_nat i = (0 :: u32) then sf_log fmt args else sf_log ''-'' [],
        bnd (word_at base (of_nat i)) log_label]) (\<lambda>_. ?I (Suc i)) t"
      unfolding block.simps achieves_bnd dash
      using assms(1) t by (simp add: run_simps w assms(4) fi print_lines_def)
  qed simp
  then show ?thesis unfolding n .
qed

lemma reads_stack:
  assumes "\<And>w. log_label w = sf_log (fst (f w)) (snd (f w))"
  shows "reads_as (read_stack fmt args log_label) (enc_stack ws) (dashed (fmt, args) f ws)"
proof (rule reads_asI)
  fix s assume s: "full_detail s" "bounded s" "0 \<le> datap s" "sample_ok (smp s)"
    and len: "length (enc_stack ws) \<le> 65536" and h: "holds (rawSample s) (datap s) (enc_stack ws)"
    and fits: "datap s + int (length (enc_stack ws)) \<le> endp s"
  from len have small: "length ws \<le> 16383" by simp
  then have n: "unat (of_nat (length ws) :: u32) = length ws" "unat (of_nat (length ws) * 4 :: u32) = 4 * length ws"
    by (simp_all add: unat_of_nat unat_word_ariths)
  from h have count: "ntohl (load32 (rawSample s) (datap s)) = of_nat (length ws)"
    and words: "\<And>i. i < length ws \<Longrightarrow> ntohl (load32 (rawSample s) (datap s + 4 + 4 * int i)) = ws ! i"
    by (simp_all add: enc_stack_def holds_append holds_enc32 holds_enc_words)
  have pos: "(0 :: u32) < of_nat (length ws) \<longleftrightarrow> ws \<noteq> []"
    using n(1) by (auto simp: word_less_nat_alt)
  let ?t = "s\<lparr>datap := datap s + 4 + int (4 * length ws)\<rparr>"
  have loop: "achieves (for_u32 (of_nat (length ws)) (\<lambda>j. block [
      if j = 0 then sf_log fmt args else sf_log ''-'' [], bnd (word_at (datap s + 4) j) log_label]))
    (\<lambda>_ t. achieves (sf_log ''\<newline>'' []) (\<lambda>_. printed s (length (enc_stack ws)) (dashed (fmt, args) f ws)) t) ?t"
    if "ws \<noteq> []"
    by (rule achieves_mono [OF achieves_dashed [where f = f]])
      (use s small words assms that in \<open>auto simp: run_simps printed_def dashed_index\<close>)
  show "achieves (read_stack fmt args log_label)
      (\<lambda>_. printed s (length (enc_stack ws)) (dashed (fmt, args) f ws)) s"
    using s fits loop
    by (simp add: read_stack_def run_simps count n pos) (auto simp: printed_def dashed_def)
qed

lemma reads_step [reads_intro]:
  "reads_as m xs ls \<Longrightarrow> (\<And>v. reads_as (f v) bs ks) \<Longrightarrow> reads_as (bnd m f) (xs @ bs) (ls @ ks)"
  by (rule reads_bnd)

section \<open>Records with arrays\<close>

definition label_line :: "u32 \<Rightarrow> line" where
  "label_line lab = (''%u.%u.%u.%u'', [A32 (drop_bit 12 lab), A32 (drop_bit 9 lab AND 7),
     A32 (drop_bit 8 lab AND 1), A32 (lab AND 255)])"

definition vlan_line :: "u32 \<Rightarrow> line" where
  "vlan_line lab = (''0x%04x.%u.%u.%u'', [A32 (drop_bit 16 lab), A32 (drop_bit 13 lab AND 7),
     A32 (drop_bit 12 lab AND 1), A32 (lab AND 4095)])"

definition mpls_lines :: "SFLExtended_mpls \<Rightarrow> line list" where
  "mpls_lines m = [(''extendedType MPLS\<newline>'', []),
       (''mpls_nexthop %s\<newline>'', [AStr (shown_address (mp_nextHop m))])] @
     dashed (''%s '', [AStr ''mpls_input_stack'']) label_line (mp_in_stack m) @
     dashed (''%s '', [AStr ''mpls_output_stack'']) label_line (mp_out_stack m)"

lemma reads_mpls:
  assumes "address_ok (mp_nextHop m)"
  shows "reads_as readExtendedMpls (enc_mpls m) (mpls_lines m)"
proof -
  have "reads_as (block [getAddress_field mpls_nextHop mpls_nextHop_update,
      log_address ''mpls_nexthop %s\<newline>'' mpls_nextHop]) (enc_address (mp_nextHop m))
      [(''mpls_nexthop %s\<newline>'', [AStr (shown_address (mp_nextHop m))])]"
    using assms by (intro reads_asI) (simp add: run_simps layout_simps)
  moreover have "reads_as (block [mplsLabelStack ''mpls_input_stack'', mplsLabelStack ''mpls_output_stack'',
      tag_extended SASAMPLE_EXTENDED_DATA_MPLS]) (enc_stack (mp_in_stack m) @ enc_stack (mp_out_stack m))
      (dashed (''%s '', [AStr ''mpls_input_stack'']) label_line (mp_in_stack m) @
       dashed (''%s '', [AStr ''mpls_output_stack'']) label_line (mp_out_stack m))"
    unfolding mplsLabelStack_def statements
    by (intro reads_step [where bs = "enc_stack (mp_out_stack m)"] reads_stack
        reads_step [where bs = "[]" and ks = "[]", simplified] reads_tag reads_ret)
      (simp_all add: label_line_def)
  ultimately show ?thesis
    unfolding readExtendedMpls_def enc_mpls_def mpls_lines_def statements wire_order
    by (intro reads_log) (auto dest: reads_bnd simp: bnd_assoc)
qed

definition vlan_tunnel_lines :: "SFLExtended_vlan_tunnel \<Rightarrow> line list" where
  "vlan_tunnel_lines v = dashed (''vlan_tunnel '', []) vlan_line (vlan_stack v)"

lemma reads_vlan_tunnel:
  "reads_as readExtendedVlanTunnel (enc_stack (vlan_stack v)) (vlan_tunnel_lines v)"
  unfolding readExtendedVlanTunnel_def vlan_tunnel_lines_def statements
  by (intro reads_step [where bs = "[]" and ks = "[]", simplified] reads_stack reads_tag reads_ret)
    (simp_all add: vlan_line_def)

definition bssid_lines :: "string \<Rightarrow> u8 list \<Rightarrow> line list" where
  "bssid_lines title bs = (title, []) # map (\<lambda>b. (''%02x'', [A8 b])) bs @ [(''\<newline>'', [])]"

lemma unat_numeral_6: "unat (6 :: u32) = Suc (Suc (Suc (Suc (Suc (Suc 0)))))"
  by simp

lemma for_u32_6: "for_u32 6 body = block [body 0, body 1, body 2, body 3, body 4, body 5]"
proof -
  have "for_from 0 (Suc (Suc (Suc (Suc (Suc (Suc 0)))))) (\<lambda>i. body (of_nat i)) =
      block [body 0, body 1, body 2, body 3, body 4, body 5]"
    by simp
  then show ?thesis by (simp only: for_u32_def unat_numeral_6)
qed

lemma reads_bssid:
  assumes "length bs = 6"
  shows "reads_as (log_bssid title) (enc_opaque bs) (bssid_lines title bs)"
proof -
  have six: "bs = [bs ! 0, bs ! 1, bs ! 2, bs ! 3, bs ! 4, bs ! 5]"
    using assms by (auto simp: numeral_eq_Suc length_Suc_conv)
  have "map (\<lambda>b. (''%02x'', [A8 b])) bs = map (\<lambda>b. (''%02x'', [A8 b])) [bs ! 0, bs ! 1, bs ! 2, bs ! 3, bs ! 4, bs ! 5]"
    by (subst six) simp
  moreover have "holds m p bs \<longleftrightarrow> load_bytes m p 6 = bs" for m p
    using assms by (simp add: holds_def)
  ultimately show ?thesis
    using assms
    by (intro reads_asI)
      (simp add: bssid_lines_def log_bssid_def enc_opaque_def for_u32_6 run_simps layout_simps pad4_6)
qed

definition wifi_rx_lines :: "SFLExtended_wifi_rx \<Rightarrow> line list" where
  "wifi_rx_lines w = text_lines ''rx_SSID %s\<newline>'' 255 (rx_ssid w) @
     bssid_lines ''rx_BSSID '' (rx_bssid w) @
     [line32 ''rx_version'' (rx_version w), line32 ''rx_channel'' (rx_channel w),
      line64 ''rx_speed'' (rx_speed w), line32 ''rx_rsni'' (rx_rsni w), line32 ''rx_rcpi'' (rx_rcpi w),
      line32 ''rx_packet_uS'' (rx_packet_duration_us w)]"

definition wifi_tx_lines :: "SFLExtended_wifi_tx \<Rightarrow> line list" where
  "wifi_tx_lines w = text_lines ''tx_SSID %s\<newline>'' 255 (tx_ssid w) @
     bssid_lines ''tx_BSSID '' (tx_bssid w) @
     [line32 ''tx_version'' (tx_version w), line32 ''tx_transmissions'' (tx_transmissions w),
      line32 ''tx_packet_uS'' (tx_packet_duration_us w), line32 ''tx_retrans_uS'' (tx_retrans_duration_us w),
      line32 ''tx_channel'' (tx_channel w), line64 ''tx_speed'' (tx_speed w),
      line32 ''tx_power_mW'' (tx_power_mw w)]"

lemma reads_wifi_rx:
  "length (rx_bssid w) = 6 \<Longrightarrow> reads_as readExtendedWifiRx (enc_wifi_rx w) (wifi_rx_lines w)"
  unfolding readExtendedWifiRx_def enc_wifi_rx_def wifi_rx_lines_def statements wire_order
  by (intro reads_text reads_step [OF reads_bssid] reads_intro) simp_all

lemma reads_wifi_tx:
  "length (tx_bssid w) = 6 \<Longrightarrow> reads_as readExtendedWifiTx (enc_wifi_tx w) (wifi_tx_lines w)"
  unfolding readExtendedWifiTx_def enc_wifi_tx_def wifi_tx_lines_def statements wire_order
  by (intro reads_text reads_step [OF reads_bssid] reads_intro) simp_all

definition wifi_payload_lines :: "SFLExtended_wifi_payload \<Rightarrow> line list" where
  "wifi_payload_lines w = line32 ''cipher_suite'' (wp_cipherSuite w) # header_lines (wp_header w)"

lemma reads_wifi_payload:
  assumes "sh_header_protocol (wp_header w) \<in> set no_decode_protocols"
  shows "reads_as readExtendedWifiPayload (enc32 (wp_cipherSuite w) @ enc_header (wp_header w)) (wifi_payload_lines w)"
  unfolding readExtendedWifiPayload_def wifi_payload_lines_def statements bnd_unit
  by (intro reads_next32 reads_header assms)

subsection \<open>The AS path\<close>

abbreviation as_line :: "u32 \<Rightarrow> line" where
  "as_line a \<equiv> (''%u'', [A32 a])"

definition segment_lines :: "line list \<Rightarrow> SFLExtended_as_path_segment \<Rightarrow> line list" where
  "segment_lines lead g =
     (let in_set = (\<lambda>c. if seg_type g = SFLEXTENDED_AS_SET then [(c, [])] else []) in
      (case seg_as g of [] \<Rightarrow> []
       | a # as \<Rightarrow> lead @ in_set ''('' @ as_line a # concat (map (\<lambda>b. [(''-'', []), as_line b]) as)) @
      in_set '')'')"

definition number_lines :: "line list \<Rightarrow> SFLExtended_as_path_segment \<Rightarrow> nat \<Rightarrow> line list" where
  "number_lines lead g i = (if i = 0 then lead else [(''-'', [])]) @
     (if i = 0 \<and> seg_type g = SFLEXTENDED_AS_SET then [(''('', [])] else []) @ [as_line (seg_as g ! i)]"

lemma segment_lines_index: "segment_lines lead g = concat (map (number_lines lead g) [0..<length (seg_as g)]) @
    (if seg_type g = SFLEXTENDED_AS_SET then [('')'', [])] else [])"
proof (cases "seg_as g")
  case (Cons a as)
  have "[0..<length (seg_as g)] = 0 # map Suc [0..<length as]"
    using Cons by (simp add: upt_conv_Cons map_Suc_upt del: upt_Suc)
  moreover have "map (\<lambda>j. [(''-'', []), as_line (as ! j)]) [0..<length as] = map (\<lambda>b. [(''-'', []), as_line b]) as"
    by (rule nth_equalityI) simp_all
  ultimately show ?thesis using Cons by (simp add: segment_lines_def number_lines_def comp_def)
qed (simp add: segment_lines_def)

lemma index_last:
  assumes "k < n" "n \<le> 65536"
  shows "(of_nat k :: u32) = of_nat n - 1 \<longleftrightarrow> Suc k = n"
proof -
  have n: "unat (of_nat n :: u32) = n" and k: "unat (of_nat k :: u32) = k"
    using assms by (simp_all add: unat_of_nat)
  then have "(of_nat n :: u32) \<noteq> 0" using assms(1) by (metis gr_implies_not0 unat_0)
  then have "unat (of_nat n - 1 :: u32) = n - 1" by (metis unat_minus_one n)
  then have "(of_nat k :: u32) = of_nat n - 1 \<longleftrightarrow> k = n - 1"
    using k by (metis unsigned_word_eqI)
  then show ?thesis using assms(1) by auto
qed

definition lead :: "nat \<Rightarrow> line list" where
  "lead k = (if k = 0 then [] else [(''-'', [])])"

lemma reads_number:
  assumes s: "full_detail s" "sample_ok (smp s)" "datap s + 4 \<le> endp s" "ntohl (load32 (rawSample s) (datap s)) = seg_as g ! i"
    and k: "k < K" "K \<le> 65536" "i < length (seg_as g)" "length (seg_as g) \<le> 65536"
  shows "achieves (read_as_number (of_nat K) (of_nat k) (seg_type g) (of_nat (length (seg_as g))) (of_nat i))
    (\<lambda>_ t. printed s 4 (number_lines (lead k) g i) t \<and>
      dst_peer_as (smp t) = (if i = 0 \<and> k = 0 then seg_as g ! i else dst_peer_as (smp s)) \<and>
      dst_as (smp t) = (if Suc k = K \<and> Suc i = length (seg_as g) then seg_as g ! i else dst_as (smp s))) s"
proof -
  have "(of_nat i :: u32) = 0 \<longleftrightarrow> i = 0" "(of_nat k :: u32) = 0 \<longleftrightarrow> k = 0"
    using k by (simp_all add: index_u32_0)
  then show ?thesis
    using s k by (auto simp: read_as_number_def run_simps printed_def sample_ok_def number_lines_def lead_def index_last)
qed

lemma reads_segment:
  assumes s: "ready s" "ahead s (enc_segment g)" and k: "k < K" "K \<le> 65536"
  shows "achieves (read_as_segment (of_nat K) (of_nat k))
    (\<lambda>_ t. printed s (length (enc_segment g)) (segment_lines (lead k) g) t \<and>
      dst_peer_as (smp t) = (if k = 0 \<and> seg_as g \<noteq> [] then hd (seg_as g) else dst_peer_as (smp s)) \<and>
      dst_as (smp t) = (if Suc k = K \<and> seg_as g \<noteq> [] then last (seg_as g) else dst_as (smp s))) s"
proof -
  let ?n = "length (seg_as g)"
  have fits: "datap s + 8 + 4 * int ?n \<le> endp s" "endp s \<le> 65536"
    and ty: "ntohl (load32 (rawSample s) (datap s)) = seg_type g"
    and count: "ntohl (load32 (rawSample s) (datap s + 4)) = of_nat ?n"
    and words: "\<And>i. i < ?n \<Longrightarrow> ntohl (load32 (rawSample s) (datap s + 8 + 4 * int i)) = seg_as g ! i"
    using s bounded_small [of s]
    by (auto simp: ready_def ahead_def enc_segment_def enc_stack_def holds_append holds_enc32 holds_enc_words add.commute)
  then have n: "?n \<le> 65536" "unat (of_nat ?n :: u32) = ?n" using s by (auto simp: ready_def unat_of_nat)
  let ?I = "\<lambda>i t. printed s (8 + 4 * i) (concat (map (number_lines (lead k) g) [0..<i])) t \<and>
      dst_peer_as (smp t) = (if k = 0 \<and> 0 < i then seg_as g ! 0 else dst_peer_as (smp s)) \<and>
      dst_as (smp t) = (if Suc k = K \<and> i = ?n \<and> 0 < i then last (seg_as g) else dst_as (smp s))"
  let ?s = "s\<lparr>datap := datap s + 8\<rparr>"
  have "achieves (for_u32 (of_nat ?n) (read_as_number (of_nat K) (of_nat k) (seg_type g) (of_nat ?n)))
      (\<lambda>_. ?I (unat (of_nat ?n :: u32))) ?s"
  proof (rule achieves_for_u32)
    fix i t assume "i < unat (of_nat ?n :: u32)" and t: "?I i t"
    with n have i: "i < ?n" by simp
    show "achieves (read_as_number (of_nat K) (of_nat k) (seg_type g) (of_nat ?n) (of_nat i)) (\<lambda>_. ?I (Suc i)) t"
    proof (rule achieves_mono [OF reads_number [where g = g and i = i and k = k and K = K]])
      show "full_detail t" "sample_ok (smp t)" "datap t + 4 \<le> endp t"
          "ntohl (load32 (rawSample t) (datap t)) = seg_as g ! i"
        using t s i fits words [OF i] by (auto simp: printed_def ready_def algebra_simps)
    next
      fix u assume u: "printed t 4 (number_lines (lead k) g i) u \<and>
        dst_peer_as (smp u) = (if i = 0 \<and> k = 0 then seg_as g ! i else dst_peer_as (smp t)) \<and>
        dst_as (smp u) = (if Suc k = K \<and> Suc i = ?n then seg_as g ! i else dst_as (smp t))"
      have "printed s (8 + 4 * i + 4) (concat (map (number_lines (lead k) g) [0..<i]) @ number_lines (lead k) g i) u"
        using t u by (blast intro: printed_trans)
      then have "printed s (8 + 4 * Suc i) (concat (map (number_lines (lead k) g) [0..<Suc i])) u"
        by (simp add: add.commute)
      moreover have "seg_as g ! i = last (seg_as g)" if "Suc i = ?n"
        using that i by (cases "seg_as g" rule: rev_cases) auto
      ultimately show "?I (Suc i) u" using t u i by auto
    qed (use k n i in simp_all)
  next
    show "?I 0 ?s" using s by (simp add: printed_def ready_def)
  qed
  then have loop: "achieves (for_u32 (of_nat ?n) (read_as_number (of_nat K) (of_nat k) (seg_type g) (of_nat ?n)))
      (\<lambda>_. ?I ?n) ?s" by (simp only: n)
  let ?Post = "\<lambda>_ t. printed s (length (enc_segment g)) (segment_lines (lead k) g) t \<and>
      dst_peer_as (smp t) = (if k = 0 \<and> seg_as g \<noteq> [] then hd (seg_as g) else dst_peer_as (smp s)) \<and>
      dst_as (smp t) = (if Suc k = K \<and> seg_as g \<noteq> [] then last (seg_as g) else dst_as (smp s))"
  have "achieves (only_if (seg_type g = SFLEXTENDED_AS_SET) (sf_log '')'' [])) ?Post t" if "?I ?n t" for t
    using that s
    by (auto simp: run_simps printed_def ready_def segment_lines_index enc_segment_def hd_conv_nth)
  then have "achieves (block [for_u32 (of_nat ?n) (read_as_number (of_nat K) (of_nat k) (seg_type g) (of_nat ?n)),
      only_if (seg_type g = SFLEXTENDED_AS_SET) (sf_log '')'' [])]) ?Post ?s"
    unfolding block.simps bnd_unit achieves_bnd by (rule achieves_mono [OF loop])
  then show ?thesis
    using fits unfolding read_as_segment_def achieves_bnd achieves_getData32
    by (simp add: ty count add.commute)
qed

definition path_lines :: "SFLExtended_as_path_segment list \<Rightarrow> line list" where
  "path_lines path = (case path of [] \<Rightarrow> []
     | g # gs \<Rightarrow> (''dst_as_path '', []) # segment_lines [] g @
         concat (map (segment_lines [(''-'', [])]) gs) @ [(''\<newline>'', [])])"

text \<open>The first and the last AS of the path, if the first and the last segment are not empty.\<close>

definition path_peer :: "SFLExtended_as_path_segment list \<Rightarrow> u32" where
  "path_peer path = (case path of g # gs \<Rightarrow> (case seg_as g of a # as \<Rightarrow> a | [] \<Rightarrow> 0) | [] \<Rightarrow> 0)"

definition path_dst :: "SFLExtended_as_path_segment list \<Rightarrow> u32" where
  "path_dst path = (if path = [] \<or> seg_as (last path) = [] then 0 else last (seg_as (last path)))"

definition enc_path :: "SFLExtended_as_path_segment list \<Rightarrow> u8 list" where
  "enc_path path = enc32 (of_nat (length path)) @ concat (map enc_segment path)"

definition read_path :: "unit dec" where
  "read_path = bnd getData32 (\<lambda>segments. block [
       put dst_peer_as_update 0,
       put dst_as_update 0,
       only_if (segments > 0) (block [
         sf_log ''dst_as_path '' [],
         for_u32 segments (read_as_segment segments),
         sf_log ''\<newline>'' []])])"

lemma path_lines_index: "path_lines path = (if path = [] then [] else (''dst_as_path '', []) #
    concat (map (\<lambda>k. segment_lines (lead k) (path ! k)) [0..<length path]) @ [(''\<newline>'', [])])"
proof (cases path)
  case (Cons g gs)
  have "[0..<length path] = 0 # map Suc [0..<length gs]"
    using Cons by (simp add: upt_conv_Cons map_Suc_upt del: upt_Suc)
  moreover have "map (\<lambda>j. segment_lines [(''-'', [])] (gs ! j)) [0..<length gs] = map (segment_lines [(''-'', [])]) gs"
    by (rule nth_equalityI) simp_all
  ultimately show ?thesis using Cons by (simp add: path_lines_def lead_def comp_def)
qed (simp add: path_lines_def)

lemma length_enc_path: "length path \<le> length (concat (map enc_segment path))"
  by (induction path) (auto simp: enc_segment_def)

lemma ahead_nth:
  assumes "ahead s (concat (map enc xs))" "k < length xs"
  shows "ahead (s\<lparr>datap := datap s + int (length (concat (map enc (take k xs))))\<rparr>) (enc (xs ! k))"
proof -
  have "concat (map enc xs) = concat (map enc (take k xs)) @ enc (xs ! k) @ concat (map enc (drop (Suc k) xs))"
    using assms(2) by (subst id_take_nth_drop [of k xs]) simp_all
  with assms(1) show ?thesis
    by (auto simp: ahead_def holds_append)
qed

lemma reads_path_loop:
  assumes s: "ready s" "ahead s (concat (map enc_segment path))" "length path \<le> 65536"
    and zero: "dst_peer_as (smp s) = 0" "dst_as (smp s) = 0"
  shows "achieves (for_u32 (of_nat (length path)) (read_as_segment (of_nat (length path)))) (\<lambda>_ t.
      printed s (length (concat (map enc_segment path)))
        (concat (map (\<lambda>k. segment_lines (lead k) (path ! k)) [0..<length path])) t \<and>
      dst_peer_as (smp t) = path_peer path \<and> dst_as (smp t) = path_dst path) s"
proof -
  let ?I = "\<lambda>k t. printed s (length (concat (map enc_segment (take k path))))
        (concat (map (\<lambda>k. segment_lines (lead k) (path ! k)) [0..<k])) t \<and>
      dst_peer_as (smp t) = (if k = 0 then 0 else path_peer path) \<and>
      dst_as (smp t) = (if k = length path then path_dst path else 0)"
  have n: "unat (of_nat (length path) :: u32) = length path" using s(3) by (simp add: unat_of_nat)
  have "achieves (for_u32 (of_nat (length path)) (read_as_segment (of_nat (length path))))
      (\<lambda>_. ?I (unat (of_nat (length path) :: u32))) s"
  proof (rule achieves_for_u32)
    fix k t assume "k < unat (of_nat (length path) :: u32)" and t: "?I k t"
    with n have k: "k < length path" by simp
    have "ready t" using s(1) t by (auto intro: ready_later)
    moreover have "ahead t (enc_segment (path ! k))"
      using ahead_nth [OF s(2) k] t by (simp add: ahead_def printed_def)
    ultimately show "achieves (read_as_segment (of_nat (length path)) (of_nat k)) (\<lambda>_. ?I (Suc k)) t"
    proof (rule achieves_mono [OF reads_segment [OF _ _ k s(3)]])
      fix u assume u: "printed t (length (enc_segment (path ! k))) (segment_lines (lead k) (path ! k)) u \<and>
        dst_peer_as (smp u) = (if k = 0 \<and> seg_as (path ! k) \<noteq> [] then hd (seg_as (path ! k)) else dst_peer_as (smp t)) \<and>
        dst_as (smp u) = (if Suc k = length path \<and> seg_as (path ! k) \<noteq> [] then last (seg_as (path ! k)) else dst_as (smp t))"
      have "path_peer path = (if seg_as (path ! 0) = [] then 0 else hd (seg_as (path ! 0)))"
        using k by (cases path) (auto simp: path_peer_def split: list.split)
      moreover have "path ! k = last path" if "Suc k = length path"
        using that k by (cases path rule: rev_cases) auto
      moreover have "length (concat (map enc_segment (take (Suc k) path))) =
          length (concat (map enc_segment (take k path))) + length (enc_segment (path ! k))"
        using k by (simp add: take_Suc_conv_app_nth)
      ultimately show "?I (Suc k) u"
        using t u k printed_trans [of s _ _ t _ _ u] by (auto simp: path_dst_def)
    qed
  next
    show "?I 0 s" using s zero by (auto simp: printed_def ready_def path_dst_def)
  qed
  then show ?thesis unfolding n by (auto simp: path_peer_def elim: achieves_mono)
qed

lemma reads_path:
  "reads_as (block [read_path, log_field ''dst_as %u\<newline>'' dst_as, log_field ''dst_peer_as %u\<newline>'' dst_peer_as])
     (enc_path path)
     (path_lines path @ [(''dst_as %u\<newline>'', [A32 (path_dst path)]), (''dst_peer_as %u\<newline>'', [A32 (path_peer path)])])"
proof (rule reads_asI)
  fix s assume s: "full_detail s" "\<not> gotVlanFilter (cfg s)" "bounded s" "0 \<le> datap s" "sample_ok (smp s)"
    and len: "length (enc_path path) \<le> 65536" and h: "holds (rawSample s) (datap s) (enc_path path)"
    and fits: "datap s + int (length (enc_path path)) \<le> endp s"
  have n: "length path \<le> 65536" using len length_enc_path [of path] by (simp add: enc_path_def)
  then have pos: "(0 :: u32) < of_nat (length path) \<longleftrightarrow> path \<noteq> []"
    by (auto simp: word_less_nat_alt unat_of_nat)
  have count: "ntohl (load32 (rawSample s) (datap s)) = of_nat (length path)"
    using h by (simp add: enc_path_def holds_append holds_enc32)
  let ?t = "s\<lparr>datap := datap s + 4, smp := (smp s)\<lparr>dst_peer_as := 0, dst_as := 0\<rparr>,
      out := out s @ [Out ''dst_as_path '' []]\<rparr>"
  have t: "ready ?t" "ahead ?t (concat (map enc_segment path))"
    using s h fits by (auto simp: ready_def ahead_def enc_path_def holds_append sample_ok_def)
  have loop: "achieves (for_u32 (of_nat (length path)) (read_as_segment (of_nat (length path))))
    (\<lambda>_ t. achieves (sf_log ''\<newline>'' []) (\<lambda>_. achieves (block [log_field ''dst_as %u\<newline>'' dst_as, log_field ''dst_peer_as %u\<newline>'' dst_peer_as])
      (\<lambda>_. printed s (length (enc_path path)) (path_lines path @
        [(''dst_as %u\<newline>'', [A32 (path_dst path)]), (''dst_peer_as %u\<newline>'', [A32 (path_peer path)])]))) t) ?t"
    if "path \<noteq> []"
    by (rule achieves_mono [OF reads_path_loop [OF t n]])
      (use s that in \<open>auto simp: run_simps printed_def sample_ok_def path_lines_index enc_path_def\<close>)
  show "achieves (block [read_path, log_field ''dst_as %u\<newline>'' dst_as, log_field ''dst_peer_as %u\<newline>'' dst_peer_as])
    (\<lambda>_. printed s (length (enc_path path)) (path_lines path @
        [(''dst_as %u\<newline>'', [A32 (path_dst path)]), (''dst_peer_as %u\<newline>'', [A32 (path_peer path)])])) s"
  proof (cases "path = []")
    case True
    then show ?thesis using s fits count
      by (simp add: read_path_def run_simps printed_def sample_ok_def path_lines_def path_dst_def path_peer_def enc_path_def)
  next
    case False
    then show ?thesis using s fits count loop
      by (simp add: read_path_def run_simps pos enc_path_def)
  qed
qed

definition read_communities :: "unit dec" where
  "read_communities = block [
     store communities_len_update getData32,
     bnd (fetch communities_len) (\<lambda>n. block [
       only_if (n > 0) (store communities_update (gets datap)),
       skipBytes (n * 4),
       tag_extended SASAMPLE_EXTENDED_DATA_GATEWAY,
       bnd (fetch communities) (log_words ''BGP_communities '' n)])]"

lemma reads_communities:
  "reads_as read_communities (enc_stack ws) (dashed (''BGP_communities '', []) (\<lambda>w. (''%u'', [A32 w])) ws)"
proof (rule reads_asI)
  fix s assume s: "full_detail s" "bounded s" "0 \<le> datap s" "sample_ok (smp s)"
    and len: "length (enc_stack ws) \<le> 65536" and h: "holds (rawSample s) (datap s) (enc_stack ws)"
    and fits: "datap s + int (length (enc_stack ws)) \<le> endp s"
  from len have small: "length ws \<le> 16383" by simp
  then have n: "unat (of_nat (length ws) :: u32) = length ws" "unat (of_nat (length ws) * 4 :: u32) = 4 * length ws"
    by (simp_all add: unat_of_nat unat_word_ariths)
  from h have count: "ntohl (load32 (rawSample s) (datap s)) = of_nat (length ws)"
    and words: "\<And>i. i < length ws \<Longrightarrow> ntohl (load32 (rawSample s) (datap s + 4 + 4 * int i)) = ws ! i"
    by (simp_all add: enc_stack_def holds_append holds_enc32 holds_enc_words)
  have pos: "(0 :: u32) < of_nat (length ws) \<longleftrightarrow> ws \<noteq> []"
    using n(1) by (auto simp: word_less_nat_alt)
  have loop: "achieves (for_u32 (of_nat (length ws)) (\<lambda>j. block [
      if j = 0 then sf_log ''BGP_communities '' [] else sf_log ''-'' [],
      bnd (word_at (datap s + 4) j) (\<lambda>w. sf_log ''%u'' [A32 w])]))
    (\<lambda>_ t. achieves (sf_log ''\<newline>'' []) (\<lambda>_. printed s (length (enc_stack ws))
      (dashed (''BGP_communities '', []) (\<lambda>w. (''%u'', [A32 w])) ws)) t)
    (s\<lparr>datap := datap s + 4 + int (4 * length ws), smp := x\<rparr>)"
    if "ws \<noteq> []" "sample_ok x" for x
    by (rule achieves_mono [OF achieves_dashed [where f = "\<lambda>w. (''%u'', [A32 w])"]])
      (use s small words that in \<open>auto simp: run_simps printed_def dashed_index\<close>)
  show "achieves read_communities (\<lambda>_. printed s (length (enc_stack ws))
      (dashed (''BGP_communities '', []) (\<lambda>w. (''%u'', [A32 w])) ws)) s"
  proof (cases "ws = []")
    case True
    then show ?thesis using s fits count
      by (simp add: read_communities_def log_words_def run_simps printed_def sample_ok_def dashed_def pad4_def)
  next
    case False
    then show ?thesis using s fits count loop
      by (simp add: read_communities_def log_words_def run_simps n pos sample_ok_def)
  qed
qed

definition gateway_lines :: "SFLExtended_gateway \<Rightarrow> line list" where
  "gateway_lines g = [
       (''extendedType GATEWAY\<newline>'', []),
       (''bgp_nexthop %s\<newline>'', [AStr (shown_address (gw_nexthop g))]),
       (''my_as %u\<newline>'', [A32 (gw_as g)]),
       (''src_as %u\<newline>'', [A32 (gw_src_as g)]),
       (''src_peer_as %u\<newline>'', [A32 (gw_src_peer_as g)])] @
     path_lines (gw_dst_as_path g) @
     [(''dst_as %u\<newline>'', [A32 (path_dst (gw_dst_as_path g))]),
      (''dst_peer_as %u\<newline>'', [A32 (path_peer (gw_dst_as_path g))])] @
     dashed (''BGP_communities '', []) (\<lambda>w. (''%u'', [A32 w])) (gw_communities g) @
     [(''BGP_localpref %u\<newline>'', [A32 (gw_localpref g)])]"

definition read_gateway_numbers :: "unit dec" where
  "read_gateway_numbers = block [
     sf_log ''extendedType GATEWAY\<newline>'' [],
     bnd (fetch datagramVersion) (\<lambda>v. only_if (v \<ge> 5) (block [
       getAddress_field bgp_nextHop bgp_nextHop_update,
       log_address ''bgp_nexthop %s\<newline>'' bgp_nextHop])),
     store my_as_update getData32,
     store src_as_update getData32,
     store src_peer_as_update getData32,
     log_field ''my_as %u\<newline>'' my_as,
     log_field ''src_as %u\<newline>'' src_as,
     log_field ''src_peer_as %u\<newline>'' src_peer_as]"

lemma readExtendedGateway_parts: "readExtendedGateway =
    bnd read_gateway_numbers (\<lambda>_.
    bnd (block [read_path, log_field ''dst_as %u\<newline>'' dst_as, log_field ''dst_peer_as %u\<newline>'' dst_peer_as]) (\<lambda>_.
    bnd read_communities (\<lambda>_.
    block [store localpref_update getData32, log_field ''BGP_localpref %u\<newline>'' localpref])))"
  unfolding readExtendedGateway_def read_gateway_numbers_def read_path_def read_communities_def block.simps bnd_assoc bnd_unit ret_bnd ..

lemma reads_gateway:
  assumes "address_ok (gw_nexthop g)"
  shows "reads_as readExtendedGateway (enc_gateway g) (gateway_lines g)"
proof -
  have "reads_as read_gateway_numbers
      (enc_address (gw_nexthop g) @ enc_words [gw_as g, gw_src_as g, gw_src_peer_as g]) (take 5 (gateway_lines g))"
    using assms
    by (intro reads_asI) (simp add: read_gateway_numbers_def gateway_lines_def run_simps layout_simps)
  moreover have "reads_as (block [store localpref_update getData32, log_field ''BGP_localpref %u\<newline>'' localpref])
      (enc32 (gw_localpref g)) [(''BGP_localpref %u\<newline>'', [A32 (gw_localpref g)])]"
    by (rule reads_asI) (simp add: run_simps layout_simps)
  ultimately have "reads_as readExtendedGateway
      ((enc_address (gw_nexthop g) @ enc_words [gw_as g, gw_src_as g, gw_src_peer_as g]) @
       enc_path (gw_dst_as_path g) @ enc_stack (gw_communities g) @ enc32 (gw_localpref g))
      (take 5 (gateway_lines g) @
       (path_lines (gw_dst_as_path g) @ [(''dst_as %u\<newline>'', [A32 (path_dst (gw_dst_as_path g))]),
         (''dst_peer_as %u\<newline>'', [A32 (path_peer (gw_dst_as_path g))])]) @
       dashed (''BGP_communities '', []) (\<lambda>w. (''%u'', [A32 w])) (gw_communities g) @
       [(''BGP_localpref %u\<newline>'', [A32 (gw_localpref g)])])"
    unfolding readExtendedGateway_parts by (intro reads_bnd reads_path reads_communities)
  then show ?thesis by (simp add: enc_gateway_def enc_path_def gateway_lines_def)
qed

section \<open>Elements\<close>

definition element_ok :: "SFLFlow_type \<Rightarrow> bool" where
  "element_ok el = (case el of
       El_HEADER h \<Rightarrow> sh_header_protocol h \<in> set no_decode_protocols
     | El_ETHERNET e \<Rightarrow> ethernet_ok e
     | El_IPV6 k \<Rightarrow> ipv6_ok k
     | El_APP a \<Rightarrow> unat (app_duration_uS a) < length SFL_APP_STATUS_names
     | El_EX_ROUTER r \<Rightarrow> address_ok (rt_nexthop r)
     | El_EX_GATEWAY g \<Rightarrow> address_ok (gw_nexthop g)
     | El_EX_MPLS m \<Rightarrow> address_ok (mp_nextHop m)
     | El_EX_NAT n \<Rightarrow> address_ok (nt_src n) \<and> address_ok (nt_dst n)
     | El_EX_80211_PAYLOAD w \<Rightarrow> sh_header_protocol (wp_header w) \<in> set no_decode_protocols
     | El_EX_80211_RX w \<Rightarrow> length (rx_bssid w) = 6
     | El_EX_80211_TX w \<Rightarrow> length (tx_bssid w) = 6
     | El_EX_SOCKET6 k \<Rightarrow> socket6_ok k
     | El_EX_PROXYSOCKET6 k \<Rightarrow> socket6_ok k
     | El_EX_L2_TUNNEL_OUT e \<Rightarrow> ethernet_ok e
     | El_EX_L2_TUNNEL_IN e \<Rightarrow> ethernet_ok e
     | El_EX_IPV6_TUNNEL_OUT k \<Rightarrow> ipv6_ok k
     | El_EX_IPV6_TUNNEL_IN k \<Rightarrow> ipv6_ok k
     | El_OTHER tag bs \<Rightarrow> tag \<notin> fst ` set (flow_element_readers tag)
     | _ \<Rightarrow> True)"

primrec element_lines :: "SFLFlow_type \<Rightarrow> line list" where
  "element_lines (El_HEADER v) = header_lines v"
| "element_lines (El_ETHERNET v) = ethernet_lines '''' v"
| "element_lines (El_IPV4 v) = ipv4_lines '''' v"
| "element_lines (El_IPV6 v) = ipv6_lines '''' v"
| "element_lines (El_MEMCACHE v) = memcache_lines v"
| "element_lines (El_HTTP v) = http_lines False v"
| "element_lines (El_HTTP2 v) = http_lines True v"
| "element_lines (El_APP v) = app_lines v"
| "element_lines (El_APP_CTXT v) = app_ctxt_lines v"
| "element_lines (El_APP_ACTOR_INIT v) = text_lines ''actor_initiator %s\<newline>'' 63 (app_actor v)"
| "element_lines (El_APP_ACTOR_TGT v) = text_lines ''actor_target %s\<newline>'' 63 (app_actor v)"
| "element_lines (El_EX_SWITCH v) = switch_lines v"
| "element_lines (El_EX_ROUTER v) = router_lines v"
| "element_lines (El_EX_GATEWAY v) = gateway_lines v"
| "element_lines (El_EX_USER v) = user_lines v"
| "element_lines (El_EX_URL v) = url_lines v"
| "element_lines (El_EX_MPLS v) = mpls_lines v"
| "element_lines (El_EX_NAT v) = nat_lines v"
| "element_lines (El_EX_NAT_PORT v) = nat_port_lines v"
| "element_lines (El_EX_MPLS_TUNNEL v) = mpls_tunnel_lines v"
| "element_lines (El_EX_MPLS_VC v) = mpls_vc_lines v"
| "element_lines (El_EX_MPLS_FTN v) = mpls_FTN_lines v"
| "element_lines (El_EX_MPLS_LDP_FEC v) =
     [(''mpls_fec_addr_prefix_len %u\<newline>'', [A32 (mplsFecAddrPrefixLength v)])]"
| "element_lines (El_EX_VLAN_TUNNEL v) = vlan_tunnel_lines v"
| "element_lines (El_EX_80211_PAYLOAD v) = wifi_payload_lines v"
| "element_lines (El_EX_80211_RX v) = wifi_rx_lines v"
| "element_lines (El_EX_80211_TX v) = wifi_tx_lines v"
| "element_lines (El_EX_SOCKET4 v) = socket4_lines v"
| "element_lines (El_EX_SOCKET6 v) = socket6_lines v"
| "element_lines (El_EX_PROXYSOCKET4 v) = proxy_socket4_lines v"
| "element_lines (El_EX_PROXYSOCKET6 v) = proxy_socket6_lines v"
| "element_lines (El_EX_L2_TUNNEL_OUT v) = ethernet_lines ''tunnel_l2_out_'' v"
| "element_lines (El_EX_L2_TUNNEL_IN v) = ethernet_lines ''tunnel_l2_in_'' v"
| "element_lines (El_EX_IPV4_TUNNEL_OUT v) = ipv4_lines ''tunnel_ipv4_out_'' v"
| "element_lines (El_EX_IPV4_TUNNEL_IN v) = ipv4_lines ''tunnel_ipv4_in_'' v"
| "element_lines (El_EX_IPV6_TUNNEL_OUT v) = ipv6_lines ''tunnel_ipv6_out_'' v"
| "element_lines (El_EX_IPV6_TUNNEL_IN v) = ipv6_lines ''tunnel_ipv6_in_'' v"
| "element_lines (El_EX_DECAP_OUT v) = decap_lines ''out_'' v"
| "element_lines (El_EX_DECAP_IN v) = decap_lines ''in_'' v"
| "element_lines (El_EX_VNI_OUT v) = vni_lines ''out_'' v"
| "element_lines (El_EX_VNI_IN v) = vni_lines ''in_'' v"
| "element_lines (El_OTHER tag bs) = [(''skipping unknown %s: %s len=%d\<newline>'',
     [AStr ''flow_sample_element'', AStr (printTag tag), A32 (of_nat (length bs))])]"

lemma reads_skip: "reads_as (skipTLVRecord tag (of_nat (length bs)) description) (enc_opaque bs)
    [(''skipping unknown %s: %s len=%d\<newline>'', [AStr description, AStr (printTag tag), A32 (of_nat (length bs))])]"
  by (rule reads_asI) (simp add: skipTLVRecord_def run_simps layout_simps)

lemma reads_element:
  assumes "element_ok el"
  shows "reads_as (switch (element_tag el) (flow_element_readers (element_tag el))
      (skipTLVRecord (element_tag el) (of_nat (element_length el)) ''flow_sample_element''))
    (element_bytes el) (element_lines el)"
proof (cases el)
  case (El_OTHER tag bs)
  then have "tag \<notin> fst ` set (flow_element_readers tag)" using assms by (simp add: element_ok_def)
  then have "switch tag (flow_element_readers tag) d = d" for d by (rule switch_default)
  with El_OTHER show ?thesis by (simp add: element_length_def reads_skip)
qed (use assms in \<open>simp_all add: element_ok_def flow_element_readers_def reads_header reads_ethernet_record
  reads_ipv4 reads_ipv6 reads_memcache reads_http_record reads_app reads_app_ctxt reads_app_actors reads_switch
  reads_router reads_gateway reads_user reads_url reads_mpls reads_nat reads_nat_port reads_mpls_names
  reads_vlan_tunnel reads_wifi_payload reads_wifi_rx reads_wifi_tx reads_socket4 reads_socket6
  reads_proxy_socket4 reads_proxy_socket6 reads_tunnels\<close>)

end
