(* ===== verification/AgentCounters.thy ===== *)
theory AgentCounters
  imports AgentReads
begin

text \<open>
  What the program prints of the counter blocks an agent sends (\<open>Agent\<close>): for the structures that hold
  only numbers a table of the lines, one for each field (\<open>counter_fields\<close>); for those with texts,
  addresses or arrays a list of lines each; and the lemma that the element reader of \<open>CountersSample\<close>
  prints them.
\<close>

section \<open>Structures of numbers\<close>

definition print32 :: "string \<Rightarrow> u64 \<Rightarrow> line" where
  "print32 name v = line32 name (ucast v)"

definition print64 :: "string \<Rightarrow> u64 \<Rightarrow> line" where
  "print64 name v = line64 name v"

definition print_percent :: "string \<Rightarrow> u64 \<Rightarrow> line" where
  "print_percent name v = (if (ucast v :: u32) = -1 then (''%s unknown\<newline>'', [AStr name])
     else (''%s %.2f\<newline>'', [AStr name, APercent (ucast v)]))"

definition print_float :: "string \<Rightarrow> u64 \<Rightarrow> line" where
  "print_float name v = (''%s %.3f\<newline>'', [AStr name, AFloat (ucast v)])"

definition counter_fields :: "(u32 \<times> (u64 \<Rightarrow> line) list) list" where
  "counter_fields = [
     (SFLCOUNTERS_ETHERNET, [print32 ''dot3StatsAlignmentErrors'', print32 ''dot3StatsFCSErrors'',
        print32 ''dot3StatsSingleCollisionFrames'', print32 ''dot3StatsMultipleCollisionFrames'',
        print32 ''dot3StatsSQETestErrors'', print32 ''dot3StatsDeferredTransmissions'',
        print32 ''dot3StatsLateCollisions'', print32 ''dot3StatsExcessiveCollisions'',
        print32 ''dot3StatsInternalMacTransmitErrors'', print32 ''dot3StatsCarrierSenseErrors'',
        print32 ''dot3StatsFrameTooLongs'', print32 ''dot3StatsInternalMacReceiveErrors'',
        print32 ''dot3StatsSymbolErrors'']),
     (SFLCOUNTERS_TOKENRING, [print32 ''dot5StatsLineErrors'', print32 ''dot5StatsBurstErrors'',
        print32 ''dot5StatsACErrors'', print32 ''dot5StatsAbortTransErrors'',
        print32 ''dot5StatsInternalErrors'', print32 ''dot5StatsLostFrameErrors'',
        print32 ''dot5StatsReceiveCongestions'', print32 ''dot5StatsFrameCopiedErrors'',
        print32 ''dot5StatsTokenErrors'', print32 ''dot5StatsSoftErrors'', print32 ''dot5StatsHardErrors'',
        print32 ''dot5StatsSignalLoss'', print32 ''dot5StatsTransmitBeacons'', print32 ''dot5StatsRecoverys'',
        print32 ''dot5StatsLobeWires'', print32 ''dot5StatsRemoves'', print32 ''dot5StatsSingles'',
        print32 ''dot5StatsFreqErrors'']),
     (SFLCOUNTERS_VG, [print32 ''dot12InHighPriorityFrames'', print64 ''dot12InHighPriorityOctets'',
        print32 ''dot12InNormPriorityFrames'', print64 ''dot12InNormPriorityOctets'',
        print32 ''dot12InIPMErrors'', print32 ''dot12InOversizeFrameErrors'', print32 ''dot12InDataErrors'',
        print32 ''dot12InNullAddressedFrames'', print32 ''dot12OutHighPriorityFrames'',
        print64 ''dot12OutHighPriorityOctets'', print32 ''dot12TransitionIntoTrainings'',
        print64 ''dot12HCInHighPriorityOctets'', print64 ''dot12HCInNormPriorityOctets'',
        print64 ''dot12HCOutHighPriorityOctets'']),
     (SFLCOUNTERS_VLAN, [(\<lambda>v. (''in_vlan %u\<newline>'', [A32 (ucast v)])), print64 ''octets'',
        print32 ''ucastPkts'', print32 ''multicastPkts'', print32 ''broadcastPkts'', print32 ''discards'']),
     (SFLCOUNTERS_80211, [print32 ''dot11TransmittedFragmentCount'',
        print32 ''dot11MulticastTransmittedFrameCount'', print32 ''dot11FailedCount'',
        print32 ''dot11RetryCount'', print32 ''dot11MultipleRetryCount'', print32 ''dot11FrameDuplicateCount'',
        print32 ''dot11RTSSuccessCount'', print32 ''dot11RTSFailureCount'', print32 ''dot11ACKFailureCount'',
        print32 ''dot11ReceivedFragmentCount'', print32 ''dot11MulticastReceivedFrameCount'',
        print32 ''dot11FCSErrorCount'', print32 ''dot11TransmittedFrameCount'',
        print32 ''dot11WEPUndecryptableCount'', print32 ''dot11QoSDiscardedFragmentCount'',
        print32 ''dot11AssociatedStationCount'', print32 ''dot11QoSCFPollsReceivedCount'',
        print32 ''dot11QoSCFPollsUnusedCount'', print32 ''dot11QoSCFPollsUnusableCount'',
        print32 ''dot11QoSCFPollsLostCount'']),
     (SFLCOUNTERS_RADIO, [print32 ''radio_elapsed_time'', print32 ''radio_on_channel_time'',
        print32 ''radio_on_channel_busy_time'']),
     (SFLCOUNTERS_HOST_PAR, [print32 ''parent_dsClass'', print32 ''parent_dsIndex'']),
     (SFLCOUNTERS_HOST_CPU, [print_float ''cpu_load_one'', print_float ''cpu_load_five'',
        print_float ''cpu_load_fifteen'', print32 ''cpu_proc_run'', print32 ''cpu_proc_total'',
        print32 ''cpu_num'', print32 ''cpu_speed'', print32 ''cpu_uptime'', print32 ''cpu_user'',
        print32 ''cpu_nice'', print32 ''cpu_system'', print32 ''cpu_idle'', print32 ''cpu_wio'',
        print32 ''cpuintr'', print32 ''cpu_sintr'', print32 ''cpuinterrupts'', print32 ''cpu_contexts'']),
     (SFLCOUNTERS_HOST_MEM, [print64 ''mem_total'', print64 ''mem_free'', print64 ''mem_shared'',
        print64 ''mem_buffers'', print64 ''mem_cached'', print64 ''swap_total'', print64 ''swap_free'',
        print32 ''page_in'', print32 ''page_out'', print32 ''swap_in'', print32 ''swap_out'']),
     (SFLCOUNTERS_HOST_DSK, [print64 ''disk_total'', print64 ''disk_free'',
        print_percent ''disk_partition_max_used'', print32 ''disk_reads'', print64 ''disk_bytes_read'',
        print32 ''disk_read_time'', print32 ''disk_writes'', print64 ''disk_bytes_written'',
        print32 ''disk_write_time'']),
     (SFLCOUNTERS_HOST_NIO, [print64 ''nio_bytes_in'', print32 ''nio_pkts_in'', print32 ''nio_errs_in'',
        print32 ''nio_drops_in'', print64 ''nio_bytes_out'', print32 ''nio_pkts_out'', print32 ''nio_errs_out'',
        print32 ''nio_drops_out'']),
     (SFLCOUNTERS_HOST_VRT_NODE, [print32 ''vnode_mhz'', print32 ''vnode_cpus'', print64 ''vnode_memory'',
        print64 ''vnode_memory_free'', print32 ''vnode_num_domains'']),
     (SFLCOUNTERS_HOST_VRT_CPU, [print32 ''vcpu_state'', print32 ''vcpu_cpu_mS'', print32 ''vcpu_cpuCount'']),
     (SFLCOUNTERS_HOST_VRT_MEM, [print64 ''vmem_memory'', print64 ''vmem_maxMemory'']),
     (SFLCOUNTERS_HOST_VRT_DSK, [print64 ''vdsk_capacity'', print64 ''vdsk_allocation'',
        print64 ''vdsk_available'', print32 ''vdsk_rd_req'', print64 ''vdsk_rd_bytes'', print32 ''vdsk_wr_req'',
        print64 ''vdsk_wr_bytes'', print32 ''vdsk_errs'']),
     (SFLCOUNTERS_HOST_VRT_NIO, [print64 ''vnio_bytes_in'', print32 ''vnio_pkts_in'', print32 ''vnio_errs_in'',
        print32 ''vnio_drops_in'', print64 ''vnio_bytes_out'', print32 ''vnio_pkts_out'',
        print32 ''vnio_errs_out'', print32 ''vnio_drops_out'']),
     (SFLCOUNTERS_HOST_GPU_NVML, [print32 ''nvml_device_count'', print32 ''nvml_processes'',
        print32 ''nvml_gpu_mS'', print32 ''nvml_mem_mS'', print64 ''nvml_mem_bytes_total'',
        print64 ''nvml_mem_bytes_free'', print32 ''nvml_ecc_errors'', print32 ''nvml_energy_mJ'',
        print32 ''nvml_temperature_C'', print32 ''nvml_fan_speed_pc'']),
     (SFLCOUNTERS_MEMCACHE2, [print32 ''memcache_cmd_set'', print32 ''memcache_cmd_touch'',
        print32 ''memcache_cmd_flush'', print32 ''memcache_get_hits'', print32 ''memcache_get_misses'',
        print32 ''memcache_delete_hits'', print32 ''memcache_delete_misses'', print32 ''memcache_incr_hits'',
        print32 ''memcache_incr_misses'', print32 ''memcache_decr_hits'', print32 ''memcache_decr_misses'',
        print32 ''memcache_cas_hits'', print32 ''memcache_cas_misses'', print32 ''memcache_cas_badval'',
        print32 ''memcache_auth_cmds'', print32 ''memcache_auth_errors'', print32 ''memcache_threads'',
        print32 ''memcache_conn_yields'', print32 ''memcache_listen_disabled_num'',
        print32 ''memcache_curr_connections'', print32 ''memcache_rejected_connections'',
        print32 ''memcache_total_connections'', print32 ''memcache_connection_structures'',
        print32 ''memcache_evictions'', print32 ''memcache_reclaimed'', print32 ''memcache_curr_items'',
        print32 ''memcache_total_items'', print64 ''memcache_bytes_read'', print64 ''memcache_bytes_written'',
        print64 ''memcache_bytes'', print64 ''memcache_limit_maxbytes'']),
     (SFLCOUNTERS_HTTP, [print32 ''http_method_option_count'', print32 ''http_method_get_count'',
        print32 ''http_method_head_count'', print32 ''http_method_post_count'',
        print32 ''http_method_put_count'', print32 ''http_method_delete_count'',
        print32 ''http_method_trace_count'', print32 ''http_methd_connect_count'',
        print32 ''http_method_other_count'', print32 ''http_status_1XX_count'',
        print32 ''http_status_2XX_count'', print32 ''http_status_3XX_count'',
        print32 ''http_status_4XX_count'', print32 ''http_status_5XX_count'',
        print32 ''http_status_other_count'']),
     (SFLCOUNTERS_JMX, [print64 ''heap_mem_initial'', print64 ''heap_mem_used'',
        print64 ''heap_mem_committed'', print64 ''heap_mem_max'', print64 ''non_heap_mem_initial'',
        print64 ''non_heap_mem_used'', print64 ''non_heap_mem_committed'', print64 ''non_heap_mem_max'',
        print32 ''gc_count'', print32 ''gc_mS'', print32 ''classes_loaded'', print32 ''classes_total'',
        print32 ''classes_unloaded'', print32 ''compilation_mS'', print32 ''threads_live'',
        print32 ''threads_daemon'', print32 ''threads_started'', print32 ''fds_open'', print32 ''fds_max'']),
     (SFLCOUNTERS_APP_RESOURCE, [print32 ''user_time'', print32 ''system_time'', print64 ''memory_used'',
        print64 ''memory_max'', print32 ''files_open'', print32 ''files_max'', print32 ''connections_open'',
        print32 ''connections_max'']),
     (SFLCOUNTERS_APP_WORKERS, [print32 ''workers_active'', print32 ''workers_idle'', print32 ''workers_max'',
        print32 ''requests_delayed'', print32 ''requests_dropped'']),
     (SFLCOUNTERS_VDI, [print32 ''vdi_sessions_current'', print32 ''vdi_sessions_total'',
        print32 ''vdi_sessions_duration'', print32 ''vdi_rx_bytes'', print32 ''vdi_tx_bytes'',
        print32 ''vdi_rx_packets'', print32 ''vdi_tx_packets'', print32 ''vdi_rx_packets_lost'',
        print32 ''vdi_tx_packets_lost'', print32 ''vdi_rtt_min_ms'', print32 ''vdi_rtt_max_ms'',
        print32 ''vdi_rtt_avg_ms'', print32 ''vdi_audio_rx_bytes'', print32 ''vdi_audio_tx_bytes'',
        print32 ''vdi_audio_tx_limit'', print32 ''vdi_img_rx_bytes'', print32 ''vdi_img_tx_bytes'',
        print32 ''vdi_img_frames'', print32 ''vdi_img_qual_min'', print32 ''vdi_img_qual_max'',
        print32 ''vdi_img_qual_avg'', print32 ''vdi_usb_rx_bytes'', print32 ''vdi_usb_tx_bytes''])]"

text \<open>\<open>m\<close> reads the structure \<open>l\<close> and prints the line of \<open>fs\<close> for each field.\<close>

definition prints_fields :: "(u64 \<Rightarrow> line) list \<Rightarrow> struct_layout \<Rightarrow> unit dec \<Rightarrow> bool" where
  "prints_fields fs l m \<longleftrightarrow>
     (\<forall>vs. length vs = length l \<longrightarrow> reads_as m (enc_fields l vs) (map2 (\<lambda>f v. f v) fs vs))"

named_theorems prints_intro \<open>field by field\<close>

lemma prints_nil [prints_intro]: "prints_fields [] [] (block [])"
  by (simp add: prints_fields_def enc_fields_def reads_ret)

lemma prints_cons:
  assumes "\<And>v. reads_as m (enc_field n v) [f v]" "prints_fields fs l (block ms)"
  shows "prints_fields (f # fs) ((name, n) # l) (block (m # ms))"
  unfolding prints_fields_def
proof (intro allI impI)
  fix vs :: "u64 list"
  assume "length vs = length ((name, n) # l)"
  then obtain v ws where vs: "vs = v # ws" and ws: "length ws = length l" by (cases vs) auto
  from assms(2) ws have "reads_as (block ms) (enc_fields l ws) (map2 (\<lambda>f v. f v) fs ws)"
    by (simp add: prints_fields_def)
  with reads_bnd [OF assms(1) [of v]] vs
  show "reads_as (block (m # ms)) (enc_fields ((name, n) # l) vs) (map2 (\<lambda>f v. f v) (f # fs) vs)"
    by (fastforce simp: enc_fields_def)
qed

lemma prints_nested [prints_intro]: "prints_fields fs l (block ms) \<Longrightarrow> prints_fields fs l (block [block ms])"
  by (simp only: block.simps bnd_unit)

lemma prints_num32 [prints_intro]: "prints_fields fs l (block ms) \<Longrightarrow>
    prints_fields (print32 name # fs) ((field, 4) # l) (block (drop_value (sf_log_next32 name) # ms))"
  by (rule prints_cons, rule reads_asI) (simp_all add: run_simps layout_simps enc_field_def print32_def)

lemma prints_num64 [prints_intro]: "prints_fields fs l (block ms) \<Longrightarrow>
    prints_fields (print64 name # fs) ((field, 8) # l) (block (drop_value (sf_log_next64 name) # ms))"
  by (rule prints_cons, rule reads_asI) (simp_all add: run_simps layout_simps enc_field_def print64_def)

lemma prints_percent [prints_intro]: "prints_fields fs l (block ms) \<Longrightarrow>
    prints_fields (print_percent name # fs) ((field, 4) # l) (block (sf_log_percentage name # ms))"
  by (rule prints_cons, rule reads_asI)
    (simp_all add: run_simps layout_simps enc_field_def print_percent_def sf_log_percentage_def)

lemma prints_float32 [prints_intro]: "prints_fields fs l (block ms) \<Longrightarrow>
    prints_fields (print_float name # fs) ((field, 4) # l) (block (drop_value (sf_log_nextFloat name) # ms))"
  by (rule prints_cons, rule reads_asI)
    (simp_all add: run_simps layout_simps enc_field_def print_float_def sf_log_nextFloat_def getFloat_def)


lemma prints_in_vlan [prints_intro]:
  assumes "prints_fields fs l (block ms)"
  shows "prints_fields ((\<lambda>v. (''in_vlan %u\<newline>'', [A32 (ucast v)])) # fs) ((field, 4) # l)
    (block (store in_vlan_update getData32 # log_field ''in_vlan %u\<newline>'' in_vlan # ms))"
proof -
  have "prints_fields ((\<lambda>v. (''in_vlan %u\<newline>'', [A32 (ucast v)])) # fs) ((field, 4) # l)
      (block (bnd (store in_vlan_update getData32) (\<lambda>_. log_field ''in_vlan %u\<newline>'' in_vlan) # ms))"
    using assms
    by (intro prints_cons reads_asI) (simp_all add: run_simps layout_simps enc_field_def)
  then show ?thesis by (simp only: block.simps bnd_assoc)
qed

text \<open>The readers and their tables, by the tag of the record.\<close>

abbreviation lines_for :: "u32 \<Rightarrow> (u64 \<Rightarrow> line) list" where
  "lines_for tag \<equiv> the (map_of counter_fields tag)"

lemma prints_readers:
  "prints_fields (lines_for SFLCOUNTERS_ETHERNET) SFLEthernet_counters_layout readCounters_ethernet"
  "prints_fields (lines_for SFLCOUNTERS_TOKENRING) SFLTokenring_counters_layout readCounters_tokenring"
  "prints_fields (lines_for SFLCOUNTERS_VG) SFLVg_counters_layout readCounters_vg"
  "prints_fields (lines_for SFLCOUNTERS_VLAN) SFLVlan_counters_layout readCounters_vlan"
  "prints_fields (lines_for SFLCOUNTERS_80211) SFLWifi_counters_layout readCounters_80211"
  "prints_fields (lines_for SFLCOUNTERS_RADIO) SFLRadio_counters_layout readCounters_radio"
  "prints_fields (lines_for SFLCOUNTERS_HOST_PAR) SFLHost_parent_layout readCounters_host_parent"
  "prints_fields (lines_for SFLCOUNTERS_HOST_CPU) SFLHost_cpu_counters_layout readCounters_host_cpu"
  "prints_fields (lines_for SFLCOUNTERS_HOST_MEM) SFLHost_mem_counters_layout readCounters_host_mem"
  "prints_fields (lines_for SFLCOUNTERS_HOST_DSK) SFLHost_dsk_counters_layout readCounters_host_dsk"
  "prints_fields (lines_for SFLCOUNTERS_HOST_NIO) SFLHost_nio_counters_layout readCounters_host_nio"
  "prints_fields (lines_for SFLCOUNTERS_HOST_VRT_NODE) SFLHost_vrt_node_counters_layout readCounters_host_vnode"
  "prints_fields (lines_for SFLCOUNTERS_HOST_VRT_CPU) SFLHost_vrt_cpu_counters_layout readCounters_host_vcpu"
  "prints_fields (lines_for SFLCOUNTERS_HOST_VRT_MEM) SFLHost_vrt_mem_counters_layout readCounters_host_vmem"
  "prints_fields (lines_for SFLCOUNTERS_HOST_VRT_DSK) SFLHost_vrt_dsk_counters_layout readCounters_host_vdsk"
  "prints_fields (lines_for SFLCOUNTERS_HOST_VRT_NIO) SFLHost_vrt_nio_counters_layout readCounters_host_vnio"
  "prints_fields (lines_for SFLCOUNTERS_HOST_GPU_NVML) SFLHost_gpu_nvml_layout readCounters_host_gpu_nvml"
  "prints_fields (lines_for SFLCOUNTERS_MEMCACHE2) SFLMemcache_counters_layout readCounters_memcache2"
  "prints_fields (lines_for SFLCOUNTERS_HTTP) SFLHTTP_counters_layout readCounters_http"
  "prints_fields (lines_for SFLCOUNTERS_APP_RESOURCE) SFLAPP_resources_layout readCounters_APP_RESOURCE"
  "prints_fields (lines_for SFLCOUNTERS_APP_WORKERS) SFLAPP_workers_layout readCounters_APP_WORKERS"
  "prints_fields (lines_for SFLCOUNTERS_VDI) SFLVdi_counters_layout readCounters_VDI"
  by (simp_all add: counter_fields_def,
    unfold readCounters_ethernet_def readCounters_tokenring_def readCounters_vg_def readCounters_vlan_def
      readCounters_80211_def readCounters_radio_def readCounters_host_parent_def
      readCounters_host_cpu_def readCounters_host_mem_def readCounters_host_dsk_def
      readCounters_host_nio_def readCounters_host_vnode_def readCounters_host_vcpu_def
      readCounters_host_vmem_def readCounters_host_vdsk_def readCounters_host_vnio_def
      readCounters_host_gpu_nvml_def readCounters_memcache2_def readCounters_http_def
      readCounters_APP_RESOURCE_def readCounters_APP_WORKERS_def readCounters_VDI_def
      SFLEthernet_counters_layout_def SFLTokenring_counters_layout_def SFLVg_counters_layout_def
      SFLVlan_counters_layout_def SFLWifi_counters_layout_def SFLRadio_counters_layout_def
      SFLHost_parent_layout_def SFLHost_cpu_counters_layout_def SFLHost_mem_counters_layout_def
      SFLHost_dsk_counters_layout_def SFLHost_nio_counters_layout_def
      SFLHost_vrt_node_counters_layout_def SFLHost_vrt_cpu_counters_layout_def
      SFLHost_vrt_mem_counters_layout_def SFLHost_vrt_dsk_counters_layout_def
      SFLHost_vrt_nio_counters_layout_def SFLHost_gpu_nvml_layout_def SFLMemcache_counters_layout_def
      SFLHTTP_counters_layout_def SFLAPP_resources_layout_def SFLAPP_workers_layout_def
      SFLVdi_counters_layout_def,
    (intro prints_intro)+)

lemma prints_JMX:
  assumes "100 < len"
  shows "prints_fields (lines_for SFLCOUNTERS_JMX) SFLJMX_counters_layout (readCounters_JMX len)"
proof -
  have m: "readCounters_JMX len = readCounters_JMX 108"
    using assms by (simp add: readCounters_JMX_def only_if_def)
  have both: "only_if ((100 :: u32) < 108) n = n" for n :: "unit dec" by (simp add: only_if_def)
  show ?thesis
    unfolding m by (simp add: counter_fields_def)
      (unfold readCounters_JMX_def SFLJMX_counters_layout_def both, intro prints_intro)
qed

lemma numbers_printed:
  assumes "map_of counter_layouts tag = Some l" "tag \<notin> {SFLCOUNTERS_GENERIC, SFLCOUNTERS_PROCESSOR}"
  shows "prints_fields (lines_for tag) l
    (switch tag (counter_element_readers lv (of_nat (sum_list (map snd l)))) d)"
proof -
  have "prints_fields (lines_for SFLCOUNTERS_JMX) SFLJMX_counters_layout
      (readCounters_JMX (of_nat (sum_list (map snd SFLJMX_counters_layout))))"
    by (rule prints_JMX) (simp add: SFLJMX_counters_layout_def)
  then show ?thesis
    using assms
    by (auto simp: counter_layouts_def counter_element_readers_def standard_counter_readers_def prints_readers
      split: if_splits)
qed

section \<open>Structures with texts, addresses and arrays\<close>

definition hostid_lines :: "SFLHostId \<Rightarrow> line list" where
  "hostid_lines h = text_lines ''hostname %s\<newline>'' 63 (hid_hostname h) @
     [(''UUID '', [])] @ map (\<lambda>b. (''%02x'', [A8 b])) (hid_uuid h) @ [(''\<newline>'', [])] @
     [line32 ''machine_type'' (hid_machine_type h), line32 ''os_name'' (hid_os_name h)] @
     text_lines ''os_release %s\<newline>'' 31 (hid_os_release h)"

lemma achieves_log_each [run_simps]:
  "full_detail s \<Longrightarrow> achieves (for_from a n (\<lambda>i. sf_log fmt (args i))) Q s =
    Q () (s\<lparr>out := out s @ map (\<lambda>i. Out fmt (args i)) [a..<a + n]\<rparr>)"
proof (induction n arbitrary: a s)
  case (Suc n)
  moreover have "[a..<a + Suc n] = a # [Suc a..<Suc a + n]" by (simp add: upt_rec)
  ultimately show ?case by (simp add: run_simps del: upt_Suc)
qed (simp add: run_simps)

lemma reads_uuid:
  assumes "length u = 16"
  shows "reads_as (bnd (peek_bytes 16) (\<lambda>uuid. block [
       sf_log ''UUID '' [],
       for_u32 16 (\<lambda>i. sf_log ''%02x'' [A8 (uuid ! unat i)]),
       sf_log ''\<newline>'' [],
       skipBytes 16])) u
    ((''UUID '', []) # map (\<lambda>b. (''%02x'', [A8 b])) u @ [(''\<newline>'', [])])"
proof -
  have "map (\<lambda>i. Out ''%02x'' [A8 (u ! unat (of_nat i :: u32))]) [0..<16] =
      print_lines (map (\<lambda>b. (''%02x'', [A8 b])) u)"
    using assms by (intro nth_equalityI) (simp_all add: print_lines_def unat_of_nat)
  then show ?thesis
    using assms
    by (intro reads_asI) (simp add: for_u32_def run_simps layout_simps holds_16 pad4_16 del: upt_rec_numeral)
qed

lemma reads_hostid:
  assumes "length (hid_uuid h) = 16"
  shows "reads_as readCounters_host_hid (enc_hostid h) (hostid_lines h)"
proof -
  have "reads_as (bnd (sf_log_next32 ''machine_type'') (\<lambda>_. bnd (sf_log_next32 ''os_name'') (\<lambda>_.
        bnd (log_string 33 32 ''os_release %s\<newline>'') (\<lambda>_. ret ()))))
      (enc_words [hid_machine_type h, hid_os_name h] @ enc_string (hid_os_release h))
      ([line32 ''machine_type'' (hid_machine_type h), line32 ''os_name'' (hid_os_name h)] @
        text_lines ''os_release %s\<newline>'' 31 (hid_os_release h))"
    unfolding wire_order by (intro reads_intro) simp_all
  from reads_text [OF reads_bnd [OF reads_uuid [OF assms] this], where bufLen = 64 and n = 65]
  show ?thesis
    unfolding readCounters_host_hid_def enc_hostid_def hostid_lines_def block.simps drop_value_def
    by (simp add: bnd_assoc)
qed

definition jvm_lines :: "SFLJVM_ID \<Rightarrow> line list" where
  "jvm_lines j = text_lines ''jvm_name %s\<newline>'' 63 (vm_name j) @
     text_lines ''jvm_vendor %s\<newline>'' 31 (vm_vendor j) @ text_lines ''jvm_version %s\<newline>'' 31 (vm_version j)"

lemma reads_jvm: "reads_as readCounters_JVM (enc_jvm j) (jvm_lines j)"
  unfolding readCounters_JVM_def enc_jvm_def jvm_lines_def statements
  by (intro reads_intro) simp_all

definition app_counters_lines :: "SFLAPP_counters \<Rightarrow> line list" where
  "app_counters_lines a = text_lines ''application %s\<newline>'' 31 (ac_application a) @ [
     line32 ''status_OK'' (ac_status_OK a), line32 ''errors_OTHER'' (ac_errors_OTHER a),
     line32 ''errors_TIMEOUT'' (ac_errors_TIMEOUT a),
     line32 ''errors_INTERNAL_ERROR'' (ac_errors_INTERNAL_ERROR a),
     line32 ''errors_BAD_REQUEST'' (ac_errors_BAD_REQUEST a),
     line32 ''errors_FORBIDDEN'' (ac_errors_FORBIDDEN a),
     line32 ''errors_TOO_LARGE'' (ac_errors_TOO_LARGE a),
     line32 ''errors_NOT_IMPLEMENTED'' (ac_errors_NOT_IMPLEMENTED a),
     line32 ''errors_NOT_FOUND'' (ac_errors_NOT_FOUND a),
     line32 ''errors_UNAVAILABLE'' (ac_errors_UNAVAILABLE a),
     line32 ''errors_UNAUTHORIZED'' (ac_errors_UNAUTHORIZED a)]"

lemma reads_app_counters: "reads_as readCounters_APP (enc_app_counters a) (app_counters_lines a)"
  unfolding readCounters_APP_def enc_app_counters_def app_counters_lines_def statements wire_order
  by (intro reads_intro) simp_all

text \<open>A loop over an array of the datagram; the lines depend on the index.\<close>

lemma length_encs_of:
  assumes "\<And>x. x \<in> set xs \<Longrightarrow> enc x \<noteq> []"
  shows "length xs \<le> length (concat (map enc xs))"
  using assms
proof (induction xs)
  case (Cons x xs)
  then have "1 \<le> length (enc x)" by (simp add: Suc_leI)
  with Cons show ?case by fastforce
qed simp

lemma reads_for_from:
  "(\<And>x i. x \<in> set xs \<Longrightarrow> reads_as (body i) (enc x) (lines_of i x)) \<Longrightarrow>
   reads_as (for_from a (length xs) body) (concat (map enc xs)) (concat (map2 lines_of [a..<a + length xs] xs))"
proof (induction xs arbitrary: a)
  case (Cons x xs)
  have "[a..<a + length (x # xs)] = a # [Suc a..<Suc a + length xs]" by (simp add: upt_rec)
  moreover have "reads_as (for_from (Suc a) (length xs) body) (concat (map enc xs))
      (concat (map2 lines_of [Suc a..<Suc a + length xs] xs))"
    using Cons.prems by (intro Cons.IH) simp
  ultimately show ?case
    using reads_bnd [OF Cons.prems [of x a]] by (simp del: upt_Suc)
qed (simp add: reads_ret)

lemma reads_each:
  assumes "\<And>x i. x \<in> set xs \<Longrightarrow> reads_as (body (of_nat i)) (enc x) (lines_of i x)"
    and "\<And>x. x \<in> set xs \<Longrightarrow> enc x \<noteq> []"
  shows "reads_as (for_u32 (of_nat (length xs)) body) (concat (map enc xs))
    (concat (map2 lines_of [0..<length xs] xs))"
proof (rule reads_asI)
  fix s assume "length (concat (map enc xs)) \<le> 65536"
    and s: "full_detail s" "\<not> gotVlanFilter (cfg s)" "bounded s" "0 \<le> datap s" "sample_ok (smp s)"
    "holds (rawSample s) (datap s) (concat (map enc xs))" "datap s + int (length (concat (map enc xs))) \<le> endp s"
  then have "unat (of_nat (length xs) :: u32) = length xs"
    using length_encs_of [of xs enc] assms(2) by (simp add: unat_of_nat)
  then have "reads_as (for_u32 (of_nat (length xs)) body) (concat (map enc xs))
      (concat (map2 lines_of [0..<length xs] xs))"
    using reads_for_from [of xs "\<lambda>i. body (of_nat i)" enc lines_of 0] assms(1) by (simp add: for_u32_def)
  with s show "achieves (for_u32 (of_nat (length xs)) body)
      (\<lambda>_. printed s (length (concat (map enc xs))) (concat (map2 lines_of [0..<length xs] xs))) s"
    by (simp add: reads_as_def ready_def ahead_def)
qed

definition mac_lines :: "u32 \<Rightarrow> nat \<Rightarrow> SFLMacAddress \<Rightarrow> line list" where
  "mac_lines i j mac = [(''adaptor_%u_MAC_%u %02x%02x%02x%02x%02x%02x\<newline>'',
     [A32 i, A32 (of_nat j)] @ map A8 (take 6 mac))]"

definition adaptor_lines :: "nat \<Rightarrow> SFLAdaptor \<Rightarrow> line list" where
  "adaptor_lines i a = [
     (''adaptor_%u_ifIndex %u\<newline>'', [A32 (of_nat i), A32 (ad_ifIndex a)]),
     (''adaptor_%u_MACs %u\<newline>'', [A32 (of_nat i), A32 (of_nat (length (ad_macs a)))])] @
     concat (map2 (mac_lines (of_nat i)) [0..<length (ad_macs a)] (ad_macs a))"

definition adaptors_lines :: "SFLAdaptor list \<Rightarrow> line list" where
  "adaptors_lines as = concat (map2 adaptor_lines [0..<length as] as)"

definition adaptor_ok :: "SFLAdaptor \<Rightarrow> bool" where
  "adaptor_ok a \<longleftrightarrow> list_all (\<lambda>mac. length mac = 8) (ad_macs a)"

lemma reads_mac: "length mac = 8 \<Longrightarrow> reads_as (bnd (peek_bytes 6) (\<lambda>mac. block [
    sf_log ''adaptor_%u_MAC_%u %02x%02x%02x%02x%02x%02x\<newline>'' ([A32 i, A32 (of_nat j)] @ map A8 mac),
    skipBytes 8])) mac (mac_lines i j mac)"
  by (rule reads_asI) (simp add: mac_lines_def run_simps layout_simps holds_8 pad4_def)

lemma reads_adaptors:
  assumes "list_all adaptor_ok as"
  shows "reads_as readCounters_adaptors (enc_adaptors as) (adaptors_lines as)"
  unfolding readCounters_adaptors_def enc_adaptors_def adaptors_lines_def
proof (rule reads_data32, rule reads_each)
  fix a i assume "a \<in> set as"
  then have ok: "list_all (\<lambda>mac. length mac = 8) (ad_macs a)" using assms by (simp add: list_all_iff adaptor_ok_def)
  have "reads_as (for_u32 (of_nat (length (ad_macs a))) (\<lambda>j. bnd (peek_bytes 6) (\<lambda>mac. block [
      sf_log ''adaptor_%u_MAC_%u %02x%02x%02x%02x%02x%02x\<newline>'' ([A32 (of_nat i), A32 j] @ map A8 mac),
      skipBytes 8]))) (concat (map id (ad_macs a)))
      (concat (map2 (mac_lines (of_nat i)) [0..<length (ad_macs a)] (ad_macs a)))"
  proof (rule reads_each)
    fix mac j assume "mac \<in> set (ad_macs a)"
    then have "length mac = 8" using ok by (simp add: list_all_iff)
    then show "reads_as (bnd (peek_bytes 6) (\<lambda>mac. block [
        sf_log ''adaptor_%u_MAC_%u %02x%02x%02x%02x%02x%02x\<newline>'' ([A32 (of_nat i), A32 (of_nat j)] @ map A8 mac),
        skipBytes 8])) (id mac) (mac_lines (of_nat i) j mac)"
      unfolding id_apply by (rule reads_mac)
  qed (use ok in \<open>auto simp: list_all_iff\<close>)
  then show "reads_as (bnd getData32 (\<lambda>ifindex.
       bnd (sf_log ''adaptor_%u_ifIndex %u\<newline>'' [A32 (of_nat i), A32 ifindex]) (\<lambda>_.
       bnd getData32 (\<lambda>num_macs. block [
         sf_log ''adaptor_%u_MACs %u\<newline>'' [A32 (of_nat i), A32 num_macs],
         for_u32 num_macs (\<lambda>j. bnd (peek_bytes 6) (\<lambda>mac. block [
             sf_log ''adaptor_%u_MAC_%u %02x%02x%02x%02x%02x%02x\<newline>'' ([A32 (of_nat i), A32 j] @ map A8 mac),
             skipBytes 8]))])))) (enc_adaptor a) (adaptor_lines i a)"
    unfolding enc_adaptor_def adaptor_lines_def block.simps bnd_unit append_Cons append_Nil list.map_id
    by (intro reads_data32 reads_log)
next
  show "enc_adaptor a \<noteq> []" for a by (auto simp: enc_adaptor_def enc32_def bytes_of_u32_def)
qed

definition lacp_lines :: "SFLLACP_counters \<Rightarrow> line list" where
  "lacp_lines k = [
     (''%s %02x%02x%02x%02x%02x%02x\<newline>'', AStr ''actorSystemID'' # map A8 (take 6 (lacp_actorSystemID k))),
     (''%s %02x%02x%02x%02x%02x%02x\<newline>'', AStr ''partnerSystemID'' # map A8 (take 6 (lacp_partnerSystemID k))),
     line32 ''attachedAggID'' (lacp_attachedAggID k),
     (''actorAdminPortState %u\<newline>'', [A8 (lacp_actorAdmin (lacp_portState k))]),
     (''actorOperPortState %u\<newline>'', [A8 (lacp_actorOper (lacp_portState k))]),
     (''partnerAdminPortState %u\<newline>'', [A8 (lacp_partnerAdmin (lacp_portState k))]),
     (''partnerOperPortState %u\<newline>'', [A8 (lacp_partnerOper (lacp_portState k))]),
     line32 ''LACPDUsRx'' (lacp_LACPDUsRx k), line32 ''markerPDUsRx'' (lacp_markerPDUsRx k),
     line32 ''markerResponsePDUsRx'' (lacp_markerResponsePDUsRx k), line32 ''unknownRx'' (lacp_unknownRx k),
     line32 ''illegalRx'' (lacp_illegalRx k), line32 ''LACPDUsTx'' (lacp_LACPDUsTx k),
     line32 ''markerPDUsTx'' (lacp_markerPDUsTx k),
     line32 ''markerResponsePDUsTx'' (lacp_markerResponsePDUsTx k)]"

lemma holds_Cons: "holds m p (b # bs) \<longleftrightarrow> m p = b \<and> holds m (p + 1) bs"
  using holds_append [of m p "[b]" bs] by (simp add: holds_def load_bytes_def)

lemma reads_lacp:
  assumes "length (lacp_actorSystemID k) = 8" "length (lacp_partnerSystemID k) = 8"
  shows "reads_as readCounters_LACP (enc_lacp k) (lacp_lines k)"
  using assms
  by (intro reads_asI)
    (simp add: readCounters_LACP_def sf_log_nextMAC_def enc_lacp_def lacp_lines_def Let_def run_simps layout_simps holds_8 pad4_6
      bytes_of_load32 holds_Cons)

section \<open>Counter blocks\<close>

text \<open>The tags the reader of a counters sample knows.\<close>

definition counter_tags :: "u32 list" where
  "counter_tags = [
     SFLCOUNTERS_GENERIC, SFLCOUNTERS_ETHERNET, SFLCOUNTERS_TOKENRING, SFLCOUNTERS_VG,
     SFLCOUNTERS_VLAN, SFLCOUNTERS_80211, SFLCOUNTERS_LACP, SFLCOUNTERS_PROCESSOR, SFLCOUNTERS_RADIO,
     SFLCOUNTERS_HOST_HID, SFLCOUNTERS_ADAPTORS, SFLCOUNTERS_HOST_PAR, SFLCOUNTERS_HOST_CPU,
     SFLCOUNTERS_HOST_MEM, SFLCOUNTERS_HOST_DSK, SFLCOUNTERS_HOST_NIO, SFLCOUNTERS_HOST_VRT_NODE,
     SFLCOUNTERS_HOST_VRT_CPU, SFLCOUNTERS_HOST_VRT_MEM, SFLCOUNTERS_HOST_VRT_DSK,
     SFLCOUNTERS_HOST_VRT_NIO, SFLCOUNTERS_HOST_GPU_NVML, SFLCOUNTERS_MEMCACHE, SFLCOUNTERS_MEMCACHE2,
     SFLCOUNTERS_HTTP, SFLCOUNTERS_JVM, SFLCOUNTERS_JMX, SFLCOUNTERS_APP, SFLCOUNTERS_APP_RESOURCE,
     SFLCOUNTERS_APP_WORKERS, SFLCOUNTERS_VDI, SFLCOUNTERS_DDOS_COUNTER, SFLCOUNTERS_DDOS_IP_COUNTER,
     SFLCOUNTERS_DDOS_HTTP_COUNTER, SFLCOUNTERS_DDOS_DNS_COUNTER,
     SFLCOUNTERS_DDOS_FPGA_ANOMALY_COUNTER, SFLCOUNTERS_DDOS_HTTP_IP_COUNTER,
     SFLCOUNTERS_DDOS_DNS_IP_COUNTER, SFLCOUNTERS_DDOS_L4_IP_COUNTER,
     SFLCOUNTERS_DDOS_L4_EXT_IP_COUNTER, SFLCOUNTERS_DDOS_PORT_IP_COUNTER, SFLCOUNTERS_DDOS_ENTRY_MAP,
     SFLCOUNTERS_DDOS_POLLING_PACKETS_COUNTER, SFLCOUNTERS_DDOS_POLLING_L4_COUNTER,
     SFLCOUNTERS_DDOS_POLLING_TCP_BASIC_COUNTER, SFLCOUNTERS_DDOS_POLLING_TCP_STATEFUL_COUNTER,
     SFLCOUNTERS_DDOS_POLLING_HTTP_COUNTER, SFLCOUNTERS_DDOS_SSL_L4_COUNTER,
     SFLCOUNTERS_DDOS_SSL_L4_T2_COUNTER, SFLCOUNTERS_DDOS_ICMP_T2_COUNTER,
     SFLCOUNTERS_DDOS_UDP_T2_COUNTER, SFLCOUNTERS_DDOS_TCP_T2_COUNTER,
     SFLCOUNTERS_DDOS_OTHER_T2_COUNTER, SFLCOUNTERS_DDOS_L4_TCP_COUNTER,
     SFLCOUNTERS_DDOS_L4_UDP_COUNTER, SFLCOUNTERS_DDOS_L4_ICMP_COUNTER,
     SFLCOUNTERS_DDOS_L4_OTHER_COUNTER, SFLCOUNTERS_DDOS_L4_SWITCH_COUNTER,
     SFLCOUNTERS_DDOS_L4_SYNC_COUNTER, SFLCOUNTERS_DDOS_L4_TUNNEL_COUNTER,
     SFLCOUNTERS_DDOS_L4_SESSION_COUNTER, SFLCOUNTERS_DDOS_L4_TABLE_COUNTER,
     SFLCOUNTERS_DDOS_STATS_BRIEF_COUNTER, SFLCOUNTERS_DDOS_STATS_LONG_COUNTER,
     SFL_COUNTER_DDOS_DST_INDICATORS, SFL_COUNTER_DDOS_DST_TCP_INDICATORS,
     SFL_COUNTER_DDOS_DST_UDP_INDICATORS, SFL_COUNTER_DDOS_DST_ICMP_INDICATORS,
     SFL_COUNTER_DDOS_DST_OTHER_INDICATORS, SFL_COUNTER_REC_GENERIC_A10]"

lemma counter_tags_readers: "fst ` set (counter_element_readers lv len) = set counter_tags"
  by (simp only: counter_element_readers_def standard_counter_readers_def vendor_counter_readers_def
    counter_tags_def set_append list.set image_Un image_insert image_empty fst_conv Un_insert_left Un_empty_left)

text \<open>
  The blocks the program reads as what they are: those of an interface and of a processor it takes for
  records of the vendor, the old form of the memcache block is not declared in \<open>sflow.h\<close>.
\<close>

definition counter_ok :: "SFLCounters_type \<Rightarrow> bool" where
  "counter_ok el = (case el of
       Ct_NUMBERS tag vs \<Rightarrow> tag \<notin> {SFLCOUNTERS_GENERIC, SFLCOUNTERS_PROCESSOR} \<and>
         (case map_of counter_layouts tag of Some l \<Rightarrow> length vs = length l | None \<Rightarrow> False)
     | Ct_HOST_HID h \<Rightarrow> length (hid_uuid h) = 16
     | Ct_ADAPTORS as \<Rightarrow> list_all adaptor_ok as
     | Ct_LACP k \<Rightarrow> length (lacp_actorSystemID k) = 8 \<and> length (lacp_partnerSystemID k) = 8
     | Ct_OTHER tag bs \<Rightarrow> tag \<notin> set counter_tags
     | _ \<Rightarrow> True)"

primrec counter_lines :: "SFLCounters_type \<Rightarrow> line list" where
  "counter_lines (Ct_NUMBERS tag vs) = map2 (\<lambda>f v. f v) (lines_for tag) vs"
| "counter_lines (Ct_HOST_HID v) = hostid_lines v"
| "counter_lines (Ct_ADAPTORS v) = adaptors_lines v"
| "counter_lines (Ct_JVM v) = jvm_lines v"
| "counter_lines (Ct_APP v) = app_counters_lines v"
| "counter_lines (Ct_LACP v) = lacp_lines v"
| "counter_lines (Ct_OTHER tag bs) = [(''skipping unknown %s: %s len=%d\<newline>'',
     [AStr ''Skip_counters_sample_element'', AStr (printTag tag), A32 (of_nat (length bs))])]"

lemma counter_widths:
  "map_of counter_layouts tag = Some l \<Longrightarrow> list_all (\<lambda>(name, n). n = 4 \<or> n = 8) l"
  by (auto simp: counter_layouts_def split: if_splits; simp add:
      SFLIf_counters_layout_def SFLEthernet_counters_layout_def SFLTokenring_counters_layout_def
      SFLVg_counters_layout_def SFLVlan_counters_layout_def SFLWifi_counters_layout_def
      SFLProcessor_counters_layout_def SFLRadio_counters_layout_def SFLHost_parent_layout_def
      SFLHost_cpu_counters_layout_def SFLHost_mem_counters_layout_def
      SFLHost_dsk_counters_layout_def SFLHost_nio_counters_layout_def
      SFLHost_vrt_node_counters_layout_def SFLHost_vrt_cpu_counters_layout_def
      SFLHost_vrt_mem_counters_layout_def SFLHost_vrt_dsk_counters_layout_def
      SFLHost_vrt_nio_counters_layout_def SFLHost_gpu_nvml_layout_def
      SFLMemcache_counters_layout_def SFLHTTP_counters_layout_def SFLJMX_counters_layout_def
      SFLAPP_resources_layout_def SFLAPP_workers_layout_def SFLVdi_counters_layout_def)

lemma length_enc_fields:
  "list_all (\<lambda>(name, n). n = 4 \<or> n = 8) l \<Longrightarrow> length vs = length l \<Longrightarrow>
   length (enc_fields l vs) = sum_list (map snd l)"
  by (induction l vs rule: list_induct2') (auto simp: enc_fields_def enc_field_def enc64_def)

lemma reads_counter:
  assumes "counter_ok el"
  shows "reads_as (switch (counter_tag el) (counter_element_readers lv (of_nat (counter_length el)))
      (skipTLVRecord (counter_tag el) (of_nat (counter_length el)) ''Skip_counters_sample_element''))
    (counter_bytes el) (counter_lines el)"
proof (cases el)
  case (Ct_NUMBERS tag vs)
  with assms obtain l where l: "map_of counter_layouts tag = Some l" "length vs = length l"
      "tag \<notin> {SFLCOUNTERS_GENERIC, SFLCOUNTERS_PROCESSOR}"
    by (auto simp: counter_ok_def split: option.splits)
  then have "length (enc_fields l vs) = sum_list (map snd l)" by (intro length_enc_fields counter_widths)
  with l Ct_NUMBERS numbers_printed [OF l(1,3)] show ?thesis
    by (simp add: prints_fields_def counter_length_def)
next
  case (Ct_OTHER tag bs)
  then have "tag \<notin> fst ` set (counter_element_readers lv (of_nat (length bs)))"
    unfolding counter_tags_readers using assms by (simp add: counter_ok_def)
  then have "switch tag (counter_element_readers lv (of_nat (length bs))) d = d" for d by (rule switch_default)
  with Ct_OTHER show ?thesis by (simp add: counter_length_def reads_skip)
qed (use assms in \<open>simp_all add: counter_ok_def counter_element_readers_def standard_counter_readers_def
  reads_hostid reads_adaptors reads_jvm reads_app_counters reads_lacp\<close>)

text \<open>The lines before a block: its tag, and the traces of the dispatch.\<close>

definition enterprise_line :: "u32 \<Rightarrow> line" where
  "enterprise_line w = (''format %lu == id ==%lu \<newline>'', [A32 (w AND 0x00000FFF), A32 (drop_bit 12 w)])"

definition counter_block_lines :: "SFLCounters_type \<Rightarrow> line list" where
  "counter_block_lines el = (let tag = counter_tag el in [
       (''%-35s %s\<newline>'', [AStr ''counterBlock_tag'', AStr (printTag tag)]),
       enterprise_line (ntohl tag), enterprise_line tag,
       (''!!!!!!!!!!!tag == %lu; tag1 = %lu\<newline>'', [A32 tag, A32 (ntohl tag)])] @ counter_lines el)"

lemma reads_printf [reads_intro]:
  "reads_as (f ()) bs ls \<Longrightarrow> reads_as (bnd (printf fmt args) f) bs ((fmt, args) # ls)"
  using reads_bnd [of "printf fmt args" "[]" "[(fmt, args)]" f bs ls]
    reads_asI [of "[]" "printf fmt args" "[(fmt, args)]"]
  by (simp add: achieves_def printf_def emit_def printed_def)

lemma reads_context_length:
  "reads_as (f ()) bs ls \<Longrightarrow> reads_as (bnd (put current_context_length_update n) f) bs ls"
  using reads_bnd [of "put current_context_length_update n" "[]" "[]" f bs ls]
    reads_asI [of "[]" "put current_context_length_update n" "[]"]
  by (simp add: run_simps printed_def sample_ok_def)

lemma reads_gets: "(\<And>v. reads_as (f v) bs ls) \<Longrightarrow> reads_as (bnd (gets g) f) bs ls"
  by (simp add: reads_as_def run_simps)

lemma reads_counter_element:
  assumes "counter_ok el"
  shows "reads_as (read_counter_element lv) (enc_counter_element el) (counter_block_lines el)"
proof -
  have off: "only_if (b \<and> (1 :: int) = 0) m = ret ()" for b m by (simp add: only_if_def)
  show ?thesis
    unfolding read_counter_element_def enc_counter_element_def counter_block_lines_def Let_def
      print_enterprise_def enterprise_line_def block.simps off bnd_unit append_Cons append_Nil
    by (intro reads_data32 reads_log reads_context_length reads_gets reads_printf reads_counter assms)
qed

end
