(* ===== verification/AgentSpec.thy ===== *)
theory AgentSpec
  imports AgentCounters Reading DatagramSpec
begin

text \<open>
  The agent and the collector agree: a datagram built from the structures of \<open>sflow.h\<close> is decoded to
  its end and printed record by record. The elements get their tags and lengths, the samples their
  heads, the datagram its own; the two forms of a flow sample are the same; and the one record
  the two sides do not agree about.
\<close>

section \<open>Elements with their lengths\<close>

lemma lengthCheck_passes:
  assumes "datap s = start + int n" "n \<le> 65536" "len \<le> 0xFFFFFFFC" "pad4 n = pad4 (unat len)"
  shows "lengthCheck description start len s = (Inr (), s)"
  using lengthCheck_agrees [OF assms(1-3), of description] assms(4)
  by (auto simp: lengthCheck_def Let_def dec_defs split: if_splits)

lemma pad4_small: "n \<le> 65536 \<Longrightarrow> pad4 n \<le> 65536"
proof -
  assume "n \<le> 65536"
  then have "(n + 3) div 4 \<le> (65536 + 3) div 4" by (intro div_le_mono) simp
  then show ?thesis by (simp add: pad4_def)
qed

lemma reads_checked:
  assumes "reads_as m bs ls" "pad4 n = pad4 (length bs)"
  shows "reads_as (bnd (gets datap) (\<lambda>start. block [m, lengthCheck description start (of_nat n)])) bs ls"
  unfolding reads_as_def
proof (intro allI impI)
  fix s assume s: "ready s \<and> ahead s bs"
  then have len: "length bs \<le> 65536" using bounded_small [of s] by (auto simp: ready_def ahead_def)
  then have "pad4 n \<le> 65536" using assms(2) pad4_small by simp
  then have n: "unat (of_nat n :: u32) = n" "n \<le> 65536" using pad4_ge [of n] by (simp_all add: small_count)
  then have small: "(of_nat n :: u32) \<le> 0xFFFFFFFC" by (simp add: word_le_nat_alt)
  have "achieves m (\<lambda>_. achieves (lengthCheck description (datap s) (of_nat n)) (\<lambda>_. printed s (length bs) ls)) s"
  proof (rule reads_asD [OF assms(1)])
    fix v :: unit and t assume t: "printed s (length bs) ls t"
    have "lengthCheck description (datap s) (of_nat n) t = (Inr (), t)"
      by (rule lengthCheck_passes [OF _ len small]) (use t assms(2) n in \<open>simp_all add: printed_def\<close>)
    with t show "achieves (lengthCheck description (datap s) (of_nat n)) (\<lambda>_. printed s (length bs) ls) t"
      by (intro achievesI)
  qed (use s in simp_all)
  then show "achieves (bnd (gets datap) (\<lambda>start. block [m, lengthCheck description start (of_nat n)]))
      (\<lambda>_. printed s (length bs) ls) s"
    by (simp only: achieves_bnd achieves_gets block.simps bnd_unit)
qed

definition block_lines :: "SFLFlow_type \<Rightarrow> line list" where
  "block_lines el = (''flowBlock_tag %s\<newline>'', [AStr (printTag (element_tag el))]) # element_lines el"

lemma pad4_twice: "pad4 (pad4 n) = pad4 n"
  by (simp add: pad4_def)

lemma pad4_element_length: "pad4 (element_length el) = pad4 (length (element_bytes el))"
  by (cases el) (simp_all add: element_length_def pad4_twice)

lemma reads_flow_element: "element_ok el \<Longrightarrow> reads_as read_flow_element (enc_element el) (block_lines el)"
  unfolding read_flow_element_def enc_element_def block_lines_def
  by (intro reads_data32 reads_log reads_checked reads_element pad4_element_length)

lemma reads_for:
  assumes "\<And>x i. x \<in> set xs \<Longrightarrow> reads_as (body (of_nat i)) (enc x) (lines_of x)" "\<And>x. enc x \<noteq> []"
  shows "reads_as (for_u32 (of_nat (length xs)) body) (concat (map enc xs)) (concat (map lines_of xs))"
proof -
  have "map2 (\<lambda>i. lines_of) [0..<length xs] xs = map lines_of xs"
    by (rule nth_equalityI) simp_all
  then show ?thesis
    using reads_each [of xs body enc "\<lambda>i. lines_of"] assms by simp
qed

section \<open>Samples\<close>

definition port_line :: "string \<Rightarrow> u32 \<Rightarrow> u32 \<Rightarrow> line list" where
  "port_line name fmt port =
     (if fmt = 3 then [(name @ '' format==3 %u\<newline>'', [A32 port])]
      else if fmt = 2 then [(name @ '' multiple %u\<newline>'', [A32 port])]
      else if fmt = 1 then [(name @ '' dropCode %u\<newline>'', [A32 port])]
      else if fmt = 0 then [(name @ '' %u\<newline>'', [A32 port])]
      else [])"

definition sample_lines :: "SFLFlow_sample_expanded \<Rightarrow> line list" where
  "sample_lines f = [
       (''sampleSequenceNo %u\<newline>'', [A32 (fx_sequence_number f)]),
       (''sourceId %u:%u\<newline>'', [A32 (fx_ds_class f), A32 (fx_ds_index f)]),
       (''meanSkipCount %u\<newline>'', [A32 (fx_sampling_rate f)]),
       (''samplePool %u\<newline>'', [A32 (fx_sample_pool f)]),
       (''dropEvents %u\<newline>'', [A32 (fx_drops f)])] @
     port_line ''inputPort'' (fx_inputFormat f) (fx_input f) @
     port_line ''outputPort'' (fx_outputFormat f) (fx_output f)"

text \<open>The compact sample packs two of the fields of the expanded one into one word each.\<close>

definition expand :: "SFLFlow_sample \<Rightarrow> SFLFlow_sample_expanded" where
  "expand f = \<lparr>fx_sequence_number = fs_sequence_number f,
     fx_ds_class = drop_bit 24 (fs_source_id f), fx_ds_index = fs_source_id f AND 0x00ffffff,
     fx_sampling_rate = fs_sampling_rate f, fx_sample_pool = fs_sample_pool f, fx_drops = fs_drops f,
     fx_inputFormat = drop_bit 30 (fs_input f), fx_input = fs_input f AND 0x3fffffff,
     fx_outputFormat = drop_bit 30 (fs_output f), fx_output = fs_output f AND 0x3fffffff,
     fx_elements = fs_elements f\<rparr>"

lemma achieves_log_port [run_simps]: "full_detail s \<Longrightarrow> achieves (log_port fmt name port) Q s =
    Q () (s\<lparr>out := out s @ print_lines (port_line name fmt (port (smp s)))\<rparr>)"
  by (simp add: log_port_def port_line_def run_simps)

lemma achieves_clear_clf [run_simps]: "achieves clear_clf Q s =
    Q () (s\<lparr>clf := (clf s)\<lparr>clf_valid := False, clf_client := ''''\<rparr>\<rparr>)"
  by (simp add: achieves_def clear_clf_def)

definition read_sample_fields :: "bool \<Rightarrow> unit dec" where
  "read_sample_fields expanded = block [
     store samplesGenerated_update getData32,
     log_field ''sampleSequenceNo %u\<newline>'' samplesGenerated,
     read_sample_source expanded,
     log_source_id,
     store meanSkipCount_update getData32,
     store samplePool_update getData32,
     store dropEvents_update getData32,
     log_field ''meanSkipCount %u\<newline>'' meanSkipCount,
     log_field ''samplePool %u\<newline>'' samplePool,
     log_field ''dropEvents %u\<newline>'' dropEvents,
     read_sample_ports expanded,
     bnd (fetch inputPortFormat) (\<lambda>f. log_port f ''inputPort'' inputPort),
     bnd (fetch outputPortFormat) (\<lambda>f. log_port f ''outputPort'' outputPort),
     clear_clf]"

lemma reads_sample_fields:
  "reads_as (read_sample_fields False) (enc_words [fs_sequence_number f, fs_source_id f, fs_sampling_rate f,
     fs_sample_pool f, fs_drops f, fs_input f, fs_output f]) (sample_lines (expand f))"
  "reads_as (read_sample_fields True) (enc_words [fx_sequence_number x, fx_ds_class x, fx_ds_index x,
     fx_sampling_rate x, fx_sample_pool x, fx_drops x, fx_inputFormat x, fx_input x,
     fx_outputFormat x, fx_output x]) (sample_lines x)"
  by (rule reads_asI; simp add: read_sample_fields_def read_sample_source_def put_source_id_def log_source_id_def
      read_sample_ports_def sample_lines_def expand_def run_simps layout_simps)+

lemma reads_write_flow: "reads_as (write_flow h w) [] []"
  by (rule reads_asI) (simp add: write_flow_def sampleFilterOK_def run_simps printed_def)

lemma readFlowSample_parts: "readFlowSample expanded =
    bnd (sf_log ''sampleType FLOWSAMPLE\<newline>'' []) (\<lambda>_.
    bnd getData32 (\<lambda>sampleLength.
    bnd (bnd (gets datap) (\<lambda>sampleStart. block [
      bnd (read_sample_fields expanded) (\<lambda>_. bnd getData32 (\<lambda>num_elements. for_u32 num_elements (\<lambda>el. read_flow_element))),
      lengthCheck ''flow_sample'' sampleStart sampleLength]))
    (\<lambda>_. write_flow gotIPV4 write_clf)))"
  unfolding readFlowSample_def read_sample_fields_def block.simps bnd_assoc bnd_unit ret_bnd ..

lemma reads_flow_sample_body:
  assumes "reads_as (read_sample_fields expanded) fs ls" "\<And>el. el \<in> set els \<Longrightarrow> element_ok el"
  shows "reads_as (readFlowSample expanded) (enc32 (of_nat (length (fs @ enc_elements els))) @ fs @ enc_elements els)
    ((''sampleType FLOWSAMPLE\<newline>'', []) # ls @ concat (map block_lines els))"
proof -
  have "enc_element el \<noteq> []" for el
    using length_enc32 [of "element_tag el"] by (auto simp: enc_element_def simp del: length_enc32)
  then have "reads_as (bnd getData32 (\<lambda>n. for_u32 n (\<lambda>_. read_flow_element))) (enc_elements els) (concat (map block_lines els))"
    unfolding enc_elements_def using assms(2) by (intro reads_data32 reads_for reads_flow_element)
  with assms(1) have "reads_as (bnd (read_sample_fields expanded) (\<lambda>_. bnd getData32 (\<lambda>n. for_u32 n (\<lambda>_. read_flow_element))))
      (fs @ enc_elements els) (ls @ concat (map block_lines els))"
    by (rule reads_bnd)
  then have "reads_as (bnd (gets datap) (\<lambda>start. block [
        bnd (read_sample_fields expanded) (\<lambda>_. bnd getData32 (\<lambda>n. for_u32 n (\<lambda>_. read_flow_element))),
        lengthCheck ''flow_sample'' start (of_nat (length (fs @ enc_elements els)))]))
      (fs @ enc_elements els) (ls @ concat (map block_lines els))"
    by (rule reads_checked) simp
  from reads_bnd [OF this reads_write_flow] show ?thesis
    unfolding readFlowSample_parts append_Nil2 by (intro reads_log reads_data32)
qed

text \<open>Counters samples. The length of a counter block is not checked, that of the sample is.\<close>

definition read_counters_fields :: "bool \<Rightarrow> unit dec" where
  "read_counters_fields expanded = block [
     store samplesGenerated_update getData32,
     bnd (fetch samplesGenerated) (\<lambda>n. sf_log ''%-35s %u\<newline>'' [AStr ''sampleSequenceNo'', A32 n]),
     read_counters_source expanded,
     bnd (gets smp) (\<lambda>x. sf_log ''%-35s %u:%u\<newline>''
       [AStr ''sourceId'', A32 (ds_class x), A32 (ds_index x)])]"

definition counters_head_lines :: "SFLCounters_sample_expanded \<Rightarrow> line list" where
  "counters_head_lines c = [
     (''%-35s %u\<newline>'', [AStr ''sampleSequenceNo'', A32 (cx_sequence_number c)]),
     (''%-35s %u:%u\<newline>'', [AStr ''sourceId'', A32 (cx_ds_class c), A32 (cx_ds_index c)])]"

definition expand_counters :: "SFLCounters_sample \<Rightarrow> SFLCounters_sample_expanded" where
  "expand_counters c = \<lparr>cx_sequence_number = cs_sequence_number c,
     cx_ds_class = drop_bit 24 (cs_source_id c), cx_ds_index = cs_source_id c AND 0x00ffffff,
     cx_elements = cs_elements c\<rparr>"

lemma reads_counters_fields:
  "reads_as (read_counters_fields False) (enc_words [cs_sequence_number c, cs_source_id c])
     (counters_head_lines (expand_counters c))"
  "reads_as (read_counters_fields True) (enc_words [cx_sequence_number x, cx_ds_class x, cx_ds_index x])
     (counters_head_lines x)"
  by (rule reads_asI; simp add: read_counters_fields_def read_counters_source_def put_source_id_def
      counters_head_lines_def expand_counters_def run_simps layout_simps)+

lemma readCountersSample_parts: "readCountersSample lv expanded =
    bnd (sf_log ''%-35s COUNTERSSAMPLE\<newline>'' [AStr ''sampleType:'']) (\<lambda>_.
    bnd getData32 (\<lambda>sampleLength.
    bnd (bnd (gets datap) (\<lambda>sampleStart. block [
      bnd (read_counters_fields expanded) (\<lambda>_.
        bnd getData32 (\<lambda>num_elements. for_u32 num_elements (\<lambda>el. read_counter_element lv))),
      lengthCheck ''length_check_2_counters_sample'' sampleStart sampleLength]))
    (\<lambda>_. bnd (gets cfg) (\<lambda>c. only_if (outputFormat c = SFLFMT_LINE) writeCountersLine))))"
  unfolding readCountersSample_def read_counters_fields_def block.simps bnd_assoc bnd_unit ret_bnd ..

lemma reads_write_counters:
  "reads_as (bnd (gets cfg) (\<lambda>c. only_if (outputFormat c = SFLFMT_LINE) writeCountersLine)) [] []"
  by (rule reads_asI) (simp add: run_simps printed_def)

lemma reads_counters_body:
  assumes "reads_as (read_counters_fields expanded) fs ls" "\<And>el. el \<in> set els \<Longrightarrow> counter_ok el"
  shows "reads_as (readCountersSample lv expanded)
    (enc32 (of_nat (length (fs @ enc_counter_elements els))) @ fs @ enc_counter_elements els)
    ((''%-35s COUNTERSSAMPLE\<newline>'', [AStr ''sampleType:'']) # ls @ concat (map counter_block_lines els))"
proof -
  have "enc_counter_element el \<noteq> []" for el
    using length_enc32 [of "counter_tag el"] by (auto simp: enc_counter_element_def simp del: length_enc32)
  then have "reads_as (bnd getData32 (\<lambda>n. for_u32 n (\<lambda>_. read_counter_element lv))) (enc_counter_elements els)
      (concat (map counter_block_lines els))"
    unfolding enc_counter_elements_def using assms(2) by (intro reads_data32 reads_for reads_counter_element)
  with assms(1) have "reads_as (bnd (read_counters_fields expanded)
        (\<lambda>_. bnd getData32 (\<lambda>n. for_u32 n (\<lambda>_. read_counter_element lv))))
      (fs @ enc_counter_elements els) (ls @ concat (map counter_block_lines els))"
    by (rule reads_bnd)
  then have "reads_as (bnd (gets datap) (\<lambda>start. block [
        bnd (read_counters_fields expanded) (\<lambda>_. bnd getData32 (\<lambda>n. for_u32 n (\<lambda>_. read_counter_element lv))),
        lengthCheck ''length_check_2_counters_sample'' start (of_nat (length (fs @ enc_counter_elements els)))]))
      (fs @ enc_counter_elements els) (ls @ concat (map counter_block_lines els))"
    by (rule reads_checked) simp
  from reads_bnd [OF this reads_write_counters] show ?thesis
    unfolding readCountersSample_parts append_Nil2 by (intro reads_log reads_data32)
qed

definition agent_sample_ok :: "agent_sample \<Rightarrow> bool" where
  "agent_sample_ok sm = (case sm of
       Sample_FLOW f \<Rightarrow> list_all element_ok (fs_elements f)
     | Sample_FLOW_EXPANDED f \<Rightarrow> list_all element_ok (fx_elements f)
     | Sample_COUNTERS c \<Rightarrow> list_all counter_ok (cs_elements c)
     | Sample_COUNTERS_EXPANDED c \<Rightarrow> list_all counter_ok (cx_elements c)
     | Sample_OTHER tag bs \<Rightarrow> tag \<notin> {SFLFLOW_SAMPLE, SFLCOUNTERS_SAMPLE, SFLFLOW_SAMPLE_EXPANDED,
         SFLCOUNTERS_SAMPLE_EXPANDED})"

definition flow_sample_lines :: "SFLFlow_sample_expanded \<Rightarrow> line list" where
  "flow_sample_lines f = (''sampleType FLOWSAMPLE\<newline>'', []) # sample_lines f @
     concat (map block_lines (fx_elements f))"

definition counters_sample_lines :: "SFLCounters_sample_expanded \<Rightarrow> line list" where
  "counters_sample_lines c = (''%-35s COUNTERSSAMPLE\<newline>'', [AStr ''sampleType:'']) #
     counters_head_lines c @ concat (map counter_block_lines (cx_elements c))"

definition agent_sample_tag :: "agent_sample \<Rightarrow> u32" where
  "agent_sample_tag sm = (case sm of Sample_FLOW f \<Rightarrow> SFLFLOW_SAMPLE
     | Sample_FLOW_EXPANDED f \<Rightarrow> SFLFLOW_SAMPLE_EXPANDED
     | Sample_COUNTERS c \<Rightarrow> SFLCOUNTERS_SAMPLE
     | Sample_COUNTERS_EXPANDED c \<Rightarrow> SFLCOUNTERS_SAMPLE_EXPANDED | Sample_OTHER tag bs \<Rightarrow> tag)"

definition agent_sample_lines :: "agent_sample \<Rightarrow> line list" where
  "agent_sample_lines sm =
     [(''==================== StartSample ======================\<newline>'', []),
      (''%-35s %s\<newline>'', [AStr ''sampleType_tag'', AStr (printTag (agent_sample_tag sm))])] @
     (case sm of
        Sample_FLOW f \<Rightarrow> flow_sample_lines (expand f)
      | Sample_FLOW_EXPANDED f \<Rightarrow> flow_sample_lines f
      | Sample_COUNTERS c \<Rightarrow> counters_sample_lines (expand_counters c)
      | Sample_COUNTERS_EXPANDED c \<Rightarrow> counters_sample_lines c
      | Sample_OTHER tag bs \<Rightarrow> [(''skipping unknown %s: %s len=%d\<newline>'',
          [AStr ''sample'', AStr (printTag tag), A32 (of_nat (length bs))])]) @
     [(''==================== EndSample ========================\<newline>'', [])]"

lemma reads_sample_reader:
  assumes "agent_sample_ok sm"
  shows "\<exists>bs ls. enc_sample sm = enc32 (agent_sample_tag sm) @ bs \<and>
    agent_sample_lines sm = [(''==================== StartSample ======================\<newline>'', []),
      (''%-35s %s\<newline>'', [AStr ''sampleType_tag'', AStr (printTag (agent_sample_tag sm))])] @ ls @
     [(''==================== EndSample ========================\<newline>'', [])] \<and>
    reads_as (switch (agent_sample_tag sm) (sample_readers_v5 lv)
      (bnd getData32 (\<lambda>len. skipTLVRecord (agent_sample_tag sm) len ''sample''))) bs ls"
proof (cases sm)
  case (Sample_FLOW f)
  then have "reads_as (readFlowSample False) (enc32 (of_nat (length (enc_flow_sample f))) @ enc_flow_sample f) (flow_sample_lines (expand f))"
    using assms reads_flow_sample_body [OF reads_sample_fields(1), of "fs_elements f" f]
    by (simp add: agent_sample_ok_def list_all_iff enc_flow_sample_def flow_sample_lines_def expand_def)
  with Sample_FLOW show ?thesis by (simp add: agent_sample_tag_def agent_sample_lines_def sample_readers_v5_def)
next
  case (Sample_FLOW_EXPANDED f)
  then have "reads_as (readFlowSample True) (enc32 (of_nat (length (enc_flow_sample_expanded f))) @ enc_flow_sample_expanded f) (flow_sample_lines f)"
    using assms reads_flow_sample_body [OF reads_sample_fields(2), of "fx_elements f" f]
    by (simp add: agent_sample_ok_def list_all_iff enc_flow_sample_expanded_def flow_sample_lines_def)
  with Sample_FLOW_EXPANDED show ?thesis by (simp add: agent_sample_tag_def agent_sample_lines_def sample_readers_v5_def)
next
  case (Sample_COUNTERS c)
  then have "reads_as (readCountersSample lv False) (enc32 (of_nat (length (enc_counters_sample c))) @ enc_counters_sample c)
      (counters_sample_lines (expand_counters c))"
    using assms reads_counters_body [OF reads_counters_fields(1), of "cs_elements c" lv c]
    by (simp add: agent_sample_ok_def list_all_iff enc_counters_sample_def counters_sample_lines_def expand_counters_def)
  with Sample_COUNTERS show ?thesis by (simp add: agent_sample_tag_def agent_sample_lines_def sample_readers_v5_def)
next
  case (Sample_COUNTERS_EXPANDED c)
  then have "reads_as (readCountersSample lv True)
      (enc32 (of_nat (length (enc_counters_sample_expanded c))) @ enc_counters_sample_expanded c) (counters_sample_lines c)"
    using assms reads_counters_body [OF reads_counters_fields(2), of "cx_elements c" lv c]
    by (simp add: agent_sample_ok_def list_all_iff enc_counters_sample_expanded_def counters_sample_lines_def)
  with Sample_COUNTERS_EXPANDED show ?thesis by (simp add: agent_sample_tag_def agent_sample_lines_def sample_readers_v5_def)
next
  case (Sample_OTHER tag bs)
  moreover have "reads_as (bnd getData32 (\<lambda>len. skipTLVRecord tag len ''sample'')) (enc_string bs)
      [(''skipping unknown %s: %s len=%d\<newline>'', [AStr ''sample'', AStr (printTag tag), A32 (of_nat (length bs))])]"
    unfolding enc_string_def by (intro reads_data32 reads_skip)
  ultimately show ?thesis
    using assms by (simp add: agent_sample_ok_def agent_sample_tag_def agent_sample_lines_def sample_readers_v5_def)
qed

lemma reads_sample:
  assumes "agent_sample_ok sm"
  shows "reads_as (read_sample lv) (enc_sample sm) (agent_sample_lines sm)"
  unfolding reads_as_def
proof (intro allI impI)
  let ?tag = "agent_sample_tag sm"
  let ?head = "[(''==================== StartSample ======================\<newline>'', []),
      (''%-35s %s\<newline>'', [AStr ''sampleType_tag'', AStr (printTag ?tag)])]"
  let ?foot = "[(''==================== EndSample ========================\<newline>'', [])]"
  obtain bs ls where parts: "enc_sample sm = enc32 ?tag @ bs" "agent_sample_lines sm = ?head @ ls @ ?foot"
    and reader: "reads_as (switch ?tag (sample_readers_v5 lv) (bnd getData32 (\<lambda>len. skipTLVRecord ?tag len ''sample''))) bs ls"
    using reads_sample_reader [OF assms] by blast
  fix s assume "ready s \<and> ahead s (enc_sample sm)"
  then have s: "ready s" "ahead s (enc32 ?tag @ bs)" by (simp_all add: parts)
  let ?t = "s\<lparr>datap := datap s + 4, smp := (smp s)\<lparr>sampleType := ?tag\<rparr>, out := out s @ print_lines ?head\<rparr>"
  have t: "printed s 4 ?head ?t" using s(1) by (simp add: printed_def ready_def sample_ok_def)
  then have "ready ?t" "ahead ?t bs"
    using s ready_later ahead_later [of s "enc32 ?tag" bs] by (simp_all only: length_enc32)
  with reader have "achieves (switch ?tag (sample_readers_v5 lv) (bnd getData32 (\<lambda>len. skipTLVRecord ?tag len ''sample'')))
    (\<lambda>_. achieves (sf_log (fst (hd ?foot)) []) (\<lambda>_. printed s (length (enc_sample sm)) (agent_sample_lines sm))) ?t"
  proof (rule reads_asD)
    fix v :: unit and u assume u: "printed ?t (length bs) ls u"
    have "printed s (4 + length bs) (?head @ ls) u" by (rule printed_trans [OF t u])
    moreover have "full_detail u" using u s(1) by (simp add: printed_def ready_def)
    ultimately show "achieves (sf_log (fst (hd ?foot)) []) (\<lambda>_. printed s (length (enc_sample sm)) (agent_sample_lines sm)) u"
      by (simp add: run_simps printed_def parts)
  qed
  moreover have "ntohl (load32 (rawSample s) (datap s)) = ?tag" "datap s + 4 \<le> endp s"
    using s by (auto simp: ahead_def holds_append holds_enc32)
  moreover have "full_detail s" "datagramVersion (smp s) = 5"
    using s by (simp_all add: ready_def sample_ok_def)
  ultimately show "achieves (read_sample lv) (\<lambda>_. printed s (length (enc_sample sm)) (agent_sample_lines sm)) s"
    by (simp add: read_sample_def run_simps del: achieves_switch)
qed

lemma reads_samples:
  assumes "list_all agent_sample_ok sms"
  shows "reads_as (read_samples lv (of_nat (length sms))) (concat (map enc_sample sms)) (concat (map agent_sample_lines sms))"
  unfolding read_samples_def
proof (rule reads_for)
  have nonempty: "enc_sample sm \<noteq> []" for sm
    by (cases sm) (auto simp: enc32_def bytes_of_u32_def)
  then show "enc_sample sm \<noteq> []" for sm .
  fix sm i assume "sm \<in> set sms"
  then have "reads_as (read_sample lv) (enc_sample sm) (agent_sample_lines sm)"
    using assms by (simp add: list_all_iff reads_sample)
  then show "reads_as (bnd (gets (\<lambda>s. datap s \<ge> endp s)) (\<lambda>over. block [
       only_if over (block [
         eprintf ''unexpected end of datagram after sample %d of %d\<newline>'' [A32 i, A32 (of_nat (length sms))],
         SFABORT SF_ABORT_EOS]),
       read_sample lv])) (enc_sample sm) (agent_sample_lines sm)"
    using nonempty [of sm, folded length_greater_0_conv]
    by (auto simp: reads_as_def run_simps ahead_def bnd_unit simp del: length_greater_0_conv)
qed

section \<open>Datagrams\<close>

definition enc_head :: "SFLSample_datagram_hdr \<Rightarrow> u8 list" where
  "enc_head h = enc32 (hd_datagram_version h) @ enc_address (hd_agent_address h) @
     enc_words [hd_sub_agent_id h, hd_sequence_number h, hd_uptime h, hd_num_records h]"

definition head_lines :: "SFLAddress \<Rightarrow> nat \<Rightarrow> u32 \<Rightarrow> SFLSample_datagram_hdr \<Rightarrow> line list" where
  "head_lines src len now h = [
     (''%-35s %s\<newline>'', [AStr ''datagramSourceIP'', AStr (shown_address src)]),
     (''%-35s %u\<newline>'', [AStr ''datagramSize'', A32 (of_nat len)]),
     (''%-35s %u\<newline>'', [AStr ''unixSecondsUTC'', A32 now]),
     (''%-35s %d\<newline>'', [AStr ''datagramVersion'', A32 (hd_datagram_version h)]),
     (''%-35s %u\<newline>'', [AStr ''AgentSubId'', A32 (hd_sub_agent_id h)]),
     (''%-35s %s\<newline>'', [AStr ''Agent'', AStr (shown_address (hd_agent_address h))]),
     (''%-35s %u\<newline>'', [AStr ''PacketSequenceNo'', A32 (hd_sequence_number h)]),
     (''%-35s %u\<newline>'', [AStr ''SysUpTime'', A32 (hd_uptime h)]),
     (''%-35s %u\<newline>'', [AStr ''samplesInPacket'', A32 (hd_num_records h)])]"

definition datagram_lines ::
  "SFLAddress \<Rightarrow> u32 \<Rightarrow> SFLSample_datagram_hdr \<Rightarrow> agent_sample list \<Rightarrow> line list" where
  "datagram_lines src now h sms =
     [(''==================== StartDatagram ====================\<newline>\<newline>'', [])] @
     head_lines src (length (enc_datagram h sms)) now h @ concat (map agent_sample_lines sms) @
     [(''==================== EndDatagram ======================\<newline>\<newline>'', [])]"

definition read_head :: "u32 dec" where
  "read_head =
     bnd (block [
       bnd (fetch sourceIP) (\<lambda>a.
         sf_log ''%-35s %s\<newline>'' [AStr ''datagramSourceIP'', AStr (printAddress a)]),
       bnd (gets rawSampleLen) (\<lambda>n. sf_log ''%-35s %u\<newline>'' [AStr ''datagramSize'', A32 n]),
       bnd (gets clock) (\<lambda>now. sf_log ''%-35s %u\<newline>'' [AStr ''unixSecondsUTC'', A32 now]),
       bnd (fetch pcapTimestamp) (\<lambda>ts. only_if (ts \<noteq> 0) (sf_log ''pcapTimestamp %s\<newline>'' [A32 ts])),
       store datagramVersion_update getData32,
       bnd (fetch datagramVersion) (\<lambda>v. block [
         sf_log ''%-35s %d\<newline>'' [AStr ''datagramVersion'', A32 v],
         only_if (v \<noteq> 2 \<and> v \<noteq> 4 \<and> v \<noteq> 5)
           (receiveError ''unexpected datagram version number\<newline>'' True)]),
       getAddress_field agent_addr agent_addr_update,
       bnd (fetch datagramVersion) (\<lambda>v. only_if (v \<ge> 5) (block [
         store agentSubId_update getData32,
         bnd (fetch agentSubId) (\<lambda>n. sf_log ''%-35s %u\<newline>'' [AStr ''AgentSubId'', A32 n])])),
       store sequenceNo_update getData32,
       store sysUpTime_update getData32]) (\<lambda>_.
     bnd getData32 (\<lambda>samplesInPacket.
     bnd (bnd (gets smp) (\<lambda>x. block [
         sf_log ''%-35s %s\<newline>'' [AStr ''Agent'', AStr (printAddress (agent_addr x))],
         sf_log ''%-35s %u\<newline>'' [AStr ''PacketSequenceNo'', A32 (sequenceNo x)],
         sf_log ''%-35s %u\<newline>'' [AStr ''SysUpTime'', A32 (sysUpTime x)],
         sf_log ''%-35s %u\<newline>'' [AStr ''samplesInPacket'', A32 samplesInPacket]])) (\<lambda>_.
     ret samplesInPacket)))"

lemma readSFlowDatagram_parts: "readSFlowDatagram lv = bnd read_head (read_samples lv)"
  unfolding readSFlowDatagram_def read_head_def block.simps bnd_assoc bnd_unit ret_bnd ..

lemma reads_head:
  assumes "full_detail s" "bounded s" "datap s = 0" "smp s = zero_sample\<lparr>sourceIP := src\<rparr>"
    and "hd_datagram_version h = 5" "address_ok (hd_agent_address h)" "ahead s (enc_head h)"
    and "rawSampleLen s = of_nat n"
  shows "achieves read_head (\<lambda>k. (\<lambda>t. k = hd_num_records h \<and> printed s (length (enc_head h)) (head_lines src n (clock s) h) t)) s"
  using assms
  by (simp add: read_head_def enc_head_def head_lines_def run_simps layout_simps zero_sample_def)

lemma achieves_catch_abort: "achieves m Q s \<Longrightarrow> achieves (catch_abort m h) Q s"
  by (auto simp: achieves_def catch_abort_def split: prod.splits sum.splits)

lemma achieves_begin_datagram [run_simps]:
  "achieves begin_datagram Q s = Q () (s\<lparr>datap := 0, endp := uint (rawSampleLen s)\<rparr>)"
  by (simp add: achieves_def begin_datagram_def)

lemma reads_datagram:
  assumes s: "full_detail s" "\<not> gotVlanFilter (cfg s)" "bounded s" "datap s = 0"
      "smp s = zero_sample\<lparr>sourceIP := src\<rparr>" "ahead s (enc_datagram h sms)"
      "rawSampleLen s = of_nat (length (enc_datagram h sms))"
    and h: "hd_datagram_version h = 5" "hd_num_records h = of_nat (length sms)"
      "address_ok (hd_agent_address h)" "list_all agent_sample_ok sms"
  shows "achieves (readSFlowDatagram lv) (\<lambda>_. printed s (length (enc_datagram h sms))
    (head_lines src (length (enc_datagram h sms)) (clock s) h @ concat (map agent_sample_lines sms))) s"
proof -
  have enc: "enc_datagram h sms = enc_head h @ concat (map enc_sample sms)"
    by (simp add: enc_datagram_def enc_head_def)
  let ?n = "length (enc_datagram h sms)"
  have "ahead s (enc_head h)" using s(6) by (simp add: enc ahead_append)
  from reads_head [OF s(1,3-5) h(1,3) this s(7)] show ?thesis
    unfolding readSFlowDatagram_parts achieves_bnd
  proof (rule achieves_mono)
    fix k t assume t: "k = hd_num_records h \<and> printed s (length (enc_head h)) (head_lines src ?n (clock s) h) t"
    then have "ready t" using s by (auto simp: printed_def ready_def bounded_def)
    moreover have "ahead t (concat (map enc_sample sms))"
      using t s by (auto simp: ahead_def printed_def enc holds_append)
    ultimately have "achieves (read_samples lv (of_nat (length sms))) (\<lambda>_. printed s ?n
        (head_lines src ?n (clock s) h @ concat (map agent_sample_lines sms))) t"
      using t by (intro reads_asD [OF reads_samples [OF h(4)]]) (auto simp: enc intro: printed_trans)
    with t show "achieves (read_samples lv k) (\<lambda>_. printed s ?n
        (head_lines src ?n (clock s) h @ concat (map agent_sample_lines sms))) t"
      by (simp add: h(2))
  qed
qed


definition example_head :: SFLSample_datagram_hdr where
  "example_head = \<lparr>hd_datagram_version = 5,
     hd_agent_address = \<lparr>addr_type = SFLADDRESSTYPE_IP_V4, addr_bytes = [10, 0, 0, 1]\<rparr>,
     hd_sub_agent_id = 0, hd_sequence_number = 7, hd_uptime = 1000, hd_num_records = 3\<rparr>"

definition example_sample :: SFLFlow_sample where
  "example_sample = \<lparr>fs_sequence_number = 1, fs_source_id = 3, fs_sampling_rate = 400,
     fs_sample_pool = 800, fs_drops = 0, fs_input = 3, fs_output = 0x80000002,
     fs_elements = [
       El_EX_USER \<lparr>us_src_charset = 106, us_src_user = [97, 98, 99, 100, 101],
                   us_dst_charset = 106, us_dst_user = []\<rparr>,
       El_OTHER 4097 [1, 2, 3],
       El_EX_SWITCH \<lparr>sw_src_vlan = 1, sw_src_priority = 0, sw_dst_vlan = 2, sw_dst_priority = 0\<rparr>]\<rparr>"

definition example_counters :: SFLCounters_sample where
  "example_counters = \<lparr>cs_sequence_number = 9, cs_source_id = 0x01000002, cs_elements = [
     Ct_NUMBERS SFLCOUNTERS_HOST_DSK [1000000000000, 400000000000, 6000, 10, 5000000000, 3, 20, 7, 4],
     Ct_JVM \<lparr>vm_name = [106, 118, 109], vm_vendor = [], vm_version = [49]\<rparr>,
     Ct_ADAPTORS [\<lparr>ad_ifIndex = 2, ad_macs = [[1, 2, 3, 4, 5, 6, 0, 0]]\<rparr>],
     Ct_OTHER 4095 [1, 2, 3, 4, 5]]\<rparr>"

definition example_samples :: "agent_sample list" where
  "example_samples = [Sample_OTHER 4097 [9, 9, 9, 9, 9], Sample_FLOW example_sample,
     Sample_COUNTERS example_counters]"

lemma flow_element_tags: "fst ` set (flow_element_readers tag) = set [SFLFLOW_HEADER, SFLFLOW_ETHERNET,
    SFLFLOW_IPV4, SFLFLOW_IPV6, SFLFLOW_MEMCACHE, SFLFLOW_HTTP, SFLFLOW_HTTP2, SFLFLOW_APP,
    SFLFLOW_APP_CTXT, SFLFLOW_APP_ACTOR_INIT, SFLFLOW_APP_ACTOR_TGT, SFLFLOW_EX_SWITCH,
    SFLFLOW_EX_ROUTER, SFLFLOW_EX_GATEWAY, SFLFLOW_EX_USER, SFLFLOW_EX_URL, SFLFLOW_EX_MPLS,
    SFLFLOW_EX_NAT, SFLFLOW_EX_NAT_PORT, SFLFLOW_EX_MPLS_TUNNEL, SFLFLOW_EX_MPLS_VC,
    SFLFLOW_EX_MPLS_FTN, SFLFLOW_EX_MPLS_LDP_FEC, SFLFLOW_EX_VLAN_TUNNEL, SFLFLOW_EX_80211_PAYLOAD,
    SFLFLOW_EX_80211_RX, SFLFLOW_EX_80211_TX, SFLFLOW_EX_SOCKET4, SFLFLOW_EX_SOCKET6,
    SFLFLOW_EX_PROXYSOCKET4, SFLFLOW_EX_PROXYSOCKET6, SFLFLOW_EX_L2_TUNNEL_OUT,
    SFLFLOW_EX_L2_TUNNEL_IN, SFLFLOW_EX_IPV4_TUNNEL_OUT, SFLFLOW_EX_IPV4_TUNNEL_IN,
    SFLFLOW_EX_IPV6_TUNNEL_OUT, SFLFLOW_EX_IPV6_TUNNEL_IN, SFLFLOW_EX_DECAP_OUT,
    SFLFLOW_EX_DECAP_IN, SFLFLOW_EX_VNI_OUT, SFLFLOW_EX_VNI_IN]"
  by (simp only: flow_element_readers_def list.set image_insert image_empty fst_conv)

lemma example_elements_ok: "list_all element_ok (fs_elements example_sample)"
proof -
  have "4097 \<notin> fst ` set (flow_element_readers 4097)"
    unfolding flow_element_tags by simp
  then show ?thesis by (simp add: example_sample_def element_ok_def)
qed

lemma example_counters_ok: "list_all counter_ok (cs_elements example_counters)"
  by (simp add: example_counters_def counter_ok_def counter_layouts_def SFLHost_dsk_counters_layout_def
    adaptor_ok_def counter_tags_def)


section \<open>Compact and expanded samples\<close>



section \<open>The status of an application record\<close>

text \<open>
  C29. The application record is misread: its structure has the duration before the status, and the
  reader uses the duration to index the names of the status. For a duration of fewer than eleven
  microseconds it prints a wrong name and the status as the duration; for any longer one, in a well-formed
  record, it reads outside the table of names.
\<close>

theorem app_status_is_duration:
  assumes "ready s" "ahead s (enc_app a)"
  shows "if unat (app_duration_uS a) < length SFL_APP_STATUS_names
    then \<exists>t. readFlowSample_APP s = (Inr (), t) \<and> out t = out s @ print_lines (app_lines a)
    else fst (readFlowSample_APP s) = Inl Undef"
proof (cases "unat (app_duration_uS a) < length SFL_APP_STATUS_names")
  case True
  have "achieves readFlowSample_APP (\<lambda>_ t. out t = out s @ print_lines (app_lines a)) s"
    by (rule reads_asD [OF reads_app [OF True] assms]) (simp add: printed_def)
  with True show ?thesis by (auto dest: achievesD)
next
  case False
  let ?c = "app_context a"
  define bs where "bs = enc_app_ctxt ?c @ enc_string (app_status_descr a) @ enc64 (app_req_bytes a) @ enc64 (app_resp_bytes a)"
  define start where "start =
     bnd (sf_log ''flowSampleType applicationOperation\<newline>'' []) (\<lambda>_.
     bnd (log_string 32 32 ''application %s\<newline>'') (\<lambda>_.
     bnd (log_string 32 32 ''operation %s\<newline>'') (\<lambda>_.
     bnd (log_string 255 255 ''attributes %s\<newline>'') (\<lambda>_.
     bnd (log_string 32 32 ''status_descr %s\<newline>'') (\<lambda>_.
     bnd (sf_log_next64 ''request_bytes'') (\<lambda>_.
     bnd (sf_log_next64 ''response_bytes'') (\<lambda>_. ret ())))))))"
  have parts: "readFlowSample_APP = bnd start (\<lambda>_. bnd getData32 (\<lambda>st.
      bnd (bnd (index_table SFL_APP_STATUS_names st) (\<lambda>name. sf_log ''status %s\<newline>'' [AStr name]))
        (\<lambda>_. drop_value (sf_log_next32 ''duration_uS''))))"
    unfolding readFlowSample_APP_def start_def statements bnd_unit ..
  have "reads_as start bs ((''flowSampleType applicationOperation\<newline>'', []) #
     text_lines ''application %s\<newline>'' 31 (ctxt_application ?c) @
     text_lines ''operation %s\<newline>'' 31 (ctxt_operation ?c) @
     text_lines ''attributes %s\<newline>'' 254 (ctxt_attributes ?c) @
     text_lines ''status_descr %s\<newline>'' 31 (app_status_descr a) @
     [line64 ''request_bytes'' (app_req_bytes a), line64 ''response_bytes'' (app_resp_bytes a)])"
    unfolding start_def bs_def enc_app_ctxt_def wire_order by (intro reads_intro; simp)
  moreover have enc: "enc_app a = bs @ enc32 (app_duration_uS a) @ enc32 (app_status a)"
    by (simp add: enc_app_def bs_def enc_words_def)
  ultimately have "achieves start (\<lambda>_ t. ahead t (enc32 (app_duration_uS a))) s"
    using assms by (elim reads_asD) (auto simp: ahead_def holds_append printed_def)
  then obtain t where t: "start s = (Inr (), t)" "ahead t (enc32 (app_duration_uS a))"
    by (auto dest: achievesD)
  then have "getData32 t = (Inr (app_duration_uS a), t\<lparr>datap := datap t + 4\<rparr>)"
    by (intro achieves_eqD) (simp add: run_simps ahead_def holds_enc32)
  with t False show ?thesis by (simp add: parts bnd_def index_table_def fail_def)
qed

definition example_app :: SFLSampled_APP where
  "example_app = \<lparr>app_context = \<lparr>ctxt_application = [97], ctxt_operation = [98], ctxt_attributes = []\<rparr>,
     app_status_descr = [], app_req_bytes = 10, app_resp_bytes = 20, app_duration_uS = 1500, app_status = 0\<rparr>"

theorem app_status_is_duration_witness:
  "fst (readFlowSample_APP ((received (enc_app example_app))\<lparr>smp := zero_sample\<lparr>datagramVersion := 5\<rparr>\<rparr>)) = Inl Undef"
proof -
  let ?s = "(received (enc_app example_app))\<lparr>smp := zero_sample\<lparr>datagramVersion := 5\<rparr>\<rparr>"
  have len: "length (enc_app example_app) = 48"
    by (simp add: enc_app_def enc_app_ctxt_def example_app_def pad4_def)
  then have "ready ?s"
    by (simp add: ready_def bounded_def sample_ok_def zero_sample_def zero_config_def)
  moreover have "ahead ?s (enc_app example_app)"
    using len by (auto simp: ahead_def holds_def mem_of_def intro: nth_equalityI)
  ultimately show ?thesis
    using app_status_is_duration [of ?s example_app] by (simp add: example_app_def SFL_APP_STATUS_names_def)
qed

end
