(* ===== verification/Spec2Isabelle.thy ===== *)
theory Spec2Isabelle
  imports HeaderSpec CounterSpec Reading OutputSpec FlowSpec DatagramSpec DdosSpec PcapSpec CommandSpec
    MainSpec ClientSpec AgentSpec
begin

text \<open>
  A verification library for \<open>sflowtool\<close> (\<open>src/src/sflowtool.c\<close>, \<open>sflow.h\<close>, \<open>sflowtool.h\<close>), which
  receives sFlow datagrams or reads them from a capture file, decodes the flow and counter samples
  in them, and prints them or passes them on as lines, pcap packets, common-log lines or NetFlow
  version 5, or forwards the datagrams unread. This copy of it also reads its vendor's counter
  tables, which it adds up for a time-series database, and records of named counters, which it
  stores in a key-value database.

  The program. A datagram is a run of big-endian 32-bit words behind a cursor, \<open>sample->datap\<close>,
  bounded by \<open>sample->endp\<close>. Small readers advance the cursor and abort the datagram by
  \<open>longjmp\<close> (\<open>SFABORT\<close>) when it passes the end; larger readers are straight-line blocks, loops and
  \<open>switch\<close> statements over them that store what they read in the \<open>SFSample\<close> and print it.

  How it is modelled.
  \<^item> \<open>Prelude\<close>: machine words, loads from memory, byte order, C strings, \<open>switch\<close>.
  \<^item> \<open>Machine\<close>: the structs as records (\<open>SFSample\<close>, \<open>SFConfig\<close>, ...), the machine state, the events
    the program emits, and readers as functions \<open>state \<Rightarrow> (fault + 'a) \<times> state\<close>; a fault is an
    abort code, an exit code, or a step C leaves undefined (an index outside an array, a copy
    past a buffer). A contract is a relation between the state before, the ending and the state
    after; \<open>contract_law\<close> shows once that contracts pass through blocks, branches and loops.
  \<^item> \<open>Cursor\<close>: the cursor, its checked readers, text, addresses, the line printers, \<open>lengthCheck\<close>
    and the VLAN filter (lines 603-880 and 1679-1894 of \<open>sflowtool.c\<close>).
  \<^item> \<open>Contracts\<close>: the interface \<open>checked_reader\<close>, which every reader of the program satisfies, and
    its instances: what decoding leaves unchanged, that the cursor moves forward and stays
    within the datagram, that output is appended, which exit codes occur.
  \<^item> \<open>HeaderDecode\<close>: the packet header decoders (Ethernet, 802.11, IPv4, IPv6, transport; lines
    880-1300). \<open>Extended\<close>: \<open>readExtended...\<close> (1899-2410, 2798-2912). \<open>FlowElements\<close>:
    \<open>readFlowSample_...\<close> (2413-2791). \<open>Counters\<close>: the structures of \<open>sflow.h\<close> and
    \<open>readCounters_...\<close> (3425-4105) with \<open>readCountersSample_v2v4\<close>. \<open>Output\<close>: lines, pcap and
    NetFlow writers (726-810, 1353-1672). \<open>FlowSample\<close>: \<open>readFlowSample_v2v4\<close> and
    \<open>readFlowSample\<close> (2919-3286), which call all of them.
  \<^item> \<open>DdosLayout\<close>: the structures of \<open>sflowtool_ddos_ext_v1.h\<close> as lists of field names, and the
    tables of names. \<open>Ddos\<close>, \<open>DdosEntry\<close>: \<open>populate_sflow_struct_u64\<close> and the readers
    \<open>readCounters_DDOS_...\<close> (4176-7143). A pointer to a structure is its C path, a number of it is
    kept under path and field name (\<open>ddos\<close> of the sample).
  \<^item> \<open>CountersSample\<close>: \<open>readCountersSample\<close> with the dispatch over all counter records (7164-7511),
    the records of named counters (3288-3418) and the two functions that call the key-value
    database (8527-8600), whose answers are the parameter \<open>lv\<close>.
  \<^item> \<open>Datagram\<close>: \<open>readSFlowDatagram\<close>, \<open>receiveSFlowDatagram\<close> with its \<open>setjmp\<close> (\<open>catch_abort\<close>),
    \<open>readPacket\<close> (7518-7648, 7727-7775), and the collector: \<open>serves sv s r t\<close> says that from \<open>s\<close> a
    run that took some packets, one after the other, is in \<open>t\<close> and the last packet ended with \<open>r\<close>.
    The parameter \<open>sv\<close> is what \<open>sendto\<close>, \<open>strerror\<close> and the database answer.
  \<^item> \<open>Pcap\<close>: \<open>readPcapHeader\<close>, \<open>pcapOffsetToSFlow\<close>, \<open>readPcapPacket\<close> and the loop over a file
    (1312-1342, 7792-7964, 8341). \<open>CommandLine\<close>: the VLAN filter language, forwarding targets,
    options, sockets and \<open>main\<close> up to the select loop (1441-1589, 7655-7720, 7972-8341), with the
    answers of the operating system as the parameter \<open>os\<close>. \<open>MainLoop\<close>: the select loop
    (8342-8380) as a relation over the answers of \<open>select\<close> and \<open>recvfrom\<close>, and the whole of
    \<open>main\<close> (\<open>program\<close>).
  \<^item> \<open>TsdbClient\<close>: the client of the time-series database (531-572, 8384-8459) over a parameter for
    what its system calls answer, the unused client of the key-value database (8461-8525), the
    program's own \<open>strlen\<close>, which may run forever, and the test with a thread (8602-8627).
  \<^item> \<open>Agent\<close>: the structures an agent fills in (\<open>sflow.h\<close> 54-1458) and their encoding: flow elements and
    counter blocks, compact and expanded samples of both kinds, datagrams.

  What is proved.
  \<^item> \<open>Wire\<close>, \<open>Reading\<close>: readers implement parsers of the XDR encoding (\<open>refines\<close>) or take a fixed
    number of bytes (\<open>takes\<close>); strings, hex dumps and URL encoding stay in their buffers.
  \<^item> \<open>WireFields\<close>, \<open>CounterSpec\<close>: each reader of a fixed counter structure against the structure's
    layout in \<open>sflow.h\<close>: bytes consumed, and every number printed, in order.
  \<^item> \<open>Wp\<close>, \<open>HeaderSpec\<close>: what the header decoders record, that they return, and where they look.
  \<^item> \<open>FlowSpec\<close>: flow samples stay in the datagram; elements take the length they declare; unknown
    elements are skipped; the element count is bounded by the datagram.
  \<^item> \<open>OutputSpec\<close>: the NetFlow packet as a collector reads it; checksums of spoofed packets.
  \<^item> \<open>DatagramSpec\<close>: invariants of the runs of the collector by the contracts of \<open>collector\<close>: how a
    run can end, consecutive NetFlow numbers; the bound on the loop over samples; a forwarding
    collector never stops and passes datagrams on byte for byte.
  \<^item> \<open>DdosSpec\<close>: what a table of counters leaves in its structure and where the cursor ends, when
    the head of an entry is read, what a record of named counters stores.
  \<^item> \<open>PcapSpec\<close>: headers and packets written and read back in either byte order; where a datagram
    is looked for. \<open>CommandSpec\<close>: a printed list of VLAN ranges is read back; how the options can
    end the program; the configuration stays well formed.

  \<^item> \<open>MainSpec\<close>: the select loop refines the collector of \<open>Datagram\<close>; the exit codes of the whole
    program and the well-formed configuration it runs under. \<open>ClientSpec\<close>: texts reach the database
    in order, and a client that lost its connection gets it back; \<open>strlen\<close>.
  \<^item> \<open>Achieves\<close>, \<open>AgentReads\<close>, \<open>AgentCounters\<close>, \<open>AgentSpec\<close>: total correctness of the readers on well-formed input: for
    every structure of \<open>Agent\<close> the lines the program prints of it (\<open>reads_as\<close>), composed to elements,
    samples and whole datagrams: what an agent encodes is printed record by record.

  Interfaces. \<open>contract_law\<close>, \<open>checked_reader\<close>, \<open>unchecked_reader\<close> (which adds the cursor moves
  without a check that the vendor's tables make), \<open>flow_writer\<close>, \<open>datagram_reader\<close> and \<open>collector\<close>
  (contracts that survive the reset of the cursor between packets) are locales; each is
  interpreted on the relations the properties are about, so that a property of all readers is
  proved from the few laws of the primitives.

  Conventions and bounds. Offsets are unbounded integers relative to the start of the datagram
  (the pointer arithmetic of the source never leaves the address space: a datagram has at most
  65536 bytes, the size of the receive buffer, and \<open>valid\<close> states that bound). Memory is a total
  function; a read past the end of the datagram is a read of whatever is there, and properties
  that need it say that it does not matter or does not happen. All loops are total: counted
  loops run over a 32-bit counter (\<open>for_u32\<close>), the walks over IPv6 extension headers
  (\<open>skip_extensions\<close>) and VLAN tags (\<open>skip_vlan_tags\<close>) end because each step moves forward, the
  parser of a VLAN filter and the loop over a capture file because each round shortens what is
  left. There is no fuel. The collector, which does not end, is an inductive relation.
  The clock is a field of the state; output never fails; \<open>printf\<close> is an event with the format
  and its operands, so the rendering of a number is not modelled.

  Not modelled: the calls of the operating system beyond what they answer (socket options,
  \<open>fflush\<close>, \<open>usleep\<close>, the scheduling of the one thread, which is joined at once), failures of \<open>printf\<close>
  (exit codes -40 to -48), the layout of the stack that a write past an array would reach (such a
  write is the fault \<open>Undef\<close>), and the text of local times. The readers of the counter tables hand
  their text to the database as an event; the client that sends it is modelled beside them, and its
  result, which they ignore, does not come back. On the sender's side the aggregation record is
  left out. The branch for Windows and generated files are not modelled.
\<close>

end
